(* ===== verification/Js_Prelude.thy ===== *)
theory Js_Prelude
  imports Complex_Main "HOL-Library.Log_Nat" "HOL-Library.Sublist"
begin

text \<open>
  What the components share of JavaScript and its standard library: the fact collections of
  the development, strings (lists of the bytes of their UTF-8 encoding, so that every ASCII
  text is its own list of characters), truthiness and the operators \<open>||\<close> and \<open>??\<close>, array
  searches, and the locale of a machine with an invariant, which every stateful component
  interprets. Numbers are in \<open>Js_Number\<close>.
\<close>

named_theorems slice_simps \<open>equations that unfold the reducers of the Redux slices\<close>
named_theorems view_simps \<open>equations that unfold a rendered component\<close>
named_theorems socket_simps \<open>equations that unfold the operations of the socket provider\<close>

section \<open>Truthiness and fallbacks\<close>

text \<open>\<open>a || b\<close> on strings: the empty string is falsy.\<close>

definition str_or :: "string \<Rightarrow> string \<Rightarrow> string" where
  "str_or a b = (if a = [] then b else a)"

text \<open>\<open>a || b\<close> where \<open>a\<close> may also be \<open>null\<close> or \<open>undefined\<close>.\<close>

definition opt_str_or :: "string option \<Rightarrow> string \<Rightarrow> string" where
  "opt_str_or a b = (case a of None \<Rightarrow> b | Some s \<Rightarrow> str_or s b)"

text \<open>Truthiness of \<open>string | null | undefined\<close>.\<close>

definition str_truthy :: "string option \<Rightarrow> bool" where
  "str_truthy a = (case a of None \<Rightarrow> False | Some s \<Rightarrow> s \<noteq> [])"

text \<open>Truthiness of \<open>number | null\<close> for the integers that hold times and counts.\<close>

definition int_truthy :: "int option \<Rightarrow> bool" where
  "int_truthy a = (case a of None \<Rightarrow> False | Some n \<Rightarrow> n \<noteq> 0)"

text \<open>The nullish operator \<open>a ?? b\<close>.\<close>

definition nullish :: "'a option \<Rightarrow> 'a option \<Rightarrow> 'a option" where
  "nullish a b = (case a of None \<Rightarrow> b | Some _ \<Rightarrow> a)"

lemma opt_str_or_nonempty: "b \<noteq> [] \<Longrightarrow> opt_str_or a b \<noteq> []"
  by (auto simp: opt_str_or_def str_or_def split: option.splits)

section \<open>Array searches\<close>

text \<open>
  \<open>Array.prototype.find\<close> is the library's \<^const>\<open>List.find\<close>. \<open>findIndex\<close> gives \<open>-1\<close> where
  nothing matches; the model keeps the integer the source compares.
\<close>

fun find_index_from :: "int \<Rightarrow> ('a \<Rightarrow> bool) \<Rightarrow> 'a list \<Rightarrow> int" where
  "find_index_from i p [] = -1"
| "find_index_from i p (x # xs) = (if p x then i else find_index_from (i + 1) p xs)"

definition find_index :: "('a \<Rightarrow> bool) \<Rightarrow> 'a list \<Rightarrow> int" where
  "find_index p xs = find_index_from 0 p xs"

lemma find_index_from_cases:
  assumes "0 \<le> i"
  shows "(find_index_from i p xs = -1 \<and> (\<forall>x\<in>set xs. \<not> p x)) \<or>
    (\<exists>j < length xs. find_index_from i p xs = i + int j \<and> p (xs ! j) \<and> (\<forall>k < j. \<not> p (xs ! k)))"
  using assms
proof (induction xs arbitrary: i)
  case Nil
  then show ?case by simp
next
  case (Cons x xs)
  show ?case
  proof (cases "p x")
    case True
    then show ?thesis by (intro disjI2 exI [of _ 0]) simp
  next
    case False
    from Cons.IH [of "i + 1"] Cons.prems consider
      "find_index_from (i + 1) p xs = -1" "\<forall>x\<in>set xs. \<not> p x"
      | j where "j < length xs" "find_index_from (i + 1) p xs = i + 1 + int j" "p (xs ! j)"
          "\<forall>k < j. \<not> p (xs ! k)"
      by auto
    then show ?thesis
    proof cases
      case 1
      with False show ?thesis by simp
    next
      case (2 j)
      with False show ?thesis
        by (intro disjI2 exI [of _ "Suc j"]) (auto simp: less_Suc_eq_0_disj nth_Cons')
    qed
  qed
qed

lemma find_index_none_iff: "find_index p xs = -1 \<longleftrightarrow> (\<forall>x\<in>set xs. \<not> p x)"
  using find_index_from_cases [of 0 p xs] by (force simp: find_index_def in_set_conv_nth)

lemma find_index_bound: "find_index p xs \<noteq> -1 \<Longrightarrow> 0 \<le> find_index p xs \<and> nat (find_index p xs) < length xs"
  using find_index_from_cases [of 0 p xs] by (auto simp: find_index_def)

lemma find_index_hit: "find_index p xs \<noteq> -1 \<Longrightarrow> p (xs ! nat (find_index p xs))"
  using find_index_from_cases [of 0 p xs] by (auto simp: find_index_def)

lemma find_index_ge: "-1 \<le> find_index p xs"
  using find_index_from_cases [of 0 p xs] by (auto simp: find_index_def)

lemma find_index_nonneg_iff: "0 \<le> find_index p xs \<longleftrightarrow> (\<exists>x\<in>set xs. p x)"
  using find_index_none_iff [of p xs] find_index_bound [of p xs] by fastforce

section \<open>Strings\<close>

definition is_space :: "char \<Rightarrow> bool" where
  "is_space c = (c \<in> {CHR 0x09, CHR 0x0A, CHR 0x0B, CHR 0x0C, CHR 0x0D, CHR '' ''})"

text \<open>\<open>String.prototype.trim\<close> (the white space of ASCII).\<close>

definition trim :: "string \<Rightarrow> string" where
  "trim s = rev (dropWhile is_space (rev (dropWhile is_space s)))"

text \<open>\<open>String.prototype.toLowerCase\<close> (on ASCII letters; other bytes are kept).\<close>

definition lower_char :: "char \<Rightarrow> char" where
  "lower_char c = (let n = of_char c :: nat in if 65 \<le> n \<and> n \<le> 90 then char_of (n + 32) else c)"

definition to_lower :: "string \<Rightarrow> string" where
  "to_lower s = map lower_char s"

definition str_includes :: "string \<Rightarrow> string \<Rightarrow> bool" where
  "str_includes s t = sublist t s"

definition starts_with :: "string \<Rightarrow> string \<Rightarrow> bool" where
  "starts_with s t = prefix t s"

text \<open>\<open>s.split(c)\<close> for a one-character separator.\<close>

fun split_char :: "char \<Rightarrow> string \<Rightarrow> string list" where
  "split_char c [] = [[]]"
| "split_char c (x # xs) =
     (case split_char c xs of
        [] \<Rightarrow> [[x]]
      | w # ws \<Rightarrow> if x = c then [] # w # ws else (x # w) # ws)"

fun join_str :: "string \<Rightarrow> string list \<Rightarrow> string" where
  "join_str sep [] = []"
| "join_str sep [s] = s"
| "join_str sep (s # t # ts) = s @ sep @ join_str sep (t # ts)"

definition pad_start :: "nat \<Rightarrow> char \<Rightarrow> string \<Rightarrow> string" where
  "pad_start n c s = replicate (n - length s) c @ s"

lemma split_char_not_Nil [simp]: "split_char c s \<noteq> []"
  by (cases s) (auto split: list.splits)

lemma split_char_fresh: "c \<notin> set s \<Longrightarrow> split_char c s = [s]"
  by (induction s) auto

lemma split_char_cons: "c \<notin> set s \<Longrightarrow> split_char c (s @ c # t) = s # split_char c t"
proof (induction s)
  case Nil
  obtain w ws where "split_char c t = w # ws"
    using split_char_not_Nil [of c t] by (cases "split_char c t") auto
  then show ?case by simp
qed auto

lemma join_split_char: "join_str [c] (split_char c s) = s"
proof (induction s)
  case Nil
  then show ?case by simp
next
  case (Cons x xs)
  obtain w ws where s: "split_char c xs = w # ws"
    using split_char_not_Nil [of c xs] by (cases "split_char c xs") auto
  then show ?case using Cons.IH by (cases ws) auto
qed

lemma trim_no_outer_space:
  assumes "trim s \<noteq> []"
  shows "\<not> is_space (hd (trim s))" and "\<not> is_space (last (trim s))"
proof -
  let ?d = "dropWhile is_space s"
  have ne: "dropWhile is_space (rev ?d) \<noteq> []"
    using assms by (simp add: trim_def)
  show "\<not> is_space (last (trim s))"
    using hd_dropWhile [OF ne] by (simp add: trim_def last_rev)
  have d: "?d \<noteq> []" using ne by (metis dropWhile.simps(1) rev.simps(1))
  have "prefix (trim s) ?d"
    unfolding trim_def using suffix_dropWhile [of is_space "rev ?d"] by (metis rev_rev_ident suffix_to_prefix)
  then have "hd (trim s) = hd ?d"
    using assms by (auto simp: prefix_def)
  then show "\<not> is_space (hd (trim s))"
    using hd_dropWhile [OF d] by simp
qed

section \<open>Decimal numerals\<close>

definition digit_char :: "nat \<Rightarrow> char" where
  "digit_char d = char_of (48 + d)"

definition is_digit :: "char \<Rightarrow> bool" where
  "is_digit c = (let n = of_char c :: nat in 48 \<le> n \<and> n \<le> 57)"

definition digit_val :: "char \<Rightarrow> nat" where
  "digit_val c = of_char c - 48"

text \<open>\<open>Number.prototype.toString\<close> on the non-negative integers.\<close>

fun nat_str :: "nat \<Rightarrow> string" where
  "nat_str n = (if n < 10 then [digit_char n] else nat_str (n div 10) @ [digit_char (n mod 10)])"

declare nat_str.simps [simp del]

definition int_str :: "int \<Rightarrow> string" where
  "int_str i = (if i < 0 then ''-'' @ nat_str (nat (- i)) else nat_str (nat i))"

definition digits_val :: "string \<Rightarrow> nat" where
  "digits_val s = foldl (\<lambda>acc c. 10 * acc + digit_val c) 0 s"

lemma digit_char_simps [simp]:
  assumes "d < 10"
  shows "is_digit (digit_char d)" and "digit_val (digit_char d) = d"
  using assms by (auto simp: is_digit_def digit_val_def digit_char_def of_char_of)

lemma digits_val_snoc [simp]: "digits_val (s @ [c]) = 10 * digits_val s + digit_val c"
  by (simp add: digits_val_def)

lemma nat_str_digits: "\<forall>c \<in> set (nat_str n). is_digit c"
proof (induction n rule: nat_str.induct)
  case (1 n)
  then show ?case by (subst nat_str.simps) auto
qed

lemma nat_str_not_Nil [simp]: "nat_str n \<noteq> []"
  by (subst nat_str.simps) simp

lemma digits_val_nat_str: "digits_val (nat_str n) = n"
proof (induction n rule: nat_str.induct)
  case (1 n)
  show ?case
  proof (cases "n < 10")
    case True
    then show ?thesis by (subst nat_str.simps) (simp add: digits_val_def)
  next
    case False
    with "1.IH" have "digits_val (nat_str (n div 10)) = n div 10" by simp
    with False show ?thesis by (subst nat_str.simps) simp
  qed
qed

lemma nat_str_length_le:
  assumes "n < 10 ^ k" and "0 < k"
  shows "length (nat_str n) \<le> k"
  using assms
proof (induction k arbitrary: n)
  case 0
  then show ?case by simp
next
  case (Suc k)
  show ?case
  proof (cases "n < 10")
    case True
    then show ?thesis by (subst nat_str.simps) simp
  next
    case False
    with Suc.prems have "0 < k" by (cases k) auto
    moreover have "n div 10 < 10 ^ k" using Suc.prems(1) by (simp add: less_mult_imp_div_less mult.commute)
    ultimately have "length (nat_str (n div 10)) \<le> k" by (rule Suc.IH [rotated])
    with False show ?thesis by (subst nat_str.simps) simp
  qed
qed

section \<open>Machines with an invariant\<close>

text \<open>
  A stateful component is a start state and a step function over the events it receives.
  What every step keeps holds after every sequence of events.
\<close>

locale machine =
  fixes start :: 's
    and step :: "'e \<Rightarrow> 's \<Rightarrow> 's"
    and inv :: "'s \<Rightarrow> bool"
    and ok :: "'e \<Rightarrow> bool"
  assumes start_inv: "inv start"
    and step_inv: "ok e \<Longrightarrow> inv s \<Longrightarrow> inv (step e s)"
begin

lemma fold_inv: "\<forall>e \<in> set es. ok e \<Longrightarrow> inv s \<Longrightarrow> inv (fold step es s)"
  by (induction es arbitrary: s) (auto intro: step_inv)

lemma run_inv: "\<forall>e \<in> set es. ok e \<Longrightarrow> inv (fold step es start)"
  by (rule fold_inv [OF _ start_inv])

end

text \<open>
  Where the steps are a relation, because several parties move in any order, the same rule is
  induction over the reachable states.
\<close>

locale step_system =
  fixes start :: 's
    and step :: "'s \<Rightarrow> 's \<Rightarrow> bool"
    and inv :: "'s \<Rightarrow> bool"
  assumes start_inv: "inv start"
    and step_inv: "step s s' \<Longrightarrow> inv s \<Longrightarrow> inv s'"
begin

lemma reach_inv: "step\<^sup>*\<^sup>* start s \<Longrightarrow> inv s"
  by (induction rule: rtranclp_induct) (auto intro: start_inv step_inv)

end

end
