(* ===== verification/Js_Number.thy ===== *)
theory Js_Number
  imports Js_Prelude
begin

text \<open>
  The numbers of JavaScript: IEEE 754 binary64 values. A finite value is the rational it
  denotes (the sign of zero is not kept), and the result of an arithmetic operation is the
  exact result rounded to nearest, ties to even, with 53 bits of precision, the smallest
  exponent of the format and overflow to an infinity (\<open>fl\<close>). Everything computes.
  The main fact is that rounding is monotone and keeps the values of the format, which is
  what the price arithmetic of the console rests on. \<open>to_fixed\<close>, \<open>num_str\<close> and
  \<open>num_of_str\<close> are \<open>Number.prototype.toFixed\<close>, \<open>Number.prototype.toString\<close> and \<open>Number(s)\<close>.
\<close>

section \<open>Rounding to an integer, ties to even\<close>

definition rhe :: "rat \<Rightarrow> int" where
  "rhe x = (let f = \<lfloor>x\<rfloor>; r = x - of_int f in
     if r < 1/2 then f else if 1/2 < r then f + 1 else if even f then f else f + 1)"

lemma rhe_of_int [simp]: "rhe (of_int n) = n"
  by (simp add: rhe_def)

lemma rhe_floor: "\<lfloor>x\<rfloor> \<le> rhe x" "rhe x \<le> \<lfloor>x\<rfloor> + 1"
  by (auto simp: rhe_def Let_def)

lemma rhe_mono:
  assumes "x \<le> y"
  shows "rhe x \<le> rhe y"
proof (cases "\<lfloor>x\<rfloor> = \<lfloor>y\<rfloor>")
  case True
  then have "x - of_int \<lfloor>x\<rfloor> \<le> y - of_int \<lfloor>y\<rfloor>" using assms by simp
  then show ?thesis using True unfolding rhe_def Let_def by auto
next
  case False
  with floor_mono [OF assms] have "\<lfloor>x\<rfloor> + 1 \<le> \<lfloor>y\<rfloor>" by simp
  with rhe_floor(2) [of x] rhe_floor(1) [of y] show ?thesis by linarith
qed

lemma rhe_le_int: "x \<le> of_int n \<Longrightarrow> rhe x \<le> n"
  using rhe_mono [of x "of_int n"] by simp

lemma rhe_ge_int: "of_int n \<le> x \<Longrightarrow> n \<le> rhe x"
  using rhe_mono [of "of_int n" x] by simp

lemma rhe_minus: "rhe (- x) = - rhe x"
proof (cases "x = of_int \<lfloor>x\<rfloor>")
  case True
  then show ?thesis by (metis of_int_minus rhe_of_int)
next
  case False
  define f where "f = \<lfloor>x\<rfloor>"
  define r where "r = x - of_int f"
  have fle: "of_int f \<le> x" "x < of_int f + 1"
    unfolding f_def using of_int_floor_le [of x] floor_correct [of x] by linarith+
  have lt: "of_int f < x"
    using fle(1) False unfolding f_def by linarith
  have r: "0 < r" "r < 1" using lt fle(2) unfolding r_def by linarith+
  have fm: "\<lfloor>- x\<rfloor> = - f - 1"
    by (rule floor_unique) (use lt fle(2) in simp_all)
  have rm: "- x - of_int (- f - 1) = 1 - r" by (simp add: r_def)
  show ?thesis
    unfolding rhe_def Let_def fm rm f_def [symmetric] r_def [symmetric] by auto
qed

section \<open>Binary exponent\<close>

text \<open>\<open>flog2 x\<close> is the exponent of the leading bit of a positive rational.\<close>

definition flog2 :: "rat \<Rightarrow> int" where
  "flog2 x = (let (p, q) = quotient_of x; e = bitlen p - bitlen q in
     if 2 powi e \<le> x then e else e - 1)"

lemma powi2_int: "0 \<le> n \<Longrightarrow> (2::rat) powi n = of_int (2 ^ nat n)"
  by (simp add: power_int_def)

lemma powi2_le_iff: "(2::rat) powi a \<le> 2 powi b \<longleftrightarrow> a \<le> b"
proof
  show "a \<le> b \<Longrightarrow> (2::rat) powi a \<le> 2 powi b" by (rule power_int_increasing) simp_all
  show "(2::rat) powi a \<le> 2 powi b \<Longrightarrow> a \<le> b"
    using power_int_strict_increasing [of b a "2::rat"] by (cases "b < a") simp_all
qed

lemma powi2_less_iff: "(2::rat) powi a < 2 powi b \<longleftrightarrow> a < b"
  using powi2_le_iff [of b a] by (simp add: not_le [symmetric] del: not_le)

lemma powi2_quot: "q \<le> e \<Longrightarrow> 2 powi e / 2 powi q = (of_int (2 ^ nat (e - q)) :: rat)"
  using powi2_int [of "e - q"] by (simp add: power_int_diff)

lemma flog2_bounds:
  assumes "0 < x"
  shows "2 powi flog2 x \<le> x" and "x < 2 powi (flog2 x + 1)"
proof -
  obtain p q where pq: "quotient_of x = (p, q)" by (cases "quotient_of x")
  have q0: "0 < q" using quotient_of_denom_pos [OF pq] .
  have x: "x = of_int p / of_int q" using quotient_of_div [OF pq] .
  have p0: "0 < p" using assms q0 unfolding x by (simp add: zero_less_divide_iff)
  define bp bq where "bp = bitlen p" and "bq = bitlen q"
  have bpos: "0 < bp" "0 < bq"
    unfolding bp_def bq_def using p0 q0 bitlen_nonneg [of p] bitlen_nonneg [of q]
      bitlen_eq_zero_iff [of p] bitlen_eq_zero_iff [of q] by linarith+
  have P: "2 powi (bp - 1) \<le> (of_int p :: rat)" "(of_int p :: rat) < 2 powi bp"
    and Q: "2 powi (bq - 1) \<le> (of_int q :: rat)" "(of_int q :: rat) < 2 powi bq"
    using bitlen_bounds [OF p0] bitlen_bounds [OF q0] bpos
      powi2_int [of bp] powi2_int [of "bp - 1"] powi2_int [of bq] powi2_int [of "bq - 1"]
    unfolding bp_def [symmetric] bq_def [symmetric]
    by (simp_all only: of_int_le_iff of_int_less_iff)
  have up: "x < 2 powi (bp - bq + 1)"
  proof -
    have "x \<le> of_int p / 2 powi (bq - 1)" unfolding x
      by (rule divide_left_mono) (use Q p0 q0 in simp_all)
    also have "\<dots> < 2 powi bp / 2 powi (bq - 1)"
      by (rule divide_strict_right_mono) (use P in simp_all)
    also have "\<dots> = 2 powi (bp - bq + 1)" by (simp add: power_int_diff power_int_add)
    finally show ?thesis .
  qed
  have low: "2 powi (bp - bq - 1) < x"
  proof -
    have "2 powi (bp - bq - 1) = 2 powi (bp - 1) / (2 powi bq :: rat)"
      by (simp add: power_int_diff)
    also have "\<dots> \<le> of_int p / 2 powi bq" by (rule divide_right_mono) (use P in simp_all)
    also have "\<dots> < x" unfolding x by (rule divide_strict_left_mono) (use Q p0 q0 in simp_all)
    finally show ?thesis .
  qed
  have e: "flog2 x = (if 2 powi (bp - bq) \<le> x then bp - bq else bp - bq - 1)"
    by (simp add: flog2_def pq bp_def bq_def)
  show "2 powi flog2 x \<le> x" "x < 2 powi (flog2 x + 1)"
    unfolding e using up low by auto
qed

lemma flog2_mono:
  assumes "0 < x" and "x \<le> y"
  shows "flog2 x \<le> flog2 y"
proof -
  have "(2::rat) powi flog2 x < 2 powi (flog2 y + 1)"
    using flog2_bounds(1) [OF assms(1)] flog2_bounds(2) [of y] assms by linarith
  then show ?thesis by (simp add: powi2_less_iff)
qed

section \<open>Rounding to binary64\<close>

text \<open>The exponent of the last place of the significand of a value near \<open>x\<close>.\<close>

definition ulp_exp :: "rat \<Rightarrow> int" where
  "ulp_exp x = max (flog2 \<bar>x\<bar> - 52) (-1074)"

definition rnd :: "rat \<Rightarrow> rat" where
  "rnd x = (if x = 0 then 0 else of_int (rhe (x / 2 powi ulp_exp x)) * 2 powi ulp_exp x)"

lemma rnd_0 [simp]: "rnd 0 = 0"
  by (simp add: rnd_def)

lemma rnd_minus: "rnd (- x) = - rnd x"
  by (simp add: rnd_def ulp_exp_def rhe_minus flip: minus_divide_left)

lemma rnd_nonneg: "0 \<le> x \<Longrightarrow> 0 \<le> rnd x"
  by (auto simp: rnd_def intro!: mult_nonneg_nonneg rhe_ge_int)

lemma rnd_le_pow:
  assumes "0 < x" and "x \<le> 2 powi e" and "ulp_exp x \<le> e"
  shows "rnd x \<le> 2 powi e"
proof -
  let ?q = "ulp_exp x"
  have "x / 2 powi ?q \<le> 2 powi e / 2 powi ?q" using assms(2) by (simp add: divide_right_mono)
  also have "\<dots> = of_int (2 ^ nat (e - ?q))"
    by (rule powi2_quot [OF assms(3)])
  finally have "rhe (x / 2 powi ?q) \<le> 2 ^ nat (e - ?q)" by (rule rhe_le_int)
  then have "(of_int (rhe (x / 2 powi ?q)) :: rat) \<le> 2 powi (e - ?q)"
    using assms(3) powi2_int [of "e - ?q"] by (simp only: of_int_le_iff)
  then have "of_int (rhe (x / 2 powi ?q)) * 2 powi ?q \<le> 2 powi (e - ?q) * (2 powi ?q :: rat)"
    by (simp add: mult_right_mono)
  also have "\<dots> = 2 powi e" by (simp add: power_int_diff)
  finally show ?thesis using assms(1) by (simp add: rnd_def)
qed

lemma rnd_ge_pow:
  assumes "2 powi e \<le> x" and "ulp_exp x \<le> e"
  shows "2 powi e \<le> rnd x"
proof -
  let ?q = "ulp_exp x"
  have x0: "0 < x" using assms(1) by (meson order_less_le_trans zero_less_numeral zero_less_power_int)
  have eq: "2 powi e / 2 powi ?q = (of_int (2 ^ nat (e - ?q)) :: rat)"
    by (rule powi2_quot [OF assms(2)])
  have "of_int (2 ^ nat (e - ?q)) \<le> x / 2 powi ?q"
    unfolding eq [symmetric] using assms(1) by (simp add: divide_right_mono)
  then have "2 ^ nat (e - ?q) \<le> rhe (x / 2 powi ?q)" by (rule rhe_ge_int)
  then have "2 powi (e - ?q) \<le> (of_int (rhe (x / 2 powi ?q)) :: rat)"
    using assms(2) powi2_int [of "e - ?q"] by (simp only: of_int_le_iff)
  then have "2 powi (e - ?q) * (2 powi ?q :: rat) \<le> of_int (rhe (x / 2 powi ?q)) * 2 powi ?q"
    by (simp add: mult_right_mono)
  then show ?thesis using x0 by (simp add: rnd_def power_int_diff)
qed

lemma rnd_mono_pos:
  assumes "0 < x" and "x \<le> y"
  shows "rnd x \<le> rnd y"
proof (cases "ulp_exp x = ulp_exp y")
  case True
  have "rhe (x / 2 powi ulp_exp y) \<le> rhe (y / 2 powi ulp_exp y)"
    by (rule rhe_mono) (simp add: assms(2) divide_right_mono)
  with True assms show ?thesis by (simp add: rnd_def mult_right_mono)
next
  case False
  have y0: "0 < y" using assms by simp
  have mono: "flog2 x \<le> flog2 y" by (rule flog2_mono [OF assms])
  with False assms y0 have lt: "flog2 x < flog2 y" and uy: "ulp_exp y = flog2 y - 52"
    and ux: "ulp_exp x \<le> flog2 y"
    by (auto simp: ulp_exp_def)
  have "x < 2 powi (flog2 x + 1)" by (rule flog2_bounds(2) [OF assms(1)])
  also have "\<dots> \<le> 2 powi flog2 y" using lt by (simp add: powi2_le_iff)
  finally have "rnd x \<le> 2 powi flog2 y" using assms(1) ux by (intro rnd_le_pow) simp_all
  also have "\<dots> \<le> rnd y" using flog2_bounds(1) [OF y0] uy by (intro rnd_ge_pow) simp_all
  finally show ?thesis .
qed

theorem rnd_mono: "x \<le> y \<Longrightarrow> rnd x \<le> rnd y"
proof (cases "0 < x")
  case True
  assume "x \<le> y"
  with True show ?thesis by (rule rnd_mono_pos)
next
  case False
  assume le: "x \<le> y"
  show ?thesis
  proof (cases "y < 0")
    case True
    have "rnd (- y) \<le> rnd (- x)" using True le by (intro rnd_mono_pos) simp_all
    then show ?thesis by (simp add: rnd_minus)
  next
    case y: False
    have "0 \<le> rnd (- x)" using False by (intro rnd_nonneg) simp
    moreover have "0 \<le> rnd y" using y by (intro rnd_nonneg) simp
    ultimately show ?thesis by (simp add: rnd_minus)
  qed
qed

text \<open>A multiple of a coarser last place is kept, so every value of the format is.\<close>

lemma rnd_exact:
  assumes "y = of_int n * 2 powi q" and "ulp_exp y \<le> q"
  shows "rnd y = y"
proof (cases "y = 0")
  case False
  let ?u = "ulp_exp y"
  have "y / 2 powi ?u = of_int n * (2 powi q / 2 powi ?u)" by (subst assms(1)) simp
  also have "\<dots> = of_int (n * 2 ^ nat (q - ?u))" unfolding powi2_quot [OF assms(2)] by simp
  finally have eq: "y / 2 powi ?u = of_int (n * 2 ^ nat (q - ?u))" .
  have "rnd y = of_int (rhe (y / 2 powi ?u)) * 2 powi ?u" using False by (simp add: rnd_def)
  also have "\<dots> = y / 2 powi ?u * 2 powi ?u" unfolding eq rhe_of_int ..
  finally show ?thesis by simp
qed simp

lemma flog2_less:
  assumes "0 < x" and "x < 2 powi (e + 1)"
  shows "flog2 x \<le> e"
proof -
  have "(2::rat) powi flog2 x < 2 powi (e + 1)" using flog2_bounds(1) [OF assms(1)] assms(2) by linarith
  then show ?thesis by (simp add: powi2_less_iff)
qed

lemma rnd_idem_pos:
  assumes "0 < x"
  shows "rnd (rnd x) = rnd x"
proof -
  define q where "q = ulp_exp x"
  define m where "m = rhe (x / 2 powi q)"
  have y: "rnd x = of_int m * 2 powi q" using assms by (simp add: rnd_def q_def m_def)
  have q_low: "- 1074 \<le> q" and q_x: "flog2 x \<le> q + 52" using assms by (auto simp: q_def ulp_exp_def)
  have m0: "0 \<le> m" unfolding m_def using assms by (intro rhe_ge_int) simp
  have "x \<le> 2 powi (q + 53)"
    using flog2_bounds(2) [OF assms] powi2_le_iff [of "flog2 x + 1" "q + 53"] q_x by linarith
  then have "x / 2 powi q \<le> 2 powi (q + 53) / 2 powi q" by (simp add: divide_right_mono)
  also have "\<dots> = of_int (2 ^ 53)" using powi2_quot [of q "q + 53"] by simp
  finally have m53: "m \<le> 2 ^ 53" unfolding m_def by (rule rhe_le_int)
  consider "m = 0" | "0 < m" "m < 2 ^ 53" | "m = 2 ^ 53" using m0 m53 by linarith
  then show ?thesis
  proof cases
    case 1
    then show ?thesis by (simp add: y)
  next
    case 2
    have pos: "0 < rnd x" using 2(1) by (simp add: y)
    have "rnd x < of_int (2 ^ 53) * 2 powi q" unfolding y using 2(2) by simp
    also have "\<dots> = 2 powi (q + 52 + 1)" using powi2_int [of 53] by (simp add: power_int_add)
    finally have "flog2 (rnd x) \<le> q + 52" by (rule flog2_less [OF pos])
    then have "ulp_exp (rnd x) \<le> q" using pos q_low by (simp add: ulp_exp_def)
    with y show ?thesis by (rule rnd_exact)
  next
    case 3
    have r: "rnd x = of_int 1 * 2 powi (q + 53)"
      unfolding y 3 using powi2_int [of 53] by (simp add: power_int_add)
    have "flog2 (rnd x) \<le> q + 53"
      by (rule flog2_less) (use r powi2_less_iff [of "q + 53" "q + 53 + 1"] in simp_all)
    then have "ulp_exp (rnd x) \<le> q + 53" using r q_low by (simp add: ulp_exp_def)
    with r show ?thesis by (rule rnd_exact)
  qed
qed

theorem rnd_idem [simp]: "rnd (rnd x) = rnd x"
proof (cases "0 \<le> x")
  case True
  then show ?thesis using rnd_idem_pos [of x] by (cases "x = 0") simp_all
next
  case False
  then have "rnd (rnd (- x)) = rnd (- x)" by (intro rnd_idem_pos) simp
  then show ?thesis by (simp add: rnd_minus)
qed

text \<open>Integers up to \<open>Number.MAX_SAFE_INTEGER\<close> are exact.\<close>

lemma rnd_safe_int: "\<bar>n\<bar> < 2 ^ 53 \<Longrightarrow> rnd (of_int n) = of_int n"
proof (cases "n = 0")
  case False
  assume "\<bar>n\<bar> < 2 ^ 53"
  then have "(of_int \<bar>n\<bar> :: rat) < of_int (2 ^ 53)" by (simp only: of_int_less_iff)
  then have "(of_int \<bar>n\<bar> :: rat) < 2 powi (52 + 1)" using powi2_int [of 53] by simp
  with False have "flog2 (of_int \<bar>n\<bar>) \<le> 52" by (intro flog2_less) simp_all
  then show ?thesis by (intro rnd_exact [where n = n and q = 0]) (simp_all add: ulp_exp_def)
qed simp

section \<open>Rounding a given number\<close>

text \<open>To round a positive rational it is enough to name its binary exponent and the nearest integer.\<close>

lemma flog2_eq:
  assumes "0 < x" and "2 powi e \<le> x" and "x < 2 powi (e + 1)"
  shows "flog2 x = e"
proof (rule antisym)
  show "flog2 x \<le> e" using assms by (intro flog2_less)
  have "(2::rat) powi e < 2 powi (flog2 x + 1)" using assms(2) flog2_bounds(2) [OF assms(1)] by linarith
  then show "e \<le> flog2 x" by (simp add: powi2_less_iff)
qed

lemma rhe_near:
  assumes "\<bar>x - of_int n\<bar> < 1 / 2"
  shows "rhe x = n"
proof -
  from assms have "\<lfloor>x\<rfloor> = n \<or> \<lfloor>x\<rfloor> = n - 1" by linarith
  then show ?thesis using assms by (auto simp: rhe_def Let_def)
qed

lemma rnd_eq:
  assumes "0 < x" and "2 powi e \<le> x" and "x < 2 powi (e + 1)" and "-1022 \<le> e"
    and "\<bar>x / 2 powi (e - 52) - of_int n\<bar> < 1 / 2"
  shows "rnd x = of_int n * 2 powi (e - 52)"
  using flog2_eq [OF assms(1-3)] assms rhe_near [OF assms(5)] by (simp add: rnd_def ulp_exp_def)

lemma powi2_neg: "(2::rat) powi (- numeral k) = 1 / 2 ^ numeral k"
  by (simp add: power_int_minus inverse_eq_divide)

section \<open>Values and operations\<close>

datatype jsnum = JNaN | PosInf | NegInf | Fin rat

definition fl :: "rat \<Rightarrow> jsnum" where
  "fl x = (let r = rnd x in if 2 ^ 1024 \<le> r then PosInf else if r \<le> - (2 ^ 1024) then NegInf else Fin r)"

text \<open>The rationals that are finite binary64 values.\<close>

definition is_double :: "rat \<Rightarrow> bool" where
  "is_double x = (rnd x = x \<and> \<bar>x\<bar> < 2 ^ 1024)"

lemma fl_is_double: "fl x = Fin r \<Longrightarrow> is_double r \<and> r = rnd x"
  by (auto simp: fl_def is_double_def Let_def abs_less_iff split: if_splits)

lemma fl_double [simp]: "is_double x \<Longrightarrow> fl x = Fin x"
  by (auto simp: fl_def is_double_def Let_def abs_less_iff)

fun js_lt :: "jsnum \<Rightarrow> jsnum \<Rightarrow> bool" where
  "js_lt (Fin a) (Fin b) = (a < b)"
| "js_lt NegInf (Fin b) = True"
| "js_lt NegInf PosInf = True"
| "js_lt (Fin a) PosInf = True"
| "js_lt _ _ = False"

fun js_eq :: "jsnum \<Rightarrow> jsnum \<Rightarrow> bool" where
  "js_eq JNaN _ = False"
| "js_eq _ JNaN = False"
| "js_eq a b = (a = b)"

definition js_le :: "jsnum \<Rightarrow> jsnum \<Rightarrow> bool" where
  "js_le a b = (js_lt a b \<or> js_eq a b)"

text \<open>\<open>a + b\<close> and \<open>a - b\<close> where both are finite.\<close>

definition js_add :: "rat \<Rightarrow> rat \<Rightarrow> jsnum" where
  "js_add a b = fl (a + b)"

definition js_sub :: "rat \<Rightarrow> rat \<Rightarrow> jsnum" where
  "js_sub a b = fl (a - b)"

text \<open>\<open>Math.max(a, b)\<close>: \<open>NaN\<close> if either is.\<close>

fun js_max :: "jsnum \<Rightarrow> jsnum \<Rightarrow> jsnum" where
  "js_max JNaN _ = JNaN"
| "js_max _ JNaN = JNaN"
| "js_max a b = (if js_lt a b then b else a)"

fun is_finite_num :: "jsnum \<Rightarrow> bool" where
  "is_finite_num (Fin _) = True"
| "is_finite_num _ = False"

text \<open>Truthiness: \<open>0\<close> and \<open>NaN\<close> are falsy.\<close>

fun num_truthy :: "jsnum \<Rightarrow> bool" where
  "num_truthy JNaN = False"
| "num_truthy (Fin r) = (r \<noteq> 0)"
| "num_truthy _ = True"

end
