(* ===== verification/Js_Format.thy ===== *)
theory Js_Format
  imports Js_Number
begin

text \<open>
  Numbers and text: \<open>Number(s)\<close> (the grammar of numeric strings, with the value rounded to
  binary64), \<open>toFixed\<close>, the shortest decimal that \<open>Number.prototype.toString\<close> prints, and the
  zero-padded fields the clocks print. The lemmas give the value that reading back a printed
  amount has.
\<close>

section \<open>Number(s)\<close>

definition parse_exponent :: "string \<Rightarrow> int option" where
  "parse_exponent s =
     (let (neg, ds) = (case s of [] \<Rightarrow> (False, []) | c # t \<Rightarrow>
        if c = CHR ''-'' then (True, t) else if c = CHR ''+'' then (False, t) else (False, s))
      in if ds = [] \<or> \<not> list_all is_digit ds then None
         else Some (if neg then - int (digits_val ds) else int (digits_val ds)))"

definition parse_decimal :: "string \<Rightarrow> rat option" where
  "parse_decimal s =
     (let ip = takeWhile is_digit s; r1 = dropWhile is_digit s;
          (fp, r2) = (case r1 of [] \<Rightarrow> ([], [])
             | c # t \<Rightarrow> if c = CHR ''.'' then (takeWhile is_digit t, dropWhile is_digit t) else ([], r1));
          m = of_nat (digits_val (ip @ fp)) / 10 ^ length fp
      in if ip = [] \<and> fp = [] then None
         else (case r2 of [] \<Rightarrow> Some m
           | c # t \<Rightarrow> if c = CHR ''e'' \<or> c = CHR ''E''
               then map_option (\<lambda>k. m * 10 powi k) (parse_exponent t) else None))"

definition radix_digit :: "nat \<Rightarrow> char \<Rightarrow> nat option" where
  "radix_digit b c =
     (let n = of_char c :: nat;
          v = (if is_digit c then Some (n - 48)
               else if 97 \<le> n \<and> n \<le> 102 then Some (n - 87)
               else if 65 \<le> n \<and> n \<le> 70 then Some (n - 55) else None)
      in case v of None \<Rightarrow> None | Some d \<Rightarrow> if d < b then Some d else None)"

fun radix_val :: "nat \<Rightarrow> nat \<Rightarrow> string \<Rightarrow> nat option" where
  "radix_val b acc [] = Some acc"
| "radix_val b acc (c # cs) =
     (case radix_digit b c of None \<Rightarrow> None | Some d \<Rightarrow> radix_val b (b * acc + d) cs)"

definition parse_radix :: "string \<Rightarrow> rat option" where
  "parse_radix s =
     (case s of z # x # ds \<Rightarrow>
        if z = CHR ''0'' \<and> ds \<noteq> [] then
          (let r = (if x \<in> {CHR ''x'', CHR ''X''} then 16 else if x \<in> {CHR ''o'', CHR ''O''} then 8
                    else if x \<in> {CHR ''b'', CHR ''B''} then 2 else (0::nat))
           in if r = 0 then None else map_option of_nat (radix_val r 0 ds))
        else None
      | _ \<Rightarrow> None)"

definition num_of_unsigned :: "string \<Rightarrow> jsnum" where
  "num_of_unsigned s = (if s = ''Infinity'' then PosInf
     else case parse_decimal s of None \<Rightarrow> JNaN | Some r \<Rightarrow> fl r)"

fun num_neg :: "jsnum \<Rightarrow> jsnum" where
  "num_neg JNaN = JNaN"
| "num_neg PosInf = NegInf"
| "num_neg NegInf = PosInf"
| "num_neg (Fin r) = Fin (- r)"

definition num_of_str :: "string \<Rightarrow> jsnum" where
  "num_of_str s =
     (let t = trim s in
      case t of [] \<Rightarrow> Fin 0
      | c # u \<Rightarrow>
        (case parse_radix t of Some r \<Rightarrow> fl r
         | None \<Rightarrow> if c = CHR ''-'' then num_neg (num_of_unsigned u)
             else if c = CHR ''+'' then num_of_unsigned u else num_of_unsigned t))"

section \<open>Printing\<close>

text \<open>\<open>padStart(n, '0')\<close> of a non-negative integer.\<close>

definition pad0 :: "nat \<Rightarrow> nat \<Rightarrow> string" where
  "pad0 n v = pad_start n CHR ''0'' (nat_str v)"

text \<open>The shortest digits that read back as \<open>x\<close>, and where the decimal point is.\<close>

definition dec_exp :: "rat \<Rightarrow> int" where
  "dec_exp x = (case List.find (\<lambda>n. x < 10 powi n) [-323..309] of None \<Rightarrow> 309 | Some n \<Rightarrow> n)"

definition shortest :: "rat \<Rightarrow> nat \<times> int" where
  "shortest x =
     (let n = dec_exp x;
          digs = (\<lambda>k. rhe (x * 10 powi (k - n)));
          k = (case List.find (\<lambda>k. fl (of_int (digs k) * 10 powi (n - k)) = Fin x) [1..17]
               of None \<Rightarrow> 17 | Some k \<Rightarrow> k)
      in (nat (digs k), n))"

definition num_str_pos :: "rat \<Rightarrow> string" where
  "num_str_pos x =
     (let (s, n) = shortest x; ds = nat_str s; k = int (length ds) in
      if k \<le> n \<and> n \<le> 21 then ds @ replicate (nat (n - k)) CHR ''0''
      else if 0 < n \<and> n \<le> 21 then take (nat n) ds @ ''.'' @ drop (nat n) ds
      else if -6 < n \<and> n \<le> 0 then ''0.'' @ replicate (nat (- n)) CHR ''0'' @ ds
      else let e = n - 1; es = (if e < 0 then ''-'' else ''+'') @ nat_str (nat \<bar>e\<bar>) in
        if k = 1 then ds @ ''e'' @ es else take 1 ds @ ''.'' @ drop 1 ds @ ''e'' @ es)"

fun num_str :: "jsnum \<Rightarrow> string" where
  "num_str JNaN = ''NaN''"
| "num_str PosInf = ''Infinity''"
| "num_str NegInf = ''-Infinity''"
| "num_str (Fin r) = (if r = 0 then ''0'' else if r < 0 then ''-'' @ num_str_pos (- r) else num_str_pos r)"

text \<open>\<open>toFixed(2)\<close>: the nearest hundredth, ties upward; from \<open>10\<^sup>2\<^sup>1\<close> on it is \<open>toString\<close>.\<close>

definition cents :: "rat \<Rightarrow> nat" where
  "cents x = nat \<lfloor>x * 100 + 1/2\<rfloor>"

definition to_fixed2_pos :: "rat \<Rightarrow> string" where
  "to_fixed2_pos x = (if 10 ^ 21 \<le> x then num_str (Fin x)
     else nat_str (cents x div 100) @ ''.'' @ pad0 2 (cents x mod 100))"

fun to_fixed2 :: "jsnum \<Rightarrow> string" where
  "to_fixed2 (Fin r) = (if r < 0 then ''-'' @ to_fixed2_pos (- r) else to_fixed2_pos r)"
| "to_fixed2 n = num_str n"

section \<open>Reading back what was printed\<close>

lemma digit_not_special:
  "is_digit c \<Longrightarrow> c \<noteq> CHR ''.'' \<and> c \<noteq> CHR ''-'' \<and> c \<noteq> CHR ''+'' \<and> c \<noteq> CHR ''I'' \<and> \<not> is_space c"
  by (auto simp: is_digit_def is_space_def)

lemma digits_val_zeros [simp]: "digits_val (replicate k CHR ''0'' @ s) = digits_val s"
proof -
  have "foldl (\<lambda>acc c. 10 * acc + digit_val c) 0 (replicate k CHR ''0'') = 0"
    by (induction k) (simp_all add: digit_val_def)
  then show ?thesis by (simp add: digits_val_def)
qed

lemma pad0_props: "digits_val (pad0 n v) = v" "\<forall>c \<in> set (pad0 n v). is_digit c"
  by (auto simp: pad0_def pad_start_def digits_val_nat_str nat_str_digits is_digit_def
      dest: nat_str_digits [rule_format])

lemma pad0_fresh: "\<not> is_digit c \<Longrightarrow> c \<notin> set (pad0 n v)"
  using pad0_props(2) by blast

lemma pad0_length: "v < 10 ^ n \<Longrightarrow> 0 < n \<Longrightarrow> length (pad0 n v) = n"
  using nat_str_length_le [of v n] by (simp add: pad0_def pad_start_def)

lemma digits_val_append: "digits_val (s @ t) = digits_val s * 10 ^ length t + digits_val t"
proof (induction t rule: rev_induct)
  case Nil
  then show ?case by (simp add: digits_val_def)
next
  case (snoc c t)
  have "digits_val (s @ t @ [c]) = 10 * digits_val (s @ t) + digit_val c"
    using digits_val_snoc [of "s @ t" c] by simp
  with snoc show ?case by (simp add: algebra_simps)
qed

lemma parse_decimal_fixed:
  assumes "ip \<noteq> []" and "\<forall>c \<in> set ip. is_digit c" and "\<forall>c \<in> set fp. is_digit c"
  shows "parse_decimal (ip @ CHR ''.'' # fp) = Some (of_nat (digits_val (ip @ fp)) / 10 ^ length fp)"
proof -
  have t1: "takeWhile is_digit (ip @ CHR ''.'' # fp) = ip"
    and d1: "dropWhile is_digit (ip @ CHR ''.'' # fp) = CHR ''.'' # fp"
    using assms(2) by (simp_all add: takeWhile_append2 dropWhile_append2 is_digit_def)
  have t2: "takeWhile is_digit fp = fp" and d2: "dropWhile is_digit fp = []"
    using assms(3) by (simp_all add: takeWhile_eq_all_conv)
  show ?thesis unfolding parse_decimal_def t1 d1 Let_def using assms(1) by (simp add: t2 d2 del: dropWhile_eq_Nil_conv)
qed

lemma trim_no_space:
  assumes "\<forall>c \<in> set s. \<not> is_space c"
  shows "trim s = s"
proof -
  have d: "dropWhile is_space t = t" if "\<forall>c \<in> set t. \<not> is_space c" for t
    using that by (cases t) simp_all
  show ?thesis using assms by (simp add: trim_def d)
qed

lemma digit_not_radix:
  "is_digit c \<Longrightarrow> c \<noteq> CHR ''x'' \<and> c \<noteq> CHR ''X'' \<and> c \<noteq> CHR ''o'' \<and> c \<noteq> CHR ''O'' \<and> c \<noteq> CHR ''b'' \<and> c \<noteq> CHR ''B''"
  by (auto simp: is_digit_def)

lemma parse_radix_fixed:
  assumes "ip \<noteq> []" and "\<forall>c \<in> set ip. is_digit c"
  shows "parse_radix (ip @ CHR ''.'' # fp) = None"
proof (cases ip)
  case (Cons a as)
  then show ?thesis
    using assms digit_not_radix [of "hd as"] by (cases as) (simp_all add: parse_radix_def)
qed (use assms in simp)

theorem num_of_str_to_fixed2:
  assumes "0 \<le> r" and "r < 10 ^ 21"
  shows "num_of_str (to_fixed2 (Fin r)) = fl (of_nat (cents r) / 100)"
proof -
  let ?ip = "nat_str (cents r div 100)" and ?fp = "pad0 2 (cents r mod 100)"
  let ?s = "?ip @ CHR ''.'' # ?fp"
  have fx: "to_fixed2 (Fin r) = ?s" using assms by (simp add: to_fixed2_pos_def)
  have ip: "?ip \<noteq> []" "\<forall>c \<in> set ?ip. is_digit c" by (simp_all add: nat_str_digits)
  have fp: "\<forall>c \<in> set ?fp. is_digit c" "length ?fp = 2" by (simp_all add: pad0_props pad0_length)
  have dot: "\<not> is_space CHR ''.''" by (simp add: is_space_def)
  have tr: "trim ?s = ?s"
    by (intro trim_no_space) (use ip fp dot in \<open>auto dest!: digit_not_special\<close>)
  obtain a as where a: "?ip = a # as" "is_digit a" using ip by (cases ?ip) auto
  have hd: "a \<noteq> CHR ''-''" "a \<noteq> CHR ''+''" "a \<noteq> CHR ''I''" using digit_not_special [OF a(2)] by auto
  have val: "digits_val (?ip @ ?fp) = cents r"
    by (simp add: digits_val_append digits_val_nat_str pad0_props fp(2))
  have "num_of_str ?s = num_of_unsigned ?s"
    using tr parse_radix_fixed [OF ip, of ?fp] hd by (simp add: num_of_str_def a(1))
  also have "\<dots> = fl (of_nat (digits_val (?ip @ ?fp)) / 10 ^ length ?fp)"
    unfolding num_of_unsigned_def parse_decimal_fixed [OF ip fp(1)] using a(1) hd(3) by auto
  finally show ?thesis unfolding fx val fp(2) by simp
qed

end
