(* ===== verification/Auction_Slice.thy ===== *)
theory Auction_Slice
  imports Js_Format "HOL-Library.Multiset"
begin

text \<open>
  The Redux store: \<open>store/slices/auctionSlice.ts\<close>, \<open>store/slices/uiSlice.ts\<close> and
  \<open>store/store.ts\<close>. The state of the live auction is a record with the fields of
  \<open>AuctionState\<close>; every reducer is one function, and a dispatched action is a value of
  \<open>auction_action\<close>. Immer's in-place updates are record updates. Times are integer
  milliseconds (\<open>Date.now()\<close> is a parameter of the reducers that read the clock), amounts are
  the rationals that finite doubles denote. The invariants say what the price on screen means;
  they are proved once for both auction directions, through the locale \<open>price_order\<close>.
\<close>

section \<open>State\<close>

datatype bid_status = Pending | Confirmed | Rejected

record bid =
  bid_id :: string
  amount :: rat
  bidder :: string
  timestamp :: int
  status :: bid_status

datatype auction_type = REVERSE | FORWARD

datatype auction_status = Waiting | Active | Ended

record auction_state =
  auctionId :: "string option"
  bids :: "bid list"
  currentPrice :: "rat option"
  startingPrice :: "rat option"
  auctionType :: auction_type
  minimumBidStep :: rat
  isConnected :: bool
  timeSkew :: int
  startTime :: "int option"
  endTime :: "int option"
  auctionStatus :: auction_status
  isParticipant :: bool

definition initialState :: auction_state where
  "initialState = \<lparr>
     auctionId = None, bids = [], currentPrice = None, startingPrice = None,
     auctionType = REVERSE, minimumBidStep = 1, isConnected = False, timeSkew = 0,
     startTime = None, endTime = None, auctionStatus = Waiting, isParticipant = False\<rparr>"

section \<open>Reducers\<close>

record init_payload =
  ip_auctionId :: string
  ip_auctionType :: auction_type
  ip_minimumBidStep :: rat
  ip_startTime :: int
  ip_endTime :: int
  ip_initialPrice :: "rat option"
  ip_isParticipant :: bool

record reconcile_payload =
  rp_id :: "string option"
  rp_status :: bid_status
  rp_amount :: rat
  rp_bidder :: string
  rp_timestamp :: int

text \<open>The comparison both clock readers make.\<close>

definition status_at :: "int \<Rightarrow> int \<Rightarrow> int \<Rightarrow> auction_status" where
  "status_at now start stop = (if now > stop then Ended else if now \<ge> start then Active else Waiting)"

definition initAuction :: "int \<Rightarrow> init_payload \<Rightarrow> auction_state \<Rightarrow> auction_state" where
  "initAuction clock p s =
     (let s = s\<lparr>auctionId := Some (ip_auctionId p), startTime := Some (ip_startTime p),
                endTime := Some (ip_endTime p), currentPrice := ip_initialPrice p,
                startingPrice := ip_initialPrice p, auctionType := ip_auctionType p,
                minimumBidStep := ip_minimumBidStep p, isParticipant := ip_isParticipant p\<rparr>;
          now = clock + timeSkew s;
          s = s\<lparr>auctionStatus := status_at now (ip_startTime p) (ip_endTime p)\<rparr>
      in s\<lparr>bids := []\<rparr>)"

definition updateAuctionStatus :: "int \<Rightarrow> auction_state \<Rightarrow> auction_state" where
  "updateAuctionStatus clock s =
     (case (startTime s, endTime s) of
        (Some st, Some en) \<Rightarrow>
          if st \<noteq> 0 \<and> en \<noteq> 0
          then s\<lparr>auctionStatus := status_at (clock + timeSkew s) st en\<rparr> else s
      | _ \<Rightarrow> s)"

definition setConnectionStatus :: "bool \<Rightarrow> auction_state \<Rightarrow> auction_state" where
  "setConnectionStatus b s = s\<lparr>isConnected := b\<rparr>"

definition setTimeSkew :: "int \<Rightarrow> auction_state \<Rightarrow> auction_state" where
  "setTimeSkew n s = s\<lparr>timeSkew := n\<rparr>"

text \<open>\<open>a\<close> is a better price than \<open>b\<close> in the direction of the auction.\<close>

definition beats :: "auction_type \<Rightarrow> rat \<Rightarrow> rat \<Rightarrow> bool" where
  "beats t a b = (case t of REVERSE \<Rightarrow> a < b | FORWARD \<Rightarrow> a > b)"

definition addOptimisticBid :: "bid \<Rightarrow> auction_state \<Rightarrow> auction_state" where
  "addOptimisticBid b s =
     (let s = s\<lparr>bids := b # bids s\<rparr>;
          improvesPrice = (case currentPrice s of None \<Rightarrow> True
            | Some p \<Rightarrow> beats (auctionType s) (amount b) p)
      in if improvesPrice then s\<lparr>currentPrice := Some (amount b)\<rparr> else s)"

text \<open>\<open>{ ...old, ...payload, id: old.id }\<close>: every field of the payload, the old id.\<close>

definition merge_bid :: "bid \<Rightarrow> reconcile_payload \<Rightarrow> bid" where
  "merge_bid old p = \<lparr>bid_id = bid_id old, amount = rp_amount p, bidder = rp_bidder p,
     timestamp = rp_timestamp p, status = rp_status p\<rparr>"

text \<open>The bid a payload adds; \<open>rnd_id\<close> is the value of the \<open>Math.random()\<close> expression.\<close>

definition new_bid :: "string \<Rightarrow> reconcile_payload \<Rightarrow> bid" where
  "new_bid rnd_id p = \<lparr>bid_id = opt_str_or (rp_id p) rnd_id, amount = rp_amount p,
     bidder = rp_bidder p, timestamp = rp_timestamp p, status = rp_status p\<rparr>"

definition match_index :: "reconcile_payload \<Rightarrow> bid list \<Rightarrow> int" where
  "match_index p bs =
     (let i = (if str_truthy (rp_id p) then find_index (\<lambda>b. Some (bid_id b) = rp_id p) bs else -1)
      in if i = -1 then find_index (\<lambda>b. status b = Pending \<and> amount b = rp_amount p) bs else i)"

definition place_bid_row :: "string \<Rightarrow> reconcile_payload \<Rightarrow> bid list \<Rightarrow> bid list" where
  "place_bid_row rnd_id p bs =
     (let i = match_index p bs in
      if i \<ge> 0 then bs[nat i := merge_bid (bs ! nat i) p] else new_bid rnd_id p # bs)"

text \<open>\<open>Math.min(...amounts)\<close> and \<open>Math.max(...amounts)\<close> on a non-empty array.\<close>

fun best_of :: "auction_type \<Rightarrow> rat \<Rightarrow> rat list \<Rightarrow> rat" where
  "best_of REVERSE a as = foldl min a as"
| "best_of FORWARD a as = foldl max a as"

definition reconcileBid :: "string \<Rightarrow> reconcile_payload \<Rightarrow> auction_state \<Rightarrow> auction_state" where
  "reconcileBid rnd_id p s =
     (let bs = sort_key (\<lambda>b. - timestamp b) (place_bid_row rnd_id p (bids s));
          validBids = filter (\<lambda>b. status b \<noteq> Rejected) bs
      in s\<lparr>bids := bs,
           currentPrice := (case map amount validBids of
               [] \<Rightarrow> startingPrice s
             | a # as \<Rightarrow> Some (best_of (auctionType s) a as))\<rparr>)"

definition endAuction :: "auction_state \<Rightarrow> auction_state" where
  "endAuction s = s\<lparr>auctionStatus := Ended\<rparr>"

datatype auction_action =
    InitAuction int init_payload
  | UpdateAuctionStatus int
  | SetConnectionStatus bool
  | SetTimeSkew int
  | AddOptimisticBid bid
  | ReconcileBid string reconcile_payload
  | EndAuction

fun auctionReducer :: "auction_action \<Rightarrow> auction_state \<Rightarrow> auction_state" where
  "auctionReducer (InitAuction clock p) s = initAuction clock p s"
| "auctionReducer (UpdateAuctionStatus clock) s = updateAuctionStatus clock s"
| "auctionReducer (SetConnectionStatus b) s = setConnectionStatus b s"
| "auctionReducer (SetTimeSkew n) s = setTimeSkew n s"
| "auctionReducer (AddOptimisticBid b) s = addOptimisticBid b s"
| "auctionReducer (ReconcileBid r p) s = reconcileBid r p s"
| "auctionReducer EndAuction s = endAuction s"

lemmas [slice_simps] = initAuction_def updateAuctionStatus_def setConnectionStatus_def
  setTimeSkew_def addOptimisticBid_def reconcileBid_def endAuction_def Let_def

section \<open>The interface slice and the root store\<close>

record ui_state =
  activeTab :: string
  isSidebarCollapsed :: bool

definition uiInitialState :: ui_state where
  "uiInitialState = \<lparr>activeTab = ''dashboard'', isSidebarCollapsed = False\<rparr>"

datatype ui_action = SetActiveTab string | SetSidebarCollapsed bool | ToggleSidebarCollapsed

fun uiReducer :: "ui_action \<Rightarrow> ui_state \<Rightarrow> ui_state" where
  "uiReducer (SetActiveTab t) s = s\<lparr>activeTab := t\<rparr>"
| "uiReducer (SetSidebarCollapsed b) s = s\<lparr>isSidebarCollapsed := b\<rparr>"
| "uiReducer ToggleSidebarCollapsed s = s\<lparr>isSidebarCollapsed := \<not> isSidebarCollapsed s\<rparr>"

record root_state =
  ui :: ui_state
  auction :: auction_state

datatype root_action = UiAction ui_action | AuctionAction auction_action

definition store_init :: root_state where
  "store_init = \<lparr>ui = uiInitialState, auction = initialState\<rparr>"

fun dispatch :: "root_action \<Rightarrow> root_state \<Rightarrow> root_state" where
  "dispatch (UiAction a) s = s\<lparr>ui := uiReducer a (ui s)\<rparr>"
| "dispatch (AuctionAction a) s = s\<lparr>auction := auctionReducer a (auction s)\<rparr>"

section \<open>Both directions at once\<close>

text \<open>
  A reverse auction takes the smallest amount, a forward auction the largest. What the price
  lemmas need of either is a strict order and the choice between two amounts.
\<close>

locale price_order =
  fixes better :: "rat \<Rightarrow> rat \<Rightarrow> bool"
    and pick :: "rat \<Rightarrow> rat \<Rightarrow> rat"
  assumes better_irrefl: "\<not> better a a"
    and better_trans: "better a b \<Longrightarrow> better b c \<Longrightarrow> better a c"
    and better_total: "a \<noteq> b \<Longrightarrow> better a b \<or> better b a"
    and pick_eq: "pick a b = (if better b a then b else a)"
begin

lemma foldl_pick_in: "foldl pick a as \<in> set (a # as)"
proof (induction as arbitrary: a)
  case (Cons x as)
  from Cons.IH [of "pick a x"] show ?case by (auto simp: pick_eq split: if_splits)
qed simp

lemma not_better_trans: "\<not> better a b \<Longrightarrow> \<not> better b c \<Longrightarrow> \<not> better a c"
  by (metis better_total better_trans)

lemma foldl_pick_best: "x \<in> set (a # as) \<Longrightarrow> \<not> better x (foldl pick a as)"
proof (induction as arbitrary: a x)
  case Nil
  then show ?case by (simp add: better_irrefl)
next
  case (Cons y as)
  have p: "\<not> better (pick a y) (foldl pick (pick a y) as)" by (rule Cons.IH) simp
  have "\<not> better a (pick a y)" "\<not> better y (pick a y)"
    using better_trans better_irrefl by (auto simp: pick_eq)
  with p have "\<not> better a (foldl pick (pick a y) as)" "\<not> better y (foldl pick (pick a y) as)"
    using not_better_trans by blast+
  with Cons show ?case by auto
qed

end

interpretation rev_order: price_order "(<)" min
  by unfold_locales (auto simp: min_def)

interpretation fwd_order: price_order "\<lambda>a b. a > b" max
  by unfold_locales (auto simp: max_def)

lemma best_of_in: "best_of t a as \<in> set (a # as)"
  using rev_order.foldl_pick_in fwd_order.foldl_pick_in by (cases t) (simp_all only: best_of.simps)

lemma best_of_best: "x \<in> set (a # as) \<Longrightarrow> \<not> beats t x (best_of t a as)"
  by (cases t) (simp_all add: beats_def rev_order.foldl_pick_best fwd_order.foldl_pick_best del: set_simps)

lemma beats_irrefl: "\<not> beats t a a"
  by (cases t) (simp_all add: beats_def)

lemma beats_trans: "beats t a b \<Longrightarrow> beats t b c \<Longrightarrow> beats t a c"
  by (cases t) (simp_all add: beats_def)

lemma not_beats_trans: "\<not> beats t a b \<Longrightarrow> beats t c b \<Longrightarrow> \<not> beats t a c"
  by (cases t) (simp_all add: beats_def)

text \<open>The reference: least or greatest element of the set of amounts.\<close>

definition best_price :: "auction_type \<Rightarrow> rat set \<Rightarrow> rat" where
  "best_price t A = (case t of REVERSE \<Rightarrow> Min A | FORWARD \<Rightarrow> Max A)"

lemma best_of_eq_best_price: "best_of t a as = best_price t (set (a # as))"
proof (cases t)
  case REVERSE
  have "Min (set (a # as)) = best_of REVERSE a as"
    by (rule Min_eqI [OF _ _ best_of_in])
      (use best_of_best [of _ a as REVERSE] in \<open>simp_all add: beats_def not_less del: set_simps\<close>)
  with REVERSE show ?thesis by (simp add: best_price_def)
next
  case FORWARD
  have "Max (set (a # as)) = best_of FORWARD a as"
    by (rule Max_eqI [OF _ _ best_of_in])
      (use best_of_best [of _ a as FORWARD] in \<open>simp_all add: beats_def not_less del: set_simps\<close>)
  with FORWARD show ?thesis by (simp add: best_price_def)
qed

section \<open>Rows\<close>

definition live_bids :: "auction_state \<Rightarrow> bid list" where
  "live_bids s = filter (\<lambda>b. status b \<noteq> Rejected) (bids s)"

definition newest_first :: "bid list \<Rightarrow> bool" where
  "newest_first bs = sorted_wrt (\<lambda>a b. timestamp b \<le> timestamp a) bs"

lemma newest_first_sort: "newest_first (sort_key (\<lambda>b. - timestamp b) bs)"
proof -
  have "sorted (map (\<lambda>b. - timestamp b) (sort_key (\<lambda>b. - timestamp b) bs))" by (rule sorted_sort_key)
  then show ?thesis by (simp add: newest_first_def sorted_map)
qed

lemma bids_reconcile: "bids (reconcileBid r p s) = sort_key (\<lambda>b. - timestamp b) (place_bid_row r p (bids s))"
  by (simp add: reconcileBid_def Let_def)

lemma set_bids_reconcile [simp]: "set (bids (reconcileBid r p s)) = set (place_bid_row r p (bids s))"
  by (simp add: bids_reconcile)

lemma reconcile_frame [simp]:
  "auctionType (reconcileBid r p s) = auctionType s"
  "startingPrice (reconcileBid r p s) = startingPrice s"
  "auctionStatus (reconcileBid r p s) = auctionStatus s"
  "minimumBidStep (reconcileBid r p s) = minimumBidStep s"
  "isParticipant (reconcileBid r p s) = isParticipant s"
  "auctionId (reconcileBid r p s) = auctionId s"
  by (simp_all add: reconcileBid_def Let_def)

lemma match_index_bound: "0 \<le> match_index p bs \<Longrightarrow> nat (match_index p bs) < length bs"
  using find_index_bound [of "\<lambda>b. status b = Pending \<and> amount b = rp_amount p" bs]
    find_index_bound [of "\<lambda>b. Some (bid_id b) = rp_id p" bs]
  by (auto simp: match_index_def Let_def split: if_splits)

lemma place_bid_row_elem:
  assumes "b \<in> set (place_bid_row r p bs)"
  shows "b \<in> set bs \<or> (status b = rp_status p \<and> bidder b = rp_bidder p \<and> amount b = rp_amount p)"
proof (cases "0 \<le> match_index p bs")
  case True
  with assms have "b \<in> insert (merge_bid (bs ! nat (match_index p bs)) p) (set bs)"
    using set_update_subset_insert by (fastforce simp: place_bid_row_def Let_def)
  then show ?thesis by (auto simp: merge_bid_def)
next
  case False
  with assms show ?thesis by (auto simp: place_bid_row_def Let_def new_bid_def)
qed

lemma place_bid_row_ne: "place_bid_row r p bs \<noteq> []"
  using match_index_bound [of p bs] by (auto simp: place_bid_row_def Let_def)

text \<open>Which row an event takes: the row with its id, else the first pending row of its amount.\<close>

lemma match_index_none_iff:
  "match_index p bs < 0 \<longleftrightarrow>
     (str_truthy (rp_id p) \<longrightarrow> (\<forall>b\<in>set bs. Some (bid_id b) \<noteq> rp_id p)) \<and>
     (\<forall>b\<in>set bs. \<not> (status b = Pending \<and> amount b = rp_amount p))"
  using find_index_none_iff [of "\<lambda>b. Some (bid_id b) = rp_id p" bs]
    find_index_none_iff [of "\<lambda>b. status b = Pending \<and> amount b = rp_amount p" bs]
    find_index_ge [of "\<lambda>b. Some (bid_id b) = rp_id p" bs]
    find_index_ge [of "\<lambda>b. status b = Pending \<and> amount b = rp_amount p" bs]
  by (auto simp: match_index_def Let_def)

lemma match_index_known_id:
  assumes "rp_id p = Some i" and "i \<noteq> []" and "i \<in> bid_id ` set bs"
  shows "0 \<le> match_index p bs" and "bid_id (bs ! nat (match_index p bs)) = i"
proof -
  have "find_index (\<lambda>b. Some (bid_id b) = rp_id p) bs \<noteq> -1"
    using assms by (auto simp: find_index_none_iff)
  then show "0 \<le> match_index p bs" "bid_id (bs ! nat (match_index p bs)) = i"
    using find_index_bound [of "\<lambda>b. Some (bid_id b) = rp_id p" bs]
      find_index_hit [of "\<lambda>b. Some (bid_id b) = rp_id p" bs] assms
    by (auto simp: match_index_def Let_def str_truthy_def)
qed

section \<open>The price on screen\<close>

text \<open>
  After a server decision is reconciled, the price is recomputed from scratch: it is the
  least amount of the bids that are not rejected in a reverse auction, the greatest in a forward
  one, and the starting price when no such bid is left.
\<close>

lemma reconcileBid_price:
  "currentPrice (reconcileBid r p s) =
     (if live_bids (reconcileBid r p s) = [] then startingPrice s
      else Some (best_price (auctionType s) (amount ` set (live_bids (reconcileBid r p s)))))"
proof -
  let ?v = "live_bids (reconcileBid r p s)"
  have "currentPrice (reconcileBid r p s) = (case map amount ?v of [] \<Rightarrow> startingPrice s
      | a # as \<Rightarrow> Some (best_of (auctionType s) a as))"
    by (simp add: reconcileBid_def live_bids_def Let_def)
  then show ?thesis
    by (cases ?v) (simp_all add: best_of_eq_best_price del: best_of.simps)
qed

text \<open>
  What holds of the price in every state the reducers produce: no bid that is still in play
  beats it, and it is the starting price or the amount of a bid in play.
\<close>

definition price_inv :: "auction_state \<Rightarrow> bool" where
  "price_inv s =
     ((\<forall>b \<in> set (live_bids s). \<exists>p. currentPrice s = Some p \<and> \<not> beats (auctionType s) (amount b) p) \<and>
      (currentPrice s = startingPrice s \<or> currentPrice s \<in> (\<lambda>b. Some (amount b)) ` set (live_bids s)))"

text \<open>The console dispatches optimistic bids as pending only.\<close>

fun optimistic_pending :: "auction_action \<Rightarrow> bool" where
  "optimistic_pending (AddOptimisticBid b) = (status b = Pending)"
| "optimistic_pending _ = True"

lemma price_inv_reconcile: "price_inv (reconcileBid r p s)"
proof (cases "map amount (live_bids (reconcileBid r p s))")
  case Nil
  then show ?thesis by (simp add: price_inv_def reconcileBid_def live_bids_def Let_def)
next
  case (Cons a as)
  let ?v = "live_bids (reconcileBid r p s)"
  have cp: "currentPrice (reconcileBid r p s) = Some (best_of (auctionType s) a as)"
    using Cons by (simp add: reconcileBid_def live_bids_def Let_def)
  have amts: "amount ` set ?v = set (a # as)" using Cons by (metis list.set_map)
  have "\<not> beats (auctionType s) (amount b) (best_of (auctionType s) a as)" if "b \<in> set ?v" for b
    using that amts by (intro best_of_best) blast
  moreover have "best_of (auctionType s) a as \<in> amount ` set ?v"
    using best_of_in [of "auctionType s" a as] amts by simp
  ultimately show ?thesis unfolding price_inv_def by (auto simp: cp)
qed

lemma price_inv_optimistic:
  assumes "status b = Pending" and "price_inv s"
  shows "price_inv (addOptimisticBid b s)"
proof (cases "currentPrice s")
  case None
  with assms show ?thesis
    by (auto simp: price_inv_def addOptimisticBid_def live_bids_def Let_def beats_irrefl)
next
  case (Some q)
  show ?thesis
  proof (cases "beats (auctionType s) (amount b) q")
    case True
    with assms Some show ?thesis
      by (auto simp: price_inv_def addOptimisticBid_def live_bids_def Let_def beats_irrefl
          dest: not_beats_trans)
  next
    case False
    with assms Some show ?thesis
      by (auto simp: price_inv_def addOptimisticBid_def live_bids_def Let_def)
  qed
qed

lemma price_inv_step: "optimistic_pending a \<Longrightarrow> price_inv s \<Longrightarrow> price_inv (auctionReducer a s)"
  by (cases a)
    (auto simp: price_inv_reconcile price_inv_optimistic,
      auto simp: price_inv_def live_bids_def initAuction_def updateAuctionStatus_def
        setConnectionStatus_def setTimeSkew_def endAuction_def Let_def split: option.splits)

interpretation price: machine initialState auctionReducer price_inv optimistic_pending
  by unfold_locales (auto simp: price_inv_step, simp add: price_inv_def initialState_def live_bids_def)

text \<open>
  (C8) Whatever actions reach the slice, in whatever order, with optimistic bids dispatched as
  pending: no bid that is not rejected beats the price on screen in the direction of the
  auction, and that price is the starting price or the amount of such a bid.
\<close>

theorem price_never_beaten:
  assumes "\<forall>a \<in> set as. optimistic_pending a"
  shows "price_inv (fold auctionReducer as initialState)"
  using assms by (rule price.run_inv)

theorem price_never_beaten_witness:
  "price_inv (fold auctionReducer
     [InitAuction 5 \<lparr>ip_auctionId = ''a'', ip_auctionType = FORWARD, ip_minimumBidStep = 1,
        ip_startTime = 1, ip_endTime = 9, ip_initialPrice = Some 100, ip_isParticipant = True\<rparr>,
      AddOptimisticBid \<lparr>bid_id = ''x'', amount = 120, bidder = ''me'', timestamp = 6, status = Pending\<rparr>]
     initialState)"
  by (rule price_never_beaten) simp

section \<open>Rows of the ledger\<close>

text \<open>
  Reconciling an event leaves the ledger newest first, and its rows are the old ones with
  the matched row overwritten, or one new row when none matches: nothing is lost, nothing
  invented, and the list grows by at most one.
\<close>

lemma reconcileBid_rows:
  "newest_first (bids (reconcileBid r p s)) \<and>
   mset (bids (reconcileBid r p s)) =
     (if match_index p (bids s) < 0 then add_mset (new_bid r p) (mset (bids s))
      else add_mset (merge_bid (bids s ! nat (match_index p (bids s))) p)
             (mset (bids s) - {#bids s ! nat (match_index p (bids s))#}))"
  using match_index_bound [of p "bids s"]
  by (auto simp: bids_reconcile newest_first_sort place_bid_row_def Let_def mset_update)

lemma find_index_from_split:
  "\<forall>x \<in> set xs. \<not> P x \<Longrightarrow> P b \<Longrightarrow> find_index_from i P (xs @ b # ys) = i + int (length xs)"
  by (induction xs arbitrary: i) auto

lemma find_index_split: "\<forall>x \<in> set xs. \<not> P x \<Longrightarrow> P b \<Longrightarrow> find_index P (xs @ b # ys) = int (length xs)"
  using find_index_from_split [of xs P b 0 ys] by (simp add: find_index_def)

lemma match_index_pending:
  assumes "\<forall>c \<in> set (xs @ b # ys). Some (bid_id c) \<noteq> rp_id p"
    and "\<forall>c \<in> set xs. \<not> (status c = Pending \<and> amount c = rp_amount p)"
    and "status b = Pending" and "amount b = rp_amount p"
  shows "match_index p (xs @ b # ys) = int (length xs)"
proof -
  have none: "find_index (\<lambda>c. Some (bid_id c) = rp_id p) (xs @ b # ys) = -1"
    using assms(1) by (simp add: find_index_none_iff)
  have "find_index (\<lambda>c. status c = Pending \<and> amount c = rp_amount p) (xs @ b # ys) = int (length xs)"
    by (rule find_index_split) (use assms in auto)
  with none show ?thesis by (simp add: match_index_def Let_def)
qed

lemma place_bid_row_pending:
  assumes "\<forall>c \<in> set (xs @ b # ys). Some (bid_id c) \<noteq> rp_id p"
    and "\<forall>c \<in> set xs. \<not> (status c = Pending \<and> amount c = rp_amount p)"
    and "status b = Pending" and "amount b = rp_amount p"
  shows "place_bid_row r p (xs @ b # ys) = xs @ merge_bid b p # ys"
  using match_index_pending [OF assms] by (simp add: place_bid_row_def Let_def)

text \<open>
  An event whose id is not in the ledger takes the first pending row of its amount,
  whoever placed either of them: the row keeps its id and becomes the event's bidder, status
  and time. An event of a competitor at the same amount therefore takes over the user's own
  optimistic row.
\<close>

lemma pending_row_taken:
  assumes "bids s = xs @ b # ys"
    and "\<forall>c \<in> set (bids s). Some (bid_id c) \<noteq> rp_id p"
    and "\<forall>c \<in> set xs. \<not> (status c = Pending \<and> amount c = rp_amount p)"
    and "status b = Pending" and "amount b = rp_amount p"
  shows "mset (bids (reconcileBid r p s)) = mset (xs @ ys) +
    {#\<lparr>bid_id = bid_id b, amount = rp_amount p, bidder = rp_bidder p, timestamp = rp_timestamp p, status = rp_status p\<rparr>#}"
  using place_bid_row_pending [OF assms(2) [unfolded assms(1)] assms(3-5), of r]
  by (simp add: bids_reconcile assms(1) merge_bid_def)

text \<open>What redelivery of one event does: the rows that carry its id already hold its fields.\<close>

lemma place_bid_row_known:
  assumes "distinct (map bid_id bs)" and "rp_id p = Some i" and "i \<noteq> []"
    and "i \<in> bid_id ` set bs \<or> match_index p bs < 0"
  shows "i \<in> bid_id ` set (place_bid_row r p bs)"
    and "\<forall>x \<in> set (place_bid_row r p bs). bid_id x = i \<longrightarrow> merge_bid x p = x"
proof -
  have "i \<in> bid_id ` set (place_bid_row r p bs) \<and>
    (\<forall>x \<in> set (place_bid_row r p bs). bid_id x = i \<longrightarrow> merge_bid x p = x)"
  proof (cases "match_index p bs < 0")
    case True
    then have none: "\<forall>b \<in> set bs. bid_id b \<noteq> i"
      using assms(2,3) by (simp add: match_index_none_iff str_truthy_def)
    have row: "place_bid_row r p bs = new_bid r p # bs" using True by (simp add: place_bid_row_def Let_def)
    have "bid_id (new_bid r p) = i" "merge_bid (new_bid r p) p = new_bid r p"
      using assms(2,3) by (simp_all add: new_bid_def merge_bid_def opt_str_or_def str_or_def)
    with none show ?thesis unfolding row by auto
  next
    case False
    with assms(4) have "i \<in> bid_id ` set bs" by simp
    note m = match_index_known_id [OF assms(2,3) this]
    let ?m = "nat (match_index p bs)"
    have lt: "?m < length bs" by (rule match_index_bound [OF m(1)])
    let ?x = "merge_bid (bs ! ?m) p"
    have row: "place_bid_row r p bs = bs[?m := ?x]" using m(1) by (simp add: place_bid_row_def Let_def)
    have x: "bid_id ?x = i" "merge_bid ?x p = ?x" using m(2) by (simp_all add: merge_bid_def)
    have "merge_bid y p = y" if y: "y \<in> set (bs[?m := ?x])" "bid_id y = i" for y
    proof -
      obtain k where k: "k < length bs" "y = bs[?m := ?x] ! k" using y(1) by (auto simp: in_set_conv_nth)
      show ?thesis
      proof (cases "k = ?m")
        case True
        with k x lt show ?thesis by simp
      next
        case False
        with k have "bid_id (bs ! k) = bid_id (bs ! ?m)" using y(2) m(2) by simp
        with False k(1) lt assms(1) show ?thesis by (simp add: distinct_conv_nth)
      qed
    qed
    moreover have "?x \<in> set (bs[?m := ?x])" using lt by (simp add: set_update_memI)
    ultimately show ?thesis unfolding row using x(1) by (metis image_eqI)
  qed
  then show "i \<in> bid_id ` set (place_bid_row r p bs)"
    "\<forall>x \<in> set (place_bid_row r p bs). bid_id x = i \<longrightarrow> merge_bid x p = x" by simp_all
qed

lemma place_bid_row_fixed:
  assumes "rp_id p = Some i" and "i \<noteq> []" and "i \<in> bid_id ` set bs"
    and "\<forall>x \<in> set bs. bid_id x = i \<longrightarrow> merge_bid x p = x"
  shows "place_bid_row r p bs = bs"
proof -
  note m = match_index_known_id [OF assms(1-3)]
  have "bs ! nat (match_index p bs) \<in> set bs" using match_index_bound [OF m(1)] by simp
  with assms(4) m show ?thesis by (simp add: place_bid_row_def Let_def)
qed

lemma reconcile_fixed:
  assumes "place_bid_row r p (bids (reconcileBid r' p s)) = bids (reconcileBid r' p s)"
  shows "reconcileBid r p (reconcileBid r' p s) = reconcileBid r' p s"
proof -
  let ?b = "bids (reconcileBid r' p s)"
  have srt: "sort_key (\<lambda>b. - timestamp b) ?b = ?b"
    unfolding bids_reconcile by (rule sort_key_id_if_sorted) simp
  show ?thesis
    unfolding reconcileBid_def [of r p] Let_def assms srt
    by (simp add: reconcileBid_def Let_def bids_reconcile cong: list.case_cong)
qed

text \<open>
  Redelivery is harmless when the first delivery found the event's id, or found no
  optimistic row to take: applying the same event a second time changes nothing.
\<close>

lemma reconcileBid_idempotent:
  assumes "distinct (map bid_id (bids s))" and "rp_id p = Some i" and "i \<noteq> []"
    and "i \<in> bid_id ` set (bids s) \<or> match_index p (bids s) < 0"
  shows "reconcileBid r' p (reconcileBid r p s) = reconcileBid r p s"
proof (rule reconcile_fixed)
  note known = place_bid_row_known [OF assms, of r]
  show "place_bid_row r' p (bids (reconcileBid r p s)) = bids (reconcileBid r p s)"
    by (rule place_bid_row_fixed [OF assms(2,3)]) (use known in simp_all)
qed

text \<open>
  It is not harmless after an optimistic row was taken: that row kept its own id, so the
  same event delivered again finds neither its id nor a pending row and is shown twice.
\<close>

lemma redelivery_duplicates:
  assumes "bids s = xs @ b # ys" and "rp_status p \<noteq> Pending"
    and "\<forall>c \<in> set (bids s). Some (bid_id c) \<noteq> rp_id p"
    and "\<forall>c \<in> set (xs @ ys). \<not> (status c = Pending \<and> amount c = rp_amount p)"
    and "status b = Pending" and "amount b = rp_amount p"
  shows "length (bids (reconcileBid r' p (reconcileBid r p s))) = Suc (length (bids s))"
proof -
  have row: "place_bid_row r p (bids s) = xs @ merge_bid b p # ys"
    unfolding assms(1) by (rule place_bid_row_pending) (use assms in auto)
  have "match_index p (bids (reconcileBid r p s)) < 0"
    unfolding match_index_none_iff set_bids_reconcile row
    using assms by (auto simp: merge_bid_def)
  then have "place_bid_row r' p (bids (reconcileBid r p s)) = new_bid r' p # bids (reconcileBid r p s)"
    by (simp add: place_bid_row_def Let_def)
  then show ?thesis by (simp add: bids_reconcile row [unfolded assms(1)] assms(1))
qed

end
