(* ===== verification/Http.thy ===== *)
theory Http
  imports Js_Format
begin

text \<open>
  Requests and answers as the client sees them: JSON bodies are kept as values, and an answer is
  a value that was read, an error status with what its body said, a body that does not parse, or
  a request that failed on the network. The server itself is not modelled: its answers are
  arguments of the operations.
\<close>

datatype json = JNull | JBool bool | JStr string | JNum jsnum | JArr "json list" | JObj "(string \<times> json) list"

record http_request =
  rq_method :: string
  rq_url :: string
  rq_headers :: "(string \<times> string) list"
  rq_body :: "json option"

text \<open>
  \<open>NotOk status err\<close>: the status is outside 200 to 299; \<open>err\<close> is the \<open>error\<close> field of the
  body, if the body is JSON and has one.
\<close>

datatype 'a reply = Ok 'a | NotOk int "string option" | BadBody string | NetworkError string

definition api_url :: "string option \<Rightarrow> string" where
  "api_url env = opt_str_or env ''http://localhost:8080''"

type_synonym storage = "string \<rightharpoonup> string"

definition bearer :: "string \<Rightarrow> string \<times> string" where
  "bearer token = (''Authorization'', ''Bearer '' @ token)"

definition json_content :: "string \<times> string" where
  "json_content = (''Content-Type'', ''application/json'')"

end
