(* ===== verification/Socket_Provider.thy ===== *)
theory Socket_Provider
  imports Auction_Slice Http
begin

text \<open>
  \<open>contexts/SocketContext.tsx\<close>: the provider that shares one socket per auction among the
  components that subscribe to it. Its state is the two \<open>Map\<close> refs, the socket objects it has
  made (numbered in the order of creation, because the closures of the source keep the object
  and not the registry entry), the ticket requests in flight and the reconnect timers. Every
  callback is one function; what the network and the socket library do is the order of the
  events. A socket records what the provider asked of it last (\<open>connect()\<close> or
  \<open>disconnect()\<close>), the ticket of its next handshake and the handlers attached to it.
\<close>

section \<open>State\<close>

datatype event_name = Ev_auction_init | Ev_bid_update | Ev_auction_closed | Ev_error | Ev_info

record sock =
  sk_auction :: string
  sk_user :: string
  sk_token :: string
  sk_ticket :: string
  sk_open :: bool
  sk_handlers :: "(event_name \<times> nat) list"

text \<open>A ticket request is the first one of a socket, or that of a reconnection.\<close>

datatype ticket_kind = Initial | Retry

record provider =
  objs :: "sock list"
  sockets :: "string \<rightharpoonup> nat"
  refCounts :: "string \<rightharpoonup> int"
  pv_isConnected :: bool
  tickets :: "(string \<times> nat \<times> ticket_kind) list"
  timers :: "(string \<times> nat) list"

definition provider_init :: provider where
  "provider_init = \<lparr>objs = [], sockets = Map.empty, refCounts = Map.empty, pv_isConnected = False,
     tickets = [], timers = []\<rparr>"

definition ref_count :: "provider \<Rightarrow> string \<Rightarrow> int" where
  "ref_count p a = (case refCounts p a of None \<Rightarrow> 0 | Some c \<Rightarrow> c)"

definition upd_sock :: "nat \<Rightarrow> (sock \<Rightarrow> sock) \<Rightarrow> provider \<Rightarrow> provider" where
  "upd_sock i f p = (if i < length (objs p) then p\<lparr>objs := (objs p)[i := f (objs p ! i)]\<rparr> else p)"

section \<open>Operations\<close>

text \<open>The address of the gateway, from the build's environment, and the request for a ticket.\<close>

definition gatewayUrl :: "string option \<Rightarrow> string option \<Rightarrow> string" where
  "gatewayUrl socket_env api_env = opt_str_or socket_env (api_url api_env)"

definition ticket_request :: "string \<Rightarrow> sock \<Rightarrow> http_request" where
  "ticket_request gateway sk = \<lparr>rq_method = ''POST'', rq_url = gateway @ ''/api/socket-ticket'',
     rq_headers = [bearer (sk_token sk), json_content],
     rq_body = Some (JObj [(''auction_id'', JStr (sk_auction sk))])\<rparr>"

text \<open>The identity a socket authenticates with: the server-side user id, else local storage.\<close>

definition socket_user :: "string option \<Rightarrow> (string \<rightharpoonup> string) \<Rightarrow> string" where
  "socket_user serverUserId storage = opt_str_or serverUserId (opt_str_or (storage ''userId'') [])"

definition subscribeToAuction ::
  "string option \<Rightarrow> (string \<rightharpoonup> string) \<Rightarrow> string \<Rightarrow> provider \<Rightarrow> provider" where
  "subscribeToAuction serverUserId storage a p =
     (let count = ref_count p a + 1;
          p = p\<lparr>refCounts := (refCounts p)(a \<mapsto> count)\<rparr>
      in if sockets p a \<noteq> None then p
         else let sk = \<lparr>sk_auction = a, sk_user = socket_user serverUserId storage,
                     sk_token = opt_str_or (storage ''token'') [], sk_ticket = [], sk_open = False,
                     sk_handlers = []\<rparr>;
                  i = length (objs p)
              in p\<lparr>objs := objs p @ [sk], sockets := (sockets p)(a \<mapsto> i),
                   tickets := tickets p @ [(a, i, Initial)]\<rparr>)"

definition unsubscribeFromAuction :: "string \<Rightarrow> provider \<Rightarrow> provider" where
  "unsubscribeFromAuction a p =
     (let count = (case refCounts p a of None \<Rightarrow> 1 | Some c \<Rightarrow> c) - 1;
          p = p\<lparr>refCounts := (refCounts p)(a \<mapsto> count)\<rparr>
      in if count > 0 then p
         else let p = (case sockets p a of None \<Rightarrow> p
                | Some i \<Rightarrow> (upd_sock i (sk_open_update (\<lambda>_. False)) p)\<lparr>sockets := (sockets p)(a := None)\<rparr>)
              in p\<lparr>refCounts := (refCounts p)(a := None)\<rparr>)"

text \<open>\<open>refreshTicket\<close> resolved with a ticket: the continuation that follows it.\<close>

definition connect_sock :: "nat \<Rightarrow> provider \<Rightarrow> provider" where
  "connect_sock i = upd_sock i (sk_open_update (\<lambda>_. True))"

definition ticket_resolved :: "nat \<Rightarrow> string \<Rightarrow> provider \<Rightarrow> provider" where
  "ticket_resolved k t p =
     (if k < length (tickets p) then
        (let (a, i, kind) = tickets p ! k;
             p = p\<lparr>tickets := take k (tickets p) @ drop (Suc k) (tickets p)\<rparr>;
             p = upd_sock i (sk_ticket_update (\<lambda>_. t)) p
         in case kind of
              Initial \<Rightarrow> if ref_count p a > 0 then connect_sock i p else p
            | Retry \<Rightarrow> connect_sock i p)
      else p)"

text \<open>The request failed, or was answered with an error status.\<close>

definition ticket_failed :: "nat \<Rightarrow> provider \<Rightarrow> provider" where
  "ticket_failed k p =
     (if k < length (tickets p) then
        (let (a, i, kind) = tickets p ! k;
             p = p\<lparr>tickets := take k (tickets p) @ drop (Suc k) (tickets p)\<rparr>
         in case kind of Initial \<Rightarrow> p\<lparr>sockets := (sockets p)(a := None)\<rparr> | Retry \<Rightarrow> p)
      else p)"

definition on_connect :: "nat \<Rightarrow> provider \<Rightarrow> provider" where
  "on_connect i p = p\<lparr>pv_isConnected := True\<rparr>"

definition on_disconnect :: "nat \<Rightarrow> string \<Rightarrow> provider \<Rightarrow> provider" where
  "on_disconnect i reason p =
     (let p = p\<lparr>pv_isConnected := False\<rparr>
      in if reason \<noteq> ''io client disconnect'' \<and> i < length (objs p)
         then p\<lparr>timers := timers p @ [(sk_auction (objs p ! i), i)]\<rparr> else p)"

definition timer_fires :: "nat \<Rightarrow> provider \<Rightarrow> provider" where
  "timer_fires k p =
     (if k < length (timers p) then
        (let (a, i) = timers p ! k;
             p = p\<lparr>timers := take k (timers p) @ drop (Suc k) (timers p)\<rparr>
         in if ref_count p a > 0 then p\<lparr>tickets := tickets p @ [(a, i, Retry)]\<rparr> else p)
      else p)"

definition provider_unmount :: "provider \<Rightarrow> provider" where
  "provider_unmount p =
     p\<lparr>objs := map (\<lambda>i. let sk = objs p ! i in
                 if sockets p (sk_auction sk) = Some i then sk\<lparr>sk_open := False\<rparr> else sk)
               [0..<length (objs p)],
       sockets := Map.empty, refCounts := Map.empty\<rparr>"

text \<open>
  \<open>onEvent\<close> attaches a handler to the socket that is registered now; the function it returns
  detaches it from the socket that is registered when it is called.
\<close>

definition onEvent :: "string \<Rightarrow> event_name \<Rightarrow> nat \<Rightarrow> provider \<Rightarrow> provider" where
  "onEvent a ev cb p = (case sockets p a of None \<Rightarrow> p
     | Some i \<Rightarrow> upd_sock i (sk_handlers_update (\<lambda>hs. hs @ [(ev, cb)])) p)"

definition offEvent :: "string \<Rightarrow> event_name \<Rightarrow> nat \<Rightarrow> provider \<Rightarrow> provider" where
  "offEvent a ev cb p = (case sockets p a of None \<Rightarrow> p
     | Some i \<Rightarrow> upd_sock i (sk_handlers_update (remove1 (ev, cb))) p)"

text \<open>
  \<open>emitEvent\<close>: the message goes out on the registered socket, if the library says it is
  connected; otherwise it is dropped.
\<close>

definition emitEvent :: "(nat \<Rightarrow> bool) \<Rightarrow> provider \<Rightarrow> string \<Rightarrow> 'm \<Rightarrow> (nat \<times> 'm) option" where
  "emitEvent is_up p a m = (case sockets p a of None \<Rightarrow> None
     | Some i \<Rightarrow> if is_up i then Some (i, m) else None)"

datatype provider_event =
    Subscribe string
  | Unsubscribe string
  | TicketResolved nat string
  | TicketFailed nat
  | SockConnect nat
  | SockConnectError nat
  | SockDisconnect nat string
  | TimerFires nat
  | OnEvent string event_name nat
  | OffEvent string event_name nat
  | Unmount

fun provider_step ::
  "string option \<Rightarrow> (string \<rightharpoonup> string) \<Rightarrow> provider_event \<Rightarrow> provider \<Rightarrow> provider" where
  "provider_step uid st (Subscribe a) p = subscribeToAuction uid st a p"
| "provider_step uid st (Unsubscribe a) p = unsubscribeFromAuction a p"
| "provider_step uid st (TicketResolved k t) p = ticket_resolved k t p"
| "provider_step uid st (TicketFailed k) p = ticket_failed k p"
| "provider_step uid st (SockConnect i) p = on_connect i p"
| "provider_step uid st (SockConnectError i) p = p"
| "provider_step uid st (SockDisconnect i r) p = on_disconnect i r p"
| "provider_step uid st (TimerFires k) p = timer_fires k p"
| "provider_step uid st (OnEvent a ev cb) p = onEvent a ev cb p"
| "provider_step uid st (OffEvent a ev cb) p = offEvent a ev cb p"
| "provider_step uid st Unmount p = provider_unmount p"

text \<open>What the two connection callbacks dispatch to the store.\<close>

fun provider_dispatches :: "provider_event \<Rightarrow> auction_action list" where
  "provider_dispatches (SockConnect i) = [SetConnectionStatus True]"
| "provider_dispatches (SockDisconnect i r) = [SetConnectionStatus False]"
| "provider_dispatches _ = []"

lemmas [socket_simps] = subscribeToAuction_def unsubscribeFromAuction_def ticket_resolved_def
  ticket_failed_def on_connect_def on_disconnect_def timer_fires_def onEvent_def offEvent_def
  provider_unmount_def connect_sock_def ref_count_def

section \<open>Registry invariant\<close>

lemma upd_sock_frame [simp]:
  "sockets (upd_sock i f p) = sockets p" "refCounts (upd_sock i f p) = refCounts p"
  "tickets (upd_sock i f p) = tickets p" "timers (upd_sock i f p) = timers p"
  "length (objs (upd_sock i f p)) = length (objs p)"
  "pv_isConnected (upd_sock i f p) = pv_isConnected p"
  by (simp_all add: upd_sock_def)

lemma upd_sock_nth:
  "j < length (objs p) \<Longrightarrow> objs (upd_sock i f p) ! j = (if i = j then f (objs p ! j) else objs p ! j)"
  by (auto simp: upd_sock_def)

text \<open>Entry \<open>i\<close> is a socket object that was made for auction \<open>a\<close>.\<close>

definition sock_for :: "sock list \<Rightarrow> string \<Rightarrow> nat \<Rightarrow> bool" where
  "sock_for os a i = (i < length os \<and> sk_auction (os ! i) = a)"

definition provider_inv :: "provider \<Rightarrow> bool" where
  "provider_inv p =
     ((\<forall>a c. refCounts p a = Some c \<longrightarrow> 1 \<le> c) \<and>
      (\<forall>a i. sockets p a = Some i \<longrightarrow> sock_for (objs p) a i \<and> refCounts p a \<noteq> None) \<and>
      (\<forall>(a, i, k) \<in> set (tickets p). sock_for (objs p) a i) \<and>
      (\<forall>(a, i) \<in> set (timers p). sock_for (objs p) a i))"

lemma sock_for_append: "sock_for os a i \<Longrightarrow> sock_for (os @ ys) a i"
  by (auto simp: sock_for_def nth_append)

lemma sock_for_last [simp]: "sock_for (os @ [sk]) a (length os) = (sk_auction sk = a)"
  by (auto simp: sock_for_def)

lemma sock_for_upd:
  "(\<And>sk. sk_auction (f sk) = sk_auction sk) \<Longrightarrow> sock_for (objs (upd_sock i f p)) a j = sock_for (objs p) a j"
  by (auto simp: sock_for_def upd_sock_nth)

lemma inv_upd_sock:
  "(\<And>sk. sk_auction (f sk) = sk_auction sk) \<Longrightarrow> provider_inv (upd_sock i f p) = provider_inv p"
  by (simp add: provider_inv_def sock_for_upd)

lemma set_drop_nth: "set (take k xs @ drop (Suc k) xs) \<subseteq> set xs"
  by (auto dest: in_set_takeD in_set_dropD)

lemma inv_drop_ticket: "provider_inv p \<Longrightarrow> provider_inv (p\<lparr>tickets := take k (tickets p) @ drop (Suc k) (tickets p)\<rparr>)"
  using set_drop_nth [of k "tickets p"] by (fastforce simp: provider_inv_def)

lemma inv_drop_timer: "provider_inv p \<Longrightarrow> provider_inv (p\<lparr>timers := take k (timers p) @ drop (Suc k) (timers p)\<rparr>)"
  using set_drop_nth [of k "timers p"] by (fastforce simp: provider_inv_def)

lemma inv_subscribe: "provider_inv p \<Longrightarrow> provider_inv (subscribeToAuction uid st a p)"
proof -
  assume inv: "provider_inv p"
  have "0 \<le> ref_count p a"
    using inv by (force simp: provider_inv_def ref_count_def split: option.splits)
  with inv show ?thesis
    by (fastforce simp: subscribeToAuction_def provider_inv_def Let_def sock_for_append)
qed

lemma inv_unsubscribe:
  assumes "provider_inv p"
  shows "provider_inv (unsubscribeFromAuction a p)"
proof (cases "sockets p a")
  case None
  with assms show ?thesis
    by (auto simp: unsubscribeFromAuction_def provider_inv_def Let_def)
next
  case (Some i)
  let ?q = "upd_sock i (sk_open_update (\<lambda>_. False)) p"
  have "provider_inv ?q" using assms by (simp add: inv_upd_sock)
  with assms Some show ?thesis
    by (auto simp: unsubscribeFromAuction_def provider_inv_def Let_def upd_sock_def)
qed

lemma inv_ticket_resolved: "provider_inv p \<Longrightarrow> provider_inv (ticket_resolved k t p)"
  using inv_drop_ticket [of p k]
  by (auto simp: ticket_resolved_def Let_def connect_sock_def inv_upd_sock split: prod.splits ticket_kind.splits)

lemma inv_ticket_failed: "provider_inv p \<Longrightarrow> provider_inv (ticket_failed k p)"
  using inv_drop_ticket [of p k]
  by (fastforce simp: ticket_failed_def Let_def provider_inv_def split: prod.splits ticket_kind.splits)

lemma inv_on_disconnect: "provider_inv p \<Longrightarrow> provider_inv (on_disconnect i r p)"
  by (auto simp: on_disconnect_def Let_def provider_inv_def sock_for_def)

lemma inv_timer_fires:
  assumes "provider_inv p"
  shows "provider_inv (timer_fires k p)"
proof (cases "k < length (timers p)")
  case True
  then have "timers p ! k \<in> set (timers p)" by simp
  with assms have "sock_for (objs p) (fst (timers p ! k)) (snd (timers p ! k))"
    by (fastforce simp: provider_inv_def)
  with inv_drop_timer [OF assms, of k] True show ?thesis
    by (auto simp: timer_fires_def Let_def provider_inv_def split: prod.splits)
qed (simp add: assms timer_fires_def)

lemma sock_for_unmount: "sock_for (objs (provider_unmount p)) a i = sock_for (objs p) a i"
  by (auto simp: provider_unmount_def sock_for_def Let_def)

lemma inv_unmount: "provider_inv p \<Longrightarrow> provider_inv (provider_unmount p)"
  unfolding provider_inv_def sock_for_unmount by (simp add: provider_unmount_def)

lemma inv_handlers:
  "provider_inv p \<Longrightarrow> provider_inv (onEvent a ev cb p)" "provider_inv p \<Longrightarrow> provider_inv (offEvent a ev cb p)"
  by (auto simp: onEvent_def offEvent_def inv_upd_sock split: option.splits)

lemma provider_step_inv: "provider_inv p \<Longrightarrow> provider_inv (provider_step uid st e p)"
  by (cases e)
    (simp_all add: inv_subscribe inv_unsubscribe inv_ticket_resolved inv_ticket_failed
      inv_on_disconnect inv_timer_fires inv_unmount inv_handlers,
     simp add: on_connect_def provider_inv_def)

interpretation prov: machine provider_init "provider_step uid st" provider_inv "\<lambda>_. True" for uid st
  by unfold_locales (simp_all add: provider_step_inv, simp add: provider_inv_def provider_init_def)

text \<open>
  (C27) In every history of subscriptions, ticket answers, connection events, timers and
  unmounts: a reference count that is stored is at least one, a registered socket is a socket of
  that auction and has a subscriber, and every request in flight and every timer refers to a
  socket of its auction.
\<close>

theorem provider_registry_sound:
  "provider_inv (fold (provider_step uid st) es provider_init)"
  by (rule prov.run_inv) simp

section \<open>Refinement: the registry counts subscribers\<close>

text \<open>The abstract provider is the number of subscribers each auction has.\<close>

definition subscribers :: "provider \<Rightarrow> string \<Rightarrow> nat" where
  "subscribers p a = nat (ref_count p a)"

fun count_step :: "provider_event \<Rightarrow> (string \<Rightarrow> nat) \<Rightarrow> string \<Rightarrow> nat" where
  "count_step (Subscribe a) n = n(a := Suc (n a))"
| "count_step (Unsubscribe a) n = n(a := n a - 1)"
| "count_step Unmount n = (\<lambda>_. 0)"
| "count_step _ n = n"

lemma ref_count_pos: "provider_inv p \<Longrightarrow> refCounts p a = Some c \<Longrightarrow> 1 \<le> c"
  by (simp add: provider_inv_def)

lemma refCounts_frame [simp]:
  "refCounts (ticket_resolved k t p) = refCounts p" "refCounts (ticket_failed k p) = refCounts p"
  "refCounts (on_connect i p) = refCounts p" "refCounts (on_disconnect i r p) = refCounts p"
  "refCounts (timer_fires k p) = refCounts p" "refCounts (onEvent a ev cb p) = refCounts p"
  "refCounts (offEvent a ev cb p) = refCounts p"
  by (auto simp: socket_simps Let_def split: prod.splits ticket_kind.splits option.splits)

lemma refCounts_subscribe: "refCounts (subscribeToAuction uid st a p) = (refCounts p)(a \<mapsto> ref_count p a + 1)"
  by (simp add: subscribeToAuction_def Let_def)

lemma refCounts_unsubscribe:
  assumes "provider_inv p"
  shows "refCounts (unsubscribeFromAuction a p) =
    (refCounts p)(a := if 1 < ref_count p a then Some (ref_count p a - 1) else None)"
  using ref_count_pos [OF assms, of a]
  by (auto simp: unsubscribeFromAuction_def Let_def ref_count_def split: option.splits)

lemma subscribers_step:
  assumes "provider_inv p"
  shows "subscribers (provider_step uid st e p) = count_step e (subscribers p)"
proof (cases e)
  case (Subscribe a)
  have "0 \<le> ref_count p a" using ref_count_pos [OF assms, of a] by (auto simp: ref_count_def split: option.splits)
  then show ?thesis unfolding Subscribe
    by (auto simp: subscribers_def ref_count_def refCounts_subscribe fun_eq_iff)
next
  case (Unsubscribe a)
  show ?thesis unfolding Unsubscribe
    by (auto simp: subscribers_def ref_count_def refCounts_unsubscribe [OF assms] fun_eq_iff split: option.splits)
qed (auto simp: subscribers_def ref_count_def fun_eq_iff, simp add: provider_unmount_def)

text \<open>
  (C30) The provider refines a plain count of subscribers: after any history, the stored
  reference count of an auction is what counting its subscriptions up and down (never below
  zero, and back to zero on unmount) gives, whatever the network did in between.
\<close>

theorem provider_refines_counting:
  "subscribers (fold (provider_step uid st) es provider_init) = fold count_step es (\<lambda>_. 0)"
proof (induction es rule: rev_induct)
  case Nil
  then show ?case by (simp add: subscribers_def ref_count_def provider_init_def fun_eq_iff)
next
  case (snoc e es)
  have "provider_inv (fold (provider_step uid st) es provider_init)" by (rule prov.run_inv) simp
  with snoc.IH show ?case by (simp add: subscribers_step)
qed

text \<open>
  Subscribing twice shares one socket: while an auction has a registered socket, another
  subscription makes no socket object and sends no ticket request.
\<close>

lemma subscribe_shares_socket:
  assumes "sockets p a = Some i"
  shows "objs (subscribeToAuction uid st a p) = objs p \<and>
    tickets (subscribeToAuction uid st a p) = tickets p \<and>
    sockets (subscribeToAuction uid st a p) = sockets p \<and>
    ref_count (subscribeToAuction uid st a p) a = ref_count p a + 1"
  using assms by (simp add: subscribeToAuction_def Let_def ref_count_def)

section \<open>Connecting\<close>

text \<open>
  The last unsubscription asks the registered socket to disconnect, takes it out of the
  registry and forgets the count; an earlier one only lowers the count.
\<close>

lemma unsubscribe_last:
  assumes "provider_inv p" and "sockets p a = Some i"
  shows "if subscribers p a = 1
    then sockets (unsubscribeFromAuction a p) a = None \<and> refCounts (unsubscribeFromAuction a p) a = None \<and>
         \<not> sk_open (objs (unsubscribeFromAuction a p) ! i)
    else sockets (unsubscribeFromAuction a p) = sockets p \<and> objs (unsubscribeFromAuction a p) = objs p \<and>
         subscribers (unsubscribeFromAuction a p) a = subscribers p a - 1"
proof -
  have "refCounts p a \<noteq> None" using assms unfolding provider_inv_def by blast
  then obtain c where c: "refCounts p a = Some c" "1 \<le> c"
    using ref_count_pos [OF assms(1)] by blast
  have i: "i < length (objs p)" using assms by (simp add: provider_inv_def sock_for_def)
  show ?thesis
  proof (cases "c = 1")
    case True
    then show ?thesis using c assms(2) i
      by (simp add: subscribers_def ref_count_def unsubscribeFromAuction_def Let_def upd_sock_def)
  next
    case False
    then have "nat c \<noteq> 1" "nat (c - 1) = nat c - 1" using c by linarith+
    with False show ?thesis using c
      by (simp add: subscribers_def ref_count_def unsubscribeFromAuction_def Let_def)
  qed
qed

lemma sk_open_upd_ticket: "map sk_open (objs (upd_sock i (sk_ticket_update f) p)) = map sk_open (objs p)"
  by (rule nth_equalityI) (simp_all add: upd_sock_nth)

text \<open>
  A socket is first connected only for an auction that still has a subscriber when its
  ticket arrives; with none left, the answer changes no connection.
\<close>

lemma initial_ticket_guarded:
  assumes "k < length (tickets p)" and "tickets p ! k = (a, i, Initial)" and "ref_count p a \<le> 0"
  shows "map sk_open (objs (ticket_resolved k t p)) = map sk_open (objs p)"
  using assms by (simp add: ticket_resolved_def ref_count_def sk_open_upd_ticket)

section \<open>Sockets that outlive their subscribers\<close>

text \<open>The connections that the provider has asked for and not closed.\<close>

definition open_socks :: "provider \<Rightarrow> nat list" where
  "open_socks p = filter (\<lambda>i. sk_open (objs p ! i)) [0..<length (objs p)]"

text \<open>A component that is mounted, unmounted and mounted again before its first ticket arrives.\<close>

definition remount_run :: "string \<Rightarrow> provider_event list" where
  "remount_run a = [Subscribe a, Unsubscribe a, Subscribe a]"

lemma remount_eq:
  "fold (provider_step uid st) (remount_run a @ [TicketResolved 0 t, TicketResolved 0 t']) provider_init =
   (let sk = \<lparr>sk_auction = a, sk_user = socket_user uid st, sk_token = opt_str_or (st ''token'') [],
              sk_ticket = t, sk_open = True, sk_handlers = []\<rparr>
    in \<lparr>objs = [sk, sk\<lparr>sk_ticket := t'\<rparr>], sockets = [a \<mapsto> 1], refCounts = [a \<mapsto> 1], pv_isConnected = False,
        tickets = [], timers = []\<rparr>)"
  by (simp add: remount_run_def socket_simps provider_init_def Let_def upd_sock_def nth_append)

text \<open>
  Remounting before the first ticket arrives leaves two sockets behind: the count is
  positive again when the ticket of the first socket arrives, so that socket connects although
  the registry has replaced it, and neither the last unsubscription nor the unmount of the
  provider closes it.
\<close>

lemma remount_leaks_socket:
  "open_socks (fold (provider_step uid st)
     (remount_run a @ [TicketResolved 0 t, TicketResolved 0 t']) provider_init) = [0, 1] \<and>
   open_socks (fold (provider_step uid st)
     (remount_run a @ [TicketResolved 0 t, TicketResolved 0 t', Unsubscribe a, Unmount]) provider_init) = [0] \<and>
   subscribers (fold (provider_step uid st)
     (remount_run a @ [TicketResolved 0 t, TicketResolved 0 t', Unsubscribe a, Unmount]) provider_init) a = 0"
proof -
  let ?es = "remount_run a @ [TicketResolved 0 t, TicketResolved 0 t']"
  let ?q = "fold (provider_step uid st) ?es provider_init"
  have split: "fold (provider_step uid st)
      (remount_run a @ [TicketResolved 0 t, TicketResolved 0 t', Unsubscribe a, Unmount]) provider_init =
    provider_unmount (unsubscribeFromAuction a ?q)" by simp
  show ?thesis unfolding split unfolding remount_eq
    by (simp add: open_socks_def unsubscribeFromAuction_def provider_unmount_def Let_def upd_sock_def
        subscribers_def ref_count_def)
qed

text \<open>
  The failure of a first ticket takes whatever socket is registered for the auction out of
  the registry: after a remount, the failure of the abandoned request removes the live socket of
  a subscriber that is still counted.
\<close>

lemma stale_ticket_failure_unregisters:
  "sockets (fold (provider_step uid st) (remount_run a @ [TicketFailed 0]) provider_init) a = None \<and>
   subscribers (fold (provider_step uid st) (remount_run a @ [TicketFailed 0]) provider_init) a = 1 \<and>
   tickets (fold (provider_step uid st) (remount_run a @ [TicketFailed 0]) provider_init) = [(a, 1, Initial)]"
  by (simp add: remount_run_def socket_simps provider_init_def Let_def upd_sock_def subscribers_def)

end
