(* ===== verification/Auction_Socket.thy ===== *)
theory Auction_Socket
  imports Socket_Provider
begin

text \<open>
  \<open>hooks/useAuctionSocket.ts\<close>: the hook that subscribes a component to an auction and turns the
  events of the server into actions of the auction slice. Its payload types are those of
  \<open>SocketContext.tsx\<close>; a field or an array element that the hook tests for absence is an
  option. The effect and its cleanup are the two functions \<open>hook_mount\<close> and \<open>hook_unmount\<close>
  over the provider's state; a handler is named by the event and the number of the effect run
  that made it.
\<close>

section \<open>Payloads\<close>

record bid_request =
  br_auction_id :: string
  br_bidder_id :: string
  br_username :: "string option"
  br_amount :: rat
  br_timestamp :: int

record bid_event =
  be_bid :: "bid_request option"
  be_is_executed :: bool

record auction_init =
  ai_auction_id :: string
  ai_auction_type :: "auction_type option"
  ai_minimum_bid_step :: "rat option"
  ai_leading_bids :: "bid_event option list option"
  ai_lowest_bids :: "bid_event option list option"
  ai_recent_events :: "bid_event option list option"
  ai_start_time :: int
  ai_end_time :: int
  ai_initial_price :: "rat option"
  ai_initial_lowest :: "rat option"
  ai_is_participant :: bool

record auction_closed =
  ac_event :: string
  ac_data :: "bid_request option"

datatype server_event =
    AuctionInit auction_init
  | BidUpdate bid_event
  | AuctionClosed auction_closed
  | ServerError string
  | ServerInfo string

section \<open>Handlers\<close>

text \<open>\<open>bidder_id + timestamp\<close>, the concatenation of a string and a number.\<close>

definition event_id :: "bid_request \<Rightarrow> string" where
  "event_id b = br_bidder_id b @ int_str (br_timestamp b)"

definition reconcile_of :: "bool \<Rightarrow> bid_request \<Rightarrow> reconcile_payload" where
  "reconcile_of executed b = \<lparr>rp_id = Some (event_id b),
     rp_status = (if executed then Confirmed else Rejected), rp_amount = br_amount b,
     rp_bidder = opt_str_or (br_username b) (br_bidder_id b), rp_timestamp = br_timestamp b\<rparr>"

text \<open>\<open>filter(item => item && item.bid)\<close>, then the payload of each item.\<close>

definition item_payload :: "bid_event option \<Rightarrow> reconcile_payload option" where
  "item_payload it = (case it of None \<Rightarrow> None | Some e \<Rightarrow>
     (case be_bid e of None \<Rightarrow> None | Some b \<Rightarrow> Some (reconcile_of (be_is_executed e) b)))"

definition item_payloads :: "bid_event option list option \<Rightarrow> reconcile_payload list" where
  "item_payloads its = (case its of None \<Rightarrow> [] | Some xs \<Rightarrow> List.map_filter item_payload xs)"

definition step_or_one :: "rat option \<Rightarrow> rat" where
  "step_or_one x = (case x of None \<Rightarrow> 1 | Some r \<Rightarrow> if r = 0 then 1 else r)"

definition init_of :: "auction_init \<Rightarrow> init_payload" where
  "init_of e = \<lparr>ip_auctionId = ai_auction_id e,
     ip_auctionType = (case ai_auction_type e of None \<Rightarrow> REVERSE | Some t \<Rightarrow> t),
     ip_minimumBidStep = step_or_one (ai_minimum_bid_step e),
     ip_startTime = ai_start_time e, ip_endTime = ai_end_time e,
     ip_initialPrice = nullish (ai_initial_price e) (ai_initial_lowest e),
     ip_isParticipant = ai_is_participant e\<rparr>"

text \<open>
  The actions the \<open>auction_init\<close> handler dispatches, in order. \<open>clock\<close> is \<open>Date.now()\<close> and
  \<open>r\<close> the random suffix of the reducer, which an event with an id never uses.
\<close>

definition onAuctionInit :: "int \<Rightarrow> string \<Rightarrow> auction_init \<Rightarrow> auction_action list" where
  "onAuctionInit clock r e =
     InitAuction clock (init_of e)
     # map (ReconcileBid r) (item_payloads (ai_recent_events e))
     @ map (ReconcileBid r) (item_payloads (nullish (ai_leading_bids e) (ai_lowest_bids e)))"

text \<open>\<open>bid_update\<close> reads \<open>bidEvent.bid\<close> without a test: an event with no bid raises.\<close>

definition onBidUpdate :: "string \<Rightarrow> bid_event \<Rightarrow> auction_action list option" where
  "onBidUpdate r e = map_option (\<lambda>b. [ReconcileBid r (reconcile_of (be_is_executed e) b)]) (be_bid e)"

text \<open>The other three handlers only write to the console.\<close>

fun handle :: "int \<Rightarrow> string \<Rightarrow> server_event \<Rightarrow> auction_action list option" where
  "handle clock r (AuctionInit e) = Some (onAuctionInit clock r e)"
| "handle clock r (BidUpdate e) = onBidUpdate r e"
| "handle clock r (AuctionClosed _) = Some []"
| "handle clock r (ServerError _) = Some []"
| "handle clock r (ServerInfo _) = Some []"

text \<open>One event delivered to one instance of the hook; a handler that raises dispatches nothing.\<close>

definition deliver :: "int \<Rightarrow> string \<Rightarrow> server_event \<Rightarrow> auction_state \<Rightarrow> auction_state" where
  "deliver clock r e s = (case handle clock r e of None \<Rightarrow> s | Some as \<Rightarrow> fold auctionReducer as s)"

section \<open>The effect\<close>

definition hook_events :: "event_name list" where
  "hook_events = [Ev_auction_init, Ev_bid_update, Ev_auction_closed, Ev_error, Ev_info]"

definition hook_mount ::
  "string option \<Rightarrow> (string \<rightharpoonup> string) \<Rightarrow> string \<Rightarrow> nat \<Rightarrow> provider \<Rightarrow> provider" where
  "hook_mount uid st a h p =
     (if a = [] then p
      else fold (\<lambda>ev. onEvent a ev h) hook_events (subscribeToAuction uid st a p))"

definition hook_unmount :: "string \<Rightarrow> nat \<Rightarrow> provider \<Rightarrow> provider" where
  "hook_unmount a h p =
     (if a = [] then p
      else unsubscribeFromAuction a (fold (\<lambda>ev. offEvent a ev h) hook_events p))"

section \<open>Event ids\<close>

lemma int_str_inj: "int_str i = int_str j \<Longrightarrow> i = j"
proof -
  assume eq: "int_str i = int_str j"
  have hd: "hd (nat_str n) \<noteq> CHR ''-''" for n
    using nat_str_digits [of n] nat_str_not_Nil [of n] by (cases "nat_str n") (auto simp: is_digit_def)
  have "nat_str m = nat_str n \<Longrightarrow> m = n" for m n by (metis digits_val_nat_str)
  moreover have "(i < 0) = (j < 0)"
    using eq hd [of "nat i"] hd [of "nat j"] by (auto simp: int_str_def split: if_splits) (metis list.sel(1))+
  ultimately show "i = j" using eq by (fastforce simp: int_str_def split: if_splits)
qed

lemma event_id_ne [simp]: "event_id b \<noteq> []"
  by (simp add: event_id_def int_str_def)

text \<open>
  The pseudo-unique id of an event identifies the bidder and the time among bidders whose
  ids have the same length, as the server's UUIDs do.
\<close>

lemma event_id_inj:
  assumes "length (br_bidder_id b) = length (br_bidder_id c)" and "event_id b = event_id c"
  shows "br_bidder_id b = br_bidder_id c \<and> br_timestamp b = br_timestamp c"
  using assms int_str_inj by (auto simp: event_id_def)

section \<open>What a reload shows\<close>

definition id_keyed :: "reconcile_payload \<Rightarrow> bool" where
  "id_keyed p = (rp_id p \<noteq> None \<and> rp_id p \<noteq> Some [] \<and> rp_status p \<noteq> Pending)"

lemma id_keyed_of [simp]: "id_keyed (reconcile_of x b)"
  by (simp add: id_keyed_def reconcile_of_def)

lemma id_keyed_items: "p \<in> set (item_payloads its) \<Longrightarrow> id_keyed p"
  by (auto simp: item_payloads_def item_payload_def map_filter_def split: option.splits)

text \<open>The rows of a store that only events with ids have written.\<close>

definition rows_ok :: "string set \<Rightarrow> bid list \<Rightarrow> bool" where
  "rows_ok I bs = (distinct (map bid_id bs) \<and> bid_id ` set bs = I \<and> (\<forall>b \<in> set bs. status b \<noteq> Pending))"

lemma rows_ok_place:
  assumes "rows_ok I bs" and "id_keyed p"
  shows "rows_ok (insert (the (rp_id p)) I) (place_bid_row r p bs)"
proof -
  from assms(2) obtain i where i: "rp_id p = Some i" "i \<noteq> []" "rp_status p \<noteq> Pending"
    by (auto simp: id_keyed_def)
  have nopend: "find_index (\<lambda>b. status b = Pending \<and> amount b = rp_amount p) bs = -1"
    using assms(1) by (auto simp: rows_ok_def find_index_none_iff)
  let ?k = "find_index (\<lambda>b. Some (bid_id b) = rp_id p) bs"
  have k: "match_index p bs = ?k"
    using nopend i by (simp add: match_index_def str_truthy_def Let_def)
  show ?thesis
  proof (cases "?k = -1")
    case True
    then have "i \<notin> bid_id ` set bs" using i by (auto simp: find_index_none_iff)
    then show ?thesis using assms(1) i k True
      by (auto simp: place_bid_row_def rows_ok_def new_bid_def opt_str_or_def str_or_def)
  next
    case False
    let ?n = "nat ?k"
    have n: "?n < length bs" "bid_id (bs ! ?n) = i" "0 \<le> ?k"
      using find_index_bound [OF False] find_index_hit [OF False] i by auto
    let ?bs = "bs[?n := merge_bid (bs ! ?n) p]"
    have ids: "map bid_id ?bs = map bid_id bs"
      using n by (simp add: map_update merge_bid_def) (metis list_update_id nth_map)
    have "\<forall>b \<in> set ?bs. status b \<noteq> Pending"
      using assms(1) i(3) set_update_subset_insert [of bs ?n "merge_bid (bs ! ?n) p"]
      by (auto simp: rows_ok_def merge_bid_def)
    moreover have "bid_id ` set ?bs = bid_id ` set bs" using ids by (metis list.set_map)
    moreover have "i \<in> I" using n assms(1) by (force simp: rows_ok_def)
    ultimately show ?thesis using assms(1) n k ids i
      by (simp add: place_bid_row_def Let_def rows_ok_def insert_absorb)
  qed
qed

lemma rows_ok_sort: "rows_ok I (sort_key f bs) = rows_ok I bs"
proof -
  have "distinct (map bid_id (sort_key f bs)) = distinct (map bid_id bs)"
    by (metis mset_map mset_sort mset_eq_imp_distinct_iff)
  then show ?thesis by (simp add: rows_ok_def)
qed

lemma rows_ok_reconcile:
  "rows_ok I (bids s) \<Longrightarrow> id_keyed p \<Longrightarrow> rows_ok (insert (the (rp_id p)) I) (bids (reconcileBid r p s))"
  by (simp add: bids_reconcile rows_ok_sort rows_ok_place)

lemma rows_ok_fold:
  "rows_ok I (bids s) \<Longrightarrow> \<forall>p \<in> set ps. id_keyed p \<Longrightarrow>
   rows_ok ((the \<circ> rp_id) ` set ps \<union> I) (bids (fold auctionReducer (map (ReconcileBid r) ps) s))"
proof (induction ps arbitrary: I s)
  case (Cons p ps)
  have "rows_ok (insert (the (rp_id p)) I) (bids (reconcileBid r p s))"
    using Cons.prems by (simp add: rows_ok_reconcile)
  from Cons.IH [OF this] Cons.prems(2) show ?case by simp
qed simp

text \<open>
  A reload is complete and has no duplicates: whatever the store held, after an
  \<open>auction_init\<close> event the ledger has exactly one row for each id among the valid recent and
  leading events, and no optimistic row is left.
\<close>

lemma auction_init_rows:
  "rows_ok ((the \<circ> rp_id) ` set (item_payloads (ai_recent_events e) @
       item_payloads (nullish (ai_leading_bids e) (ai_lowest_bids e))))
     (bids (deliver clock r (AuctionInit e) s))"
proof -
  let ?ps = "item_payloads (ai_recent_events e) @ item_payloads (nullish (ai_leading_bids e) (ai_lowest_bids e))"
  have "rows_ok {} (bids (initAuction clock (init_of e) s))"
    by (simp add: rows_ok_def initAuction_def Let_def)
  moreover have "\<forall>p \<in> set ?ps. id_keyed p" using id_keyed_items by auto
  ultimately have "rows_ok ((the \<circ> rp_id) ` set ?ps \<union> {})
    (bids (fold auctionReducer (map (ReconcileBid r) ?ps) (initAuction clock (init_of e) s)))"
    by (rule rows_ok_fold)
  then show ?thesis by (simp add: deliver_def onAuctionInit_def)
qed

section \<open>Mounting and unmounting\<close>

lemma upd_sock_same: "f (objs p ! i) = objs p ! i \<Longrightarrow> upd_sock i f p = p"
  by (cases p) (simp add: upd_sock_def)

lemma upd_sock_comp: "upd_sock i f (upd_sock i g p) = upd_sock i (f \<circ> g) p"
  by (simp add: upd_sock_def)

lemma handlers_same [simp]: "sk_handlers_update (\<lambda>hs. hs) sk = sk"
  by (cases sk) simp

lemma fold_onEvent:
  "sockets p a = Some i \<Longrightarrow>
   fold (\<lambda>ev. onEvent a ev h) evs p = upd_sock i (sk_handlers_update (\<lambda>hs. hs @ map (\<lambda>ev. (ev, h)) evs)) p"
proof (induction evs arbitrary: p)
  case Nil
  then show ?case by (simp add: upd_sock_same)
next
  case (Cons ev evs)
  then show ?case by (simp add: onEvent_def) (simp add: upd_sock_def comp_def)
qed

lemma fold_offEvent:
  "sockets p a = Some i \<Longrightarrow>
   fold (\<lambda>ev. offEvent a ev h) evs p =
   upd_sock i (sk_handlers_update (\<lambda>hs. fold (\<lambda>ev. remove1 (ev, h)) evs hs)) p"
proof (induction evs arbitrary: p)
  case Nil
  then show ?case by (simp add: upd_sock_same)
next
  case (Cons ev evs)
  then show ?case by (simp add: offEvent_def) (simp add: upd_sock_def comp_def)
qed

lemma subscribe_registers: "\<exists>i. sockets (subscribeToAuction uid st a p) a = Some i"
  by (auto simp: subscribeToAuction_def Let_def)

text \<open>
  After the hook is mounted, the registered socket of the auction has one handler of this
  hook for each of the five events, also when the subscription has just made the socket.
\<close>

lemma hook_mount_attaches:
  assumes "provider_inv p" and "a \<noteq> []"
  shows "\<exists>i hs. sockets (hook_mount uid st a h p) a = Some i \<and>
    sk_handlers (objs (hook_mount uid st a h p) ! i) = hs @ map (\<lambda>ev. (ev, h)) hook_events"
proof -
  let ?p = "subscribeToAuction uid st a p"
  obtain i where i: "sockets ?p a = Some i" using subscribe_registers by blast
  have "i < length (objs ?p)"
    using inv_subscribe [OF assms(1), of uid st a] i unfolding provider_inv_def sock_for_def by blast
  with i show ?thesis using assms(2)
    by (simp add: hook_mount_def fold_onEvent upd_sock_nth)
qed

lemma remove_hook_handlers:
  "(\<forall>ev. (ev, h) \<notin> set hs) \<Longrightarrow>
   fold (\<lambda>ev. remove1 (ev, h)) hook_events (hs @ map (\<lambda>ev. (ev, h)) hook_events) = hs"
  by (simp add: hook_events_def remove1_append)

text \<open>
  A second component that mounts the hook on an auction with a live socket and unmounts
  again leaves the provider as it was: same sockets, same handlers, same counts, no request.
\<close>

lemma hook_roundtrip:
  assumes "provider_inv p" and "sockets p a = Some i" and "a \<noteq> []"
    and "\<forall>ev. (ev, h) \<notin> set (sk_handlers (objs p ! i))"
  shows "hook_unmount a h (hook_mount uid st a h p) = p"
proof -
  have "refCounts p a \<noteq> None" using assms unfolding provider_inv_def by blast
  then obtain c where c: "refCounts p a = Some c" "1 \<le> c"
    using ref_count_pos [OF assms(1)] by blast
  have i: "i < length (objs p)" using assms by (simp add: provider_inv_def sock_for_def)
  let ?q = "p\<lparr>refCounts := (refCounts p)(a \<mapsto> c + 1)\<rparr>"
  have q: "subscribeToAuction uid st a p = ?q"
    using assms(2) c by (simp add: subscribeToAuction_def Let_def ref_count_def)
  have m: "hook_mount uid st a h p =
    upd_sock i (sk_handlers_update (\<lambda>hs. hs @ map (\<lambda>ev. (ev, h)) hook_events)) ?q"
    using assms(2,3) by (simp add: hook_mount_def q fold_onEvent)
  have "fold (\<lambda>ev. offEvent a ev h) hook_events (hook_mount uid st a h p) = ?q"
    unfolding m using assms(2,4)
    by (simp add: fold_offEvent upd_sock_comp) (rule upd_sock_same, cases "objs p ! i", simp add: remove_hook_handlers)
  then show ?thesis using assms(3) c
    by (simp add: hook_unmount_def unsubscribeFromAuction_def Let_def map_upd_triv)
qed

end
