(* ===== verification/Jsx.thy ===== *)
theory Jsx
  imports Js_Format
begin

text \<open>
  Rendered components. A JSX expression is a tree of texts and elements; an element has a tag
  or component name, attributes, and children. Attributes that only style or animate
  (\<open>className\<close>, \<open>style\<close>, \<open>initial\<close>, \<open>transition\<close>, the size of an icon) are left out, except that a class the
  code computes from a condition is a flag named after that condition; attributes
  that carry content or behaviour are kept. An event handler is a function from the value of the event's
  target to an action of the component. A component that is modelled on its own appears inside
  another as an element with its name.
\<close>

datatype 'a attr = Attr string string | Flag string bool | On string "string \<Rightarrow> 'a"

datatype 'a jsx = Txt string | El string "'a attr list" "'a jsx list"

text \<open>\<open>{c && x}\<close> and the optional attribute.\<close>

definition only_if :: "bool \<Rightarrow> 'b list \<Rightarrow> 'b list" where
  "only_if c xs = (if c then xs else [])"

fun text_content :: "'a jsx \<Rightarrow> string" where
  "text_content (Txt s) = s"
| "text_content (El n as cs) = concat (map text_content cs)"

fun texts :: "'a jsx \<Rightarrow> string list" where
  "texts (Txt s) = [s]"
| "texts (El n as cs) = concat (map texts cs)"

fun elements :: "string \<Rightarrow> 'a jsx \<Rightarrow> 'a jsx list" where
  "elements m (Txt s) = []"
| "elements m (El n as cs) = only_if (m = n) [El n as cs] @ concat (map (elements m) cs)"

text \<open>The handlers of an event on elements that are not disabled.\<close>

fun handler_of :: "string \<Rightarrow> 'a attr \<Rightarrow> (string \<Rightarrow> 'a) list" where
  "handler_of ev (On n h) = only_if (ev = n) [h]"
| "handler_of ev _ = []"

definition is_disabled :: "'a attr list \<Rightarrow> bool" where
  "is_disabled as = (Flag ''disabled'' True \<in> set as)"

fun triggers :: "string \<Rightarrow> 'a jsx \<Rightarrow> (string \<Rightarrow> 'a) list" where
  "triggers ev (Txt s) = []"
| "triggers ev (El n as cs) =
     (if is_disabled as then [] else concat (map (handler_of ev) as)) @ concat (map (triggers ev) cs)"

definition onClick :: "'a \<Rightarrow> 'a attr" where
  "onClick a = On ''onClick'' (\<lambda>_. a)"

lemmas [view_simps] = only_if_def is_disabled_def onClick_def

text \<open>The characters outside ASCII that the components write, in UTF-8.\<close>

definition u_ellipsis :: string where "u_ellipsis = [CHR 0xE2, CHR 0x80, CHR 0xA6]"
definition u_middot :: string where "u_middot = [CHR 0xC2, CHR 0xB7]"
definition u_le :: string where "u_le = [CHR 0xE2, CHR 0x89, CHR 0xA4]"
definition u_ge :: string where "u_ge = [CHR 0xE2, CHR 0x89, CHR 0xA5]"

end
