(* ===== verification/Toast_View.thy ===== *)
theory Toast_View
  imports Jsx
begin

text \<open>
  \<open>components/Toast.tsx\<close>: the message the pages show, its icon and its dismissal. \<open>toast_timer\<close>
  is the effect: a message that is not empty arms one timer, which calls \<open>onClose\<close>.
\<close>

datatype toast_type = ToastSuccess | ToastError | ToastInfo

record toast =
  to_message :: string
  to_type :: toast_type

definition toast_timer :: "string \<Rightarrow> int option \<Rightarrow> int option" where
  "toast_timer message duration =
     (if message \<noteq> [] then Some (case duration of None \<Rightarrow> 5000 | Some d \<Rightarrow> d) else None)"

definition Toast :: "string \<Rightarrow> toast_type option \<Rightarrow> 'a \<Rightarrow> 'a jsx" where
  "Toast message ty on_close =
     (let ty = (case ty of None \<Rightarrow> ToastInfo | Some t \<Rightarrow> t) in
      El ''AnimatePresence'' [] (only_if (message \<noteq> []) [
        El ''motion.div'' [Flag ''error'' (ty = ToastError), Flag ''success'' (ty = ToastSuccess)] (
          only_if (ty = ToastError) [El ''XCircle'' [] []] @
          only_if (ty = ToastSuccess) [El ''CheckCircle2'' [] []] @
          only_if (ty = ToastInfo) [El ''Info'' [] []] @ [
          El ''p'' [] [Txt message],
          El ''button'' [onClick on_close] [El ''X'' [] []]])]))"

lemma Toast_triggers:
  "triggers ev (Toast m ty c) = (if m \<noteq> [] \<and> ev = ''onClick'' then [\<lambda>_. c] else [])"
  by (auto simp: Toast_def Let_def view_simps)

lemma Toast_elements:
  "n \<notin> {''AnimatePresence'', ''motion.div'', ''XCircle'', ''CheckCircle2'', ''Info'', ''p'', ''button'', ''X''} \<Longrightarrow>
     elements n (Toast m ty c) = []"
  by (auto simp: Toast_def Let_def view_simps)

end
