(* ===== verification/Bidding_Console.thy ===== *)
theory Bidding_Console
  imports Auction_Socket Toast_View
begin

text \<open>
  \<open>components/auction/BiddingConsole.tsx\<close>: the form that places bids. Its state is the text of
  the amount field and the message shown; the auction is the store's. Amounts are read and
  computed as the doubles of \<open>Js_Number\<close>, printed and parsed by \<open>Js_Format\<close>. The price in
  the reader's locale (\<open>toLocaleString\<close>) is the parameter \<open>fmt\<close>.
\<close>

section \<open>State and operations\<close>

record console =
  bidAmount :: string
  cs_toast :: "toast option"

definition console_init :: console where
  "console_init = \<lparr>bidAmount = [], cs_toast = None\<rparr>"

definition you :: string where
  "you = ''You (Optimistic)''"

definition latest :: "auction_state \<Rightarrow> bid option" where
  "latest s = List.find (\<lambda>b. bidder b = you) (bids s)"

text \<open>The literal \<open>0.01\<close>.\<close>

definition min_amount :: jsnum where
  "min_amount = fl (1 / 100)"

definition nextValid :: "auction_state \<Rightarrow> jsnum option" where
  "nextValid s =
     (case currentPrice s of None \<Rightarrow> None
      | Some p \<Rightarrow> Some (case auctionType s of
            REVERSE \<Rightarrow> js_max min_amount (js_sub p (minimumBidStep s))
          | FORWARD \<Rightarrow> js_add p (minimumBidStep s)))"

definition canBid :: "auction_state \<Rightarrow> bool" where
  "canBid s = (auctionStatus s = Active \<and> isConnected s \<and> isParticipant s)"

text \<open>The \<open>error\<close> event: a text, or an object, for which a fixed message stands.\<close>

definition on_error :: "string option \<Rightarrow> console \<Rightarrow> console" where
  "on_error v c = c\<lparr>cs_toast := Some \<lparr>to_message =
     (case v of Some m \<Rightarrow> m | None \<Rightarrow> ''The bid could not be processed.''), to_type = ToastError\<rparr>\<rparr>"

fun num_plus :: "jsnum \<Rightarrow> rat \<Rightarrow> jsnum" where
  "num_plus (Fin a) b = js_add a b"
| "num_plus n b = n"

definition adjust_base :: "auction_state \<Rightarrow> console \<Rightarrow> jsnum" where
  "adjust_base s c =
     (let n = num_of_str (bidAmount c) in
      if num_truthy n then n
      else case nextValid s of
             Some v \<Rightarrow> if num_truthy v then v else Fin (minimumBidStep s)
           | None \<Rightarrow> Fin (minimumBidStep s))"

definition adjust :: "int \<Rightarrow> auction_state \<Rightarrow> console \<Rightarrow> console" where
  "adjust direction s c =
     c\<lparr>bidAmount := to_fixed2 (js_max min_amount
          (num_plus (adjust_base s c) (of_int direction * minimumBidStep s)))\<rparr>"

text \<open>
  What \<open>submit\<close> reads of the browser: a fresh id, the clock at the two calls of
  \<open>Date.now()\<close>, local storage.
\<close>

record submit_env =
  se_uuid :: string
  se_now1 :: int
  se_now2 :: int
  se_storage :: "string \<rightharpoonup> string"

text \<open>The component's new state, the dispatched actions, and the message emitted.\<close>

record submitted =
  su_console :: console
  su_actions :: "auction_action list"
  su_emit :: "(string \<times> bid_request) option"

definition out_of_range :: "auction_state \<Rightarrow> jsnum \<Rightarrow> jsnum \<Rightarrow> bool" where
  "out_of_range s amt v = (case auctionType s of REVERSE \<Rightarrow> js_lt v amt | FORWARD \<Rightarrow> js_lt amt v)"

definition beyond_limit :: "auction_state \<Rightarrow> jsnum \<Rightarrow> bool" where
  "beyond_limit s amt = (case nextValid s of None \<Rightarrow> False | Some v \<Rightarrow> out_of_range s amt v)"

definition fail_submit :: "string \<Rightarrow> console \<Rightarrow> submitted" where
  "fail_submit m c = \<lparr>su_console = c\<lparr>cs_toast := Some \<lparr>to_message = m, to_type = ToastError\<rparr>\<rparr>,
     su_actions = [], su_emit = None\<rparr>"

definition place_bid :: "submit_env \<Rightarrow> string \<Rightarrow> rat \<Rightarrow> bid_request" where
  "place_bid env a r = \<lparr>br_auction_id = a,
     br_bidder_id = opt_str_or (se_storage env ''userId'') ''AnonymousUser'',
     br_username = (if str_truthy (se_storage env ''userName'') then se_storage env ''userName'' else None),
     br_amount = r, br_timestamp = se_now2 env\<rparr>"

definition range_message :: "auction_state \<Rightarrow> jsnum \<Rightarrow> string" where
  "range_message s v = ''Your bid must be '' @
     (case auctionType s of REVERSE \<Rightarrow> ''at most'' | FORWARD \<Rightarrow> ''at least'') @ '' $'' @ to_fixed2 v @ ''.''"

definition submit :: "submit_env \<Rightarrow> auction_state \<Rightarrow> console \<Rightarrow> submitted" where
  "submit env s c =
     (if \<not> canBid s \<or> \<not> str_truthy (auctionId s)
      then \<lparr>su_console = c, su_actions = [], su_emit = None\<rparr>
      else case num_of_str (bidAmount c) of
        Fin r \<Rightarrow>
          if r \<le> 0 then fail_submit ''Enter a valid amount greater than zero.'' c
          else if beyond_limit s (Fin r) then fail_submit (range_message s (the (nextValid s))) c
          else \<lparr>su_console = c\<lparr>bidAmount := []\<rparr>,
                su_actions = [AddOptimisticBid \<lparr>bid_id = se_uuid env, amount = r, bidder = you,
                    timestamp = se_now1 env, status = Pending\<rparr>],
                su_emit = Some (the (auctionId s), place_bid env (the (auctionId s)) r)\<rparr>
      | _ \<Rightarrow> fail_submit ''Enter a valid amount greater than zero.'' c)"

definition console_label :: "auction_state \<Rightarrow> string" where
  "console_label s =
     (if \<not> isConnected s then ''Reconnecting''
      else if \<not> isParticipant s then ''Registration required''
      else if auctionStatus s = Waiting then ''Waiting to start''
      else if auctionStatus s = Ended then ''Auction ended'' else ''Live and connected'')"

definition console_icon :: "auction_state \<Rightarrow> string" where
  "console_icon s =
     (if \<not> isConnected s then ''SignalZero''
      else if \<not> isParticipant s then ''CircleAlert''
      else if auctionStatus s = Waiting then ''Loader2''
      else if auctionStatus s = Ended then ''CheckCircle2'' else ''Signal'')"

section \<open>Rendering\<close>

datatype console_act = CloseToast | Adjust int | ChangeAmount string | Submit

definition feedback :: "auction_state \<Rightarrow> 'a jsx list" where
  "feedback s =
     (case latest s of None \<Rightarrow> []
      | Some b \<Rightarrow>
          only_if (status b = Pending) [Txt (''Bid submitted, awaiting confirmation'' @ u_ellipsis)] @
          only_if (status b = Confirmed) [El ''span'' [] [Txt ''Bid accepted and synchronized.'']] @
          only_if (status b = Rejected) [El ''span'' [] [Txt ''Bid rejected. Review the valid bid amount.'']])"

definition BiddingConsole :: "(rat \<Rightarrow> string) \<Rightarrow> auction_state \<Rightarrow> console \<Rightarrow> console_act jsx" where
  "BiddingConsole fmt s c =
     (let reverse = (auctionType s = REVERSE); stp = Fin (minimumBidStep s) in
      El ''section'' [Attr ''aria-labelledby'' ''bid-console-title''] (
        (case cs_toast c of None \<Rightarrow> [] | Some t \<Rightarrow> [Toast (to_message t) (Some (to_type t)) CloseToast]) @ [
        El ''header'' [] [
          El ''div'' [] [
            El ''h2'' [Attr ''id'' ''bid-console-title''] [Txt ''Place a bid''],
            El ''p'' [] [Txt ((if reverse then ''Lower bids lead'' else ''Higher bids lead'') @ '' '' @ u_middot @
              '' minimum step $'' @ to_fixed2 stp)]],
          El ''div'' [] [El (console_icon s) [Flag ''spin'' (console_label s = ''Waiting to start'')] [], Txt (console_label s)]],
        El ''div'' [] [
          El ''div'' [] ([
            El ''p'' [] [Txt (''Current '' @ (if reverse then ''lowest'' else ''highest'') @ '' bid'')],
            El ''p'' [] [Txt (case currentPrice s of None \<Rightarrow> ''Open'' | Some p \<Rightarrow> ''$'' @ fmt p)]] @
            (case nextValid s of None \<Rightarrow> []
             | Some v \<Rightarrow> [El ''p'' [] [Txt ''Next valid bid: '',
                 El ''strong'' [] [Txt ((if reverse then u_le else u_ge) @ '' $'' @ to_fixed2 v)]]])),
          El ''form'' [On ''onSubmit'' (\<lambda>_. Submit)] [
            El ''label'' [Attr ''htmlFor'' ''bid-amount''] [Txt ''Your bid (USD)''],
            El ''div'' [] [
              El ''button'' [Attr ''type'' ''button'', onClick (Adjust (-1)), Flag ''disabled'' (\<not> canBid s),
                  Attr ''aria-label'' (''Reduce bid by '' @ num_str stp)] [El ''Minus'' [] []],
              El ''input'' [Attr ''id'' ''bid-amount'', Attr ''type'' ''number'', Attr ''min'' ''0.01'', Attr ''step'' ''0.01'',
                  Attr ''inputMode'' ''decimal'', Attr ''value'' (bidAmount c), On ''onChange'' ChangeAmount,
                  Flag ''disabled'' (\<not> canBid s),
                  Attr ''placeholder'' (case nextValid s of None \<Rightarrow> ''Enter amount''
                    | Some v \<Rightarrow> str_or (to_fixed2 v) ''Enter amount'')] [],
              El ''button'' [Attr ''type'' ''button'', onClick (Adjust 1), Flag ''disabled'' (\<not> canBid s),
                  Attr ''aria-label'' (''Increase bid by '' @ num_str stp)] [El ''Plus'' [] []]],
            El ''button'' [Flag ''disabled'' (\<not> canBid s)] [
              Txt (if auctionStatus s = Ended then ''Auction ended''
                   else if \<not> isConnected s then ''Reconnecting'' @ u_ellipsis else ''Submit bid'')],
            El ''div'' [Attr ''aria-live'' ''polite''] (feedback s)]]]))"

text \<open>The component's response to its own actions.\<close>

fun console_step :: "submit_env \<Rightarrow> auction_state \<Rightarrow> console_act \<Rightarrow> console \<Rightarrow> submitted" where
  "console_step env s CloseToast c = \<lparr>su_console = c\<lparr>cs_toast := None\<rparr>, su_actions = [], su_emit = None\<rparr>"
| "console_step env s (Adjust d) c = \<lparr>su_console = adjust d s c, su_actions = [], su_emit = None\<rparr>"
| "console_step env s (ChangeAmount t) c = \<lparr>su_console = c\<lparr>bidAmount := t\<rparr>, su_actions = [], su_emit = None\<rparr>"
| "console_step env s Submit c = submit env s c"

section \<open>What a submitted bid satisfies\<close>

lemma min_amount_val: "min_amount = Fin (5764607523034235 / 576460752303423488)"
proof -
  have "rnd (1 / 100) = 5764607523034235 / 576460752303423488"
    by (subst rnd_eq [where e = "-7" and n = 5764607523034235]) (simp_all add: powi2_neg)
  then show ?thesis by (simp add: min_amount_def fl_def)
qed

lemma submit_cases:
  obtains (refused) "su_emit (submit env s c) = None" "su_actions (submit env s c) = []"
  | (placed) r where "canBid s" "str_truthy (auctionId s)" "num_of_str (bidAmount c) = Fin r" "0 < r"
      "\<not> beyond_limit s (Fin r)"
      "su_actions (submit env s c) = [AddOptimisticBid \<lparr>bid_id = se_uuid env, amount = r, bidder = you,
         timestamp = se_now1 env, status = Pending\<rparr>]"
      "su_emit (submit env s c) = Some (the (auctionId s), place_bid env (the (auctionId s)) r)"
      "su_console (submit env s c) = c\<lparr>bidAmount := []\<rparr>"
proof (cases "canBid s \<and> str_truthy (auctionId s)")
  case False
  then show thesis by (intro refused) (auto simp: submit_def)
next
  case ok: True
  show thesis
  proof (cases "\<exists>r. num_of_str (bidAmount c) = Fin r \<and> 0 < r \<and> \<not> beyond_limit s (Fin r)")
    case True
    then obtain r where "num_of_str (bidAmount c) = Fin r" "0 < r" "\<not> beyond_limit s (Fin r)" by blast
    with ok show thesis by (intro placed [of r]) (auto simp: submit_def)
  next
    case False
    with ok show thesis
      by (intro refused) (cases "num_of_str (bidAmount c)"; force simp: submit_def fail_submit_def)+
  qed
qed


lemma min_le_double:
  assumes "is_double p" and "0 \<le> step"
  shows "js_sub p step = NegInf \<or> (\<exists>q. js_sub p step = Fin q \<and> q \<le> p)"
proof -
  have "rnd (p - step) \<le> rnd p" using assms(2) by (intro rnd_mono) simp
  then show ?thesis using assms(1) by (auto simp: js_sub_def fl_def is_double_def Let_def)
qed

lemma add_ge_double:
  assumes "is_double p" and "0 \<le> step"
  shows "js_add p step = PosInf \<or> (\<exists>q. js_add p step = Fin q \<and> p \<le> q)"
proof -
  have "rnd p \<le> rnd (p + step)" using assms(2) by (intro rnd_mono) simp
  then show ?thesis using assms(1) by (auto simp: js_add_def fl_def is_double_def Let_def)
qed

lemma within_limit_not_worse:
  assumes "\<not> beyond_limit s (Fin r)" and "currentPrice s = Some p" and "is_double p" and "0 \<le> minimumBidStep s"
    and "js_le min_amount (Fin p)"
  shows "\<not> beats (auctionType s) p r"
proof (cases "auctionType s")
  case REVERSE
  from min_le_double [OF assms(3,4)] show ?thesis
    using assms(1,2,5) REVERSE
    by (auto simp: beyond_limit_def nextValid_def out_of_range_def beats_def min_amount_val js_le_def split: if_splits)
next
  case FORWARD
  from add_ge_double [OF assms(3,4)] show ?thesis
    using assms(1,2) FORWARD
    by (auto simp: beyond_limit_def nextValid_def out_of_range_def beats_def split: if_splits)
qed

text \<open>
  A submitted bid is never worse than the price on screen: with a price that is a double of
  at least one cent and a step that is not negative, in both auction directions and whatever
  rounding does, the optimistic row becomes the price.
\<close>

lemma submit_leads:
  assumes "su_emit (submit env s c) = Some (a, m)" and "currentPrice s = Some p" and "is_double p"
    and "0 \<le> minimumBidStep s" and "js_le min_amount (Fin p)"
  shows "currentPrice (fold auctionReducer (su_actions (submit env s c)) s) = Some (br_amount m)"
proof (cases rule: submit_cases [of env s c])
  case refused
  with assms(1) show ?thesis by simp
next
  case (placed r)
  have r: "br_amount m = r" using assms(1) placed by (auto simp: place_bid_def)
  have "\<not> beats (auctionType s) p r"
    using placed(5) assms(2-5) by (intro within_limit_not_worse) simp_all
  then have "beats (auctionType s) r p \<or> r = p" by (cases "auctionType s") (auto simp: beats_def)
  then show ?thesis using placed(6) r assms(2) by (auto simp: addOptimisticBid_def Let_def)
qed

definition ex_env :: submit_env where
  "ex_env = \<lparr>se_uuid = ''u'', se_now1 = 5, se_now2 = 5, se_storage = Map.empty\<rparr>"

definition ex_live :: auction_state where
  "ex_live = initialState\<lparr>auctionId := Some ''a'', currentPrice := Some 100, isConnected := True,
     auctionStatus := Active, isParticipant := True\<rparr>"

lemma ex_live_fields [simp]:
  "canBid ex_live" "auctionId ex_live = Some ''a''" "currentPrice ex_live = Some 100"
  "auctionType ex_live = REVERSE" "minimumBidStep ex_live = 1"
  by (simp_all add: ex_live_def initialState_def canBid_def)

lemma small_double: "\<bar>n\<bar> < 2 ^ 53 \<Longrightarrow> is_double (of_int n)"
proof -
  assume n: "\<bar>n\<bar> < 2 ^ 53"
  have "\<bar>rat_of_int n\<bar> < of_int (2 ^ 53)" using n by (metis of_int_abs of_int_less_iff)
  also have "\<dots> \<le> 2 ^ 1024" by simp
  finally show ?thesis using rnd_safe_int [OF n] by (simp add: is_double_def)
qed

lemma ex_live_next: "nextValid ex_live = Some (Fin 99)"
  using small_double [of 99] by (simp add: nextValid_def js_sub_def min_amount_val)

lemma parse_50: "num_of_str ''50'' = Fin 50"
proof -
  have "trim ''50'' = ''50''" by (intro trim_no_space) (simp add: is_space_def)
  moreover have "parse_radix ''50'' = None" by (simp add: parse_radix_def)
  moreover have "parse_decimal ''50'' = Some 50"
    by (simp add: parse_decimal_def is_digit_def digits_val_def digit_val_def)
  ultimately show ?thesis using small_double [of 50] by (simp add: num_of_str_def num_of_unsigned_def)
qed

lemma ex_submit:
  "su_emit (submit ex_env ex_live (console_init\<lparr>bidAmount := ''50''\<rparr>)) = Some (''a'', place_bid ex_env ''a'' 50)"
  by (simp add: submit_def parse_50 ex_live_next beyond_limit_def out_of_range_def str_truthy_def)

text \<open>
  For whole prices and steps below two to the fifty-three the limit is exact: a submitted
  bid is at least one minimum step better than the price, down to a last price of one.
\<close>

lemma submit_respects_step:
  assumes "su_emit (submit env s c) = Some (a, m)" and "currentPrice s = Some (of_int p)"
    and "minimumBidStep s = of_int d" and "1 \<le> p - d" and "0 \<le> d" and "p + d < 2 ^ 53"
  shows "case auctionType s of REVERSE \<Rightarrow> br_amount m \<le> of_int (p - d) | FORWARD \<Rightarrow> of_int (p + d) \<le> br_amount m"
proof (cases rule: submit_cases [of env s c])
  case refused
  with assms(1) show ?thesis by simp
next
  case (placed r)
  have r: "br_amount m = r" using assms(1) placed by (auto simp: place_bid_def)
  have "is_double (of_int (p - d))" "is_double (of_int (p + d))" using assms(4-6) by (intro small_double; simp)+
  then have sub: "js_sub (of_int p) (of_int d) = Fin (of_int (p - d))" and add: "js_add (of_int p) (of_int d) = Fin (of_int (p + d))"
    by (simp_all add: js_sub_def js_add_def)
  have "(1::rat) \<le> of_int (p - d)" using assms(4) by (metis of_int_1 of_int_le_iff)
  then have "js_max min_amount (Fin (of_int (p - d))) = Fin (of_int (p - d))" by (simp add: min_amount_val)
  then show ?thesis using placed(5) assms(2,3) r sub add
    by (cases "auctionType s") (auto simp: nextValid_def beyond_limit_def out_of_range_def)
qed

section \<open>The limit on screen\<close>

text \<open>A reverse auction at thirty cents with a step of ten cents.\<close>

definition ex_cents :: auction_state where
  "ex_cents = ex_live\<lparr>currentPrice := Some (rnd (3 / 10)), minimumBidStep := rnd (1 / 10)\<rparr>"

lemma ex_cents_next: "nextValid ex_cents = Some (Fin (7205759403792793 / 36028797018963968))"
proof -
  have a: "rnd (3 / 10) = 5404319552844595 / 18014398509481984"
    by (subst rnd_eq [where e = "-2" and n = 5404319552844595]) (simp_all add: powi2_neg)
  have b: "rnd (1 / 10) = 3602879701896397 / 36028797018963968"
    by (subst rnd_eq [where e = "-4" and n = 7205759403792794]) (simp_all add: powi2_neg)
  have c: "rnd (7205759403792793 / 36028797018963968) = 7205759403792793 / 36028797018963968"
    by (subst rnd_eq [where e = "-3" and n = 7205759403792793]) (simp_all add: powi2_neg)
  show ?thesis
    by (simp add: ex_cents_def ex_live_def initialState_def nextValid_def js_sub_def fl_def a b c min_amount_val)
qed

lemma ex_cents_typed: "num_of_str (to_fixed2 (the (nextValid ex_cents))) = Fin (3602879701896397 / 18014398509481984)"
proof -
  have fl: "\<lfloor>(7205759403792793 / 36028797018963968) * 100 + 1/2 :: rat\<rfloor> = 20" by (rule floor_unique) simp_all
  have "cents (7205759403792793 / 36028797018963968) = 20" unfolding cents_def fl by simp
  moreover have "rnd (1 / 5) = 3602879701896397 / 18014398509481984"
    by (subst rnd_eq [where e = "-3" and n = 7205759403792794]) (simp_all add: powi2_neg)
  ultimately show ?thesis
    using num_of_str_to_fixed2 [of "7205759403792793 / 36028797018963968"]
    by (simp add: ex_cents_next fl_def)
qed

text \<open>
  The limit is printed rounded and compared unrounded: at a price of thirty cents and a
  step of ten cents the console asks for at most the amount it prints, and refuses exactly that
  amount with a message that names it.
\<close>

lemma printed_limit_refused:
  "canBid ex_cents \<and>
   submit env ex_cents (c\<lparr>bidAmount := to_fixed2 (the (nextValid ex_cents))\<rparr>) =
   fail_submit (''Your bid must be at most $'' @ to_fixed2 (the (nextValid ex_cents)) @ ''.'')
     (c\<lparr>bidAmount := to_fixed2 (the (nextValid ex_cents))\<rparr>)"
proof -
  have t: "auctionType ex_cents = REVERSE" "canBid ex_cents" "auctionId ex_cents = Some ''a''"
    by (simp_all add: ex_cents_def ex_live_def initialState_def canBid_def)
  have "beyond_limit ex_cents (Fin (3602879701896397 / 18014398509481984))"
    by (simp add: beyond_limit_def ex_cents_next out_of_range_def t)
  then show ?thesis using ex_cents_typed t by (simp add: submit_def str_truthy_def range_message_def)
qed

section \<open>Stepping the amount\<close>

text \<open>
  The two step buttons always leave a valid amount: when the result is finite and below
  ten to the twenty-one, the new text is the print of a whole number of cents, at least one, and
  reads back as that number.
\<close>

lemma adjust_valid:
  assumes "num_plus (adjust_base s c) (of_int d * minimumBidStep s) = Fin r" and "r < 10 ^ 21"
  shows "\<exists>k \<ge> 1. num_of_str (bidAmount (adjust d s c)) = fl (of_nat k / 100)"
proof -
  let ?m = "5764607523034235 / 576460752303423488 :: rat"
  define x where "x = (if ?m < r then r else ?m)"
  have x: "js_max min_amount (Fin r) = Fin x" "?m \<le> x" "x < 10 ^ 21"
    using assms(2) by (auto simp: x_def min_amount_val)
  have "1 \<le> x * 100 + 1/2" using x(2) by simp
  then have "1 \<le> \<lfloor>x * 100 + 1/2\<rfloor>" by (simp only: one_le_floor)
  then have "1 \<le> cents x" unfolding cents_def by linarith
  moreover have "num_of_str (to_fixed2 (Fin x)) = fl (of_nat (cents x) / 100)"
    using x by (intro num_of_str_to_fixed2) (simp_all add: order.trans [rotated, OF x(2)])
  ultimately show ?thesis using assms(1) x(1) by (auto simp: adjust_def)
qed

section \<open>Feedback\<close>

text \<open>Rows under the name of the optimistic bidder are pending.\<close>

definition own_pending :: "auction_state \<Rightarrow> bool" where
  "own_pending s = (\<forall>b \<in> set (bids s). bidder b = you \<longrightarrow> status b = Pending)"

text \<open>The store's events as the pages make them: only the console uses its bidder name.\<close>

fun named_events :: "auction_action \<Rightarrow> bool" where
  "named_events (AddOptimisticBid b) = (status b = Pending)"
| "named_events (ReconcileBid r p) = (rp_bidder p \<noteq> you)"
| "named_events _ = True"

lemma own_pending_step: "named_events a \<Longrightarrow> own_pending s \<Longrightarrow> own_pending (auctionReducer a s)"
proof (cases a)
  case (ReconcileBid r p)
  assume "named_events a" "own_pending s"
  then show ?thesis using ReconcileBid place_bid_row_elem [of _ r p "bids s"]
    by (fastforce simp: own_pending_def)
qed (auto simp: own_pending_def slice_simps split: option.splits)

interpretation own: machine initialState auctionReducer own_pending named_events
  by unfold_locales (simp_all add: own_pending_step, simp add: own_pending_def initialState_def)

text \<open>
  The console never reports an accepted or a rejected bid: reconciliation replaces the name
  of the optimistic bidder, so in every history the feedback line is empty or says that the bid
  awaits confirmation.
\<close>

lemma feedback_only_pending:
  assumes "\<forall>a \<in> set as. named_events a"
  shows "feedback (fold auctionReducer as initialState) \<in>
    {[], [Txt (''Bid submitted, awaiting confirmation'' @ u_ellipsis)]}"
proof -
  let ?s = "fold auctionReducer as initialState"
  have inv: "own_pending ?s" using own.run_inv [OF assms] .
  show ?thesis
  proof (cases "latest ?s")
    case (Some b)
    then have "bidder b = you" "b \<in> set (bids ?s)"
      by (auto simp: latest_def find_Some_iff)
    with inv have "status b = Pending" by (auto simp: own_pending_def)
    with Some show ?thesis by (simp add: feedback_def view_simps)
  qed (simp add: feedback_def)
qed

section \<open>What can be clicked\<close>

lemma Toast_part_triggers:
  "concat (map (triggers ev) (case t of None \<Rightarrow> [] | Some x \<Rightarrow> [Toast (to_message x) (Some (to_type x)) CloseToast])) =
   (if (\<exists>x. t = Some x \<and> to_message x \<noteq> []) \<and> ev = ''onClick'' then [\<lambda>_. CloseToast] else [])"
  by (cases t) (auto simp: Toast_triggers)

lemma feedback_triggers [simp]: "concat (map (triggers ev) (feedback s)) = []"
  by (auto simp: feedback_def view_simps split: option.splits)

text \<open>
  While bidding is not possible, no control of the console but the dismissal of its message
  reacts: the step buttons and the field are disabled, and submitting the form changes nothing.
\<close>

lemma disabled_console:
  assumes "\<not> canBid s"
  shows "triggers ''onChange'' (BiddingConsole fmt s c) = [] \<and>
    set (triggers ''onClick'' (BiddingConsole fmt s c)) \<subseteq> {\<lambda>_. CloseToast} \<and>
    console_step env s Submit c = \<lparr>su_console = c, su_actions = [], su_emit = None\<rparr>"
  using assms
  by (auto simp: BiddingConsole_def Let_def view_simps Toast_part_triggers submit_def split: option.splits)

end
