(* ===== verification/Boards.thy ===== *)
theory Boards
  imports Bidding_Console
begin

text \<open>
  What the auction page shows of the bids: \<open>components/auction/Leaderboard.tsx\<close>,
  \<open>components/auction/WinnerModal.tsx\<close> and \<open>components/auction/AuditLedger.tsx\<close>. The object
  that collects the best bid of each bidder is an association list in insertion order, with the
  two traits of JavaScript objects that show: the names an object inherits, and the order of
  \<open>Object.values\<close>. \<open>fmt\<close> is \<open>toLocaleString\<close>, \<open>fmt_time\<close> is \<open>date-fns\<close> with the format of
  hours, minutes and seconds, and the rows the virtualizer shows are a parameter.
\<close>

section \<open>Objects as dictionaries\<close>

text \<open>The properties that every plain object inherits; reading one gives a truthy value.\<close>

definition inherited_keys :: "string list" where
  "inherited_keys = [''constructor'', ''__defineGetter__'', ''__defineSetter__'', ''hasOwnProperty'',
     ''__lookupGetter__'', ''__lookupSetter__'', ''isPrototypeOf'', ''propertyIsEnumerable'',
     ''toString'', ''valueOf'', ''__proto__'', ''toLocaleString'']"

fun obj_put :: "string \<Rightarrow> 'v \<Rightarrow> (string \<times> 'v) list \<Rightarrow> (string \<times> 'v) list" where
  "obj_put k v [] = [(k, v)]"
| "obj_put k v ((k', v') # xs) = (if k = k' then (k, v) # xs else (k', v') # obj_put k v xs)"

text \<open>Keys that are array indices come first, in numeric order; the others in insertion order.\<close>

definition is_index :: "string \<Rightarrow> bool" where
  "is_index k = (k \<noteq> [] \<and> list_all is_digit k \<and> nat_str (digits_val k) = k \<and> digits_val k < 4294967295)"

definition obj_values :: "(string \<times> 'v) list \<Rightarrow> 'v list" where
  "obj_values xs = map snd (sort_key (\<lambda>e. digits_val (fst e)) (filter (\<lambda>e. is_index (fst e)) xs) @
     filter (\<lambda>e. \<not> is_index (fst e)) xs)"

section \<open>Leaderboard\<close>

text \<open>
  One step of the \<open>reduce\<close>. An inherited name reads as a truthy value whose \<open>amount\<close> is
  \<open>undefined\<close>, which no comparison is true of.
\<close>

definition best_step :: "auction_type \<Rightarrow> bid \<Rightarrow> (string \<times> bid) list \<Rightarrow> (string \<times> bid) list" where
  "best_step t b acc =
     (if status b \<noteq> Rejected then
        (case map_of acc (bidder b) of
           Some existing \<Rightarrow> if beats t (amount b) (amount existing) then obj_put (bidder b) b acc else acc
         | None \<Rightarrow> if bidder b \<in> set inherited_keys then acc else obj_put (bidder b) b acc)
      else acc)"

definition bestBids :: "auction_state \<Rightarrow> bid list" where
  "bestBids s = take 5 (sort_key (\<lambda>b. if auctionType s = REVERSE then amount b else - amount b)
     (obj_values (fold (best_step (auctionType s)) (bids s) [])))"

definition board_row :: "(rat \<Rightarrow> string) \<Rightarrow> nat \<Rightarrow> bid \<Rightarrow> 'a jsx" where
  "board_row fmt i b = El ''tr'' [Attr ''key'' (bidder b)] [
     El ''td'' [] [Txt (nat_str (i + 1))],
     El ''td'' [] [Txt (if bidder b = you then ''You'' else bidder b)],
     El ''td'' [] [Txt (fmt (amount b))]]"

definition Leaderboard :: "(rat \<Rightarrow> string) \<Rightarrow> auction_state \<Rightarrow> 'a jsx" where
  "Leaderboard fmt s =
     El ''div'' [] [
       El ''div'' [] [El ''h3'' [] [Txt ''Leaderboard'']],
       El ''div'' [] [
         El ''table'' [] [
           El ''thead'' [] [
             El ''tr'' [] [
               El ''th'' [] [Txt ''RANK '', El ''ArrowDown'' [] []],
               El ''th'' [] [Txt ''Bidder''],
               El ''th'' [] [Txt ''Best bid '', El ''ArrowDownUp'' [] []]]],
           El ''tbody'' [] (
             map (\<lambda>(i, b). board_row fmt i b) (enumerate 0 (bestBids s)) @
             only_if (bestBids s = []) [El ''tr'' [] [
               El ''td'' [Attr ''colSpan'' ''3''] [Txt ''No active competitors yet.'']]])]]]"

section \<open>Winner\<close>

definition pick_winner :: "auction_type \<Rightarrow> bid \<Rightarrow> bid \<Rightarrow> bid" where
  "pick_winner t prev cur = (if beats t (amount prev) (amount cur) then prev else cur)"

definition winner :: "auction_state \<Rightarrow> bid option" where
  "winner s = (case live_bids s of [] \<Rightarrow> None | b # bs \<Rightarrow> Some (foldl (pick_winner (auctionType s)) b bs))"

record winner_modal =
  wm_show :: bool
  wm_timer :: bool

definition winner_modal_init :: winner_modal where
  "winner_modal_init = \<lparr>wm_show = False, wm_timer = False\<rparr>"

text \<open>
  The effect runs when the status has changed: it arms the timer of half a second at the end,
  and hides the modal otherwise; the cleanup of the last run has cleared its timer.
\<close>

definition modal_status :: "auction_status \<Rightarrow> winner_modal \<Rightarrow> winner_modal" where
  "modal_status st m = (if st = Ended then m\<lparr>wm_timer := True\<rparr> else \<lparr>wm_show = False, wm_timer = False\<rparr>)"

definition modal_timer :: "winner_modal \<Rightarrow> winner_modal" where
  "modal_timer m = (if wm_timer m then \<lparr>wm_show = True, wm_timer = False\<rparr> else m)"

definition modal_acknowledge :: "winner_modal \<Rightarrow> winner_modal" where
  "modal_acknowledge m = m\<lparr>wm_show := False\<rparr>"

definition WinnerModal :: "(rat \<Rightarrow> string) \<Rightarrow> auction_state \<Rightarrow> winner_modal \<Rightarrow> unit jsx option" where
  "WinnerModal fmt s m =
     (if \<not> wm_show m then None
      else Some (El ''AnimatePresence'' [] [
        El ''div'' [] [
          El ''motion.div'' [] [
            El ''div'' [] [],
            El ''div'' [] [
              El ''motion.div'' [] [El ''Crown'' [] []],
              El ''h2'' [] [Txt ''Auction Ended''],
              El ''h3'' [] [Txt ''We have a Winner!''],
              (case winner s of
                 Some w \<Rightarrow> El ''div'' [] [
                   El ''p'' [] [Txt ''Winning Bidder''],
                   El ''p'' [] [El ''Trophy'' [] [], Txt (if bidder w = you then ''You'' else bidder w)],
                   El ''p'' [] [Txt ''Winning Amount''],
                   El ''p'' [] [Txt (''$'' @ fmt (amount w))]]
               | None \<Rightarrow> El ''div'' [] [El ''p'' [] [Txt ''No bids were placed.'']]),
              El ''button'' [onClick ()] [El ''CheckCircle'' [] [], Txt '' Acknowledge'']]]]]))"

section \<open>Ledger\<close>

definition ledger_status :: "(rat \<Rightarrow> string) \<Rightarrow> bid \<Rightarrow> string" where
  "ledger_status fmt b = (case status b of
     Rejected \<Rightarrow> ''(REJECTED: Conflict)''
   | Confirmed \<Rightarrow> ''($'' @ fmt (amount b) @ '') [CONFIRMED]''
   | Pending \<Rightarrow> ''($'' @ fmt (amount b) @ '')'')"

definition ledger_row :: "(rat \<Rightarrow> string) \<Rightarrow> (int \<Rightarrow> string) \<Rightarrow> nat \<Rightarrow> bid \<Rightarrow> 'a jsx" where
  "ledger_row fmt fmt_time i b = El ''div'' [Attr ''key'' (nat_str i), Flag ''rejected'' (status b = Rejected),
       Flag ''confirmed'' (status b = Confirmed)] [
     El ''span'' [] [Txt (''['' @ fmt_time (timestamp b) @ '']'')],
     Txt (''- '' @ (if bidder b = you then ''User_Lambda'' else bidder b) @ '' Bid''),
     El ''span'' [] [Txt (ledger_status fmt b)]]"

text \<open>\<open>items\<close> are the indices that the virtualizer gives for a list of that length.\<close>

definition AuditLedger ::
  "(rat \<Rightarrow> string) \<Rightarrow> (int \<Rightarrow> string) \<Rightarrow> (nat \<Rightarrow> nat list) \<Rightarrow> auction_state \<Rightarrow> 'a jsx" where
  "AuditLedger fmt fmt_time items s =
     El ''div'' [] [
       El ''div'' [] [El ''h3'' [] [Txt ''Virtualized Stream Audit Ledger'']],
       El ''div'' [] [
         El ''div'' [] (
           map (\<lambda>i. ledger_row fmt fmt_time i (bids s ! i)) (filter (\<lambda>i. i < length (bids s)) (items (length (bids s)))) @
           only_if (bids s = []) [El ''div'' [] [Txt ''No events in the ledger yet...'']])]]"

section \<open>The dictionary of best bids\<close>

lemma set_obj_put: "set (obj_put k v acc) \<subseteq> insert (k, v) (set acc)"
  by (induction k v acc rule: obj_put.induct) auto

lemma in_obj_put: "(k, v) \<in> set (obj_put k v acc)"
  by (induction k v acc rule: obj_put.induct) auto

lemma obj_put_other: "(k', v') \<in> set acc \<Longrightarrow> k' \<noteq> k \<Longrightarrow> (k', v') \<in> set (obj_put k v acc)"
  by (induction k v acc rule: obj_put.induct) auto

lemma keys_obj_put: "map fst (obj_put k v acc) = (if k \<in> fst ` set acc then map fst acc else map fst acc @ [k])"
  by (induction k v acc rule: obj_put.induct) auto

lemma mset_obj_values: "mset (obj_values acc) = mset (map snd acc)"
  unfolding obj_values_def by (simp flip: image_mset_union)

text \<open>What the dictionary holds after the bids \<open>L\<close>.\<close>

definition best_acc :: "auction_type \<Rightarrow> bid list \<Rightarrow> (string \<times> bid) list \<Rightarrow> bool" where
  "best_acc t L acc =
     (distinct (map fst acc) \<and>
      (\<forall>(k, b) \<in> set acc. bidder b = k \<and> b \<in> set L \<and> status b \<noteq> Rejected \<and> k \<notin> set inherited_keys) \<and>
      (\<forall>b \<in> set L. status b \<noteq> Rejected \<longrightarrow> bidder b \<notin> set inherited_keys \<longrightarrow>
         (\<exists>c. (bidder b, c) \<in> set acc \<and> \<not> beats t (amount b) (amount c))))"

lemma best_acc_distinct: "best_acc t L acc \<Longrightarrow> distinct (map fst acc)"
  by (simp add: best_acc_def)

lemma best_acc_elem:
  "best_acc t L acc \<Longrightarrow> (k, b) \<in> set acc \<Longrightarrow> bidder b = k \<and> b \<in> set L \<and> status b \<noteq> Rejected \<and> k \<notin> set inherited_keys"
  unfolding best_acc_def by blast

lemma best_acc_cover:
  "best_acc t L acc \<Longrightarrow> b \<in> set L \<Longrightarrow> status b \<noteq> Rejected \<Longrightarrow> bidder b \<notin> set inherited_keys \<Longrightarrow>
   \<exists>c. (bidder b, c) \<in> set acc \<and> \<not> beats t (amount b) (amount c)"
  unfolding best_acc_def by blast

lemma best_acc_put:
  assumes acc: "best_acc t L acc" and b: "status b \<noteq> Rejected" "bidder b \<notin> set inherited_keys"
    and better: "\<forall>c. (bidder b, c) \<in> set acc \<longrightarrow> beats t (amount b) (amount c)"
  shows "best_acc t (L @ [b]) (obj_put (bidder b) b acc)"
  unfolding best_acc_def
proof (intro conjI)
  show "distinct (map fst (obj_put (bidder b) b acc))"
    using best_acc_distinct [OF acc] by (auto simp: keys_obj_put)
  show "\<forall>(k, c) \<in> set (obj_put (bidder b) b acc). bidder c = k \<and> c \<in> set (L @ [b]) \<and> status c \<noteq> Rejected \<and> k \<notin> set inherited_keys"
  proof
    fix e assume "e \<in> set (obj_put (bidder b) b acc)"
    then have "e = (bidder b, b) \<or> e \<in> set acc" using set_obj_put [of "bidder b" b acc] by auto
    then show "case e of (k, c) \<Rightarrow> bidder c = k \<and> c \<in> set (L @ [b]) \<and> status c \<noteq> Rejected \<and> k \<notin> set inherited_keys"
      using best_acc_elem [OF acc] b by (cases e) auto
  qed
  show "\<forall>x \<in> set (L @ [b]). status x \<noteq> Rejected \<longrightarrow> bidder x \<notin> set inherited_keys \<longrightarrow>
      (\<exists>c. (bidder x, c) \<in> set (obj_put (bidder b) b acc) \<and> \<not> beats t (amount x) (amount c))"
  proof (intro ballI impI)
    fix x assume x: "x \<in> set (L @ [b])" "status x \<noteq> Rejected" "bidder x \<notin> set inherited_keys"
    show "\<exists>c. (bidder x, c) \<in> set (obj_put (bidder b) b acc) \<and> \<not> beats t (amount x) (amount c)"
    proof (cases "x = b")
      case True
      then show ?thesis using in_obj_put [of "bidder b" b acc] beats_irrefl [of t "amount b"] by auto
    next
      case False
      then obtain c where c: "(bidder x, c) \<in> set acc" "\<not> beats t (amount x) (amount c)"
        using best_acc_cover [OF acc, of x] x by auto
      show ?thesis
      proof (cases "bidder x = bidder b")
        case True
        with better c(1) have "beats t (amount b) (amount c)" by simp
        with c(2) have "\<not> beats t (amount x) (amount b)" by (rule not_beats_trans)
        then show ?thesis using True in_obj_put [of "bidder b" b acc] by auto
      next
        case False
        then show ?thesis using c obj_put_other [of "bidder x" c acc "bidder b" b] by auto
      qed
    qed
  qed
qed

lemma best_acc_skip:
  assumes "best_acc t L acc"
    and "status b \<noteq> Rejected \<Longrightarrow> bidder b \<notin> set inherited_keys \<Longrightarrow>
      \<exists>c. (bidder b, c) \<in> set acc \<and> \<not> beats t (amount b) (amount c)"
  shows "best_acc t (L @ [b]) acc"
  using assms by (fastforce simp: best_acc_def)

lemma best_acc_step:
  assumes "best_acc t L acc"
  shows "best_acc t (L @ [b]) (best_step t b acc)"
proof (cases "status b = Rejected")
  case True
  then have "best_acc t (L @ [b]) acc" by (intro best_acc_skip [OF assms]) simp
  then show ?thesis using True by (simp add: best_step_def)
next
  case live: False
  have dist: "distinct (map fst acc)" using assms by (simp add: best_acc_def)
  show ?thesis
  proof (cases "map_of acc (bidder b)")
    case None
    then have "\<forall>c. (bidder b, c) \<notin> set acc" by (auto simp: map_of_eq_None_iff image_iff)
    then show ?thesis using None live assms by (auto simp: best_step_def intro: best_acc_put best_acc_skip)
  next
    case (Some e)
    then have e: "(bidder b, c) \<in> set acc \<longleftrightarrow> c = e" for c
      using dist by (metis map_of_eq_Some_iff option.inject)
    then have "bidder b \<notin> set inherited_keys" using best_acc_elem [OF assms, of "bidder b" e] by simp
    then show ?thesis using Some live e assms by (auto simp: best_step_def intro!: best_acc_put intro: best_acc_skip)
  qed
qed

lemma best_acc_fold: "best_acc t L acc \<Longrightarrow> best_acc t (L @ bs) (fold (best_step t) bs acc)"
proof (induction bs arbitrary: L acc)
  case (Cons b bs)
  from Cons.IH [OF best_acc_step [OF Cons.prems]] show ?case by simp
qed simp

section \<open>The board\<close>

text \<open>
  The specification of a board: at most five rows, best first, one per bidder, each of them a
  live bid; and every live bidder with a name of their own has a row that their other bids do not
  beat, unless five rows stand there that none of their bids beats.
\<close>

definition board_ok :: "auction_state \<Rightarrow> bid list \<Rightarrow> bool" where
  "board_ok s board =
     (length board \<le> 5 \<and>
      sorted_wrt (\<lambda>a b. \<not> beats (auctionType s) (amount b) (amount a)) board \<and>
      distinct (map bidder board) \<and> set board \<subseteq> set (live_bids s) \<and>
      (\<forall>b \<in> set (live_bids s). bidder b \<notin> set inherited_keys \<longrightarrow>
         (\<exists>c \<in> set board. bidder c = bidder b \<and> \<not> beats (auctionType s) (amount b) (amount c)) \<or>
         length board = 5 \<and> (\<forall>c \<in> set board. \<not> beats (auctionType s) (amount b) (amount c))))"

lemma take_sorted_wrt_rest:
  assumes "sorted_wrt P xs" and "x \<in> set xs" and "x \<notin> set (take n xs)" and "c \<in> set (take n xs)"
  shows "P c x \<and> n \<le> length xs"
proof -
  have app: "xs = take n xs @ drop n xs" by simp
  then have "x \<in> set (drop n xs)" using assms(2,3) by (metis Un_iff set_append)
  moreover from this have "n \<le> length xs" by (cases "n \<le> length xs") auto
  moreover have "sorted_wrt P (take n xs @ drop n xs)" using assms(1) by simp
  ultimately show ?thesis using assms(4) unfolding sorted_wrt_append by blast
qed

lemma sorted_price:
  "sorted_wrt (\<lambda>a b. \<not> beats t (amount b) (amount a)) (sort_key (\<lambda>b. if t = REVERSE then amount b else - amount b) bs)"
proof -
  let ?f = "\<lambda>b. if t = REVERSE then amount b else - amount b"
  have "sorted_wrt (\<lambda>a b. ?f a \<le> ?f b) (sort_key ?f bs)"
    using sorted_sort_key [of ?f bs] by (simp add: sorted_map)
  then show ?thesis
    by (rule sorted_wrt_mono_rel [rotated]) (cases t; simp add: beats_def)
qed

text \<open>
  (C26) The leaderboard is right: it has at most five rows in the order of the auction's
  direction, one per bidder, all of them live bids, and it leaves out no bidder who should be
  on it, but for bidders whose name is a property that every object inherits.
\<close>

theorem leaderboard_ok: "board_ok s (bestBids s)"
proof -
  let ?t = "auctionType s"
  let ?acc = "fold (best_step ?t) (bids s) []"
  let ?srt = "sort_key (\<lambda>b. if ?t = REVERSE then amount b else - amount b) (obj_values ?acc)"
  have acc: "best_acc ?t (bids s) ?acc"
    using best_acc_fold [of ?t "[]" "[]" "bids s"] by (simp add: best_acc_def)
  have m: "mset ?srt = mset (map snd ?acc)" by (simp add: mset_obj_values)
  have set: "set ?srt = snd ` set ?acc" using mset_eq_setD [OF m] by simp
  have keys: "map bidder (map snd ?acc) = map fst ?acc"
    using best_acc_elem [OF acc] by auto
  have bidders: "mset (map bidder ?srt) = mset (map bidder (map snd ?acc))" using m by (simp only: mset_map)
  have dist: "distinct (map bidder ?srt)"
    using best_acc_distinct [OF acc] mset_eq_imp_distinct_iff [OF bidders] keys by metis
  have sorted: "sorted_wrt (\<lambda>a b. \<not> beats ?t (amount b) (amount a)) ?srt" by (rule sorted_price)
  have live: "set ?srt \<subseteq> set (live_bids s)"
    unfolding set using best_acc_elem [OF acc] by (auto simp: live_bids_def)
  have cover: "(\<exists>c \<in> set (take 5 ?srt). bidder c = bidder b \<and> \<not> beats ?t (amount b) (amount c)) \<or>
      length (take 5 ?srt) = 5 \<and> (\<forall>c \<in> set (take 5 ?srt). \<not> beats ?t (amount b) (amount c))"
    if b: "b \<in> set (live_bids s)" "bidder b \<notin> set inherited_keys" for b
  proof -
    obtain c where c: "(bidder b, c) \<in> set ?acc" "\<not> beats ?t (amount b) (amount c)"
      using best_acc_cover [OF acc, of b] b by (auto simp: live_bids_def)
    then have "bidder c = bidder b" using best_acc_elem [OF acc] by blast
    show ?thesis
    proof (cases "c \<in> set (take 5 ?srt)")
      case True
      then show ?thesis using c \<open>bidder c = bidder b\<close> by blast
    next
      case False
      have "c \<in> set ?srt" unfolding set using c(1) by force
      from take_sorted_wrt_rest [OF sorted this False] have
        rest: "\<not> beats ?t (amount c) (amount d) \<and> 5 \<le> length ?srt" if "d \<in> set (take 5 ?srt)" for d
        using that by blast
      have "\<not> beats ?t (amount b) (amount d)" if "d \<in> set (take 5 ?srt)" for d
        using rest [OF that] c(2) by (cases ?t) (auto simp: beats_def)
      moreover have "length (take 5 ?srt) = 5"
        using False \<open>c \<in> set ?srt\<close> by (cases "5 \<le> length ?srt") auto
      ultimately show ?thesis by blast
    qed
  qed
  have "distinct (map bidder (take 5 ?srt))" using dist by (simp only: take_map [symmetric] distinct_take)
  moreover have "set (take 5 ?srt) \<subseteq> set (live_bids s)" using live set_take_subset by fast
  moreover have "sorted_wrt (\<lambda>a b. \<not> beats ?t (amount b) (amount a)) (take 5 ?srt)"
    using sorted by (rule sorted_wrt_take)
  ultimately show ?thesis unfolding board_ok_def bestBids_def using cover by (simp only:) auto
qed

text \<open>
  A bidder whose name every object inherits, such as \<open>constructor\<close>, never appears on the
  leaderboard, however good the bid.
\<close>

lemma inherited_names_hidden:
  assumes "b \<in> set (bestBids s)"
  shows "bidder b \<notin> set inherited_keys"
proof -
  let ?acc = "fold (best_step (auctionType s)) (bids s) []"
  have acc: "best_acc (auctionType s) (bids s) ?acc"
    using best_acc_fold [of _ "[]" "[]" "bids s"] by (simp add: best_acc_def)
  have "b \<in> set (obj_values ?acc)"
    using assms by (auto simp: bestBids_def dest: in_set_takeD)
  then have "b \<in> snd ` set ?acc" using mset_eq_setD [OF mset_obj_values [of ?acc]] by simp
  then show ?thesis using best_acc_elem [OF acc] by fastforce
qed

section \<open>The winner\<close>

definition winner_ok :: "auction_state \<Rightarrow> bid option \<Rightarrow> bool" where
  "winner_ok s w = (case w of
     None \<Rightarrow> live_bids s = []
   | Some b \<Rightarrow> \<exists>xs ys. live_bids s = xs @ b # ys \<and>
       (\<forall>c \<in> set xs. \<not> beats (auctionType s) (amount c) (amount b)) \<and>
       (\<forall>c \<in> set ys. beats (auctionType s) (amount b) (amount c)))"

definition leads :: "auction_type \<Rightarrow> bid list \<Rightarrow> bid \<Rightarrow> bool" where
  "leads t bs b = (\<exists>xs ys. bs = xs @ b # ys \<and> (\<forall>c \<in> set xs. \<not> beats t (amount c) (amount b)) \<and>
     (\<forall>c \<in> set ys. beats t (amount b) (amount c)))"

lemma leads_snoc:
  assumes "leads t bs w"
  shows "leads t (bs @ [c]) (pick_winner t w c)"
proof -
  obtain xs ys where w: "bs = xs @ w # ys" "\<forall>c \<in> set xs. \<not> beats t (amount c) (amount w)"
    "\<forall>c \<in> set ys. beats t (amount w) (amount c)"
    using assms by (auto simp: leads_def)
  show ?thesis
  proof (cases "beats t (amount w) (amount c)")
    case True
    then show ?thesis using w unfolding leads_def pick_winner_def
      by (intro exI [of _ xs] exI [of _ "ys @ [c]"]) simp
  next
    case False
    have "\<not> beats t (amount d) (amount c)" if "d \<in> set bs" for d
      using that w False by (cases t) (fastforce simp: beats_def)+
    then show ?thesis using False unfolding leads_def pick_winner_def
      by (intro exI [of _ bs] exI [of _ "[]"]) simp
  qed
qed

lemma leads_best:
  assumes "leads t bs w"
  shows "w \<in> set bs \<and> (\<forall>c \<in> set bs. \<not> beats t (amount c) (amount w))"
proof -
  obtain xs ys where w: "bs = xs @ w # ys" "\<forall>c \<in> set xs. \<not> beats t (amount c) (amount w)"
    "\<forall>c \<in> set ys. beats t (amount w) (amount c)"
    using assms by (auto simp: leads_def)
  moreover have "\<not> beats t (amount c) (amount w)" if "beats t (amount w) (amount c)" for c
    using that beats_trans beats_irrefl by blast
  ultimately show ?thesis by (auto simp: beats_irrefl)
qed

lemma leads_foldl: "leads t (b # bs) (foldl (pick_winner t) b bs)"
proof (induction bs rule: rev_induct)
  case Nil
  show ?case unfolding leads_def by (intro exI [of _ "[]"]) simp
next
  case (snoc c bs)
  from leads_snoc [OF snoc] show ?case by simp
qed

text \<open>
  The winner shown is the earliest of the best: a live bid that no live bid beats, and no
  live bid after it in the list, which is newest first, has the same amount. There is a winner
  exactly when there is a live bid.
\<close>

lemma winner_earliest_best: "winner_ok s (winner s)"
  using leads_foldl [of "auctionType s"]
  by (auto simp: winner_ok_def winner_def leads_def split: list.splits)

text \<open>
  The winner's amount is the price: after a reconciliation, what the closing dialog names
  as the winning amount is the current price of the store, and with no live bid the price is the
  starting price.
\<close>

lemma winner_amount_is_price:
  "currentPrice (reconcileBid r p s) =
     (case winner (reconcileBid r p s) of None \<Rightarrow> startingPrice s | Some w \<Rightarrow> Some (amount w))"
proof -
  let ?s = "reconcileBid r p s" and ?t = "auctionType s"
  have live: "live_bids ?s = filter (\<lambda>b. status b \<noteq> Rejected) (sort_key (\<lambda>b. - timestamp b) (place_bid_row r p (bids s)))"
    by (simp add: live_bids_def bids_reconcile)
  show ?thesis
  proof (cases "live_bids ?s")
    case Nil
    then show ?thesis using live by (simp add: winner_def reconcileBid_def Let_def)
  next
    case (Cons b bs)
    let ?w = "foldl (pick_winner ?t) b bs"
    have w: "winner ?s = Some ?w" using Cons by (simp add: winner_def)
    have "filter (\<lambda>b. status b \<noteq> Rejected) (sort_key (\<lambda>b. - timestamp b) (place_bid_row r p (bids s))) = b # bs"
      using Cons live by simp
    then have price: "currentPrice ?s = Some (best_of ?t (amount b) (map amount bs))"
      unfolding reconcileBid_def Let_def by simp
    note lead = leads_best [OF leads_foldl [of ?t b bs]]
    have "best_of ?t (amount b) (map amount bs) \<in> amount ` set (b # bs)"
      using best_of_in [of ?t "amount b" "map amount bs"] by simp
    then have "\<not> beats ?t (best_of ?t (amount b) (map amount bs)) (amount ?w)" using lead by auto
    moreover have "amount ?w \<in> set (amount b # map amount bs)" using lead by auto
    from best_of_best [OF this, of ?t] have "\<not> beats ?t (amount ?w) (best_of ?t (amount b) (map amount bs))" .
    ultimately have "best_of ?t (amount b) (map amount bs) = amount ?w" by (cases ?t) (auto simp: beats_def)
    then show ?thesis using w price by simp
  qed
qed

section \<open>The closing dialog\<close>

text \<open>
  The dialog stays away while the auction runs: in a history of status changes, timers and
  acknowledgements it is hidden, with no timer armed, right after any status other than ended,
  and it appears only through the timer that the end armed.
\<close>

lemma winner_modal_gate:
  "(st \<noteq> Ended \<longrightarrow> modal_timer (modal_status st m) = \<lparr>wm_show = False, wm_timer = False\<rparr>) \<and>
   wm_show (modal_timer (modal_status Ended m)) \<and>
   WinnerModal fmt s (modal_acknowledge m) = None"
  by (simp add: modal_timer_def modal_status_def modal_acknowledge_def WinnerModal_def)

end
