(* ===== verification/Timer.thy ===== *)
theory Timer
  imports Auction_Slice Jsx
begin

text \<open>
  The clock of the live auction: \<open>hooks/useTimerWorker.ts\<close> with the code of its worker,
  \<open>hooks/useServerTimeSync.ts\<close> and \<open>components/auction/CountdownTimer.tsx\<close>. A worker keeps
  the values it was started with; its interval is running or cleared. The effect of the hook
  restarts it when one of its dependencies changes.
\<close>

section \<open>The worker\<close>

record timer_payload =
  tp_startTime :: "int option"
  tp_endTime :: "int option"
  tp_timeSkew :: int
  tp_status :: auction_status

record timer_message =
  tm_remaining :: int
  tm_needsUpdate :: bool

text \<open>One run of the interval's callback; \<open>clock\<close> is \<open>Date.now()\<close>.\<close>

definition worker_tick :: "timer_payload \<Rightarrow> int \<Rightarrow> timer_message" where
  "worker_tick p clock =
     (let now = clock + tp_timeSkew p in
      if tp_status p = Waiting \<and> int_truthy (tp_startTime p) then
        (let remaining = max 0 (the (tp_startTime p) - now)
         in \<lparr>tm_remaining = remaining, tm_needsUpdate = (remaining \<le> 0)\<rparr>)
      else if tp_status p = Active \<and> int_truthy (tp_endTime p) then
        (let remaining = max 0 (the (tp_endTime p) - now)
         in \<lparr>tm_remaining = remaining, tm_needsUpdate = (remaining \<le> 0)\<rparr>)
      else \<lparr>tm_remaining = 0, tm_needsUpdate = False\<rparr>)"

record worker =
  wk_payload :: timer_payload
  wk_running :: bool

record timer =
  tm_worker :: "worker option"
  tm_timeLeft :: int

section \<open>The hook\<close>

definition timer_deps :: "auction_state \<Rightarrow> timer_payload" where
  "timer_deps s = \<lparr>tp_startTime = startTime s, tp_endTime = endTime s, tp_timeSkew = timeSkew s,
     tp_status = auctionStatus s\<rparr>"

text \<open>The effect: no worker without an end time or after the end, else a worker that is started.\<close>

definition timer_effect :: "auction_state \<Rightarrow> worker option" where
  "timer_effect s =
     (if \<not> int_truthy (endTime s) \<or> auctionStatus s = Ended then None
      else Some \<lparr>wk_payload = timer_deps s, wk_running = True\<rparr>)"

text \<open>React runs the effect again, after the cleanup of the last run, when a dependency changed.\<close>

definition timer_sync :: "auction_state \<Rightarrow> auction_state \<Rightarrow> timer \<Rightarrow> timer" where
  "timer_sync old new t = (if timer_deps old = timer_deps new then t else t\<lparr>tm_worker := timer_effect new\<rparr>)"

definition timer_mount :: "auction_state \<Rightarrow> timer" where
  "timer_mount s = \<lparr>tm_worker = timer_effect s, tm_timeLeft = 0\<rparr>"

text \<open>
  The interval fires at \<open>clock\<close> and its message reaches the page at \<open>clock'\<close>: the time left is
  stored, the interval is cleared after a message that needs an update, and that message makes
  the page dispatch \<open>updateAuctionStatus\<close>.
\<close>

definition timer_tick :: "int \<Rightarrow> int \<Rightarrow> auction_state \<times> timer \<Rightarrow> auction_state \<times> timer" where
  "timer_tick clock clock' st =
     (case st of (s, t) \<Rightarrow>
        (case tm_worker t of None \<Rightarrow> (s, t)
         | Some w \<Rightarrow>
             if \<not> wk_running w then (s, t)
             else let m = worker_tick (wk_payload w) clock;
                      t = t\<lparr>tm_timeLeft := tm_remaining m,
                            tm_worker := Some (w\<lparr>wk_running := \<not> tm_needsUpdate m\<rparr>)\<rparr>
                  in if tm_needsUpdate m
                     then let s' = updateAuctionStatus clock' s in (s', timer_sync s s' t)
                     else (s, t)))"

text \<open>Any other action of the store, as the hook sees it.\<close>

definition timer_store :: "auction_action \<Rightarrow> auction_state \<times> timer \<Rightarrow> auction_state \<times> timer" where
  "timer_store a st = (case st of (s, t) \<Rightarrow> let s' = auctionReducer a s in (s', timer_sync s s' t))"

text \<open>\<open>useServerTimeSync\<close>: the skew it stores is zero, and it is then done.\<close>

record time_sync =
  ts_actions :: "auction_action list"
  ts_isSyncing :: bool

definition useServerTimeSync :: "bool \<Rightarrow> time_sync" where
  "useServerTimeSync mounted =
     (if mounted then \<lparr>ts_actions = [SetTimeSkew 0], ts_isSyncing = False\<rparr>
      else \<lparr>ts_actions = [], ts_isSyncing = True\<rparr>)"

section \<open>The countdown\<close>

record countdown_parts =
  cd_hours :: int
  cd_minutes :: int
  cd_seconds :: int
  cd_milliseconds :: int

definition countdown_parts_of :: "int \<Rightarrow> countdown_parts" where
  "countdown_parts_of timeLeft =
     (let safeTime = max 0 timeLeft in
      \<lparr>cd_hours = safeTime div (1000 * 60 * 60),
       cd_minutes = (safeTime mod (1000 * 60 * 60)) div (1000 * 60),
       cd_seconds = (safeTime mod (1000 * 60)) div 1000,
       cd_milliseconds = safeTime mod 1000\<rparr>)"

definition isUrgent :: "auction_status \<Rightarrow> int \<Rightarrow> bool" where
  "isUrgent st timeLeft = (let safeTime = max 0 timeLeft in st = Active \<and> safeTime > 0 \<and> safeTime \<le> 20000)"

definition pad_int :: "nat \<Rightarrow> int \<Rightarrow> string" where
  "pad_int n i = pad_start n CHR ''0'' (int_str i)"

definition clock_text :: "countdown_parts \<Rightarrow> string" where
  "clock_text c = pad_int 2 (cd_hours c) @ '':'' @ pad_int 2 (cd_minutes c) @ '':'' @ pad_int 2 (cd_seconds c)"

definition CountdownTimer :: "auction_status \<Rightarrow> int \<Rightarrow> 'a jsx" where
  "CountdownTimer st timeLeft =
     (let c = countdown_parts_of timeLeft in
      El ''div'' [] [
        El ''h3'' [] [Txt ''Auction countdown''],
        El ''div'' [] [
          El ''span'' [] [Txt (if st = Waiting then ''Starts In:'' else if st = Active then ''Ends In:'' else ''Auction Ended'')],
          El ''div'' [Attr ''aria-live'' ''off'',
              Attr ''aria-label'' (int_str (cd_hours c) @ '' hours '' @ int_str (cd_minutes c) @ '' minutes '' @
                int_str (cd_seconds c) @ '' seconds remaining'')] [
            El ''Activity'' [Flag ''urgent'' (isUrgent st timeLeft)] [],
            El ''div'' [Flag ''urgent'' (isUrgent st timeLeft)] [
              Txt (clock_text c),
              El ''span'' [] [Txt (''.'' @ pad_int 3 (cd_milliseconds c))]],
            El ''Activity'' [Flag ''urgent'' (isUrgent st timeLeft)] []]]])"

section \<open>The displayed time\<close>

text \<open>Reading the display back: the inverse of the component's arithmetic.\<close>

definition read_clock :: "string \<Rightarrow> int" where
  "read_clock s =
     (case split_char CHR '':'' s of
        [h, m, rest] \<Rightarrow>
          (case split_char CHR ''.'' rest of
             [sec, ms] \<Rightarrow> ((int (digits_val h) * 60 + int (digits_val m)) * 60 + int (digits_val sec)) * 1000
                            + int (digits_val ms)
           | _ \<Rightarrow> 0)
      | _ \<Rightarrow> 0)"

lemma pad_int_nonneg: "0 \<le> i \<Longrightarrow> pad_int n i = pad0 n (nat i)"
  by (simp add: pad_int_def pad0_def int_str_def)

lemma split_pad0 [simp]:
  "split_char CHR '':'' (pad0 n v) = [pad0 n v]" "split_char CHR '':'' (pad0 n v @ CHR '':'' # t) = pad0 n v # split_char CHR '':'' t"
  "split_char CHR ''.'' (pad0 n v) = [pad0 n v]" "split_char CHR ''.'' (pad0 n v @ CHR ''.'' # t) = pad0 n v # split_char CHR ''.'' t"
  by (simp_all add: split_char_fresh split_char_cons pad0_fresh is_digit_def)

lemma mixed_radix:
  fixes t h r m r' s ms :: int
  assumes "t = h * 3600000 + r" and "r = m * 60000 + r'" and "r' = s * 1000 + ms"
  shows "((h * 60 + m) * 60 + s) * 1000 + ms = t"
  using assms by simp

lemma countdown_parts_sum:
  fixes t :: int
  shows "((t div 3600000 * 60 + t mod 3600000 div 60000) * 60 + t mod 60000 div 1000) * 1000 + t mod 1000 = t"
proof (rule mixed_radix)
  show "t = t div 3600000 * 3600000 + t mod 3600000" by (rule div_mult_mod_eq [symmetric])
  have "t mod 3600000 mod 60000 = t mod 60000" by (rule mod_mod_cancel) simp
  then show "t mod 3600000 = t mod 3600000 div 60000 * 60000 + t mod 60000"
    by (metis div_mult_mod_eq)
  have "t mod 60000 mod 1000 = t mod 1000" by (rule mod_mod_cancel) simp
  then show "t mod 60000 = t mod 60000 div 1000 * 1000 + t mod 1000"
    by (metis div_mult_mod_eq)
qed

lemma countdown_parts_eqs:
  "cd_hours (countdown_parts_of t) = max 0 t div 3600000"
  "cd_minutes (countdown_parts_of t) = max 0 t mod 3600000 div 60000"
  "cd_seconds (countdown_parts_of t) = max 0 t mod 60000 div 1000"
  "cd_milliseconds (countdown_parts_of t) = max 0 t mod 1000"
  by (simp_all add: countdown_parts_of_def Let_def)

lemma countdown_parts_range:
  "0 \<le> cd_hours (countdown_parts_of t)"
  "0 \<le> cd_minutes (countdown_parts_of t)" "cd_minutes (countdown_parts_of t) < 60"
  "0 \<le> cd_seconds (countdown_parts_of t)" "cd_seconds (countdown_parts_of t) < 60"
  "0 \<le> cd_milliseconds (countdown_parts_of t)" "cd_milliseconds (countdown_parts_of t) < 1000"
  unfolding countdown_parts_eqs
proof -
  show "max 0 t mod 3600000 div 60000 < 60" "max 0 t mod 60000 div 1000 < 60"
    by (simp_all add: div_less_iff_less_mult)
qed (simp_all add: pos_imp_zdiv_nonneg_iff)

text \<open>
  The countdown shows the whole remaining time: reading the digits on screen back as
  hours, minutes, seconds and milliseconds gives the time left (zero when it is negative), with
  minutes and seconds below sixty and the milliseconds below a thousand.
\<close>

lemma countdown_roundtrip:
  "read_clock (clock_text (countdown_parts_of t) @ ''.'' @ pad_int 3 (cd_milliseconds (countdown_parts_of t))) = max 0 t \<and>
   cd_minutes (countdown_parts_of t) < 60 \<and> cd_seconds (countdown_parts_of t) < 60 \<and>
   cd_milliseconds (countdown_parts_of t) < 1000"
proof -
  let ?c = "countdown_parts_of t"
  note r = countdown_parts_range [of t]
  have p: "read_clock (pad0 2 h @ '':'' @ pad0 2 m @ '':'' @ pad0 2 sec @ ''.'' @ pad0 3 ms) =
    ((int h * 60 + int m) * 60 + int sec) * 1000 + int ms" for h m sec ms
    by (simp add: read_clock_def split_char_fresh pad0_fresh is_digit_def pad0_props(1))
  have "read_clock (clock_text ?c @ ''.'' @ pad_int 3 (cd_milliseconds ?c)) =
    ((cd_hours ?c * 60 + cd_minutes ?c) * 60 + cd_seconds ?c) * 1000 + cd_milliseconds ?c"
    using p [of "nat (cd_hours ?c)" "nat (cd_minutes ?c)" "nat (cd_seconds ?c)" "nat (cd_milliseconds ?c)"] r
    by (simp add: clock_text_def pad_int_nonneg)
  also have "\<dots> = max 0 t" unfolding countdown_parts_eqs by (rule countdown_parts_sum)
  finally show ?thesis using r by simp
qed

section \<open>Status and clock\<close>

definition status_rank :: "auction_status \<Rightarrow> nat" where
  "status_rank st = (case st of Waiting \<Rightarrow> 0 | Active \<Rightarrow> 1 | Ended \<Rightarrow> 2)"

text \<open>
  As the clock advances the computed status only moves forward, from waiting to active to
  ended, for a schedule whose end is not before its start.
\<close>

lemma status_at_mono:
  assumes "now \<le> now'" and "start \<le> stop"
  shows "status_rank (status_at now start stop) \<le> status_rank (status_at now' start stop)"
  using assms by (auto simp: status_at_def status_rank_def)

text \<open>A timer whose worker was started with the store's present values.\<close>

definition timer_fresh :: "auction_state \<Rightarrow> timer \<Rightarrow> bool" where
  "timer_fresh s t = (tm_worker t = Some \<lparr>wk_payload = timer_deps s, wk_running = True\<rparr>)"

text \<open>
  The start is never missed: when the interval fires at or after the start of an auction
  that is waiting, the page leaves the waiting state and a new worker, or none after the end,
  replaces the one that stopped.
\<close>

lemma timer_starts_auction:
  assumes "timer_fresh s t" and "auctionStatus s = Waiting"
    and "startTime s = Some st" and "endTime s = Some en" and "st \<noteq> 0" and "en \<noteq> 0"
    and "st \<le> clock + timeSkew s" and "clock \<le> clock'"
  shows "auctionStatus (fst (timer_tick clock clock' (s, t))) \<noteq> Waiting \<and>
    tm_worker (snd (timer_tick clock clock' (s, t))) = timer_effect (fst (timer_tick clock clock' (s, t)))"
  using assms
  by (auto simp: timer_tick_def timer_fresh_def worker_tick_def timer_deps_def int_truthy_def
      updateAuctionStatus_def status_at_def timer_sync_def Let_def)

definition ex_waiting :: auction_state where
  "ex_waiting = initialState\<lparr>startTime := Some 10, endTime := Some 20\<rparr>"

text \<open>
  The end is reached when the message arrives after it: the auction is ended and no worker
  is left running.
\<close>

lemma timer_ends_auction:
  assumes "timer_fresh s t" and "auctionStatus s = Active"
    and "startTime s = Some st" and "endTime s = Some en" and "st \<noteq> 0" and "en \<noteq> 0"
    and "en \<le> clock + timeSkew s" and "en < clock' + timeSkew s"
  shows "auctionStatus (fst (timer_tick clock clock' (s, t))) = Ended \<and>
    tm_worker (snd (timer_tick clock clock' (s, t))) = None"
  using assms
  by (auto simp: timer_tick_def timer_fresh_def worker_tick_def timer_deps_def int_truthy_def
      updateAuctionStatus_def status_at_def timer_sync_def timer_effect_def Let_def)

definition ex_active :: auction_state where
  "ex_active = ex_waiting\<lparr>auctionStatus := Active\<rparr>"

lemmas ex_timer_simps = timer_fresh_def timer_mount_def timer_effect_def timer_deps_def ex_active_def
  ex_waiting_def initialState_def int_truthy_def

lemma stopped_stays:
  "tm_worker t = Some w \<Longrightarrow> \<not> wk_running w \<Longrightarrow> fold (\<lambda>(c, c'). timer_tick c c') cs (s, t) = (s, t)"
  by (induction cs) (auto simp: timer_tick_def)

text \<open>
  The page can be stuck at the end: when the interval fires, and its message is handled,
  in the very millisecond of the end time, the worker clears its interval while the reducer still
  finds the auction active, and no later tick changes that.
\<close>

lemma timer_stuck_at_end:
  assumes "timer_fresh s t" and "auctionStatus s = Active"
    and "startTime s = Some st" and "endTime s = Some en" and "st \<noteq> 0" and "en \<noteq> 0"
    and "st \<le> en" and "clock + timeSkew s = en"
  shows "auctionStatus (fst (fold (\<lambda>(c, c'). timer_tick c c') ((clock, clock) # cs) (s, t))) = Active"
proof -
  let ?t = "t\<lparr>tm_timeLeft := 0, tm_worker := Some \<lparr>wk_payload = timer_deps s, wk_running = False\<rparr>\<rparr>"
  have "timer_tick clock clock (s, t) = (s, ?t)"
    using assms
    by (auto simp: timer_tick_def timer_fresh_def worker_tick_def timer_deps_def int_truthy_def
      updateAuctionStatus_def status_at_def timer_sync_def Let_def)
  then show ?thesis using assms(2) by (simp add: stopped_stays)
qed

section \<open>The interval ends\<close>

definition timer_running :: "timer \<Rightarrow> bool" where
  "timer_running t = (case tm_worker t of None \<Rightarrow> False | Some w \<Rightarrow> wk_running w)"

lemma idle_stays: "\<not> timer_running t \<Longrightarrow> fold (\<lambda>(c, c'). timer_tick c c') cs (s, t) = (s, t)"
  by (induction cs) (auto simp: timer_tick_def timer_running_def split: option.splits)

lemma active_tick_stops:
  assumes "timer_fresh s t" and "auctionStatus s = Active" and "startTime s = Some st" and "endTime s = Some en"
    and "st \<noteq> 0" and "en \<noteq> 0" and "st \<le> en" and "en \<le> clock + timeSkew s" and "clock \<le> clock'"
  shows "\<not> timer_running (snd (timer_tick clock clock' (s, t)))"
  using assms
  by (auto simp: timer_tick_def timer_fresh_def worker_tick_def timer_deps_def int_truthy_def timer_running_def
      updateAuctionStatus_def status_at_def timer_sync_def timer_effect_def Let_def)

lemma waiting_tick_moves:
  assumes "timer_fresh s t" and "auctionStatus s = Waiting" and "startTime s = Some st" and "endTime s = Some en"
    and "st \<noteq> 0" and "en \<noteq> 0" and "st \<le> en" and "en \<le> clock + timeSkew s" and "clock \<le> clock'"
  obtains s' t' where "timer_tick clock clock' (s, t) = (s', t')" and "startTime s' = Some st" and "endTime s' = Some en"
    and "timeSkew s' = timeSkew s" and "auctionStatus s' = Active \<and> timer_fresh s' t' \<or> \<not> timer_running t'"
  using assms
  by (auto simp: timer_tick_def timer_fresh_def worker_tick_def timer_deps_def int_truthy_def timer_running_def
      updateAuctionStatus_def status_at_def timer_sync_def timer_effect_def Let_def)

text \<open>
  (C32) The interval ends: once it has fired twice at or after the end of the auction, no interval is
  running any more, whatever ticks are still to come. (Twice, since the first one may only move a waiting
  auction to its active phase.)
\<close>

theorem timer_terminates:
  assumes "timer_fresh s t" and "auctionStatus s \<noteq> Ended" and "startTime s = Some st" and "endTime s = Some en"
    and "st \<noteq> 0" and "en \<noteq> 0" and "st \<le> en"
    and "en \<le> c1 + timeSkew s" and "c1 \<le> c1'" and "en \<le> c2 + timeSkew s" and "c2 \<le> c2'"
  shows "\<not> timer_running (snd (fold (\<lambda>(c, c'). timer_tick c c') ((c1, c1') # (c2, c2') # cs) (s, t)))"
proof -
  obtain s' t' where 1: "timer_tick c1 c1' (s, t) = (s', t')" by fastforce
  obtain s'' t'' where 2: "timer_tick c2 c2' (s', t') = (s'', t'')" by fastforce
  have "\<not> timer_running t''"
  proof (cases "timer_running t'")
    case False
    then show ?thesis using idle_stays [of t' "[(c2, c2')]" s'] 2 by simp
  next
    case True
    then have "auctionStatus s \<noteq> Active" using active_tick_stops [OF assms(1) _ assms(3-9)] 1 by auto
    with assms(2) have w: "auctionStatus s = Waiting" by (cases "auctionStatus s") auto
    obtain u v where "timer_tick c1 c1' (s, t) = (u, v)" "startTime u = Some st" "endTime u = Some en" "timeSkew u = timeSkew s"
      "auctionStatus u = Active \<and> timer_fresh u v \<or> \<not> timer_running v"
      using waiting_tick_moves [OF assms(1) w assms(3-9)] by blast
    with 1 True have "auctionStatus s' = Active" "timer_fresh s' t'" "startTime s' = Some st" "endTime s' = Some en" "timeSkew s' = timeSkew s"
      by auto
    then show ?thesis using active_tick_stops [of s' t' st en c2 c2'] assms 2 by simp
  qed
  then show ?thesis using 1 2 by (simp add: idle_stays)
qed

theorem timer_terminates_witness:
  "\<not> timer_running (snd (fold (\<lambda>(c, c'). timer_tick c c') ((20, 20) # (21, 22) # [(30, 30)]) (ex_waiting, timer_mount ex_waiting)))"
  by (rule timer_terminates [where st = 10 and en = 20]) (simp_all add: ex_timer_simps)

end
