(* ===== verification/Tab_Guard.thy ===== *)
theory Tab_Guard
  imports Jsx
begin

text \<open>
  \<open>hooks/useConcurrencyGuard.ts\<close> and \<open>components/auction/ConcurrencyGuardModal.tsx\<close>: the
  tabs that show the same auction find each other over a \<open>BroadcastChannel\<close>. The state is the
  list of channel instances ever opened for the auction, each with its random id, whether it is
  still open, its conflict flag and the messages that wait for its handler. An empty auction id
  opens no channel, so it has no such state. A message that is
  posted reaches every other open channel, in order. The tabs move in any order, so the steps
  are a relation.
\<close>

section \<open>Channels\<close>

datatype guard_msg = PING string | PONG string

record tab =
  instanceId :: string
  tb_open :: bool
  hasConflict :: bool
  inbox :: "guard_msg list"

definition post :: "nat \<Rightarrow> guard_msg \<Rightarrow> tab list \<Rightarrow> tab list" where
  "post k m ts = map (\<lambda>j. if j \<noteq> k \<and> tb_open (ts ! j) then (ts ! j)\<lparr>inbox := inbox (ts ! j) @ [m]\<rparr> else ts ! j)
     [0..<length ts]"

text \<open>The effect: a channel with a random id announces itself.\<close>

definition guard_mount :: "string \<Rightarrow> tab list \<Rightarrow> tab list" where
  "guard_mount i ts = post (length ts) (PING i)
     (ts @ [\<lparr>instanceId = i, tb_open = True, hasConflict = False, inbox = []\<rparr>])"

definition setHasConflict :: "nat \<Rightarrow> tab list \<Rightarrow> tab list" where
  "setHasConflict k ts = ts[k := (ts ! k)\<lparr>hasConflict := True\<rparr>]"

definition handleMessage :: "nat \<Rightarrow> guard_msg \<Rightarrow> tab list \<Rightarrow> tab list" where
  "handleMessage k m ts = (case m of
     PING i \<Rightarrow> if i \<noteq> instanceId (ts ! k) then setHasConflict k (post k (PONG (instanceId (ts ! k))) ts) else ts
   | PONG i \<Rightarrow> if i \<noteq> instanceId (ts ! k) then setHasConflict k ts else ts)"

definition guard_deliver :: "nat \<Rightarrow> tab list \<Rightarrow> tab list" where
  "guard_deliver k ts = (case inbox (ts ! k) of [] \<Rightarrow> ts
     | m # ms \<Rightarrow> handleMessage k m (ts[k := (ts ! k)\<lparr>inbox := ms\<rparr>]))"

text \<open>The cleanup closes the channel; what still waited is lost.\<close>

definition guard_unmount :: "nat \<Rightarrow> tab list \<Rightarrow> tab list" where
  "guard_unmount k ts = ts[k := (ts ! k)\<lparr>tb_open := False, inbox := []\<rparr>]"

inductive guard_step :: "tab list \<Rightarrow> tab list \<Rightarrow> bool" where
  mount: "guard_step ts (guard_mount i ts)"
| deliver: "k < length ts \<Longrightarrow> tb_open (ts ! k) \<Longrightarrow> guard_step ts (guard_deliver k ts)"
| unmount: "k < length ts \<Longrightarrow> guard_step ts (guard_unmount k ts)"

inductive_cases guard_stepE: "guard_step ts ts'"

definition ConcurrencyGuardModal :: "bool \<Rightarrow> 'a jsx" where
  "ConcurrencyGuardModal conflict =
     El ''AnimatePresence'' [] (only_if conflict [
       El ''motion.div'' [] [
         El ''motion.div'' [] [
           El ''div'' [] [El ''AlertTriangle'' [] []],
           El ''h2'' [] [Txt ''Duplicate Session Detected''],
           El ''p'' [] [Txt ''You have another tab or window open for this auction. Bidding across multiple tabs is restricted to prevent race conditions.''],
           El ''p'' [] [Txt ''Please close all other active tabs for this auction to continue.'']]]])"

section \<open>Posting and handling\<close>

lemma post_length [simp]: "length (post k m ts) = length ts"
  by (simp add: post_def)

lemma post_nth:
  "j < length ts \<Longrightarrow> post k m ts ! j =
     (if j \<noteq> k \<and> tb_open (ts ! j) then (ts ! j)\<lparr>inbox := inbox (ts ! j) @ [m]\<rparr> else ts ! j)"
  by (simp add: post_def)

lemma setHasConflict_length [simp]: "length (setHasConflict k ts) = length ts"
  by (simp add: setHasConflict_def)

lemma setHasConflict_nth:
  "j < length ts \<Longrightarrow> setHasConflict k ts ! j = (if j = k then (ts ! j)\<lparr>hasConflict := True\<rparr> else ts ! j)"
  by (simp add: setHasConflict_def)

lemma handleMessage_length [simp]: "length (handleMessage k m ts) = length ts"
  by (simp add: handleMessage_def split: guard_msg.splits)

lemma guard_deliver_length [simp]: "length (guard_deliver k ts) = length ts"
  by (simp add: guard_deliver_def split: list.splits)

text \<open>What delivering one message to channel \<open>k\<close> does to channel \<open>j\<close>.\<close>

definition sender :: "guard_msg \<Rightarrow> string" where
  "sender m = (case m of PING i \<Rightarrow> i | PONG i \<Rightarrow> i)"

definition heard :: "nat \<Rightarrow> tab list \<Rightarrow> bool" where
  "heard k ts = (\<exists>m ms. inbox (ts ! k) = m # ms \<and> sender m \<noteq> instanceId (ts ! k))"

definition answers :: "nat \<Rightarrow> tab list \<Rightarrow> bool" where
  "answers k ts = (\<exists>i ms. inbox (ts ! k) = PING i # ms \<and> i \<noteq> instanceId (ts ! k))"

lemma guard_deliver_nth:
  assumes "j < length ts" and "k < length ts"
  shows "guard_deliver k ts ! j =
    (if j = k then (ts ! k)\<lparr>inbox := tl (inbox (ts ! k)), hasConflict := hasConflict (ts ! k) \<or> heard k ts\<rparr>
     else if answers k ts \<and> tb_open (ts ! j)
       then (ts ! j)\<lparr>inbox := inbox (ts ! j) @ [PONG (instanceId (ts ! k))]\<rparr> else ts ! j)"
proof (cases "inbox (ts ! k)")
  case Nil
  then show ?thesis by (cases "ts ! k") (simp add: guard_deliver_def heard_def answers_def)
next
  case (Cons m ms)
  then show ?thesis using assms
    by (cases m; cases "ts ! k")
      (auto simp: guard_deliver_def handleMessage_def heard_def answers_def sender_def setHasConflict_nth post_nth)
qed

lemma guard_mount_nth:
  "j < length ts \<Longrightarrow> guard_mount i ts ! j =
     (if tb_open (ts ! j) then (ts ! j)\<lparr>inbox := inbox (ts ! j) @ [PING i]\<rparr> else ts ! j)"
  "guard_mount i ts ! length ts = \<lparr>instanceId = i, tb_open = True, hasConflict = False, inbox = []\<rparr>"
  "length (guard_mount i ts) = Suc (length ts)"
  by (simp_all add: guard_mount_def post_nth nth_append)

section \<open>Every pair finds each other\<close>

text \<open>
  For two open channels, the announcement of the later one still waits at the earlier one, or the
  earlier one knows and its answer waits at the later one or has been heard.
\<close>

definition pair_ok :: "tab \<Rightarrow> tab \<Rightarrow> bool" where
  "pair_ok a b = (tb_open a \<longrightarrow> tb_open b \<longrightarrow> instanceId a \<noteq> instanceId b \<longrightarrow>
     PING (instanceId b) \<in> set (inbox a) \<or>
     hasConflict a \<and> (PONG (instanceId a) \<in> set (inbox b) \<or> hasConflict b))"

definition pairs_inv :: "tab list \<Rightarrow> bool" where
  "pairs_inv ts = (\<forall>j k. j < k \<longrightarrow> k < length ts \<longrightarrow> pair_ok (ts ! j) (ts ! k))"

lemma pairs_mount: "pairs_inv ts \<Longrightarrow> pairs_inv (guard_mount i ts)"
  unfolding pairs_inv_def guard_mount_nth(3)
proof (intro allI impI)
  fix j k assume inv: "\<forall>j k. j < k \<longrightarrow> k < length ts \<longrightarrow> pair_ok (ts ! j) (ts ! k)"
    and jk: "j < k" "k < Suc (length ts)"
  show "pair_ok (guard_mount i ts ! j) (guard_mount i ts ! k)"
  proof (cases "k = length ts")
    case True
    then show ?thesis using jk by (auto simp: guard_mount_nth pair_ok_def)
  next
    case False
    then have "pair_ok (ts ! j) (ts ! k)" "j < length ts" "k < length ts" using inv jk by auto
    then show ?thesis by (auto simp: guard_mount_nth pair_ok_def)
  qed
qed

lemma pairs_deliver:
  assumes "d < length ts" and "pairs_inv ts"
  shows "pairs_inv (guard_deliver d ts)"
  unfolding pairs_inv_def guard_deliver_length
proof (intro allI impI)
  fix j k assume jk: "j < k" "k < length ts"
  then have ok: "pair_ok (ts ! j) (ts ! k)" using assms(2) by (simp add: pairs_inv_def)
  consider "d = j" | "d = k" | "d \<noteq> j" "d \<noteq> k" by blast
  then show "pair_ok (guard_deliver d ts ! j) (guard_deliver d ts ! k)"
  proof cases
    case 1
    then show ?thesis using ok jk
      by (cases "inbox (ts ! j)") (auto simp: guard_deliver_nth pair_ok_def heard_def answers_def sender_def)
  next
    case 2
    then show ?thesis using ok jk
      by (cases "inbox (ts ! k)") (auto simp: guard_deliver_nth pair_ok_def heard_def answers_def sender_def)
  next
    case 3
    then show ?thesis using ok jk assms(1) by (auto simp: guard_deliver_nth pair_ok_def)
  qed
qed

lemma pairs_unmount: "k < length ts \<Longrightarrow> pairs_inv ts \<Longrightarrow> pairs_inv (guard_unmount k ts)"
  by (auto simp: pairs_inv_def guard_unmount_def nth_list_update pair_ok_def)

interpretation guard: step_system "[]" guard_step pairs_inv
proof
  show "pairs_inv []" by (simp add: pairs_inv_def)
  fix s s' assume "guard_step s s'" "pairs_inv s"
  then show "pairs_inv s'" by (cases rule: guard_step.cases) (auto intro: pairs_mount pairs_deliver pairs_unmount)
qed

text \<open>
  (C29) No duplicate goes unnoticed: in every reachable state in which no message is waiting at
  two open channels with different ids, both have their conflict flag set, whatever the order in
  which tabs were opened and closed and messages were delivered.
\<close>

theorem duplicates_detected:
  assumes "guard_step\<^sup>*\<^sup>* [] ts" and "j < length ts" and "k < length ts"
    and "tb_open (ts ! j)" and "tb_open (ts ! k)" and "instanceId (ts ! j) \<noteq> instanceId (ts ! k)"
    and "inbox (ts ! j) = []" and "inbox (ts ! k) = []"
  shows "hasConflict (ts ! j) \<and> hasConflict (ts ! k)"
proof -
  have "pairs_inv ts" using guard.reach_inv assms(1) .
  moreover have "j < k \<or> k < j" using assms(6) by (cases j k rule: linorder_cases) auto
  ultimately have "pair_ok (ts ! j) (ts ! k) \<or> pair_ok (ts ! k) (ts ! j)"
    using assms(2,3) by (auto simp: pairs_inv_def)
  then show ?thesis using assms by (auto simp: pair_ok_def)
qed

definition ex_tabs :: "tab list" where
  "ex_tabs = guard_deliver 1 (guard_deliver 0 (guard_mount ''b'' (guard_mount ''a'' [])))"

lemma ex_tabs_eq: "ex_tabs =
  [\<lparr>instanceId = ''a'', tb_open = True, hasConflict = True, inbox = []\<rparr>,
   \<lparr>instanceId = ''b'', tb_open = True, hasConflict = True, inbox = []\<rparr>]"
  by (simp add: ex_tabs_def guard_mount_def guard_deliver_def handleMessage_def setHasConflict_def post_def)

lemma ex_tabs_reach: "guard_step\<^sup>*\<^sup>* [] ex_tabs"
proof -
  let ?a = "guard_mount ''a'' []" let ?b = "guard_mount ''b'' ?a"
  have "guard_step [] ?a" "guard_step ?a ?b" by (rule guard_step.mount)+
  moreover have "guard_step ?b (guard_deliver 0 ?b)"
    by (rule guard_step.deliver) (simp_all add: guard_mount_def post_def)
  moreover have "guard_step (guard_deliver 0 ?b) ex_tabs" unfolding ex_tabs_def
    by (rule guard_step.deliver)
      (simp_all add: guard_mount_def post_def guard_deliver_def handleMessage_def setHasConflict_def)
  ultimately show ?thesis by (meson converse_rtranclp_into_rtranclp rtranclp.rtrancl_refl)
qed

theorem duplicates_detected_witness: "hasConflict (ex_tabs ! 0) \<and> hasConflict (ex_tabs ! 1)"
  by (rule duplicates_detected [OF ex_tabs_reach]) (simp_all add: ex_tabs_eq)

section \<open>No false alarm\<close>

text \<open>A flag, and every message that waits, comes from another channel.\<close>

definition alarm_inv :: "tab list \<Rightarrow> bool" where
  "alarm_inv ts = (\<forall>k < length ts.
     (hasConflict (ts ! k) \<longrightarrow> (\<exists>j < length ts. j \<noteq> k \<and> instanceId (ts ! j) \<noteq> instanceId (ts ! k))) \<and>
     (\<forall>m \<in> set (inbox (ts ! k)). \<exists>j < length ts. j \<noteq> k \<and> instanceId (ts ! j) = sender m))"

lemma alarm_frame:
  assumes "alarm_inv ts" and "length ts \<le> length ts'"
    and ids: "\<forall>j < length ts. instanceId (ts' ! j) = instanceId (ts ! j)"
    and step: "\<forall>k < length ts'. (hasConflict (ts' ! k) \<longrightarrow> (k < length ts \<and> (hasConflict (ts ! k) \<or> heard k ts))) \<and>
      (\<forall>m \<in> set (inbox (ts' ! k)). (k < length ts \<and> m \<in> set (inbox (ts ! k))) \<or>
         (\<exists>j < length ts'. j \<noteq> k \<and> instanceId (ts' ! j) = sender m))"
  shows "alarm_inv ts'"
  unfolding alarm_inv_def
proof (intro allI impI conjI ballI)
  fix k assume k: "k < length ts'" and c: "hasConflict (ts' ! k)"
  then have old: "k < length ts" "hasConflict (ts ! k) \<or> heard k ts" using step by auto
  then have "\<exists>j < length ts. j \<noteq> k \<and> instanceId (ts ! j) \<noteq> instanceId (ts ! k)"
    using assms(1) unfolding alarm_inv_def heard_def by (metis list.set_intros(1))
  then show "\<exists>j < length ts'. j \<noteq> k \<and> instanceId (ts' ! j) \<noteq> instanceId (ts' ! k)"
    using ids old(1) assms(2) by (metis order_less_le_trans)
next
  fix k m assume k: "k < length ts'" and m: "m \<in> set (inbox (ts' ! k))"
  with step consider "k < length ts" "m \<in> set (inbox (ts ! k))"
    | "\<exists>j < length ts'. j \<noteq> k \<and> instanceId (ts' ! j) = sender m" by blast
  then show "\<exists>j < length ts'. j \<noteq> k \<and> instanceId (ts' ! j) = sender m"
  proof cases
    case 1
    then show ?thesis using assms(1,2) ids unfolding alarm_inv_def by (metis order_less_le_trans)
  qed
qed

lemma alarm_mount:
  assumes "alarm_inv ts"
  shows "alarm_inv (guard_mount i ts)"
proof (rule alarm_frame [OF assms])
  show "length ts \<le> length (guard_mount i ts)" by (simp add: guard_mount_nth)
  show "\<forall>j < length ts. instanceId (guard_mount i ts ! j) = instanceId (ts ! j)" by (simp add: guard_mount_nth)
  show "\<forall>k < length (guard_mount i ts). (hasConflict (guard_mount i ts ! k) \<longrightarrow> k < length ts \<and> (hasConflict (ts ! k) \<or> heard k ts)) \<and>
      (\<forall>m \<in> set (inbox (guard_mount i ts ! k)). k < length ts \<and> m \<in> set (inbox (ts ! k)) \<or>
         (\<exists>j < length (guard_mount i ts). j \<noteq> k \<and> instanceId (guard_mount i ts ! j) = sender m))"
    unfolding guard_mount_nth(3)
  proof (intro allI impI)
    fix k assume "k < Suc (length ts)"
    then show "(hasConflict (guard_mount i ts ! k) \<longrightarrow> k < length ts \<and> (hasConflict (ts ! k) \<or> heard k ts)) \<and>
        (\<forall>m \<in> set (inbox (guard_mount i ts ! k)). k < length ts \<and> m \<in> set (inbox (ts ! k)) \<or>
           (\<exists>j < Suc (length ts). j \<noteq> k \<and> instanceId (guard_mount i ts ! j) = sender m))"
      by (cases "k = length ts") (auto simp: guard_mount_nth sender_def intro!: exI [of _ "length ts"])
  qed
qed

lemma in_set_tl: "x \<in> set (tl xs) \<Longrightarrow> x \<in> set xs"
  by (cases xs) auto

lemma alarm_deliver:
  assumes "d < length ts" and "alarm_inv ts"
  shows "alarm_inv (guard_deliver d ts)"
proof (rule alarm_frame [OF assms(2)])
  show "\<forall>j < length ts. instanceId (guard_deliver d ts ! j) = instanceId (ts ! j)"
    using assms(1) by (simp add: guard_deliver_nth)
  then have d: "instanceId (guard_deliver d ts ! d) = instanceId (ts ! d)" using assms(1) by simp
  show "\<forall>k < length (guard_deliver d ts). (hasConflict (guard_deliver d ts ! k) \<longrightarrow> k < length ts \<and> (hasConflict (ts ! k) \<or> heard k ts)) \<and>
      (\<forall>m \<in> set (inbox (guard_deliver d ts ! k)). k < length ts \<and> m \<in> set (inbox (ts ! k)) \<or>
         (\<exists>j < length (guard_deliver d ts). j \<noteq> k \<and> instanceId (guard_deliver d ts ! j) = sender m))"
    unfolding guard_deliver_length
  proof (intro allI impI)
    fix k assume "k < length ts"
    then show "(hasConflict (guard_deliver d ts ! k) \<longrightarrow> k < length ts \<and> (hasConflict (ts ! k) \<or> heard k ts)) \<and>
        (\<forall>m \<in> set (inbox (guard_deliver d ts ! k)). k < length ts \<and> m \<in> set (inbox (ts ! k)) \<or>
           (\<exists>j < length ts. j \<noteq> k \<and> instanceId (guard_deliver d ts ! j) = sender m))"
      using assms(1) d
      by (cases "k = d")
        (auto simp: guard_deliver_nth sender_def dest: in_set_tl intro!: exI [of _ d] split: if_splits)
  qed
qed simp

lemma alarm_unmount: "k < length ts \<Longrightarrow> alarm_inv ts \<Longrightarrow> alarm_inv (guard_unmount k ts)"
  by (rule alarm_frame) (auto simp: guard_unmount_def nth_list_update)

interpretation alarm: step_system "[]" guard_step alarm_inv
proof
  show "alarm_inv []" by (simp add: alarm_inv_def)
  fix s s' assume "guard_step s s'" "alarm_inv s"
  then show "alarm_inv s'" by (cases rule: guard_step.cases) (auto intro: alarm_mount alarm_deliver alarm_unmount)
qed

text \<open>
  No false alarm for a single tab: a conflict flag is set only where another channel with a
  different id has been opened for the same auction.
\<close>

lemma conflict_has_cause:
  assumes "guard_step\<^sup>*\<^sup>* [] ts" and "k < length ts" and "hasConflict (ts ! k)"
  shows "\<exists>j < length ts. j \<noteq> k \<and> instanceId (ts ! j) \<noteq> instanceId (ts ! k)"
  using alarm.reach_inv [OF assms(1)] assms(2,3) unfolding alarm_inv_def by blast

section \<open>The flag stays\<close>

lemma conflict_step:
  "guard_step ts ts' \<Longrightarrow> k < length ts \<Longrightarrow> hasConflict (ts ! k) \<Longrightarrow> k < length ts' \<and> hasConflict (ts' ! k)"
  by (cases rule: guard_step.cases)
    (auto simp: guard_mount_nth guard_deliver_nth guard_unmount_def nth_list_update)

text \<open>
  Closing the other tabs does not lift the restriction: once the flag of a channel is set,
  it is set in every later state, and the dialog that asks to close the other tabs stays.
\<close>

lemma conflict_sticky:
  assumes "guard_step\<^sup>*\<^sup>* ts ts'" and "k < length ts" and "hasConflict (ts ! k)"
  shows "k < length ts' \<and> hasConflict (ts' ! k) \<and>
    text_content (ConcurrencyGuardModal (hasConflict (ts' ! k))) \<noteq> []"
proof -
  from assms have "k < length ts' \<and> hasConflict (ts' ! k)"
    by (induction rule: rtranclp_induct) (auto dest: conflict_step)
  then show ?thesis by (simp add: ConcurrencyGuardModal_def view_simps)
qed

end
