(* ===== verification/Session.thy ===== *)
theory Session
  imports Http Bidding_Console
begin

text \<open>
  Who is signed in: \<open>contexts/AuthContext.tsx\<close>, the two guards \<open>components/AuthGuard.tsx\<close> and
  \<open>components/AdminGuard.tsx\<close>, and what the two sign-in pages (\<open>app/login/page.tsx\<close>,
  \<open>app/admin/login/page.tsx\<close>) and the logout of \<open>components/UserMenu.tsx\<close> do to local
  storage. Local storage is a map from keys to texts.
\<close>

section \<open>Session\<close>

datatype user_role = CUSTOMER | CARRIER | ADMIN

definition role_str :: "user_role \<Rightarrow> string" where
  "role_str r = (case r of CUSTOMER \<Rightarrow> ''CUSTOMER'' | CARRIER \<Rightarrow> ''CARRIER'' | ADMIN \<Rightarrow> ''ADMIN'')"

record session =
  ss_userId :: string
  ss_role :: user_role

record auth =
  au_session :: "session option"
  au_isLoading :: bool

definition auth_init :: auth where
  "auth_init = \<lparr>au_session = None, au_isLoading = True\<rparr>"

definition refresh_request :: "string option \<Rightarrow> storage \<Rightarrow> http_request option" where
  "refresh_request env st =
     (if str_truthy (st ''token'') then
        Some \<lparr>rq_method = ''GET'', rq_url = api_url env @ ''/api/auth/me'',
          rq_headers = [bearer (the (st ''token''))], rq_body = None\<rparr>
      else None)"

text \<open>\<open>refresh\<close>, with the answer to its request (not read when there is no token).\<close>

definition refresh :: "session reply \<Rightarrow> auth \<times> storage \<Rightarrow> auth \<times> storage" where
  "refresh rep as = (case as of (a, st) \<Rightarrow>
     if \<not> str_truthy (st ''token'') then (\<lparr>au_session = None, au_isLoading = False\<rparr>, st)
     else (case rep of
        Ok v \<Rightarrow> (\<lparr>au_session = Some v, au_isLoading = False\<rparr>, st(''userRole'' \<mapsto> role_str (ss_role v)))
      | _ \<Rightarrow> (\<lparr>au_session = None, au_isLoading = False\<rparr>, st(''token'' := None, ''userRole'' := None))))"

section \<open>Signing in and out\<close>

record signin_data =
  sd_token :: string
  sd_user_id :: string
  sd_role :: string
  sd_name :: "string option"

definition signin_request :: "string option \<Rightarrow> string \<Rightarrow> string \<Rightarrow> http_request" where
  "signin_request env email password = \<lparr>rq_method = ''POST'', rq_url = api_url env @ ''/api/auth/signin'',
     rq_headers = [json_content],
     rq_body = Some (JObj [(''email'', JStr email), (''password'', JStr password)])\<rparr>"

text \<open>The message of the error that \<open>mutationFn\<close> throws.\<close>

fun signin_error :: "'a reply \<Rightarrow> string option" where
  "signin_error (Ok _) = None"
| "signin_error (NotOk _ err) = Some (opt_str_or err ''Invalid credentials'')"
| "signin_error (BadBody m) = Some m"
| "signin_error (NetworkError m) = Some m"

record signin_result =
  sr_storage :: storage
  sr_location :: "string option"
  sr_toast :: "toast option"

definition store_signin :: "signin_data \<Rightarrow> storage \<Rightarrow> storage" where
  "store_signin d st =
     (let st = st(''token'' \<mapsto> sd_token d, ''userId'' \<mapsto> sd_user_id d, ''userRole'' \<mapsto> sd_role d)
      in if str_truthy (sd_name d) then st(''userName'' \<mapsto> the (sd_name d)) else st)"

definition clear_session :: "storage \<Rightarrow> storage" where
  "clear_session st = st(''token'' := None, ''userId'' := None, ''userRole'' := None, ''userName'' := None)"

definition login_failed :: "string \<Rightarrow> storage \<Rightarrow> signin_result" where
  "login_failed m st = \<lparr>sr_storage = st, sr_location = None,
     sr_toast = Some \<lparr>to_message = ''Login failed: '' @ m, to_type = ToastError\<rparr>\<rparr>"

definition login :: "signin_data reply \<Rightarrow> storage \<Rightarrow> signin_result" where
  "login rep st = (case rep of
     Ok d \<Rightarrow> \<lparr>sr_storage = store_signin d st,
       sr_location = Some (if sd_role d = ''ADMIN'' then ''/admin''
         else if sd_role d = ''CUSTOMER'' then ''/seller/dashboard'' else ''/dashboard''),
       sr_toast = None\<rparr>
   | _ \<Rightarrow> login_failed (the (signin_error rep)) st)"

definition admin_login :: "signin_data reply \<Rightarrow> storage \<Rightarrow> signin_result" where
  "admin_login rep st = (case rep of
     Ok d \<Rightarrow>
       if sd_role d \<noteq> ''ADMIN'' then \<lparr>sr_storage = clear_session st, sr_location = None,
         sr_toast = Some \<lparr>to_message = ''This account does not have administrator access.'', to_type = ToastError\<rparr>\<rparr>
       else \<lparr>sr_storage = store_signin d st, sr_location = Some ''/admin'', sr_toast = None\<rparr>
   | _ \<Rightarrow> login_failed (the (signin_error rep)) st)"

definition handleLogout :: "storage \<Rightarrow> storage \<times> string" where
  "handleLogout st = (clear_session st, ''/login'')"

section \<open>Guards\<close>

definition publicRoutes :: "string list" where
  "publicRoutes = [''/'', ''/login'', ''/admin/login'', ''/signup'', ''/forgot-password'', ''/verify-email'']"

text \<open>
  The guard's state is \<open>null\<close> or \<open>true\<close>; its effect runs when the path has changed and may ask
  the router for another page.
\<close>

definition auth_guard :: "string \<Rightarrow> storage \<Rightarrow> bool option \<Rightarrow> bool option \<times> string option" where
  "auth_guard pathname st isAuthenticated =
     (if pathname \<in> set publicRoutes then (Some True, None)
      else if \<not> str_truthy (st ''token'') then (isAuthenticated, Some ''/login'')
      else (Some True, None))"

definition AuthGuard :: "bool option \<Rightarrow> 'a jsx list \<Rightarrow> 'a jsx list" where
  "AuthGuard isAuthenticated children =
     (if isAuthenticated = None then [El ''div'' [] [El ''Loader2'' [] []]] else children)"

definition AdminGuard :: "auth \<Rightarrow> 'a jsx list \<Rightarrow> 'a jsx list" where
  "AdminGuard a children =
     (if au_isLoading a then [El ''div'' [] [Txt (''Checking administrator access'' @ u_ellipsis)]]
      else if map_option ss_role (au_session a) \<noteq> Some ADMIN then
        [El ''div'' [] [
           El ''div'' [] [
             El ''ShieldAlert'' [] [],
             El ''h1'' [] [Txt ''Admin access required''],
             El ''p'' [] [Txt ''Only platform administrators can create auctions.''],
             El ''Link'' [Attr ''href'' ''/dashboard''] [Txt ''Return to dashboard'']]]]
      else children)"

section \<open>What the guards let through\<close>

text \<open>The state after a sequence of refreshes is what the last one made of its answer.\<close>

definition confirmed_admin :: "session reply list \<Rightarrow> storage \<Rightarrow> bool" where
  "confirmed_admin reps st = (reps \<noteq> [] \<and> str_truthy (snd (fold refresh (butlast reps) (auth_init, st)) ''token'') \<and>
     (\<exists>v. last reps = Ok v \<and> ss_role v = ADMIN))"

text \<open>
  Administrator pages are shown only to a session that the server confirmed: after any
  sequence of refreshes, the content behind the guard is rendered exactly when the last refresh
  had a token to send and the answer named an administrator.
\<close>

lemma admin_guard_confirmed:
  assumes "children \<noteq> AdminGuard auth_init []" and "children \<noteq> AdminGuard \<lparr>au_session = None, au_isLoading = False\<rparr> []"
  shows "AdminGuard (fst (fold refresh reps (auth_init, st))) children = children \<longleftrightarrow> confirmed_admin reps st"
proof (cases reps rule: rev_cases)
  case Nil
  then show ?thesis using assms(1) by (auto simp: confirmed_admin_def auth_init_def AdminGuard_def)
next
  case (snoc rs r)
  let ?q = "fold refresh rs (auth_init, st)"
  obtain a st' where q: "?q = (a, st')" by (cases ?q)
  have "fold refresh reps (auth_init, st) = refresh r (a, st')" using snoc q by simp
  moreover have "confirmed_admin reps st \<longleftrightarrow> str_truthy (st' ''token'') \<and> (\<exists>v. r = Ok v \<and> ss_role v = ADMIN)"
    using snoc q by (simp add: confirmed_admin_def)
  ultimately show ?thesis using assms(2)
    by (cases r) (auto simp: refresh_def AdminGuard_def)
qed

text \<open>
  The route guard covers a fresh page but not a navigation: a page that starts on a private
  route without a token never shows its content and asks for the sign-in page, while one that was
  on a public route first shows the private content until the redirect takes effect.
\<close>

lemma auth_guard_flash:
  assumes "pathname \<notin> set publicRoutes" and "\<not> str_truthy (st ''token'')" and "public \<in> set publicRoutes"
  shows "auth_guard pathname st None = (None, Some ''/login'') \<and>
    AuthGuard (fst (auth_guard pathname st None)) children = [El ''div'' [] [El ''Loader2'' [] []]] \<and>
    AuthGuard (fst (auth_guard pathname st (fst (auth_guard public st None)))) children = children"
  using assms by (simp add: auth_guard_def AuthGuard_def)

section \<open>Whose name a bid carries\<close>

text \<open>
  The name of the last user survives a session that expires: after the refresh that drops
  an expired session, a user who signs in with no name of their own places bids under their own
  id and the name of the user before them.
\<close>

lemma expired_name_survives:
  assumes "str_truthy (st ''token'')" and "st ''userName'' = Some n" and "n \<noteq> []"
    and "\<not> str_truthy (sd_name d)" and "sd_user_id d \<noteq> []"
  shows "let st' = sr_storage (login (Ok d) (snd (refresh (NotOk 401 e) (a, st))));
             b = place_bid (env\<lparr>se_storage := st'\<rparr>) auc r
         in br_bidder_id b = sd_user_id d \<and> br_username b = Some n"
  using assms
  by (simp add: login_def refresh_def store_signin_def place_bid_def Let_def opt_str_or_def str_or_def str_truthy_def)

text \<open>Logging out, by contrast, forgets all four keys and nothing else.\<close>

lemma logout_forgets:
  "fst (handleLogout st) k = (if k \<in> {''token'', ''userId'', ''userRole'', ''userName''} then None else st k)"
  by (simp add: handleLogout_def clear_session_def)

end
