(* ===== verification/Shell.thy ===== *)
theory Shell
  imports Session
begin

text \<open>
  The frame around the pages: \<open>components/AppShell.tsx\<close>, \<open>Header.tsx\<close>, \<open>Sidebar.tsx\<close>,
  \<open>UserMenu.tsx\<close>, \<open>ThemeToggle.tsx\<close>, and the two sign-in pages. A component that is modelled
  elsewhere appears as an element with its name.
\<close>

section \<open>Frame\<close>

definition chromeFreeRoutes :: "string list" where
  "chromeFreeRoutes = [''/'', ''/login'', ''/admin/login'', ''/signup'', ''/forgot-password'', ''/verify-email'']"

definition AppShell :: "string \<Rightarrow> ui_state \<Rightarrow> 'a jsx list \<Rightarrow> 'a jsx list" where
  "AppShell pathname u children =
     (let hasAppChrome = (pathname \<notin> set chromeFreeRoutes) in
      if \<not> hasAppChrome then children
      else [El ''div'' [] [
        El ''Header'' [] [],
        El ''Sidebar'' [] [],
        El ''div'' [Flag ''collapsed'' (isSidebarCollapsed u)] children]])"

definition showSearch :: "string \<Rightarrow> bool" where
  "showSearch pathname = (pathname = ''/'' \<or> pathname = ''/dashboard'' \<or> starts_with pathname ''/admin'')"

definition Header :: "string \<Rightarrow> 'a jsx" where
  "Header pathname =
     El ''header'' [] (
       [El ''Link'' [Attr ''href'' ''/dashboard''] [El ''Gavel'' [] [], El ''span'' [] [Txt ''AquaBid'']]] @
       only_if (showSearch pathname) [El ''SearchBar'' [] []] @
       [El ''div'' [] [El ''ThemeToggle'' [] [], El ''UserMenu'' [] []]])"

datatype theme_act = SetTheme string

definition ThemeToggle :: "bool \<Rightarrow> string option \<Rightarrow> theme_act jsx" where
  "ThemeToggle mounted theme =
     (if \<not> mounted then El ''button'' [] [El ''div'' [] []]
      else El ''button'' [onClick (SetTheme (if theme = Some ''dark'' then ''light'' else ''dark'')),
          Attr ''aria-label'' ''Toggle Theme'']
        [if theme = Some ''dark'' then El ''Moon'' [] [] else El ''Sun'' [] []])"

section \<open>Sidebar\<close>

datatype sidebar_act = SetOpen bool | ToggleCollapsed

text \<open>A link of the sidebar: its text is its tooltip, where it has one, when the bar is collapsed.\<close>

definition side_link :: "bool \<Rightarrow> bool \<Rightarrow> string \<Rightarrow> string \<Rightarrow> string \<Rightarrow> sidebar_act jsx" where
  "side_link tooltip isCollapsed href icon label =
     El ''Link'' ([Attr ''href'' href, onClick (SetOpen False)] @
         only_if (tooltip \<and> isCollapsed) [Attr ''title'' label])
       (El icon [] [] # only_if (\<not> isCollapsed) [El ''span'' [] [Txt label]])"

definition side_links :: "bool \<Rightarrow> user_role option \<Rightarrow> sidebar_act jsx list" where
  "side_links isCollapsed userRole =
     [side_link True isCollapsed ''/dashboard'' ''LayoutDashboard'' ''Executive Dashboard''] @
     only_if (userRole = Some CUSTOMER) [
       side_link False isCollapsed ''/seller/dashboard'' ''Package'' ''Seller dashboard'',
       side_link False isCollapsed ''/sell/new'' ''PlusCircle'' ''Submit listing''] @
     [side_link True isCollapsed ''/history'' ''History'' ''Bidding History'',
      side_link True isCollapsed ''/profile'' ''Users'' ''User Profile'',
      side_link True isCollapsed ''/settings'' ''Settings'' ''Platform Settings''] @
     only_if (userRole = Some ADMIN) [
       side_link True isCollapsed ''/auction/new'' ''PlusCircle'' ''Create Auction'',
       side_link True isCollapsed ''/admin'' ''ShieldCheck'' ''Admin Console'']"

definition Sidebar :: "ui_state \<Rightarrow> bool \<Rightarrow> auth \<Rightarrow> sidebar_act jsx" where
  "Sidebar u isOpen a =
     (let isCollapsed = isSidebarCollapsed u; userRole = map_option ss_role (au_session a) in
      El ''div'' [] [
        El ''button'' [onClick (SetOpen True)] [El ''Menu'' [] []],
        El ''AnimatePresence'' [] (only_if isOpen [El ''motion.div'' [onClick (SetOpen False)] []]),
        El ''aside'' [Flag ''open'' isOpen, Flag ''collapsed'' isCollapsed] [
          El ''div'' [] [],
          El ''button'' [onClick (SetOpen False)] [El ''X'' [] []],
          El ''button'' [onClick ToggleCollapsed]
            [if isCollapsed then El ''ChevronRight'' [] [] else El ''ChevronLeft'' [] []],
          El ''nav'' [] (side_links isCollapsed userRole)]])"

fun sidebar_step :: "sidebar_act \<Rightarrow> bool \<times> root_state \<Rightarrow> bool \<times> root_state" where
  "sidebar_step (SetOpen b) (isOpen, s) = (b, s)"
| "sidebar_step ToggleCollapsed (isOpen, s) = (isOpen, dispatch (UiAction ToggleSidebarCollapsed) s)"

section \<open>Account menu\<close>

record user_menu =
  um_isOpen :: bool
  um_isAuthenticated :: bool
  um_userName :: string

definition user_menu_mount :: "storage \<Rightarrow> user_menu" where
  "user_menu_mount st = \<lparr>um_isOpen = False, um_isAuthenticated = str_truthy (st ''token''),
     um_userName = opt_str_or (map_option trim (st ''userName'')) ''Your account''\<rparr>"

datatype menu_act = ToggleMenu | CloseMenu | ClickOutside | Logout

text \<open>The menu, local storage and the address the browser is sent to.\<close>

fun menu_step :: "menu_act \<Rightarrow> user_menu \<times> storage \<Rightarrow> (user_menu \<times> storage) \<times> string option" where
  "menu_step ToggleMenu (m, st) = ((m\<lparr>um_isOpen := \<not> um_isOpen m\<rparr>, st), None)"
| "menu_step CloseMenu (m, st) = ((m\<lparr>um_isOpen := False\<rparr>, st), None)"
| "menu_step ClickOutside (m, st) = ((m\<lparr>um_isOpen := False\<rparr>, st), None)"
| "menu_step Logout (m, st) =
     ((m\<lparr>um_isAuthenticated := False, um_isOpen := False\<rparr>, fst (handleLogout st)), Some (snd (handleLogout st)))"

definition menu_link :: "string \<Rightarrow> string \<Rightarrow> string \<Rightarrow> menu_act jsx" where
  "menu_link href icon label = El ''Link'' [Attr ''href'' href, onClick CloseMenu] [El icon [] [], Txt label]"

definition UserMenu :: "user_menu \<Rightarrow> menu_act jsx" where
  "UserMenu m =
     El ''div'' [] [
       El ''button'' [onClick ToggleMenu, Attr ''aria-haspopup'' ''menu'', Flag ''aria-expanded'' (um_isOpen m),
           Attr ''aria-label'' ''Open account menu''] [
         El ''span'' [] [El ''User'' [] []],
         El ''span'' [] [Txt (if um_isAuthenticated m then um_userName m else ''Account'')]],
       El ''AnimatePresence'' [] (only_if (um_isOpen m) [
         El ''motion.div'' [Attr ''role'' ''menu''] (
           if um_isAuthenticated m then [
             El ''div'' [] [
               El ''p'' [] [Txt (um_userName m)],
               El ''p'' [] [Txt ''Manage your AquaBid account'']],
             menu_link ''/dashboard'' ''LayoutDashboard'' ''Dashboard'',
             menu_link ''/profile'' ''User'' '' Update profile'',
             menu_link ''/settings'' ''Settings'' '' Account settings'',
             El ''button'' [onClick Logout] [El ''LogOut'' [] [], Txt ''Sign Out'']]
           else [
             menu_link ''/login'' ''LogIn'' ''Sign In'',
             menu_link ''/signup'' ''UserPlus'' ''Create Account''])])]"

section \<open>Sign-in pages\<close>

definition u_star :: string where "u_star = [CHR 0xE2, CHR 0x98, CHR 0x85]"
definition u_bullet :: string where "u_bullet = [CHR 0xE2, CHR 0x80, CHR 0xA2]"

datatype login_act = CloseLoginToast | SubmitLogin

definition toast_or_empty :: "toast option \<Rightarrow> 'a \<Rightarrow> 'a jsx" where
  "toast_or_empty t c = Toast (case t of None \<Rightarrow> [] | Some x \<Rightarrow> to_message x) (map_option to_type t) c"

definition login_marketing :: "'a jsx" where
  "login_marketing =
     El ''div'' [] [
       El ''div'' [] [], El ''div'' [] [],
       El ''div'' [] [
         El ''Link'' [Attr ''href'' ''/''] [El ''Gavel'' [] [], El ''span'' [] [Txt ''ProcureX'']],
         El ''motion.div'' [] [
           El ''h2'' [] [Txt ''Drive freight costs to their true market bottom.''],
           El ''p'' [] [Txt ''Log in to your enterprise dashboard to monitor live Reverse Auctions, bid on Forward Auctions, and manage your capacity seamlessly.''],
           El ''div'' [] [
             El ''div'' [] [El ''div'' [] [], El ''div'' [] [], El ''div'' [] []],
             El ''div'' [] [
               El ''div'' [] [Txt (join_str '' '' (replicate 5 u_star))],
               El ''p'' [] [Txt ''Trusted by 10,000+ logistics professionals'']]]]]]"

definition login_form :: "bool \<Rightarrow> login_act jsx" where
  "login_form isPending =
     El ''form'' [On ''onSubmit'' (\<lambda>_. SubmitLogin)] [
       El ''div'' [] [
         El ''label'' [] [Txt ''Email Address''],
         El ''div'' [] [El ''Mail'' [] [],
           El ''input'' [Attr ''type'' ''email'', Flag ''required'' True, Attr ''placeholder'' ''name@company.com''] []]],
       El ''div'' [] [
         El ''div'' [] [
           El ''label'' [] [Txt ''Password''],
           El ''Link'' [Attr ''href'' ''/forgot-password''] [Txt ''Forgot password?'']],
         El ''div'' [] [El ''Lock'' [] [],
           El ''input'' [Attr ''type'' ''password'', Flag ''required'' True,
             Attr ''placeholder'' (concat (replicate 8 u_bullet))] []]],
       El ''button'' [Attr ''type'' ''submit'', Flag ''disabled'' isPending]
         (if isPending then [El ''Loader2'' [] [], Txt '' Signing In...'']
          else [Txt ''Sign In '', El ''ArrowRight'' [] []])]"

definition LoginPage :: "toast option \<Rightarrow> bool \<Rightarrow> login_act jsx" where
  "LoginPage toast isPending =
     El ''div'' [] [
       toast_or_empty toast CloseLoginToast,
       login_marketing,
       El ''div'' [] [
         El ''div'' [] [El ''ThemeToggle'' [] []],
         El ''div'' [] [], El ''div'' [] [],
         El ''motion.div'' [] [
           El ''div'' [] [
             El ''div'' [] [El ''Gavel'' [] []],
             El ''h1'' [] [Txt ''Welcome back''],
             El ''p'' [] [Txt ''Enter your credentials to access your account.'']],
           login_form isPending,
           El ''div'' [] [El ''div'' [] [], El ''span'' [] [Txt ''Or continue with''], El ''div'' [] []],
           El ''div'' [] [El ''button'' [] [El ''svg'' [] [], Txt ''Google'']],
           El ''p'' [] [Txt ''Don't have an account? '', El ''Link'' [Attr ''href'' ''/signup''] [Txt ''Sign up'']]]]]"

definition AdminLoginPage :: "toast option \<Rightarrow> bool \<Rightarrow> login_act jsx" where
  "AdminLoginPage toast isPending =
     El ''main'' [] [
       toast_or_empty toast CloseLoginToast,
       El ''div'' [] [El ''ThemeToggle'' [] []],
       El ''section'' [] [
         El ''div'' [] [
           El ''div'' [] [El ''ShieldCheck'' [] []],
           El ''p'' [] [Txt ''Restricted area''],
           El ''h1'' [] [Txt ''Admin sign in''],
           El ''p'' [] [Txt ''Use your platform administrator account to open the operations console.'']],
         El ''form'' [On ''onSubmit'' (\<lambda>_. SubmitLogin)] [
           El ''label'' [] [
             El ''span'' [] [Txt ''Email address''],
             El ''span'' [] [El ''Mail'' [] [],
               El ''input'' [Attr ''name'' ''email'', Attr ''type'' ''email'', Flag ''required'' True,
                 Attr ''autoComplete'' ''email'', Attr ''placeholder'' ''admin@company.com''] []]],
           El ''label'' [] [
             El ''span'' [] [Txt ''Password''],
             El ''span'' [] [El ''Lock'' [] [],
               El ''input'' [Attr ''name'' ''password'', Attr ''type'' ''password'', Flag ''required'' True,
                 Attr ''autoComplete'' ''current-password'', Attr ''placeholder'' (concat (replicate 8 u_bullet))] []]],
           El ''button'' [Attr ''type'' ''submit'', Flag ''disabled'' isPending]
             (if isPending then [Txt (''Signing in'' @ u_ellipsis)]
              else [Txt ''Open admin console '', El ''ArrowRight'' [] []])],
         El ''p'' [] [Txt ''Not an administrator? '', El ''Link'' [Attr ''href'' ''/login''] [Txt ''Use the standard sign in''], Txt ''.'']]]"

section \<open>Links by role\<close>

text \<open>The addresses the links of a rendered tree lead to.\<close>

fun hrefs :: "'a jsx \<Rightarrow> string list" where
  "hrefs (Txt s) = []"
| "hrefs (El n as cs) =
     concat (map (\<lambda>a. case a of Attr k v \<Rightarrow> only_if (k = ''href'') [v] | _ \<Rightarrow> []) as) @ concat (map hrefs cs)"

definition role_routes :: "user_role option \<Rightarrow> string list" where
  "role_routes r = [''/dashboard''] @
     (if r = Some CUSTOMER then [''/seller/dashboard'', ''/sell/new''] else []) @
     [''/history'', ''/profile'', ''/settings''] @
     (if r = Some ADMIN then [''/auction/new'', ''/admin''] else [])"

lemma hrefs_side_link [simp]: "hrefs (side_link b c h i l) = [h]"
  by (simp add: side_link_def view_simps)

text \<open>
  The sidebar offers each role its own pages: the links it renders, collapsed or not, open
  or not, are the common ones, the seller's for a customer and the administrator's for an
  administrator, and none of the latter before the session is known.
\<close>

lemma sidebar_routes:
  "hrefs (Sidebar u isOpen a) = role_routes (map_option ss_role (au_session a))"
proof -
  have "concat (map hrefs (side_links c r)) = role_routes r" for c r
    by (simp add: side_links_def role_routes_def only_if_def)
  then show ?thesis by (simp add: Sidebar_def Let_def view_simps)
qed

text \<open>Collapsing twice restores the store.\<close>

lemma collapse_involution:
  "sidebar_step ToggleCollapsed (sidebar_step ToggleCollapsed (b, s)) = (b, s)"
  by simp

text \<open>
  The menu offers the sign-out button exactly to a user who is signed in, once it is open, and
  signing out sends the browser to the sign-in page with nothing of the session in storage.
\<close>

lemma menu_logout:
  "((\<lambda>_. Logout) \<in> set (triggers ''onClick'' (UserMenu m))) = (um_isOpen m \<and> um_isAuthenticated m)"
  by (auto simp: UserMenu_def menu_link_def view_simps fun_eq_iff)

end
