(* ===== verification/Catalogue.thy ===== *)
theory Catalogue
  imports Shell
begin

text \<open>
  The public catalogue: the \<open>Auction\<close> type of \<open>types/api.ts\<close>, the category icons of
  \<open>components/dashboard/utils.ts\<close> and the marketplace page \<open>app/page.tsx\<close>. \<open>date_of\<close> is the
  host's \<open>Date\<close> parser, whose result depends on its time zone: milliseconds, or \<open>None\<close> for an
  invalid date, which is \<open>NaN\<close> in the source.
\<close>

section \<open>Auctions\<close>

text \<open>
  An optional field is \<open>None\<close> where it is \<open>null\<close> or missing, which the code never tells apart, except
  the winner, which it compares strictly with a user id that may be \<open>null\<close>: there \<open>None\<close> is
  \<open>undefined\<close> and \<open>Some None\<close> is the \<open>null\<close> that the server sends for an auction nobody won.
\<close>

record auction_item =
  it_id :: string
  it_title :: string
  it_description :: string
  it_auction_type :: auction_type
  it_minimum_bid_step :: rat
  it_reserve_price :: "rat option"
  it_item_category :: "string option"
  it_item_condition :: "string option"
  it_quantity :: "rat option"
  it_quantity_unit :: "string option"
  it_pickup_terms :: "string option"
  it_origin_address :: "string option"
  it_origin_lat :: "rat option"
  it_origin_lng :: "rat option"
  it_dest_address :: "string option"
  it_dest_lat :: "rat option"
  it_dest_lng :: "rat option"
  it_auction_start_time :: string
  it_auction_end_time :: string
  it_pickup_date :: "string option"
  it_media_urls :: "string list option"
  it_weight :: "rat option"
  it_length :: "rat option"
  it_width :: "rat option"
  it_height :: "rat option"
  it_starting_price :: "rat option"
  it_participants_count :: "int option"
  it_is_registered :: "bool option"
  it_is_closed :: "bool option"
  it_winner_id :: "string option option"

type_synonym date_parser = "string \<Rightarrow> int option"

datatype auction_phase = Live | Upcoming | PhaseEnded

definition phaseOf :: "date_parser \<Rightarrow> auction_item \<Rightarrow> int \<Rightarrow> auction_phase" where
  "phaseOf date_of a now =
     (case (date_of (it_auction_start_time a), date_of (it_auction_end_time a)) of
        (Some start, Some stop) \<Rightarrow>
          if now < start then Upcoming else if now < stop then Live else PhaseEnded
      | _ \<Rightarrow> PhaseEnded)"

text \<open>An invalid date gives \<open>NaN\<close> in every part.\<close>

definition countdown :: "date_parser \<Rightarrow> string \<Rightarrow> int \<Rightarrow> string" where
  "countdown date_of target now =
     (case date_of target of None \<Rightarrow> ''NaN:NaN:NaN''
      | Some t \<Rightarrow>
          let remaining = max 0 (t - now); totalSeconds = remaining div 1000;
              days = totalSeconds div 86400; hours = (totalSeconds mod 86400) div 3600;
              minutes = (totalSeconds mod 3600) div 60; seconds = totalSeconds mod 60
          in if days > 0 then int_str days @ ''d '' @ int_str hours @ ''h '' @ int_str minutes @ ''m''
             else join_str '':'' (map (\<lambda>p. pad_start 2 CHR ''0'' (int_str p)) [hours, minutes, seconds]))"

text \<open>\<open>Intl.NumberFormat\<close> for dollars in \<open>en-US\<close> without decimals: groups of three digits.\<close>

fun group3 :: "string \<Rightarrow> string" where
  "group3 (a # b # c # d # rest) = a # b # c # CHR '','' # group3 (d # rest)"
| "group3 ds = ds"

definition money :: "rat option \<Rightarrow> string" where
  "money v = (case v of None \<Rightarrow> ''Price on request''
     | Some r \<Rightarrow> (if r < 0 then ''-$'' else ''$'') @ rev (group3 (rev (nat_str (nat \<lfloor>\<bar>r\<bar> + 1/2\<rfloor>)))))"

definition category_or :: "string \<Rightarrow> auction_item \<Rightarrow> string" where
  "category_or dflt a = opt_str_or (map_option trim (it_item_category a)) dflt"

definition categoryName :: "auction_item \<Rightarrow> string" where
  "categoryName a = category_or ''General marketplace'' a"

definition categoryIcon :: "string \<Rightarrow> string" where
  "categoryIcon category =
     (let v = to_lower category in
      if str_includes v ''vehicle'' \<or> str_includes v ''motor'' then ''Car''
      else if str_includes v ''industrial'' \<or> str_includes v ''equipment'' then ''Wrench''
      else if str_includes v ''electronic'' \<or> str_includes v ''technology'' then ''Laptop''
      else if str_includes v ''collect'' \<or> str_includes v ''art'' then ''Gem''
      else if str_includes v ''service'' \<or> str_includes v ''contract'' then ''Building2''
      else if str_includes v ''logistic'' \<or> str_includes v ''freight'' then ''Boxes''
      else ''PackageOpen'')"

text \<open>The marketplace page has a copy of the function of its own.\<close>

definition home_categoryIcon :: "string \<Rightarrow> string" where
  "home_categoryIcon = categoryIcon"

section \<open>Selecting\<close>

text \<open>\<open>counts.set(c, (counts.get(c) || 0) + 1)\<close> on a \<open>Map\<close>, whose entries keep insertion order.\<close>

fun count_up :: "string \<Rightarrow> (string \<times> nat) list \<Rightarrow> (string \<times> nat) list" where
  "count_up c [] = [(c, 1)]"
| "count_up c ((d, n) # rest) = (if c = d then (d, n + 1) # rest else (d, n) # count_up c rest)"

definition count_by :: "(auction_item \<Rightarrow> string) \<Rightarrow> auction_item list \<Rightarrow> (string \<times> nat) list" where
  "count_by f as = sort_key (\<lambda>e. - int (snd e)) (fold (\<lambda>a. count_up (f a)) as [])"

definition activeAuctions :: "date_parser \<Rightarrow> int \<Rightarrow> auction_item list \<Rightarrow> auction_item list" where
  "activeAuctions date_of now as = filter (\<lambda>a. now > 0 \<and> phaseOf date_of a now \<noteq> PhaseEnded) as"

definition home_categories :: "auction_item list \<Rightarrow> (string \<times> nat) list" where
  "home_categories as = count_by categoryName as"

definition home_filtered :: "string \<Rightarrow> string \<Rightarrow> auction_item list \<Rightarrow> auction_item list" where
  "home_filtered search selectedCategory as =
     (let needle = to_lower (trim search) in
      filter (\<lambda>a. let category = categoryName a in
          (selectedCategory = ''All'' \<or> category = selectedCategory) \<and>
          (needle = [] \<or>
           str_includes (to_lower (it_title a @ '' '' @ it_description a @ '' '' @ category)) needle)) as)"

record home =
  hm_now :: int
  hm_authToken :: "string option"
  hm_search :: string
  hm_selectedCategory :: string

definition home_init :: home where
  "home_init = \<lparr>hm_now = 0, hm_authToken = None, hm_search = [], hm_selectedCategory = ''All''\<rparr>"

definition home_mount :: "int \<Rightarrow> storage \<Rightarrow> home \<Rightarrow> home" where
  "home_mount clock st h = h\<lparr>hm_now := clock, hm_authToken := st ''token''\<rparr>"

datatype home_act = HomeTick int | SetSearch string | SelectCategory string

fun home_step :: "home_act \<Rightarrow> home \<Rightarrow> home" where
  "home_step (HomeTick clock) h = h\<lparr>hm_now := clock\<rparr>"
| "home_step (SetSearch s) h = h\<lparr>hm_search := s\<rparr>"
| "home_step (SelectCategory c) h = h\<lparr>hm_selectedCategory := c\<rparr>"

definition home_request :: "string option \<Rightarrow> home \<Rightarrow> http_request option" where
  "home_request env h =
     (if str_truthy (hm_authToken h) then
        Some \<lparr>rq_method = ''GET'', rq_url = api_url env @ ''/api/auction'',
          rq_headers = [bearer (the (hm_authToken h))], rq_body = None\<rparr>
      else None)"

text \<open>The query's data: the list of the answer, the empty one when it is absent or the query failed.\<close>

definition auctions_of :: "auction_item list option reply \<Rightarrow> auction_item list" where
  "auctions_of r = (case r of Ok (Some as) \<Rightarrow> as | _ \<Rightarrow> [])"

section \<open>Rendering\<close>

definition u_mdash :: string where "u_mdash = [CHR 0xE2, CHR 0x80, CHR 0x94]"

definition first_media :: "auction_item \<Rightarrow> string" where
  "first_media a = (case it_media_urls a of Some (u # us) \<Rightarrow> u | _ \<Rightarrow> [])"

definition AuctionCard :: "date_parser \<Rightarrow> auction_item \<Rightarrow> auction_phase \<Rightarrow> int \<Rightarrow> home_act jsx" where
  "AuctionCard date_of a phase now =
     (let isLive = (phase = Live); category = categoryName a;
          target = (if isLive then it_auction_end_time a else it_auction_start_time a);
          forward = (it_auction_type a = FORWARD)
      in El ''article'' [Attr ''key'' (it_id a)] [
        El ''div'' [] [
          (if first_media a \<noteq> [] then El ''img'' [Attr ''src'' (first_media a), Attr ''alt'' []] []
           else El ''div'' [] [El ''Gavel'' [] []]),
          El ''div'' [] [],
          El ''div'' [] [
            El ''span'' [Flag ''live'' isLive]
              (only_if isLive [El ''span'' [] []] @ [Txt (if isLive then ''LIVE'' else ''UPCOMING'')]),
            El ''span'' [] [Txt (if forward then ''Forward'' else ''Reverse'')]],
          El ''div'' [] [
            El ''span'' [] [Txt category],
            El ''span'' [] [Txt (countdown date_of target now)]]],
        El ''div'' [] [
          El ''h3'' [] [Txt (it_title a)],
          El ''p'' [] [Txt (it_description a)],
          El ''div'' [] [
            El ''div'' [] [
              El ''p'' [] [Txt (if forward then ''Opening bid'' else ''Price ceiling'')],
              El ''p'' [] [Txt (money (it_starting_price a))]],
            El ''div'' [] [
              El ''p'' [] [Txt (if isLive then ''Ends in'' else ''Starts in'')],
              El ''p'' [Flag ''live'' isLive] [Txt (countdown date_of target now)]]],
          El ''div'' [] [
            El ''span'' [] [El ''Users'' [] [],
              Txt (int_str (case it_participants_count a of None \<Rightarrow> 0 | Some n \<Rightarrow> n) @ '' interested'')],
            El ''Link'' [Attr ''href'' (''/auction/'' @ it_id a)]
              [Txt (if isLive then ''Enter room'' else ''View details''), El ''ChevronRight'' [] []]]]])"

definition home_nav :: "home_act jsx" where
  "home_nav =
     El ''nav'' [] [
       El ''div'' [] [
         El ''Link'' [Attr ''href'' ''/''] [El ''span'' [] [El ''Gavel'' [] []], El ''span'' [] [Txt ''AquaBid'']],
         El ''div'' [] [
           El ''a'' [Attr ''href'' ''#marketplace''] [Txt ''Marketplace''],
           El ''a'' [Attr ''href'' ''#categories''] [Txt ''Categories''],
           El ''Link'' [Attr ''href'' ''/dashboard''] [Txt ''Dashboard'']],
         El ''div'' [] [El ''ThemeToggle'' [] [], El ''UserMenu'' [] []]]]"

definition sell_href :: "home \<Rightarrow> user_role option \<Rightarrow> string" where
  "sell_href h role =
     (if \<not> str_truthy (hm_authToken h) then ''/signup''
      else if role = Some CUSTOMER then ''/sell/new'' else if role = Some ADMIN then ''/admin'' else ''/dashboard'')"

definition sell_label :: "user_role option \<Rightarrow> string" where
  "sell_label role = (if role = Some CARRIER then ''Bidder dashboard''
     else if role = Some ADMIN then ''Review listings'' else ''Sell an item'')"

definition home_hero :: "home \<Rightarrow> user_role option \<Rightarrow> nat \<Rightarrow> nat \<Rightarrow> nat \<Rightarrow> home_act jsx" where
  "home_hero h role nlive nupcoming ncategories =
     El ''section'' [] [
       El ''div'' [] [], El ''div'' [] [],
       El ''div'' [] [
         El ''div'' [] [
           El ''div'' [] [El ''Sparkles'' [] [], Txt (''One market '' @ u_middot @ '' two auction directions'')],
           El ''h1'' [] [Txt ''Discover the next opportunity before the clock runs out.''],
           El ''p'' [] [Txt (''Buy assets in forward auctions or source goods and services through reverse auctions'' @
             u_mdash @ ''all with a live, auditable bidding experience.'')],
           El ''div'' [] [
             El ''Link'' [Attr ''href'' (if str_truthy (hm_authToken h) then ''/dashboard'' else ''/login'')]
               [Txt ''Browse live auctions '', El ''ArrowRight'' [] []],
             El ''Link'' [Attr ''href'' (sell_href h role)] [Txt (sell_label role @ '' ''), El ''PackageOpen'' [] []]]],
         El ''div'' [] [
           El ''div'' [] [
             El ''div'' [] [El ''span'' [] [Txt ''Market activity''], El ''Zap'' [] []],
             El ''div'' [] [
               El ''div'' [] [El ''p'' [] [Txt (nat_str nlive)], El ''p'' [] [Txt ''Live now'']],
               El ''div'' [] [El ''p'' [] [Txt (nat_str nupcoming)], El ''p'' [] [Txt ''Upcoming'']],
               El ''div'' [] [El ''p'' [] [Txt (nat_str ncategories)], El ''p'' [] [Txt ''Categories'']]]],
           El ''div'' [] [El ''TrendingUp'' [] [], El ''p'' [] [Txt ''Forward''], El ''p'' [] [Txt ''Highest valid bid wins'']],
           El ''div'' [] [El ''TrendingDown'' [] [], El ''p'' [] [Txt ''Reverse''], El ''p'' [] [Txt ''Lowest valid bid wins'']]]]]"

definition home_market ::
  "date_parser \<Rightarrow> home \<Rightarrow> bool \<Rightarrow> (string \<times> nat) list \<Rightarrow> auction_item list \<Rightarrow> home_act jsx" where
  "home_market date_of h isFetching cats items =
     El ''section'' [Attr ''id'' ''marketplace''] [
       El ''div'' [] ([
         El ''div'' [] [
           El ''div'' [] [
             El ''p'' [] [Txt ''Marketplace''],
             El ''h2'' [] [Txt ''Live and upcoming auctions''],
             El ''p'' [] [Txt ''Search products, services, assets, and contracts across both auction directions.'']],
           El ''label'' [] [
             El ''span'' [] [Txt ''Search auctions''], El ''Search'' [] [],
             El ''input'' [Attr ''value'' (hm_search h), On ''onChange'' SetSearch, Attr ''placeholder'' ''Search auctions''] []]],
         El ''div'' [Attr ''id'' ''categories''] (
           El ''button'' [onClick (SelectCategory ''All''), Flag ''selected'' (hm_selectedCategory h = ''All'')]
             [El ''span'' [] [El ''PackageOpen'' [] []], Txt ''All categories''] #
           map (\<lambda>(category, count).
             El ''button'' [Attr ''key'' category, onClick (SelectCategory category), Flag ''selected'' (hm_selectedCategory h = category)]
               [El ''span'' [] [El (home_categoryIcon category) [] []], Txt category, El ''span'' [] [Txt (nat_str count)]]) cats)] @
         only_if isFetching [El ''div'' [Attr ''aria-label'' ''Loading auctions'']
           (map (\<lambda>i. El ''div'' [Attr ''key'' (nat_str i)] []) [1, 2, 3])] @
         only_if (\<not> isFetching \<and> items \<noteq> [])
           [El ''div'' [] (map (\<lambda>a. AuctionCard date_of a (phaseOf date_of a (hm_now h)) (hm_now h)) items)] @
         only_if (\<not> isFetching \<and> str_truthy (hm_authToken h) \<and> items = [])
           [El ''div'' [] [El ''PackageOpen'' [] [], El ''h3'' [] [Txt ''No matching auctions''],
             El ''p'' [] [Txt ''Try another search or category.'']]] @
         only_if (\<not> str_truthy (hm_authToken h))
           [El ''div'' [] [El ''h3'' [] [Txt ''Sign in to browse the live catalogue''],
             El ''p'' [] [Txt ''Registration status and participant access are personalized to your account.''],
             El ''Link'' [Attr ''href'' ''/login''] [Txt ''Sign in'']]])]"

text \<open>A numbered list of the page's two workflows.\<close>

definition home_steps :: "string list \<Rightarrow> home_act jsx" where
  "home_steps xs = El ''ol'' [] (map (\<lambda>(i, x). El ''li'' [] [El ''strong'' [] [Txt (''0'' @ nat_str i)], Txt x]) (enumerate 1 xs))"

definition home_sides :: "home \<Rightarrow> home_act jsx" where
  "home_sides h =
     El ''section'' [] [
       El ''div'' [] [
         El ''div'' [] [
           El ''p'' [] [Txt ''Built for both sides of the market''],
           El ''h2'' [] [Txt ''One marketplace, two focused workflows''],
           El ''p'' [] [Txt ''Sellers stay in control of their listing while administrators handle quality review and scheduling. Bidders get a clean path from discovery to a verified live bid.'']],
         El ''div'' [] [
           El ''div'' [] [El ''Building2'' [] [], El ''h3'' [] [Txt ''For sellers''],
             home_steps [''Submit product details, pricing, availability, photos, and videos.'',
               ''Respond to clear review feedback and track every status change.'',
               ''Follow the scheduled auction through completion from a dedicated dashboard.''],
             El ''Link'' [Attr ''href'' (if str_truthy (hm_authToken h) then ''/seller/dashboard'' else ''/signup'')]
               [Txt ''Open seller workspace '', El ''ArrowRight'' [] []]],
           El ''div'' [] [El ''Gavel'' [] [], El ''h3'' [] [Txt ''For bidders''],
             home_steps [''Compare upcoming forward and reverse auctions by category.'',
               ''Register early, or unregister any time before the auction starts.'',
               ''Bid from a live console with valid-price guidance and durable audit history.''],
             El ''Link'' [Attr ''href'' (if str_truthy (hm_authToken h) then ''/dashboard'' else ''/signup'')]
               [Txt ''Browse bidder marketplace '', El ''ArrowRight'' [] []]]]]]"

definition home_trust :: "home_act jsx" where
  "home_trust =
     El ''section'' [] [
       El ''div'' [] [
         El ''div'' [] [El ''ShieldCheck'' [] [], El ''h3'' [] [Txt ''Verified participation''],
           El ''p'' [] [Txt ''Role-aware access and participant checks protect seller reviews, registrations, and live auction rooms.'']],
         El ''div'' [] [El ''Zap'' [] [], El ''h3'' [] [Txt ''Every bid in order''],
           El ''p'' [] [Txt ''Bids are processed sequentially within each auction, giving every participant a consistent price and result.'']],
         El ''div'' [] [El ''Clock3'' [] [], El ''h3'' [] [Txt ''Auditable outcomes''],
           El ''p'' [] [Txt ''Accepted and rejected attempts are retained so authorized users can review how an auction reached its final outcome.'']]]]"

definition home_footer :: "home_act jsx" where
  "home_footer =
     El ''footer'' [] [
       El ''div'' [] [
         El ''div'' [] [El ''Gavel'' [] [], Txt '' '', Txt ''AquaBid''],
         El ''p'' [] [Txt ''Forward and reverse auctions for modern markets.'']]]"

definition MarketplaceHome ::
  "date_parser \<Rightarrow> auth \<Rightarrow> home \<Rightarrow> auction_item list \<Rightarrow> bool \<Rightarrow> home_act jsx" where
  "MarketplaceHome date_of a h apiAuctions isFetching =
     (let src = activeAuctions date_of (hm_now h) apiAuctions; cats = home_categories src;
          filtered = home_filtered (hm_search h) (hm_selectedCategory h) src;
          live = filter (\<lambda>x. phaseOf date_of x (hm_now h) = Live) filtered;
          upcoming = filter (\<lambda>x. phaseOf date_of x (hm_now h) = Upcoming) filtered
      in El ''main'' [] [
        home_nav,
        home_hero h (map_option ss_role (au_session a)) (length live) (length upcoming) (length cats),
        home_market date_of h isFetching cats filtered,
        home_sides h, home_trust, home_footer])"

section \<open>Counting\<close>

definition count_of :: "(string \<times> nat) list \<Rightarrow> string \<Rightarrow> nat" where
  "count_of es c = (case map_of es c of None \<Rightarrow> 0 | Some n \<Rightarrow> n)"

lemma count_up_keys: "set (map fst (count_up c es)) = insert c (set (map fst es))"
  by (induction c es rule: count_up.induct) auto

lemma count_up_distinct: "distinct (map fst es) \<Longrightarrow> distinct (map fst (count_up c es))"
proof (induction c es rule: count_up.induct)
  case (2 c d n rest)
  then show ?case using count_up_keys [of c rest] by auto
qed simp

lemma count_up_of: "count_of (count_up c es) d = count_of es d + (if c = d then 1 else 0)"
  by (induction c es rule: count_up.induct) (auto simp: count_of_def)

lemma count_fold:
  "distinct (map fst es) \<Longrightarrow> distinct (map fst (fold (\<lambda>a. count_up (f a)) as es)) \<and>
   set (map fst (fold (\<lambda>a. count_up (f a)) as es)) = set (map fst es) \<union> f ` set as \<and>
   count_of (fold (\<lambda>a. count_up (f a)) as es) d = count_of es d + length (filter (\<lambda>a. f a = d) as)"
proof (induction as arbitrary: es)
  case (Cons a as)
  from Cons.IH [OF count_up_distinct [OF Cons.prems, of "f a"]] show ?case
    using count_up_keys [of "f a" es] by (auto simp: count_up_of)
qed simp

lemma count_by_mem: "(c, n) \<in> set (count_by f as) \<longleftrightarrow> n = length (filter (\<lambda>a. f a = c) as) \<and> 0 < n"
proof -
  let ?es = "fold (\<lambda>a. count_up (f a)) as []"
  have d: "distinct (map fst ?es)" and k: "fst ` set ?es = f ` set as"
    and n: "count_of ?es c = length (filter (\<lambda>a. f a = c) as)"
    using count_fold [of "[]" f as c] by (auto simp: count_of_def)
  have "(c, n) \<in> set ?es \<longleftrightarrow> map_of ?es c = Some n" using d by simp
  moreover have "map_of ?es c = None \<longleftrightarrow> c \<notin> f ` set as" using k by (simp add: map_of_eq_None_iff)
  moreover have "c \<in> f ` set as \<longleftrightarrow> 0 < length (filter (\<lambda>a. f a = c) as)" by (auto simp: filter_empty_conv)
  ultimately show ?thesis using n by (auto simp: count_by_def count_of_def split: option.splits)
qed

lemma count_by_sorted: "sorted_wrt (\<lambda>a b. snd b \<le> snd a) (count_by f as)"
proof -
  have "sorted_wrt (\<lambda>a b. - int (snd a) \<le> - int (snd b)) (count_by f as)"
    unfolding count_by_def using sorted_sort_key [of "\<lambda>e. - int (snd e)"] by (simp add: sorted_map)
  then show ?thesis by (rule sorted_wrt_mono_rel [rotated]) simp
qed

lemma home_filtered_all: "home_filtered [] ''All'' as = as"
  by (simp add: home_filtered_def trim_def to_lower_def Let_def)

lemma home_filtered_category:
  "c \<noteq> ''All'' \<Longrightarrow> home_filtered [] c as = filter (\<lambda>a. categoryName a = c) as"
  by (auto simp: home_filtered_def trim_def to_lower_def Let_def intro: filter_cong)

text \<open>
  The category buttons tell the truth: they are ordered by their counts, and the number on
  a button is how many cards remain when it is selected with no search text, for every category
  but one that is itself called All.
\<close>

lemma category_counts:
  assumes "(c, n) \<in> set (home_categories as)" and "c \<noteq> ''All''"
  shows "n = length (home_filtered [] c as) \<and> 0 < n \<and>
    sorted_wrt (\<lambda>a b. snd b \<le> snd a) (home_categories as)"
  using assms count_by_sorted by (auto simp: home_categories_def count_by_mem home_filtered_category)

definition ex_item :: auction_item where
  "ex_item = \<lparr>it_id = ''i1'', it_title = ''Desk'', it_description = ''Oak'', it_auction_type = FORWARD,
     it_minimum_bid_step = 1, it_reserve_price = None, it_item_category = Some '' Art '', it_item_condition = None,
     it_quantity = None, it_quantity_unit = None, it_pickup_terms = None, it_origin_address = None,
     it_origin_lat = None, it_origin_lng = None, it_dest_address = None, it_dest_lat = None, it_dest_lng = None,
     it_auction_start_time = ''10'', it_auction_end_time = ''20'', it_pickup_date = None, it_media_urls = None,
     it_weight = None, it_length = None, it_width = None, it_height = None, it_starting_price = Some 5,
     it_participants_count = None, it_is_registered = None, it_is_closed = None, it_winner_id = None\<rparr>"

section \<open>Phases\<close>

text \<open>
  The page splits its cards into live and upcoming ones: the two counters add up to the
  number of cards, and no card stands for an auction that has ended or has no valid schedule,
  whatever is searched and selected.
\<close>

lemma home_partition:
  "let items = home_filtered search sel (activeAuctions date_of now as) in
     length (filter (\<lambda>x. phaseOf date_of x now = Live) items) +
     length (filter (\<lambda>x. phaseOf date_of x now = Upcoming) items) = length items \<and>
     list_all (\<lambda>x. phaseOf date_of x now \<noteq> PhaseEnded \<and> now > 0) items \<and>
     subseq items as"
proof -
  let ?items = "home_filtered search sel (activeAuctions date_of now as)"
  have all: "list_all (\<lambda>x. phaseOf date_of x now \<noteq> PhaseEnded \<and> now > 0) ?items"
    by (auto simp: home_filtered_def activeAuctions_def list_all_iff Let_def)
  then have up: "filter (\<lambda>x. phaseOf date_of x now = Upcoming) ?items = filter (\<lambda>x. phaseOf date_of x now \<noteq> Live) ?items"
    using auction_phase.exhaust by (intro filter_cong) (auto simp: list_all_iff)
  have "subseq ?items (activeAuctions date_of now as)" by (simp add: home_filtered_def Let_def)
  moreover have "subseq (activeAuctions date_of now as) as" by (simp add: activeAuctions_def)
  ultimately have "subseq ?items as" by (rule subseq_order.order_trans)
  then show ?thesis using all sum_length_filter_compl [of "\<lambda>x. phaseOf date_of x now = Live" ?items]
    by (simp add: up Let_def)
qed

end
