(* ===== verification/Js_Date.thy ===== *)
theory Js_Date
  imports Js_Format
begin

text \<open>
  What the forms use of \<open>Date\<close>: the calendar of the language definition on day numbers counted
  from the first of January 1970, the constructor from calendar fields in local time, the local and
  the universal fields of a time, and \<open>toISOString\<close>. A time is an integer number of milliseconds, and
  \<open>None\<close> stands for \<open>NaN\<close>. The time zone of the host is a value of type \<open>zone\<close>. Calendar fields are
  exact integers; as doubles they are the same below \<open>2\<^sup>5\<^sup>3\<close>, and every time outside the range of
  \<open>time_clip\<close> is \<open>NaN\<close> either way.
\<close>

section \<open>Years\<close>

definition leap :: "int \<Rightarrow> bool" where
  "leap y = (y mod 4 = 0 \<and> (y mod 100 \<noteq> 0 \<or> y mod 400 = 0))"

definition day_from_year :: "int \<Rightarrow> int" where
  "day_from_year y = 365 * (y - 1970) + (y - 1969) div 4 - (y - 1901) div 100 + (y - 1601) div 400"

definition year_length :: "int \<Rightarrow> int" where
  "year_length y = (if leap y then 366 else 365)"

lemma div_step:
  fixes x n :: int
  assumes "0 < n"
  shows "(x + 1) div n = x div n + (if (x + 1) mod n = 0 then 1 else 0)"
proof -
  have r: "0 \<le> x mod n" "x mod n < n" using assms by simp_all
  have x: "x + 1 = n * (x div n) + (x mod n + 1)" by simp
  show ?thesis
  proof (cases "x mod n + 1 = n")
    case True
    then have "x + 1 = n * (x div n + 1)" using x by (simp only: True distrib_left mult_1_right)
    then show ?thesis using assms by simp
  next
    case False
    then have "x mod n + 1 < n" "0 \<le> x mod n + 1" using r by simp_all
    then have "(x + 1) div n = x div n" "(x + 1) mod n = x mod n + 1"
      using int_div_pos_eq [OF x] int_mod_pos_eq [OF x] by simp_all
    then show ?thesis using r by simp
  qed
qed

lemma leap_bits:
  "(q \<longrightarrow> p) \<Longrightarrow> (r \<longrightarrow> q) \<Longrightarrow> of_bool p - of_bool q + of_bool r = (of_bool (p \<and> (\<not> q \<or> r)) :: int)"
  by (cases p; cases q; cases r) simp_all

lemma day_from_year_Suc: "day_from_year (y + 1) = day_from_year y + year_length y"
proof -
  have "y - 1969 + 1 = y + 4 * (-492)" "y - 1901 + 1 = y + 100 * (-19)" "y - 1601 + 1 = y + 400 * (-4)" by simp_all
  then have mods: "(y - 1969 + 1) mod 4 = y mod 4" "(y - 1901 + 1) mod 100 = y mod 100" "(y - 1601 + 1) mod 400 = y mod 400"
    by (simp_all only: mod_mult_self2)
  have "100 dvd y \<longrightarrow> 4 dvd y" "400 dvd y \<longrightarrow> 100 dvd y"
    using dvd_trans [of 4 100 y] dvd_trans [of 100 400 y] by simp_all
  then have bits: "of_bool (y mod 4 = 0) - of_bool (y mod 100 = 0) + of_bool (y mod 400 = 0) = (of_bool (leap y) :: int)"
    unfolding leap_def mod_eq_0_iff_dvd by (rule leap_bits)
  have steps: "(y + 1 - 1969) div 4 = (y - 1969) div 4 + of_bool (y mod 4 = 0)"
    "(y + 1 - 1901) div 100 = (y - 1901) div 100 + of_bool (y mod 100 = 0)"
    "(y + 1 - 1601) div 400 = (y - 1601) div 400 + of_bool (y mod 400 = 0)"
    using div_step [of 4 "y - 1969"] div_step [of 100 "y - 1901"] div_step [of 400 "y - 1601"] mods
    by (simp_all only: of_bool_def diff_add_eq split: if_split)
  have arith: "365 * (y + 1 - 1970) + (a + i) - (b + j) + (c + k) = 365 * (y - 1970) + a - b + c + (365 + (i - j + k))"
    for a b c i j k :: int by simp
  show ?thesis unfolding day_from_year_def steps arith bits by (simp add: year_length_def)
qed

lemma year_length_pos: "0 < year_length y" "365 \<le> year_length y" "year_length y \<le> 366"
  by (simp_all add: year_length_def)

definition year_gap :: "int \<times> int \<Rightarrow> nat" where
  "year_gap = (\<lambda>(d, y). if d < day_from_year y then nat (day_from_year y - d)
     else if day_from_year (y + 1) \<le> d then nat (d - day_from_year (y + 1)) + 1 else 0)"

text \<open>The year of a day: a search that moves by one year towards the day.\<close>

function year_search :: "int \<Rightarrow> int \<Rightarrow> int" where
  "year_search d y =
     (if d < day_from_year y then year_search d (y - 1)
      else if day_from_year (y + 1) \<le> d then year_search d (y + 1) else y)"
  by pat_completeness auto

termination
proof (relation "measure year_gap")
  fix d y :: int
  assume "d < day_from_year y"
  then show "((d, y - 1), (d, y)) \<in> measure year_gap"
    using day_from_year_Suc [of "y - 1"] year_length_pos [of "y - 1"] by (auto simp: year_gap_def)
next
  fix d y :: int
  assume "\<not> d < day_from_year y" "day_from_year (y + 1) \<le> d"
  then show "((d, y + 1), (d, y)) \<in> measure year_gap"
    using day_from_year_Suc [of "y + 1"] year_length_pos [of "y + 1"] by (auto simp: year_gap_def)
qed simp

declare year_search.simps [simp del]

lemma year_search_spec: "day_from_year (year_search d y) \<le> d \<and> d < day_from_year (year_search d y + 1)"
proof (induction d y rule: year_search.induct)
  case (1 d y)
  then show ?case by (subst (1 2) year_search.simps) auto
qed

lemma day_from_year_mono: "y < z \<Longrightarrow> day_from_year y < day_from_year z"
proof (induction z rule: int_gr_induct)
  case base
  then show ?case using year_length_pos [of y] by (simp add: day_from_year_Suc)
next
  case (step z)
  then show ?case using year_length_pos [of z] by (simp add: day_from_year_Suc)
qed

lemma year_unique:
  assumes "day_from_year y \<le> d" "d < day_from_year (y + 1)" "day_from_year z \<le> d" "d < day_from_year (z + 1)"
  shows "y = z"
proof (rule ccontr)
  assume "y \<noteq> z"
  then consider "y + 1 \<le> z" | "z + 1 \<le> y" by linarith
  then show False using assms day_from_year_mono [of "y + 1" z] day_from_year_mono [of "z + 1" y]
    by cases (cases "y + 1 = z"; cases "z + 1 = y"; auto)+
qed

definition year_of_day :: "int \<Rightarrow> int" where
  "year_of_day d = year_search d (1970 + d div 365)"

lemma year_of_day_spec: "day_from_year (year_of_day d) \<le> d" "d < day_from_year (year_of_day d + 1)"
  using year_search_spec by (simp_all add: year_of_day_def)

lemma year_of_day_eq: "day_from_year y \<le> d \<Longrightarrow> d < day_from_year (y + 1) \<Longrightarrow> year_of_day d = y"
  using year_of_day_spec year_unique by blast

section \<open>Months and days\<close>

text \<open>The day of the year on which a month begins; months count from 0, and 12 is the year's end.\<close>

definition month_start :: "bool \<Rightarrow> int \<Rightarrow> int" where
  "month_start lp m = [0, 31, 59, 90, 120, 151, 181, 212, 243, 273, 304, 334, 365] ! nat m + (if lp \<and> 2 \<le> m then 1 else 0)"

definition month_of :: "bool \<Rightarrow> int \<Rightarrow> int" where
  "month_of lp doy = int (length (filter (\<lambda>m. month_start lp m \<le> doy) [1, 2, 3, 4, 5, 6, 7, 8, 9, 10, 11]))"

lemma month_cases:
  fixes m :: int
  assumes "0 \<le> m" "m < 12"
  shows "m \<in> {0, 1, 2, 3, 4, 5, 6, 7, 8, 9, 10, 11}"
  using assms by (simp only: insert_iff empty_iff) presburger

lemma month_start_values:
  "month_start lp 0 = 0" "month_start lp 1 = 31" "month_start lp 2 = 59 + of_bool lp" "month_start lp 3 = 90 + of_bool lp"
  "month_start lp 4 = 120 + of_bool lp" "month_start lp 5 = 151 + of_bool lp" "month_start lp 6 = 181 + of_bool lp"
  "month_start lp 7 = 212 + of_bool lp" "month_start lp 8 = 243 + of_bool lp" "month_start lp 9 = 273 + of_bool lp"
  "month_start lp 10 = 304 + of_bool lp" "month_start lp 11 = 334 + of_bool lp" "month_start lp 12 = 365 + of_bool lp"
  by (simp_all add: month_start_def nat_numeral)

lemma month_of_eq:
  assumes "0 \<le> m" "m < 12" "month_start lp m \<le> doy" "doy < month_start lp (m + 1)"
  shows "month_of lp doy = m"
proof -
  have "m \<in> {0, 1, 2, 3, 4, 5, 6, 7, 8, 9, 10, 11}" using assms(1,2) by (rule month_cases)
  then show ?thesis using assms(3,4)
    by (cases lp; elim insertE) (simp_all add: month_of_def month_start_values)
qed

lemma step_exists:
  fixes f :: "nat \<Rightarrow> int"
  assumes "f 0 \<le> x" "x < f (Suc n)"
  shows "\<exists>m \<le> n. f m \<le> x \<and> x < f (Suc m)"
  using assms(2)
proof (induction n)
  case (Suc n)
  then show ?case by (cases "x < f (Suc n)") (auto intro: le_SucI)
qed (use assms(1) in auto)

lemma month_exists:
  assumes "0 \<le> doy" "doy < 365 + of_bool lp"
  obtains m where "0 \<le> m" "m < 12" "month_start lp m \<le> doy" "doy < month_start lp (m + 1)"
proof -
  obtain k where "k \<le> 11" "month_start lp (int k) \<le> doy" "doy < month_start lp (int (Suc k))"
    using step_exists [of "\<lambda>k. month_start lp (int k)" doy 11] assms by (auto simp: month_start_values)
  then show thesis using that [of "int k"] by (simp add: add.commute)
qed

definition make_day :: "int \<Rightarrow> int \<Rightarrow> int \<Rightarrow> int" where
  "make_day y m d = (let ym = y + m div 12; mn = m mod 12 in day_from_year ym + month_start (leap ym) mn + d - 1)"

definition day_of_year :: "int \<Rightarrow> int" where
  "day_of_year d = d - day_from_year (year_of_day d)"

definition month_of_day :: "int \<Rightarrow> int" where
  "month_of_day d = month_of (leap (year_of_day d)) (day_of_year d)"

definition date_of_day :: "int \<Rightarrow> int" where
  "date_of_day d = day_of_year d - month_start (leap (year_of_day d)) (month_of_day d) + 1"

lemma day_of_year_range: "0 \<le> day_of_year d" "day_of_year d < 365 + of_bool (leap (year_of_day d))"
  using year_of_day_spec [of d] by (auto simp: day_of_year_def day_from_year_Suc year_length_def split: if_splits)

lemma month_length: "0 \<le> m \<Longrightarrow> m < 12 \<Longrightarrow> month_start lp (m + 1) \<le> month_start lp m + 31"
  using month_cases [of m] by (cases lp) (auto simp: month_start_values)

lemma day_fields_range:
  shows "0 \<le> month_of_day d" "month_of_day d < 12" "1 \<le> date_of_day d" "date_of_day d \<le> 31"
proof -
  obtain m where m: "0 \<le> m" "m < 12" "month_start (leap (year_of_day d)) m \<le> day_of_year d"
    "day_of_year d < month_start (leap (year_of_day d)) (m + 1)"
    using day_of_year_range by (rule month_exists)
  then have "month_of_day d = m" unfolding month_of_day_def by (intro month_of_eq) simp_all
  with m month_length [of m "leap (year_of_day d)"] show "0 \<le> month_of_day d" "month_of_day d < 12" "1 \<le> date_of_day d" "date_of_day d \<le> 31"
    by (simp_all add: date_of_day_def)
qed

lemma make_day_fields: "make_day (year_of_day d) (month_of_day d) (date_of_day d) = d"
  using day_fields_range [of d] by (simp add: make_day_def date_of_day_def day_of_year_def)

lemma fields_make_day:
  assumes "0 \<le> m" "m < 12" "1 \<le> d" "month_start (leap y) m + d \<le> month_start (leap y) (m + 1)"
  shows "year_of_day (make_day y m d) = y" "month_of_day (make_day y m d) = m" "date_of_day (make_day y m d) = d"
proof -
  let ?t = "make_day y m d"
  have t: "?t = day_from_year y + month_start (leap y) m + d - 1" using assms by (simp add: make_day_def)
  have "m \<in> {0, 1, 2, 3, 4, 5, 6, 7, 8, 9, 10, 11}" using assms(1,2) by (rule month_cases)
  then have "0 \<le> month_start (leap y) m" "month_start (leap y) (m + 1) \<le> year_length y"
    by (auto simp: month_start_values year_length_def)
  then have y: "year_of_day ?t = y" using assms by (intro year_of_day_eq) (simp_all add: t day_from_year_Suc)
  then show "year_of_day ?t = y" .
  have doy: "day_of_year ?t = month_start (leap y) m + d - 1" unfolding day_of_year_def y by (simp add: t)
  have m: "month_of_day ?t = m"
    unfolding month_of_day_def y doy by (rule month_of_eq) (use assms in simp_all)
  then show "month_of_day ?t = m" .
  show "date_of_day ?t = d" unfolding date_of_day_def m y doy by simp
qed

section \<open>Times\<close>

definition ms_day :: int where "ms_day = 86400000"

definition hour_of :: "int \<Rightarrow> int" where "hour_of t = t mod ms_day div 3600000"

definition minute_of :: "int \<Rightarrow> int" where "minute_of t = t mod 3600000 div 60000"

definition second_of :: "int \<Rightarrow> int" where "second_of t = t mod 60000 div 1000"

definition make_time :: "int \<Rightarrow> int \<Rightarrow> int \<Rightarrow> int \<Rightarrow> int" where
  "make_time h m s ms = h * 3600000 + m * 60000 + s * 1000 + ms"

definition time_clip :: "int \<Rightarrow> int option" where
  "time_clip t = (if \<bar>t\<bar> \<le> 8640000000000000 then Some t else None)"

lemma div_bound:
  fixes a b n :: int
  assumes "0 < n" "a < b * n"
  shows "a div n < b"
proof (rule ccontr)
  assume "\<not> a div n < b"
  then have "b * n \<le> a div n * n" using assms(1) by simp
  also have "\<dots> \<le> a" using assms(1) div_mult_mod_eq [of a n] pos_mod_sign [of n a] by linarith
  finally show False using assms(2) by simp
qed

lemma time_fields_range:
  "0 \<le> hour_of t" "hour_of t < 24" "0 \<le> minute_of t" "minute_of t < 60" "0 \<le> second_of t" "second_of t < 60"
  by (simp_all add: hour_of_def minute_of_def second_of_def ms_day_def pos_imp_zdiv_nonneg_iff div_bound)

lemma make_time_fields:
  "t div ms_day * ms_day + make_time (hour_of t) (minute_of t) (second_of t) (t mod 1000) = t"
proof -
  have "t mod ms_day mod 3600000 = t mod 3600000" "t mod 3600000 mod 60000 = t mod 60000" "t mod 60000 mod 1000 = t mod 1000"
    by (simp_all add: ms_day_def mod_mod_cancel)
  then have "t mod ms_day = hour_of t * 3600000 + t mod 3600000" "t mod 3600000 = minute_of t * 60000 + t mod 60000"
    "t mod 60000 = second_of t * 1000 + t mod 1000"
    by (metis div_mult_mod_eq hour_of_def minute_of_def second_of_def)+
  then show ?thesis using div_mult_mod_eq [of t ms_day] by (simp add: make_time_def)
qed

section \<open>Time zones and the constructor\<close>

text \<open>The host's conversion between universal and local time.\<close>

record zone =
  to_local :: "int \<Rightarrow> int"
  to_utc :: "int \<Rightarrow> int"

definition to_integer :: "jsnum \<Rightarrow> int option" where
  "to_integer x = (case x of Fin r \<Rightarrow> Some (if r < 0 then \<lceil>r\<rceil> else \<lfloor>r\<rfloor>) | _ \<Rightarrow> None)"

text \<open>\<open>new Date(y, m, d, h, mi)\<close>: one argument that is not a finite number makes it invalid.\<close>

definition full_year :: "int \<Rightarrow> int" where
  "full_year y = (if 0 \<le> y \<and> y \<le> 99 then 1900 + y else y)"

definition new_date :: "zone \<Rightarrow> jsnum \<Rightarrow> jsnum \<Rightarrow> jsnum \<Rightarrow> jsnum \<Rightarrow> jsnum \<Rightarrow> int option" where
  "new_date z y m d h mi =
     (case (to_integer y, to_integer m, to_integer d, to_integer h, to_integer mi) of
        (Some y', Some m', Some d', Some h', Some mi') \<Rightarrow>
          time_clip (to_utc z (make_day (full_year y') m' d' * ms_day + make_time h' mi' 0 0))
      | _ \<Rightarrow> None)"

section \<open>Text of a time\<close>

definition iso_year :: "int \<Rightarrow> string" where
  "iso_year y = (if 0 \<le> y \<and> y \<le> 9999 then pad0 4 (nat y) else (if y < 0 then ''-'' else ''+'') @ pad0 6 (nat \<bar>y\<bar>))"

definition pad2 :: "int \<Rightarrow> string" where
  "pad2 n = pad_start 2 CHR ''0'' (int_str n)"

definition iso_string :: "int \<Rightarrow> string" where
  "iso_string t =
     (let d = t div ms_day in
      iso_year (year_of_day d) @ ''-'' @ pad2 (month_of_day d + 1) @ ''-'' @ pad2 (date_of_day d) @ ''T'' @
      pad2 (hour_of t) @ '':'' @ pad2 (minute_of t) @ '':'' @ pad2 (second_of t) @ ''.'' @ pad0 3 (nat (t mod 1000)) @ ''Z'')"

text \<open>\<open>replace(/\.\d{3}Z$/, 'Z')\<close>.\<close>

definition drop_millis :: "string \<Rightarrow> string" where
  "drop_millis s = (case rev s of
     z # a # b # c # dot # rest \<Rightarrow>
       if z = CHR ''Z'' \<and> is_digit a \<and> is_digit b \<and> is_digit c \<and> dot = CHR ''.'' then rev rest @ ''Z'' else s
   | _ \<Rightarrow> s)"

section \<open>Reading digits\<close>

lemma parse_decimal_digits:
  assumes "s \<noteq> []" and "\<forall>c \<in> set s. is_digit c"
  shows "parse_decimal s = Some (of_nat (digits_val s))"
proof -
  have td: "takeWhile is_digit s = s" "dropWhile is_digit s = []"
    using assms(2) by (simp_all add: takeWhile_eq_all_conv)
  show ?thesis unfolding parse_decimal_def td Let_def using assms(1) by simp
qed

lemma fl_safe_nat: "v < 2 ^ 53 \<Longrightarrow> fl (of_nat v) = Fin (of_nat v)"
proof (rule fl_double)
  assume v: "v < 2 ^ 53"
  then have "rnd (of_int (int v)) = of_int (int v)" by (intro rnd_safe_int) simp
  moreover have "(of_nat v :: rat) < 2 ^ 1024"
  proof -
    have "(of_nat v :: rat) < of_nat (2 ^ 53)" using v by (simp only: of_nat_less_iff)
    also have "\<dots> \<le> 2 ^ 1024" by (simp add: power_increasing)
    finally show ?thesis .
  qed
  ultimately show "is_double (of_nat v)" by (simp add: is_double_def)
qed

lemma num_of_str_digits:
  assumes "s \<noteq> []" and "\<forall>c \<in> set s. is_digit c" and "digits_val s < 2 ^ 53"
  shows "num_of_str s = Fin (of_nat (digits_val s))"
proof -
  obtain a as where s: "s = a # as" and a: "is_digit a" using assms by (cases s) auto
  have tr: "trim s = s" by (intro trim_no_space) (use assms(2) digit_not_special in blast)
  have "parse_radix s = None"
    using assms(2) digit_not_radix [of "hd as"] by (cases as) (simp_all add: s parse_radix_def)
  then have "num_of_str s = num_of_unsigned s"
    using tr digit_not_special [OF a] by (simp add: num_of_str_def s)
  also have "\<dots> = fl (of_nat (digits_val s))"
    unfolding num_of_unsigned_def parse_decimal_digits [OF assms(1,2)] using digit_not_special [OF a] s by auto
  finally show ?thesis using assms(3) by (simp add: fl_safe_nat)
qed

lemma pad2_digits: "0 \<le> n \<Longrightarrow> pad2 n = pad0 2 (nat n)"
  by (simp add: pad2_def pad0_def int_str_def)

lemma num_of_pad0: "v < 2 ^ 53 \<Longrightarrow> num_of_str (pad0 n v) = Fin (of_nat v)"
  by (subst num_of_str_digits) (auto simp: pad0_props, simp add: pad0_def pad_start_def)

lemma num_of_nat_str: "v < 2 ^ 53 \<Longrightarrow> num_of_str (nat_str v) = Fin (of_nat v)"
  using num_of_pad0 [of v 0] by (simp add: pad0_def pad_start_def)

lemma to_integer_nat [simp]: "to_integer (Fin (of_nat v)) = Some (int v)"
  by (simp add: to_integer_def)

lemma to_integer_int [simp]: "to_integer (Fin (of_int v)) = Some v"
  by (simp add: to_integer_def)

end
