(* ===== verification/Form_Fields.thy ===== *)
theory Form_Fields
  imports Js_Date Http Toast_View
begin

text \<open>
  What the three forms that create an auction share: the local times of their date fields
  (\<open>parseLocalTime\<close> stands in \<open>NewShipmentForm.tsx\<close> and \<open>NewForwardAuctionForm.tsx\<close>), the number
  fields, the files chosen for upload with their object URLs, and the loop that uploads them.
  The types are those of \<open>schemas/auction.ts\<close>.
\<close>

section \<open>Local times\<close>

text \<open>An element of a destructured array; one that is missing is \<open>undefined\<close>, as a number \<open>NaN\<close>.\<close>

definition num_at :: "jsnum list \<Rightarrow> nat \<Rightarrow> jsnum" where
  "num_at xs i = (if i < length xs then xs ! i else JNaN)"

definition num_pred :: "jsnum \<Rightarrow> jsnum" where
  "num_pred x = (case x of Fin r \<Rightarrow> js_sub r 1 | _ \<Rightarrow> x)"

definition parseLocalTime :: "zone \<Rightarrow> string \<Rightarrow> int option" where
  "parseLocalTime z s = (case split_char CHR ''T'' s of
     datePart # timePart # _ \<Rightarrow>
       if datePart = [] \<or> timePart = [] then None
       else let ds = map num_of_str (split_char CHR ''-'' datePart); ts = map num_of_str (split_char CHR '':'' timePart)
            in new_date z (num_at ds 0) (num_pred (num_at ds 1)) (num_at ds 2) (num_at ts 0) (num_at ts 1)
   | _ \<Rightarrow> None)"

text \<open>The text of a \<open>datetime-local\<close> field for a time.\<close>

definition local_text :: "zone \<Rightarrow> int option \<Rightarrow> string" where
  "local_text z time = (case time of
     None \<Rightarrow> ''NaN-NaN-NaNTNaN:NaN''
   | Some t \<Rightarrow> let l = to_local z t; d = l div ms_day in
       int_str (year_of_day d) @ ''-'' @ pad2 (month_of_day d + 1) @ ''-'' @ pad2 (date_of_day d) @ ''T'' @
       pad2 (hour_of l) @ '':'' @ pad2 (minute_of l))"

text \<open>\<open>new Date(t).toISOString()\<close>, which raises on an invalid time, without its milliseconds.\<close>

definition iso_of :: "int option \<Rightarrow> string option" where
  "iso_of t = map_option iso_string t"

definition iso_seconds :: "int option \<Rightarrow> string option" where
  "iso_seconds t = map_option drop_millis (iso_of t)"

section \<open>Number fields\<close>

text \<open>\<open>value.replace(/^0+(?=\d)/, '')\<close>: the leading zeros that stand before a digit.\<close>

fun strip_zeros :: "string \<Rightarrow> string" where
  "strip_zeros (a # b # s) = (if a = CHR ''0'' \<and> is_digit b then strip_zeros (b # s) else a # b # s)"
| "strip_zeros s = s"

text \<open>\<open>Number(value) || null\<close>.\<close>

definition number_or_null :: "string \<Rightarrow> json" where
  "number_or_null s = (let n = num_of_str s in if num_truthy n then JNum n else JNull)"

definition str_or_null :: "string \<Rightarrow> json" where
  "str_or_null s = (if s = [] then JNull else JStr s)"

section \<open>Files\<close>

record upload_file =
  fi_name :: string
  fi_type :: string
  fi_data :: string

datatype preview_type = PreviewImage | PreviewVideo

record preview =
  pv_id :: string
  pv_file :: upload_file
  pv_url :: string
  pv_type :: preview_type

text \<open>
  The chosen files and the object URLs that the browser keeps alive. The host gives each file an id and a
  URL (\<open>fresh\<close>); the effect on \<open>media\<close> cleans up the previews of the render before.
\<close>

record previews =
  pv_media :: "preview list"
  live_urls :: "string set"

definition previews_init :: previews where
  "previews_init = \<lparr>pv_media = [], live_urls = {}\<rparr>"

definition preview_of :: "upload_file \<times> string \<times> string \<Rightarrow> preview" where
  "preview_of x = (case x of (f, i, u) \<Rightarrow> \<lparr>pv_id = i, pv_file = f, pv_url = u,
     pv_type = (if starts_with (fi_type f) ''video/'' then PreviewVideo else PreviewImage)\<rparr>)"

definition revoke :: "preview list \<Rightarrow> previews \<Rightarrow> previews" where
  "revoke old p = p\<lparr>live_urls := live_urls p - pv_url ` set old\<rparr>"

text \<open>A change of \<open>media\<close>: the render with the new list, then the cleanup of the old one.\<close>

definition set_media :: "preview list \<Rightarrow> previews \<Rightarrow> previews" where
  "set_media ms p = revoke (pv_media p) (p\<lparr>pv_media := ms\<rparr>)"

definition handleFileChange :: "(upload_file \<times> string \<times> string) list \<Rightarrow> previews \<Rightarrow> previews" where
  "handleFileChange fs p =
     (let new = map preview_of fs in
      set_media (pv_media p @ new) (p\<lparr>live_urls := live_urls p \<union> pv_url ` set new\<rparr>))"

definition removeMedia :: "string \<Rightarrow> previews \<Rightarrow> previews" where
  "removeMedia i p =
     (let rest = filter (\<lambda>m. pv_id m \<noteq> i) (pv_media p);
          p' = (case List.find (\<lambda>m. pv_id m = i) (pv_media p) of None \<Rightarrow> p | Some m \<Rightarrow> revoke [m] p)
      in set_media rest p')"

text \<open>The removal of \<open>NewAuctionForm.tsx\<close>, which leaves the revoking to the effect.\<close>

definition dropMedia :: "string \<Rightarrow> previews \<Rightarrow> previews" where
  "dropMedia i p = set_media (filter (\<lambda>m. pv_id m \<noteq> i) (pv_media p)) p"

definition clear_media :: "previews \<Rightarrow> previews" where
  "clear_media p = set_media [] p"

definition previews_unmount :: "previews \<Rightarrow> previews" where
  "previews_unmount p = revoke (pv_media p) p"

section \<open>Uploading\<close>

definition upload_request :: "string option \<Rightarrow> storage \<Rightarrow> upload_file \<Rightarrow> http_request" where
  "upload_request env st f = \<lparr>rq_method = ''POST'', rq_url = api_url env @ ''/api/upload'',
     rq_headers = [bearer (case st ''token'' of None \<Rightarrow> ''null'' | Some t \<Rightarrow> t)],
     rq_body = Some (JObj [(''file'', JStr (fi_data f))])\<rparr>"

text \<open>
  The loop: one request after the other. \<open>ans k\<close> is the answer to the \<open>k\<close>-th request, and \<open>read\<close> is how a
  form reads it: the address of the file, or the error it throws. The result is the files that
  were sent, and the addresses or the error.
\<close>

fun upload_all ::
  "(upload_file \<Rightarrow> 'r \<Rightarrow> string + string) \<Rightarrow> (nat \<Rightarrow> 'r) \<Rightarrow> nat \<Rightarrow> upload_file list \<Rightarrow> upload_file list \<times> (string + string list)" where
  "upload_all read ans k [] = ([], Inr [])"
| "upload_all read ans k (f # fs) =
     (case read f (ans k) of
        Inl e \<Rightarrow> ([f], Inl e)
      | Inr url \<Rightarrow> (case upload_all read ans (Suc k) fs of
            (sent, Inl e) \<Rightarrow> (f # sent, Inl e)
          | (sent, Inr us) \<Rightarrow> (f # sent, Inr (url # us))))"

definition read_upload :: "(upload_file \<Rightarrow> string) \<Rightarrow> upload_file \<Rightarrow> string reply \<Rightarrow> string + string" where
  "read_upload err f rep = (case rep of
     Ok url \<Rightarrow> Inr url
   | NotOk _ _ \<Rightarrow> Inl (err f)
   | BadBody e \<Rightarrow> Inl e
   | NetworkError e \<Rightarrow> Inl e)"

definition media_urls :: "string list \<Rightarrow> json" where
  "media_urls us = (if us = [] then JNull else JArr (map JStr us))"

definition create_request :: "string option \<Rightarrow> storage \<Rightarrow> json \<Rightarrow> http_request" where
  "create_request env st payload = \<lparr>rq_method = ''POST'', rq_url = api_url env @ ''/api/auction/create'',
     rq_headers = [json_content, bearer (case st ''token'' of None \<Rightarrow> ''null'' | Some t \<Rightarrow> t)], rq_body = Some payload\<rparr>"

section \<open>Files and their previews\<close>

datatype preview_act = AddFiles "(upload_file \<times> string \<times> string) list" | Remove string | Drop string | Clear

fun preview_step :: "preview_act \<Rightarrow> previews \<Rightarrow> previews" where
  "preview_step (AddFiles fs) p = handleFileChange fs p"
| "preview_step (Remove i) p = removeMedia i p"
| "preview_step (Drop i) p = dropMedia i p"
| "preview_step Clear p = clear_media p"

lemmas preview_defs = set_media_def revoke_def handleFileChange_def removeMedia_def dropMedia_def clear_media_def

definition urls_held :: "previews \<Rightarrow> bool" where
  "urls_held p = (live_urls p \<subseteq> pv_url ` set (pv_media p))"

lemma urls_held_step: "urls_held p \<Longrightarrow> urls_held (preview_step a p)"
  by (cases a) (auto simp: urls_held_def preview_defs Let_def split: option.splits)

interpretation pvs: machine previews_init preview_step urls_held "\<lambda>_. True"
  by unfold_locales (simp_all add: urls_held_step, simp add: urls_held_def previews_init_def)

text \<open>
  No object URL leaks: whatever files are chosen and removed, when the form is closed every URL it
  created has been revoked.
\<close>

lemma previews_no_leak:
  "live_urls (previews_unmount (fold preview_step acts previews_init)) = {}"
  using pvs.run_inv [of acts] by (auto simp: urls_held_def previews_unmount_def revoke_def)

text \<open>
  But choosing more files, or removing one, revokes the URLs of all the previews chosen before, which
  stay on the page: with URLs that the browser never gives twice, none of the earlier previews
  can be shown again.
\<close>

lemma previews_broken:
  assumes "m \<in> set (pv_media p)" and "pv_url m \<notin> (\<lambda>x. snd (snd x)) ` set fs"
  shows "m \<in> set (pv_media (handleFileChange fs p)) \<and> pv_url m \<notin> live_urls (handleFileChange fs p)"
  using assms by (auto simp: preview_defs Let_def preview_of_def split: prod.splits)

section \<open>The upload loop\<close>

lemma read_upload_eq: "Inr u = read_upload err f rep \<longleftrightarrow> Ok u = rep"
  by (cases rep) (auto simp: read_upload_def)

lemma upload_all_ok:
  "snd (upload_all read ans k fs) = Inr us \<longleftrightarrow> map Inr us = map (\<lambda>(i, f). read f (ans i)) (zip [k..<k + length fs] fs)"
proof (induction fs arbitrary: k us)
  case (Cons f fs)
  obtain sent r where u: "upload_all read ans (Suc k) fs = (sent, r)" by fastforce
  have up: "[k..<k + length (f # fs)] = k # [Suc k..<Suc k + length fs]" by (simp add: upt_rec)
  show ?case
    unfolding up using Cons.IH [of "Suc k" "tl us"]
    by (cases us; cases r; cases "read f (ans k)") (auto simp: u simp del: upt_Suc)
qed auto

lemma zip_upt_Cons: "zip [k..<k + length (f # fs)] (f # fs) = (k, f) # zip [Suc k..<Suc k + length fs] fs"
  by (simp add: upt_rec)

lemma read_uploads:
  "map Inr us = map (\<lambda>(i, f). read_upload err f (ans i)) (zip [k..<k + length fs] fs) \<longleftrightarrow> map Ok us = map ans [k..<k + length fs]"
proof (induction fs arbitrary: k us)
  case (Cons f fs)
  have up: "[k..<k + length (f # fs)] = k # [Suc k..<Suc k + length fs]" by (simp add: upt_rec)
  show ?case
    unfolding zip_upt_Cons unfolding up using Cons.IH [of "tl us" "Suc k"]
    by (cases us) (simp_all add: read_upload_eq del: upt_Suc)
qed simp

lemma upload_all_read:
  "snd (upload_all (read_upload err) ans 0 fs) = Inr us \<longleftrightarrow> map Ok us = map ans [0..<length fs]"
  using upload_all_ok [of "read_upload err" ans 0 fs us] read_uploads [of us err ans 0 fs] by simp

lemma upload_all_prefix: "prefix (fst (upload_all read ans k fs)) fs"
  by (induction fs arbitrary: k) (auto split: prod.splits sum.splits, (metis fst_conv)+)

text \<open>
  The uploads are in order and complete: the loop gives addresses exactly when every
  file was accepted, one for each file and in the order of the files; otherwise it stops at the first
  failure, so that the files it sent are always the first ones, none of them twice.
\<close>

lemma uploads_in_order:
  "(snd (upload_all read ans 0 fs) = Inr us \<longleftrightarrow> map Inr us = map (\<lambda>(i, f). read f (ans i)) (zip [0..<length fs] fs)) \<and>
   prefix (fst (upload_all read ans 0 fs)) fs"
  using upload_all_ok [of read ans 0 fs us] upload_all_prefix [of read ans 0 fs] by simp

section \<open>Dates that read back\<close>

lemma int_str_fresh: "0 \<le> n \<Longrightarrow> \<not> is_digit c \<Longrightarrow> c \<notin> set (int_str n)"
  using nat_str_digits by (auto simp: int_str_def)

lemma pad2_fresh: "0 \<le> n \<Longrightarrow> \<not> is_digit c \<Longrightarrow> c \<notin> set (pad2 n)"
  by (simp add: pad2_digits pad0_fresh)

lemma num_of_pad2: "0 \<le> n \<Longrightarrow> n < 2 ^ 53 \<Longrightarrow> num_of_str (pad2 n) = Fin (of_int n)"
  using num_of_pad0 [of "nat n" 2] by (simp add: pad2_digits nat_less_iff)

lemma num_of_int_str: "0 \<le> n \<Longrightarrow> n < 2 ^ 53 \<Longrightarrow> num_of_str (int_str n) = Fin (of_int n)"
  using num_of_nat_str [of "nat n"] by (simp add: int_str_def nat_less_iff)

lemma num_pred_int: "\<bar>n - 1\<bar> < 2 ^ 53 \<Longrightarrow> num_pred (Fin (of_int n)) = Fin (of_int (n - 1))"
proof -
  assume a: "\<bar>n - 1\<bar> < 2 ^ 53"
  have "is_double (of_int (n - 1))"
    unfolding is_double_def
  proof
    show "rnd (of_int (n - 1)) = of_int (n - 1)" using a by (rule rnd_safe_int)
    have "\<bar>of_int (n - 1)\<bar> < (of_int (2 ^ 53) :: rat)" using a by (simp only: of_int_abs [symmetric] of_int_less_iff)
    also have "\<dots> \<le> 2 ^ 1024" by (simp add: power_increasing)
    finally show "\<bar>of_int (n - 1)\<bar> < (2 ^ 1024 :: rat)" .
  qed
  then show ?thesis by (simp add: num_pred_def js_sub_def fl_double [of "of_int (n - 1)", simplified])
qed

lemma split_date:
  assumes "0 \<le> y" "0 \<le> m" "0 \<le> d" "0 \<le> h" "0 \<le> mi"
  shows "split_char CHR ''T'' (int_str y @ ''-'' @ pad2 m @ ''-'' @ pad2 d @ ''T'' @ pad2 h @ '':'' @ pad2 mi) =
      [int_str y @ ''-'' @ pad2 m @ ''-'' @ pad2 d, pad2 h @ '':'' @ pad2 mi]"
    and "split_char CHR ''-'' (int_str y @ ''-'' @ pad2 m @ ''-'' @ pad2 d) = [int_str y, pad2 m, pad2 d]"
    and "split_char CHR '':'' (pad2 h @ '':'' @ pad2 mi) = [pad2 h, pad2 mi]"
proof -
  have c: "\<not> is_digit CHR ''T''" "\<not> is_digit CHR ''-''" "\<not> is_digit CHR '':''" by (simp_all add: is_digit_def)
  have "CHR ''T'' \<notin> set (int_str y @ ''-'' @ pad2 m @ ''-'' @ pad2 d)" "CHR ''T'' \<notin> set (pad2 h @ '':'' @ pad2 mi)"
    using assms c by (simp_all add: int_str_fresh pad2_fresh)
  from split_char_cons [OF this(1)] split_char_fresh [OF this(2)]
  show "split_char CHR ''T'' (int_str y @ ''-'' @ pad2 m @ ''-'' @ pad2 d @ ''T'' @ pad2 h @ '':'' @ pad2 mi) =
      [int_str y @ ''-'' @ pad2 m @ ''-'' @ pad2 d, pad2 h @ '':'' @ pad2 mi]" by simp
  show "split_char CHR ''-'' (int_str y @ ''-'' @ pad2 m @ ''-'' @ pad2 d) = [int_str y, pad2 m, pad2 d]"
    using assms c by (simp add: split_char_cons split_char_fresh int_str_fresh pad2_fresh)
  show "split_char CHR '':'' (pad2 h @ '':'' @ pad2 mi) = [pad2 h, pad2 mi]"
    using assms c by (simp add: split_char_cons split_char_fresh pad2_fresh)
qed

lemma parse_date_text:
  assumes "100 \<le> y" "y < 2 ^ 53" "0 \<le> m" "m < 12" "0 \<le> d" "d < 100" "0 \<le> h" "h < 100" "0 \<le> mi" "mi < 100"
  shows "parseLocalTime z (int_str y @ ''-'' @ pad2 (m + 1) @ ''-'' @ pad2 d @ ''T'' @ pad2 h @ '':'' @ pad2 mi) =
    time_clip (to_utc z (make_day y m d * ms_day + make_time h mi 0 0))"
proof -
  let ?nums = "[Fin (of_int y), Fin (of_int (m + 1)), Fin (of_int d)]"
  have nums: "map num_of_str [int_str y, pad2 (m + 1), pad2 d] = ?nums" "map num_of_str [pad2 h, pad2 mi] = [Fin (of_int h), Fin (of_int mi)]"
    using assms by (simp_all add: num_of_int_str num_of_pad2 del: of_int_add)
  have ne: "int_str y @ ''-'' @ pad2 (m + 1) @ ''-'' @ pad2 d \<noteq> []" "pad2 h @ '':'' @ pad2 mi \<noteq> []" by simp_all
  have "num_pred (Fin (of_int (m + 1))) = Fin (of_int m)" using assms num_pred_int [of "m + 1"] by simp
  then show ?thesis
    using assms ne unfolding parseLocalTime_def
    by (simp only: split_date nums list.case if_False de_Morgan_disj simp_thms Let_def)
      (simp add: num_at_def new_date_def full_year_def del: of_int_add)
qed

text \<open>
  A time written into a date field reads back: for every whole minute of a year from 100 on,
  parsing the field gives the local time that was written, converted to universal time in the
  zone of the reader.
\<close>

lemma local_text_reads:
  assumes "to_local z t mod 60000 = 0" and "100 \<le> year_of_day (to_local z t div ms_day)"
    and "year_of_day (to_local z t div ms_day) < 2 ^ 53"
  shows "parseLocalTime z' (local_text z (Some t)) = time_clip (to_utc z' (to_local z t))"
proof -
  let ?l = "to_local z t" and ?d = "to_local z t div ms_day"
  have "second_of ?l = 0" "?l mod 1000 = 0"
    using assms(1) mod_mod_cancel [of 1000 60000 ?l] by (simp_all add: second_of_def)
  then have "make_day (year_of_day ?d) (month_of_day ?d) (date_of_day ?d) * ms_day + make_time (hour_of ?l) (minute_of ?l) 0 0 = ?l"
    using make_time_fields [of ?l] by (simp add: make_day_fields)
  then show ?thesis
    using parse_date_text [of "year_of_day ?d" "month_of_day ?d" "date_of_day ?d" "hour_of ?l" "minute_of ?l" z'] assms(2,3)
      day_fields_range [of ?d] time_fields_range [of ?l]
    by (simp add: local_text_def Let_def)
qed

text \<open>Reading the times that the forms send: the format of ISO 8601 without fractions.\<close>

definition read_iso :: "string \<Rightarrow> int option" where
  "read_iso s = (case map (split_char CHR ''T'') (split_char CHR ''Z'' s) of
     [[d, t], [[]]] \<Rightarrow> (case (map digits_val (split_char CHR ''-'' d), map digits_val (split_char CHR '':'' t)) of
         ([y, m, dd], [h, mi, sec]) \<Rightarrow>
           Some (make_day (int y) (int m - 1) (int dd) * ms_day + make_time (int h) (int mi) (int sec) 0)
       | _ \<Rightarrow> None)
   | _ \<Rightarrow> None)"

lemma drop_millis_append:
  "length ds = 3 \<Longrightarrow> \<forall>c \<in> set ds. is_digit c \<Longrightarrow> drop_millis (s @ ''.'' @ ds @ ''Z'') = s @ ''Z''"
  by (cases ds rule: rev_cases; (cases "butlast ds" rule: rev_cases)?)
    (auto simp: drop_millis_def length_Suc_conv numeral_3_eq_3)

lemma digits_val_pad2: "0 \<le> n \<Longrightarrow> int (digits_val (pad2 n)) = n"
  by (simp add: pad2_digits pad0_props)

lemma read_iso_text:
  assumes "0 \<le> m" "0 \<le> d" "0 \<le> h" "0 \<le> mi" "0 \<le> sec"
  shows "read_iso ((pad0 4 y @ ''-'' @ pad2 (m + 1) @ ''-'' @ pad2 d @ ''T'' @ pad2 h @ '':'' @ pad2 mi @ '':'' @ pad2 sec) @ ''Z'') =
    Some (make_day (int y) m d * ms_day + make_time h mi sec 0)"
proof -
  let ?d = "pad0 4 y @ ''-'' @ pad2 (m + 1) @ ''-'' @ pad2 d" and ?t = "pad2 h @ '':'' @ pad2 mi @ '':'' @ pad2 sec"
  have c: "\<not> is_digit CHR ''T''" "\<not> is_digit CHR ''-''" "\<not> is_digit CHR '':''" "\<not> is_digit CHR ''Z''" by (simp_all add: is_digit_def)
  have fresh: "CHR ''Z'' \<notin> set (?d @ ''T'' @ ?t)" "CHR ''T'' \<notin> set ?d" "CHR ''T'' \<notin> set ?t"
    using assms c by (simp_all add: pad0_fresh pad2_fresh)
  have "split_char CHR ''Z'' ((?d @ ''T'' @ ?t) @ ''Z'') = [?d @ ''T'' @ ?t, []]"
    using split_char_cons [OF fresh(1), of "[]"] by simp
  moreover have "split_char CHR ''T'' (?d @ ''T'' @ ?t) = [?d, ?t]"
    using split_char_cons [OF fresh(2), of ?t] split_char_fresh [OF fresh(3)] by simp
  moreover have "split_char CHR ''-'' ?d = [pad0 4 y, pad2 (m + 1), pad2 d]"
    using assms c by (simp add: split_char_cons split_char_fresh pad0_fresh pad2_fresh)
  moreover have "split_char CHR '':'' ?t = [pad2 h, pad2 mi, pad2 sec]"
    using assms c by (simp add: split_char_cons split_char_fresh pad2_fresh)
  ultimately show ?thesis
    using assms by (simp add: read_iso_def digits_val_pad2 pad0_props)
qed

text \<open>
  The times in a payload denote the instants that were chosen: for a whole second between the
  years 0 and 9999 the text that is sent reads back, as ISO 8601, to the same instant.
\<close>

lemma iso_roundtrip:
  assumes "t mod 1000 = 0" and "0 \<le> year_of_day (t div ms_day)" and "year_of_day (t div ms_day) \<le> 9999"
  shows "\<exists>s. iso_seconds (Some t) = Some s \<and> read_iso s = Some t"
proof -
  let ?d = "t div ms_day"
  let ?s = "pad0 4 (nat (year_of_day ?d)) @ ''-'' @ pad2 (month_of_day ?d + 1) @ ''-'' @ pad2 (date_of_day ?d) @ ''T'' @
      pad2 (hour_of t) @ '':'' @ pad2 (minute_of t) @ '':'' @ pad2 (second_of t)"
  have "iso_string t = ?s @ ''.'' @ pad0 3 (nat (t mod 1000)) @ ''Z''"
    using assms(2,3) by (simp add: iso_string_def iso_year_def Let_def)
  moreover have "drop_millis (?s @ ''.'' @ pad0 3 (nat (t mod 1000)) @ ''Z'') = ?s @ ''Z''"
    by (rule drop_millis_append) (use assms(1) in \<open>simp add: pad0_length\<close>, rule pad0_props)
  ultimately have "iso_seconds (Some t) = Some (?s @ ''Z'')"
    by (simp only: iso_seconds_def iso_of_def option.map)
  moreover have "read_iso (?s @ ''Z'') = Some t"
    using read_iso_text [of "month_of_day ?d" "date_of_day ?d" "hour_of t" "minute_of t" "second_of t" "nat (year_of_day ?d)"]
      day_fields_range [of ?d] time_fields_range [of t] make_time_fields [of t] assms
    by (simp add: make_day_fields)
  ultimately show ?thesis by blast
qed

lemma iso_example_year: "year_of_day (1785578400000 div ms_day) = 2026"
  by (rule year_of_day_eq) (simp_all add: ms_day_def day_from_year_def)

text \<open>Removing leading zeros keeps the value of a whole number.\<close>

lemma strip_zeros_digits:
  assumes "\<forall>c \<in> set s. is_digit c"
  shows "digits_val (strip_zeros s) = digits_val s \<and> (\<forall>c \<in> set (strip_zeros s). is_digit c) \<and> (s \<noteq> [] \<longrightarrow> strip_zeros s \<noteq> [])"
  using assms
proof (induction s rule: strip_zeros.induct)
  case (1 a b s)
  then show ?case using digits_val_zeros [of 1 "b # s"] by auto
qed auto

lemma strip_zeros_value:
  "s \<noteq> [] \<Longrightarrow> \<forall>c \<in> set s. is_digit c \<Longrightarrow> digits_val s < 2 ^ 53 \<Longrightarrow> num_of_str (strip_zeros s) = num_of_str s"
  using strip_zeros_digits [of s] by (simp add: num_of_str_digits)

end
