(* ===== verification/Create_Auction.thy ===== *)
theory Create_Auction
  imports Catalogue Form_Fields
begin

text \<open>
  What the forms create: the type of the body that \<open>POST /api/auction/create\<close> reads and the rules it
  enforces (\<open>apps/http-server/src/types.rs\<close>, \<open>services/auction.rs\<close>), and the form
  \<open>components/auction/NewAuctionForm.tsx\<close>, which creates an auction of either direction.
\<close>

section \<open>Types of request bodies\<close>

text \<open>
  A number that is not finite is printed as \<open>null\<close>. A struct ignores fields it does not know; a
  field of type \<open>Option\<close> may be missing.
\<close>

datatype json_ty = TStr | TNum | TList json_ty | TOption json_ty

fun has_ty :: "json_ty \<Rightarrow> json \<Rightarrow> bool" where
  "has_ty TStr (JStr _) = True"
| "has_ty TNum (JNum n) = is_finite_num n"
| "has_ty (TList t) (JArr xs) = list_all (has_ty t) xs"
| "has_ty (TOption t) JNull = True"
| "has_ty (TOption t) (JNum n) = (\<not> is_finite_num n \<or> has_ty t (JNum n))"
| "has_ty (TOption t) v = has_ty t v"
| "has_ty _ _ = False"

definition is_option :: "json_ty \<Rightarrow> bool" where
  "is_option t = (case t of TOption _ \<Rightarrow> True | _ \<Rightarrow> False)"

definition has_struct :: "(string \<times> json_ty) list \<Rightarrow> json \<Rightarrow> bool" where
  "has_struct fts v = (case v of
     JObj kvs \<Rightarrow> distinct (map fst kvs) \<and>
       list_all (\<lambda>(k, t). case map_of kvs k of None \<Rightarrow> is_option t | Some x \<Rightarrow> has_ty t x) fts
   | _ \<Rightarrow> False)"

definition CreateAuctionPayload :: "(string \<times> json_ty) list" where
  "CreateAuctionPayload =
     [(''title'', TStr), (''description'', TStr), (''freight_type'', TOption TStr), (''auction_type'', TOption TStr),
      (''origin_address'', TOption TStr), (''origin_lat'', TOption TNum), (''origin_lng'', TOption TNum),
      (''dest_address'', TOption TStr), (''dest_lat'', TOption TNum), (''dest_lng'', TOption TNum),
      (''pickup_date_start'', TOption TStr), (''pickup_date_end'', TOption TStr),
      (''auction_start_time'', TStr), (''auction_end_time'', TStr),
      (''weight'', TOption TNum), (''length'', TOption TNum), (''width'', TOption TNum), (''height'', TOption TNum),
      (''starting_price'', TOption TNum), (''minimum_bid_step'', TOption TNum), (''reserve_price'', TOption TNum),
      (''item_category'', TOption TStr), (''item_condition'', TOption TStr), (''quantity'', TOption TNum),
      (''quantity_unit'', TOption TStr), (''pickup_terms'', TOption TStr), (''media_urls'', TOption (TList TStr))]"

lemma has_ty_optional [simp]:
  "has_ty (TOption TStr) (str_or_null s)" "has_ty (TOption TNum) (number_or_null s)"
  "has_ty (TOption (TList TStr)) (media_urls us)"
  by (auto simp: str_or_null_def number_or_null_def media_urls_def Let_def list_all_iff)

text \<open>The rules of the service on prices and times; \<open>None\<close> is acceptance.\<close>

record auction_terms =
  at_type :: auction_type
  at_starting_price :: "rat option"
  at_minimum_bid_step :: "rat option"
  at_reserve_price :: "rat option"
  at_quantity :: "rat option"
  at_start :: int
  at_end :: int

definition create_rules :: "auction_terms \<Rightarrow> string option" where
  "create_rules a =
     (case at_starting_price a of
        None \<Rightarrow> Some ''starting_price must be greater than zero''
      | Some p \<Rightarrow>
          if \<not> p > 0 then Some ''starting_price must be greater than zero''
          else if (case at_minimum_bid_step a of None \<Rightarrow> 1 | Some s \<Rightarrow> s) \<le> 0 then Some ''minimum_bid_step must be greater than zero''
          else if (case at_reserve_price a of None \<Rightarrow> False | Some r \<Rightarrow> r < 0) then Some ''reserve_price cannot be negative''
          else if at_type a = FORWARD \<and> (case at_reserve_price a of None \<Rightarrow> False | Some r \<Rightarrow> r < p) then
            Some ''forward auction reserve_price cannot be below starting_price''
          else if (case at_quantity a of None \<Rightarrow> False | Some q \<Rightarrow> q \<le> 0) then Some ''quantity must be greater than zero''
          else if at_end a - at_start a \<le> 0 then Some ''auction_end_time must be after auction_start_time''
          else if at_end a - at_start a < 5 * 60 * 1000 then Some ''Auction duration must be at least 5 minutes''
          else None)"

section \<open>NewAuctionForm\<close>

text \<open>A field that holds text or, before it is edited, a number.\<close>

datatype field_val = FStr string | FNum jsnum

definition field_num :: "field_val \<Rightarrow> jsnum" where
  "field_num v = (case v of FStr s \<Rightarrow> num_of_str s | FNum n \<Rightarrow> n)"

definition field_text :: "field_val \<Rightarrow> string" where
  "field_text v = (case v of FStr s \<Rightarrow> s | FNum n \<Rightarrow> num_str n)"

record auction_form =
  af_title :: string
  af_description :: string
  af_auctionType :: auction_type
  af_category :: string
  af_itemCondition :: string
  af_quantity :: field_val
  af_quantityUnit :: string
  af_startingPrice :: field_val
  af_minimumBidStep :: field_val
  af_reservePrice :: field_val
  af_auctionStartTime :: string
  af_auctionEndTime :: string
  af_detailedInformation :: string
  af_location :: string
  af_destination :: string
  af_length :: field_val
  af_width :: field_val
  af_height :: field_val
  af_weight :: field_val

definition AUCTION_CATEGORIES :: "string list" where
  "AUCTION_CATEGORIES = [''Art and collectibles'', ''Business supplies'', ''Commodities'', ''Electronics'', ''Event services'',
     ''Freight and logistics'', ''Furniture'', ''Healthcare'', ''Industrial equipment'', ''Professional services'', ''Real estate'',
     ''Vehicles'', ''Other'']"

definition ITEM_CONDITIONS :: "string list" where
  "ITEM_CONDITIONS = [''New'', ''Used - like new'', ''Used - inspected'', ''Refurbished'', ''Not applicable'']"

definition INITIAL_FORM :: auction_form where
  "INITIAL_FORM = \<lparr>af_title = [], af_description = [], af_auctionType = REVERSE, af_category = hd AUCTION_CATEGORIES,
     af_itemCondition = hd ITEM_CONDITIONS, af_quantity = FNum (Fin 1), af_quantityUnit = ''item'', af_startingPrice = FStr [],
     af_minimumBidStep = FNum (Fin 1), af_reservePrice = FStr [], af_auctionStartTime = [], af_auctionEndTime = [],
     af_detailedInformation = [], af_location = [], af_destination = [], af_length = FStr [], af_width = FStr [],
     af_height = FStr [], af_weight = FStr []\<rparr>"

definition optionalNumber :: "field_val \<Rightarrow> json" where
  "optionalNumber v = (if v = FStr [] then JNull
     else let parsed = field_num v in if is_finite_num parsed then JNum parsed else JNull)"

text \<open>The inputs of the page; the others keep their initial values.\<close>

datatype auction_field = Title | Description | AuctionType auction_type | Category | ItemCondition | Quantity | QuantityUnit
  | StartingPrice | MinimumBidStep | ReservePrice | AuctionStartTime | AuctionEndTime | DetailedInformation | Location | Destination

fun set_field :: "auction_field \<Rightarrow> string \<Rightarrow> auction_form \<Rightarrow> auction_form" where
  "set_field Title v f = f\<lparr>af_title := v\<rparr>"
| "set_field Description v f = f\<lparr>af_description := v\<rparr>"
| "set_field (AuctionType t) v f = f\<lparr>af_auctionType := t\<rparr>"
| "set_field Category v f = f\<lparr>af_category := v\<rparr>"
| "set_field ItemCondition v f = f\<lparr>af_itemCondition := v\<rparr>"
| "set_field Quantity v f = f\<lparr>af_quantity := FStr v\<rparr>"
| "set_field QuantityUnit v f = f\<lparr>af_quantityUnit := v\<rparr>"
| "set_field StartingPrice v f = f\<lparr>af_startingPrice := FStr v\<rparr>"
| "set_field MinimumBidStep v f = f\<lparr>af_minimumBidStep := FStr v\<rparr>"
| "set_field ReservePrice v f = f\<lparr>af_reservePrice := FStr v\<rparr>"
| "set_field AuctionStartTime v f = f\<lparr>af_auctionStartTime := v\<rparr>"
| "set_field AuctionEndTime v f = f\<lparr>af_auctionEndTime := v\<rparr>"
| "set_field DetailedInformation v f = f\<lparr>af_detailedInformation := v\<rparr>"
| "set_field Location v f = f\<lparr>af_location := v\<rparr>"
| "set_field Destination v f = f\<lparr>af_destination := v\<rparr>"

definition type_str :: "auction_type \<Rightarrow> string" where
  "type_str t = (case t of REVERSE \<Rightarrow> ''REVERSE'' | FORWARD \<Rightarrow> ''FORWARD'')"

text \<open>The payload; \<open>None\<close> where \<open>toISOString\<close> raises.\<close>

definition auction_payload :: "date_parser \<Rightarrow> auction_form \<Rightarrow> string list \<Rightarrow> json option" where
  "auction_payload date_of f urls =
     (case (iso_of (date_of (af_auctionStartTime f)), iso_of (date_of (af_auctionEndTime f))) of
        (Some start, Some stop) \<Rightarrow> Some (JObj [
          (''title'', JStr (trim (af_title f))),
          (''description'', JStr (trim (af_description f))),
          (''auction_type'', JStr (type_str (af_auctionType f))),
          (''item_category'', JStr (af_category f)),
          (''item_condition'', JStr (af_itemCondition f)),
          (''quantity'', optionalNumber (af_quantity f)),
          (''quantity_unit'', str_or_null (trim (af_quantityUnit f))),
          (''starting_price'', optionalNumber (af_startingPrice f)),
          (''minimum_bid_step'', optionalNumber (af_minimumBidStep f)),
          (''reserve_price'', if af_auctionType f = FORWARD then optionalNumber (af_reservePrice f) else JNull),
          (''auction_start_time'', JStr start),
          (''auction_end_time'', JStr stop),
          (''pickup_terms'', str_or_null (trim (af_detailedInformation f))),
          (''origin_address'', str_or_null (trim (af_location f))),
          (''dest_address'', str_or_null (trim (af_destination f))),
          (''origin_lat'', JNull), (''origin_lng'', JNull), (''dest_lat'', JNull), (''dest_lng'', JNull),
          (''pickup_date_start'', JNull), (''pickup_date_end'', JNull), (''freight_type'', JNull),
          (''weight'', optionalNumber (af_weight f)),
          (''length'', optionalNumber (af_length f)),
          (''width'', optionalNumber (af_width f)),
          (''height'', optionalNumber (af_height f)),
          (''media_urls'', media_urls urls)])
      | _ \<Rightarrow> None)"

text \<open>
  The outcome of a mutation: the files that were uploaded, the request that created the auction if it
  was sent, and the error or the result.
\<close>

record 'a submission =
  sb_uploads :: "upload_file list"
  sb_request :: "http_request option"
  sb_result :: "string + 'a"

definition create_result :: "string option reply \<Rightarrow> string + string option" where
  "create_result rep = (case rep of
     Ok aid \<Rightarrow> Inr aid
   | BadBody _ \<Rightarrow> Inr None
   | NotOk _ err \<Rightarrow> Inl (opt_str_or err ''Could not create auction'')
   | NetworkError m \<Rightarrow> Inl m)"

definition auction_mutation ::
  "string option \<Rightarrow> storage \<Rightarrow> date_parser \<Rightarrow> preview list \<Rightarrow> (nat \<Rightarrow> string reply) \<Rightarrow> string option reply \<Rightarrow> auction_form
     \<Rightarrow> string option submission" where
  "auction_mutation env st date_of ms ans rep f =
     (case upload_all (read_upload (\<lambda>x. ''Could not upload '' @ fi_name x)) ans 0 (map pv_file ms) of
        (sent, Inl e) \<Rightarrow> \<lparr>sb_uploads = sent, sb_request = None, sb_result = Inl e\<rparr>
      | (sent, Inr urls) \<Rightarrow>
          (case auction_payload date_of f urls of
             None \<Rightarrow> \<lparr>sb_uploads = sent, sb_request = None, sb_result = Inl ''Invalid time value''\<rparr>
           | Some payload \<Rightarrow> \<lparr>sb_uploads = sent, sb_request = Some (create_request env st payload), sb_result = create_result rep\<rparr>))"

text \<open>The checks of \<open>submit\<close>, in order.\<close>

definition auction_form_error :: "date_parser \<Rightarrow> auction_form \<Rightarrow> string option" where
  "auction_form_error date_of f =
     (case (date_of (af_auctionStartTime f), date_of (af_auctionEndTime f)) of
        (Some start, Some stop) \<Rightarrow>
          (let price = field_num (af_startingPrice f); stp = field_num (af_minimumBidStep f) in
           if stop \<le> start then Some ''Auction end time must be after its start time.''
           else if stop - start < 5 * 60000 then Some ''Live bidding must run for at least 5 minutes.''
           else if \<not> is_finite_num price \<or> js_le price (Fin 0) then Some ''Starting price must be greater than zero.''
           else if \<not> is_finite_num stp \<or> js_le stp (Fin 0) then Some ''Minimum bid step must be greater than zero.''
           else if af_auctionType f = FORWARD \<and> af_reservePrice f \<noteq> FStr [] \<and> js_lt (field_num (af_reservePrice f)) price then
             Some ''A forward-auction reserve cannot be below the starting price.''
           else None)
      | _ \<Rightarrow> Some ''Choose valid start and end times.'')"

record auction_page =
  ap_form :: auction_form
  ap_media :: previews
  ap_message :: string
  ap_error :: string
  ap_pending :: bool

definition auction_page_init :: auction_page where
  "auction_page_init = \<lparr>ap_form = INITIAL_FORM, ap_media = previews_init, ap_message = [], ap_error = [], ap_pending = False\<rparr>"

definition auction_submit :: "date_parser \<Rightarrow> auction_page \<Rightarrow> auction_page" where
  "auction_submit date_of p = (case auction_form_error date_of (ap_form p) of
     Some e \<Rightarrow> p\<lparr>ap_error := e\<rparr>
   | None \<Rightarrow> p\<lparr>ap_error := [], ap_pending := True\<rparr>)"

definition auction_settled :: "string + string option \<Rightarrow> auction_page \<Rightarrow> auction_page" where
  "auction_settled res p = (let p = p\<lparr>ap_pending := False\<rparr> in
     case res of
       Inr aid \<Rightarrow> p\<lparr>ap_message := ''Auction '' @ (case aid of None \<Rightarrow> [] | Some a \<Rightarrow> take 8 a) @ '' created successfully.'',
         ap_error := [], ap_form := INITIAL_FORM, ap_media := clear_media (ap_media p)\<rparr>
     | Inl e \<Rightarrow> p\<lparr>ap_error := e, ap_message := []\<rparr>)"

datatype auction_form_act = Field auction_field string | ChooseFiles "(upload_file \<times> string \<times> string) list" | DropFile string
  | OpenFiles | CloseMessage | CloseError | SubmitForm | Settled "string + string option"

fun auction_page_step :: "date_parser \<Rightarrow> auction_form_act \<Rightarrow> auction_page \<Rightarrow> auction_page" where
  "auction_page_step date_of (Field n v) p = p\<lparr>ap_form := set_field n v (ap_form p)\<rparr>"
| "auction_page_step date_of (ChooseFiles fs) p = p\<lparr>ap_media := handleFileChange fs (ap_media p)\<rparr>"
| "auction_page_step date_of (DropFile i) p = p\<lparr>ap_media := dropMedia i (ap_media p)\<rparr>"
| "auction_page_step date_of OpenFiles p = p"
| "auction_page_step date_of CloseMessage p = p\<lparr>ap_message := []\<rparr>"
| "auction_page_step date_of CloseError p = p\<lparr>ap_error := []\<rparr>"
| "auction_page_step date_of SubmitForm p = auction_submit date_of p"
| "auction_page_step date_of (Settled r) p = auction_settled r p"

section \<open>Rendering\<close>

text \<open>A labelled input: what it shows, how the browser restricts it, and its change handler.\<close>

definition labelled_input :: "string \<Rightarrow> 'a jsx list \<Rightarrow> string \<Rightarrow> 'a attr list \<Rightarrow> string \<Rightarrow> (string \<Rightarrow> 'a) \<Rightarrow> 'a jsx" where
  "labelled_input label extra tag as value act =
     El ''label'' [] (Txt label # extra @ [El tag (as @ [Attr ''value'' value, On ''onChange'' act]) []])"

definition labelled_select :: "string \<Rightarrow> string list \<Rightarrow> string \<Rightarrow> (string \<Rightarrow> 'a) \<Rightarrow> 'a jsx" where
  "labelled_select label options value act =
     El ''label'' [] [Txt label, El ''select'' [Attr ''value'' value, On ''onChange'' act]
       (map (\<lambda>x. El ''option'' [Attr ''key'' x] [Txt x]) options)]"

definition required :: "'a attr" where
  "required = Flag ''required'' True"

definition number_input :: "string \<Rightarrow> string \<Rightarrow> 'a attr list" where
  "number_input lo stp = [Attr ''type'' ''number'', Attr ''min'' lo, Attr ''step'' stp]"

definition direction_button :: "auction_form \<Rightarrow> auction_type \<Rightarrow> string \<Rightarrow> string \<Rightarrow> string \<Rightarrow> auction_form_act jsx" where
  "direction_button f t icon title text =
     El ''button'' [Attr ''type'' ''button'', onClick (Field (AuctionType t) (type_str t)), Flag ''selected'' (af_auctionType f = t)]
       [El icon [] [], El ''span'' [] [Txt title], El ''span'' [] [Txt text]]"

definition auction_subject :: "auction_form \<Rightarrow> auction_form_act jsx" where
  "auction_subject f =
     El ''section'' [] [
       El ''h2'' [] [El ''Package'' [] [], Txt '' Auction subject''],
       El ''div'' [] [
         labelled_input ''Title'' [] ''input'' [required, Attr ''minLength'' ''3''] (af_title f) (Field Title),
         labelled_input ''Description'' [] ''textarea'' [required, Attr ''minLength'' ''5'', Attr ''rows'' ''4''] (af_description f) (Field Description),
         labelled_select ''Category'' AUCTION_CATEGORIES (af_category f) (Field Category),
         labelled_select ''Condition'' ITEM_CONDITIONS (af_itemCondition f) (Field ItemCondition),
         labelled_input ''Quantity'' [] ''input'' (number_input ''0.01'' ''any'') (field_text (af_quantity f)) (Field Quantity),
         labelled_input ''Quantity unit'' [] ''input'' [Attr ''placeholder'' (''item, lot, hour, tonne'' @ u_ellipsis)] (af_quantityUnit f) (Field QuantityUnit)]]"

definition auction_prices :: "auction_form \<Rightarrow> auction_form_act jsx" where
  "auction_prices f =
     El ''section'' [] [
       El ''h2'' [] [El ''Settings2'' [] [], Txt '' Price rules''],
       El ''div'' [] [
         labelled_input ''Starting price'' [] ''input'' (required # number_input ''0.01'' ''any'') (field_text (af_startingPrice f)) (Field StartingPrice),
         labelled_input ''Minimum bid step'' [] ''input'' (required # number_input ''0.01'' ''any'') (field_text (af_minimumBidStep f)) (Field MinimumBidStep),
         labelled_input ''Reserve price '' (only_if (af_auctionType f = REVERSE) [El ''span'' [] [Txt ''(forward only)'']]) ''input''
           (number_input ''0'' ''any'' @ [Flag ''disabled'' (af_auctionType f = REVERSE)]) (field_text (af_reservePrice f)) (Field ReservePrice)]]"

definition auction_schedule :: "auction_form \<Rightarrow> auction_form_act jsx" where
  "auction_schedule f =
     El ''section'' [] [
       El ''h2'' [] [El ''CalendarClock'' [] [], Txt '' Schedule and fulfilment''],
       El ''div'' [] [
         labelled_input ''Starts'' [] ''input'' [required, Attr ''type'' ''datetime-local''] (af_auctionStartTime f) (Field AuctionStartTime),
         labelled_input ''Ends'' [] ''input'' [required, Attr ''type'' ''datetime-local''] (af_auctionEndTime f) (Field AuctionEndTime),
         labelled_input ''Location / origin '' [El ''span'' [] [Txt ''(optional)'']] ''input'' [] (af_location f) (Field Location),
         labelled_input ''Destination '' [El ''span'' [] [Txt ''(optional)'']] ''input'' [] (af_destination f) (Field Destination),
         labelled_input ''Terms and detailed information'' [] ''textarea'' [Attr ''rows'' ''3''] (af_detailedInformation f) (Field DetailedInformation)]]"

definition auction_files :: "previews \<Rightarrow> auction_form_act jsx" where
  "auction_files m =
     El ''section'' [] (
       [El ''button'' [Attr ''type'' ''button'', onClick OpenFiles] [El ''ImagePlus'' [] [], Txt '' Add unique item images or video''],
        El ''input'' [Flag ''hidden'' True, Flag ''multiple'' True, Attr ''type'' ''file'', Attr ''accept'' ''image/*,video/*''] []] @
       only_if (pv_media m \<noteq> []) [El ''div'' [] (map (\<lambda>x. El ''div'' [Attr ''key'' (pv_id x)] [
         (if pv_type x = PreviewVideo then El ''video'' [Attr ''src'' (pv_url x)] []
          else El ''img'' [Attr ''src'' (pv_url x), Attr ''alt'' ''Auction media preview''] []),
         El ''button'' [Attr ''type'' ''button'', onClick (DropFile (pv_id x))] [El ''X'' [] []]]) (pv_media m))])"

definition NewAuctionForm :: "auction_page \<Rightarrow> auction_form_act jsx" where
  "NewAuctionForm p =
     (let f = ap_form p in
      El ''form'' [On ''onSubmit'' (\<lambda>_. SubmitForm)] [
        Toast (ap_message p) (Some ToastSuccess) CloseMessage,
        Toast (ap_error p) (Some ToastError) CloseError,
        El ''section'' [] [
          direction_button f REVERSE ''ArrowDown'' ''Reverse auction''
            ''Bids move down. Use it to buy any item, service, capacity, or contract.'',
          direction_button f FORWARD ''ArrowUp'' ''Forward auction''
            ''Bids move up. Use it to sell any item, service, right, or asset.''],
        auction_subject f, auction_prices f, auction_schedule f, auction_files (ap_media p),
        El ''button'' [Flag ''disabled'' (ap_pending p)] [
          (if ap_pending p then El ''Loader2'' [] [] else if af_auctionType f = FORWARD then El ''ArrowUp'' [] [] else El ''ArrowDown'' [] []),
          Txt ('' Create '' @ to_lower (type_str (af_auctionType f)) @ '' auction'')]])"

text \<open>\<open>app/auction/new/page.tsx\<close>.\<close>

definition NewAuctionPage :: "'a jsx" where
  "NewAuctionPage =
     El ''AdminGuard'' [] [El ''div'' [] [
       El ''Sidebar'' [] [],
       El ''main'' [] [El ''div'' [] [
         El ''div'' [] [
           El ''div'' [] [El ''Gavel'' [] [], Txt '' New market event''],
           El ''h1'' [] [Txt ''Create an auction for anything''],
           El ''p'' [] [Txt ''Choose bid direction independently from the item or service. Logistics details are optional for both auction types.'']],
         El ''NewAuctionForm'' [] []]]]]"

section \<open>What is sent\<close>

lemma has_ty_optionalNumber [simp]: "has_ty (TOption TNum) (optionalNumber v)"
  by (simp add: optionalNumber_def Let_def)

lemma auction_payload_struct:
  assumes "auction_payload date_of f urls = Some v"
  shows "has_struct CreateAuctionPayload v"
proof -
  obtain a b where "iso_of (date_of (af_auctionStartTime f)) = Some a" "iso_of (date_of (af_auctionEndTime f)) = Some b"
    using assms by (auto simp: auction_payload_def split: option.splits)
  then show ?thesis
    using assms unfolding auction_payload_def has_struct_def CreateAuctionPayload_def by (auto simp: is_option_def)
qed

definition ex_dates :: date_parser where
  "ex_dates s = (if s = ''a'' then Some 0 else if s = ''b'' then Some 600000 else None)"

definition ex_form :: auction_form where
  "ex_form = INITIAL_FORM\<lparr>af_title := ''Desk'', af_startingPrice := FNum (Fin 5), af_auctionStartTime := ''a'', af_auctionEndTime := ''b''\<rparr>"

definition num_field :: "json \<Rightarrow> rat option" where
  "num_field v = (case v of JNum (Fin r) \<Rightarrow> Some r | _ \<Rightarrow> None)"

text \<open>The prices and times that a form sends, as the service reads them.\<close>

definition terms_of :: "date_parser \<Rightarrow> auction_form \<Rightarrow> auction_terms" where
  "terms_of date_of f = \<lparr>at_type = af_auctionType f,
     at_starting_price = num_field (optionalNumber (af_startingPrice f)),
     at_minimum_bid_step = num_field (optionalNumber (af_minimumBidStep f)),
     at_reserve_price = (if af_auctionType f = FORWARD then num_field (optionalNumber (af_reservePrice f)) else None),
     at_quantity = num_field (optionalNumber (af_quantity f)),
     at_start = the (date_of (af_auctionStartTime f)), at_end = the (date_of (af_auctionEndTime f))\<rparr>"

lemma finite_numE: "is_finite_num n \<Longrightarrow> (\<And>r. n = Fin r \<Longrightarrow> P) \<Longrightarrow> P"
  by (cases n) simp_all

lemma num_field_price:
  assumes "is_finite_num (field_num v)" and "\<not> js_le (field_num v) (Fin 0)"
  shows "\<exists>r. field_num v = Fin r \<and> num_field (optionalNumber v) = Some r \<and> 0 < r"
proof -
  obtain r where r: "field_num v = Fin r" using assms(1) by (rule finite_numE)
  then have "0 < r" using assms(2) by (auto simp: js_le_def)
  moreover have "v \<noteq> FStr []" using r \<open>0 < r\<close> by (auto simp: field_num_def num_of_str_def trim_def)
  ultimately show ?thesis using r by (simp add: optionalNumber_def num_field_def)
qed


lemma ex_form_ok: "auction_form_error ex_dates ex_form = None"
  by (simp add: auction_form_error_def ex_dates_def ex_form_def INITIAL_FORM_def field_num_def js_le_def Let_def)


text \<open>
  An accepted form is sent exactly when all its files were uploaded; it never fails on its own
  times, and the service gets the bearer's token and the payload.
\<close>

lemma auction_mutation_sends:
  assumes "auction_form_error date_of f = None"
  shows "sb_request (auction_mutation env st date_of ms ans rep f) =
    (case snd (upload_all (read_upload (\<lambda>x. ''Could not upload '' @ fi_name x)) ans 0 (map pv_file ms)) of
       Inl _ \<Rightarrow> None | Inr urls \<Rightarrow> map_option (create_request env st) (auction_payload date_of f urls)) \<and>
    auction_payload date_of f urls \<noteq> None"
proof -
  have "date_of (af_auctionStartTime f) \<noteq> None" "date_of (af_auctionEndTime f) \<noteq> None"
    using assms by (auto simp: auction_form_error_def split: option.splits)
  then show ?thesis
    by (auto simp: auction_mutation_def auction_payload_def iso_of_def split: prod.splits sum.splits)
qed

text \<open>
  A submitted auction arrives whole or not at all: when the form's checks pass, the request that
  creates it is sent if and only if every chosen file was uploaded; it then carries the addresses of all
  of them in order, and its body has the type that the service reads.
\<close>

lemma auction_mutation_atomic:
  assumes "auction_form_error date_of f = None"
  shows "sb_request (auction_mutation env st date_of ms ans rep f) = Some rq \<longleftrightarrow>
    (\<exists>urls v. map Ok urls = map ans [0..<length ms] \<and> auction_payload date_of f urls = Some v \<and>
       rq = create_request env st v \<and> has_struct CreateAuctionPayload v)"
proof -
  let ?err = "\<lambda>x. ''Could not upload '' @ fi_name x"
  let ?up = "snd (upload_all (read_upload ?err) ans 0 (map pv_file ms))"
  have "?up = Inr urls \<longleftrightarrow> map Ok urls = map ans [0..<length ms]" for urls
    using upload_all_read [of ?err ans "map pv_file ms" urls] by simp
  moreover have "sb_request (auction_mutation env st date_of ms ans rep f) = Some rq \<longleftrightarrow>
      (\<exists>urls v. ?up = Inr urls \<and> auction_payload date_of f urls = Some v \<and> rq = create_request env st v)"
    using auction_mutation_sends [OF assms] by (cases ?up) auto
  ultimately show ?thesis using auction_payload_struct by blast
qed

end
