(* ===== verification/Freight_Forms.thy ===== *)
theory Freight_Forms
  imports Create_Auction
begin

text \<open>
  The two older forms: \<open>components/auction/NewForwardAuctionForm.tsx\<close> and
  \<open>components/shipment/NewShipmentForm.tsx\<close>, with the pages that hold them. Both read their dates with
  \<open>parseLocalTime\<close> and send the same kind of request as \<open>NewAuctionForm\<close>. The map services answer as
  events: a place that was picked, a route that was found.
\<close>

section \<open>Shared by both forms\<close>

definition SHIPMENT_CATEGORIES :: "string list" where
  "SHIPMENT_CATEGORIES = [''General Freight'', ''Heavy Machinery'', ''Vehicles / Auto'', ''Temperature Controlled'',
     ''Hazardous Materials'', ''Flatbed'', ''Oversized'', ''Other'']"

definition TIME_TO_DELIVER_OPTIONS :: "string list" where
  "TIME_TO_DELIVER_OPTIONS = [''1-2 Days (Expedited)'', ''3-5 Days (Standard)'', ''1 Week'', ''2 Weeks'', ''Flexible'']"

text \<open>The answer to the request that creates the auction; the body of an accepted one is read.\<close>

definition publish_result :: "unit reply \<Rightarrow> string + unit" where
  "publish_result rep = (case rep of
     Ok _ \<Rightarrow> Inr ()
   | BadBody m \<Rightarrow> Inl m
   | NotOk _ err \<Rightarrow> Inl (opt_str_or err ''Failed to publish auction'')
   | NetworkError m \<Rightarrow> Inl m)"

text \<open>The mutation: uploads, payload (\<open>None\<close> where a time is invalid), request.\<close>

definition publish ::
  "string option \<Rightarrow> storage \<Rightarrow> preview list \<Rightarrow> (nat \<Rightarrow> string reply) \<Rightarrow> (string list \<Rightarrow> json option) \<Rightarrow> unit reply \<Rightarrow> unit submission" where
  "publish env st ms ans payload rep =
     (case upload_all (read_upload (\<lambda>_. ''Failed to upload media'')) ans 0 (map pv_file ms) of
        (sent, Inl e) \<Rightarrow> \<lparr>sb_uploads = sent, sb_request = None, sb_result = Inl e\<rparr>
      | (sent, Inr urls) \<Rightarrow>
          (case payload urls of
             None \<Rightarrow> \<lparr>sb_uploads = sent, sb_request = None, sb_result = Inl ''Invalid time value''\<rparr>
           | Some v \<Rightarrow> \<lparr>sb_uploads = sent, sb_request = Some (create_request env st v), sb_result = publish_result rep\<rparr>))"

section \<open>NewForwardAuctionForm\<close>

record forward_form =
  fw_title :: string
  fw_description :: string
  fw_length :: string
  fw_width :: string
  fw_height :: string
  fw_weight :: string
  fw_location :: string
  fw_startingPrice :: string
  fw_detailedInformation :: string
  fw_category :: string
  fw_auctionEndDate :: string

definition forward_init :: forward_form where
  "forward_init = \<lparr>fw_title = [], fw_description = [], fw_length = [], fw_width = [], fw_height = [], fw_weight = [], fw_location = [],
     fw_startingPrice = [], fw_detailedInformation = [], fw_category = hd SHIPMENT_CATEGORIES, fw_auctionEndDate = []\<rparr>"

datatype forward_field = FwTitle | FwDescription | FwLength | FwWidth | FwHeight | FwWeight | FwLocation | FwStartingPrice
  | FwDetails | FwCategory | FwEndDate

fun forward_change :: "forward_field \<Rightarrow> string \<Rightarrow> forward_form \<Rightarrow> forward_form" where
  "forward_change FwTitle v f = f\<lparr>fw_title := v\<rparr>"
| "forward_change FwDescription v f = f\<lparr>fw_description := v\<rparr>"
| "forward_change FwLength v f = f\<lparr>fw_length := strip_zeros v\<rparr>"
| "forward_change FwWidth v f = f\<lparr>fw_width := strip_zeros v\<rparr>"
| "forward_change FwHeight v f = f\<lparr>fw_height := strip_zeros v\<rparr>"
| "forward_change FwWeight v f = f\<lparr>fw_weight := strip_zeros v\<rparr>"
| "forward_change FwLocation v f = f\<lparr>fw_location := v\<rparr>"
| "forward_change FwStartingPrice v f = f\<lparr>fw_startingPrice := strip_zeros v\<rparr>"
| "forward_change FwDetails v f = f\<lparr>fw_detailedInformation := v\<rparr>"
| "forward_change FwCategory v f = f\<lparr>fw_category := v\<rparr>"
| "forward_change FwEndDate v f = f\<lparr>fw_auctionEndDate := v\<rparr>"

text \<open>\<open>clock\<close> is the time when the payload is built, after the uploads.\<close>

definition forward_payload :: "zone \<Rightarrow> int \<Rightarrow> forward_form \<Rightarrow> string list \<Rightarrow> json option" where
  "forward_payload z clock f urls =
     (case (iso_seconds (Some clock), iso_seconds (parseLocalTime z (fw_auctionEndDate f))) of
        (Some start, Some stop) \<Rightarrow> Some (JObj [
          (''title'', JStr (str_or (fw_title f) ''Untitled'')),
          (''description'', JStr (str_or (fw_description f) ''No description'')),
          (''auction_type'', JStr ''FORWARD''),
          (''freight_type'', JNull),
          (''item_category'', str_or_null (fw_category f)),
          (''item_condition'', JNull),
          (''pickup_terms'', str_or_null (fw_detailedInformation f)),
          (''origin_address'', JStr (str_or (fw_location f) ''Unknown'')),
          (''origin_lat'', JNum (Fin 0)), (''origin_lng'', JNum (Fin 0)),
          (''dest_address'', JNull), (''dest_lat'', JNull), (''dest_lng'', JNull),
          (''pickup_date_start'', JNull), (''pickup_date_end'', JNull),
          (''auction_start_time'', JStr start),
          (''auction_end_time'', JStr stop),
          (''weight'', number_or_null (fw_weight f)),
          (''length'', number_or_null (fw_length f)),
          (''width'', number_or_null (fw_width f)),
          (''height'', number_or_null (fw_height f)),
          (''starting_price'', number_or_null (fw_startingPrice f)),
          (''minimum_bid_step'', JNum (Fin 1)),
          (''media_urls'', media_urls urls)])
      | _ \<Rightarrow> None)"

definition forward_mutation ::
  "string option \<Rightarrow> storage \<Rightarrow> zone \<Rightarrow> int \<Rightarrow> preview list \<Rightarrow> (nat \<Rightarrow> string reply) \<Rightarrow> unit reply \<Rightarrow> forward_form \<Rightarrow> unit submission" where
  "forward_mutation env st z clock ms ans rep f = publish env st ms ans (forward_payload z clock f) rep"

definition forward_error :: "zone \<Rightarrow> int \<Rightarrow> forward_form \<Rightarrow> string option" where
  "forward_error z now f =
     (if fw_auctionEndDate f = [] then Some ''Please provide an auction end date.''
      else case parseLocalTime z (fw_auctionEndDate f) of
        None \<Rightarrow> Some ''Please provide a valid auction end date.''
      | Some stop \<Rightarrow> if stop - now < 5 * 60 * 1000 then Some ''Auction duration must be at least 5 minutes.'' else None)"

record forward_page =
  fp_form :: forward_form
  fp_media :: previews
  fp_success :: string
  fp_error :: string
  fp_pending :: bool

definition forward_page_init :: forward_page where
  "forward_page_init = \<lparr>fp_form = forward_init, fp_media = previews_init, fp_success = [], fp_error = [], fp_pending = False\<rparr>"

definition forward_submit :: "zone \<Rightarrow> int \<Rightarrow> forward_page \<Rightarrow> forward_page" where
  "forward_submit z now p = (case forward_error z now (fp_form p) of
     Some e \<Rightarrow> p\<lparr>fp_error := e\<rparr> | None \<Rightarrow> p\<lparr>fp_pending := True\<rparr>)"

definition forward_settled :: "string + unit \<Rightarrow> forward_page \<Rightarrow> forward_page" where
  "forward_settled res p = (let p = p\<lparr>fp_pending := False\<rparr> in
     case res of
       Inr _ \<Rightarrow> p\<lparr>fp_success := ''Forward Auction Posted Successfully with media!'', fp_error := [], fp_form := forward_init,
         fp_media := clear_media (fp_media p)\<rparr>
     | Inl e \<Rightarrow> p\<lparr>fp_error := str_or e ''Error publishing auction.'', fp_success := []\<rparr>)"

datatype forward_act = FwChange forward_field string | FwFiles "(upload_file \<times> string \<times> string) list" | FwRemove string | FwOpenFiles
  | FwCloseError | FwCloseSuccess | FwSubmit int | FwSettled "string + unit"

fun forward_step :: "zone \<Rightarrow> forward_act \<Rightarrow> forward_page \<Rightarrow> forward_page" where
  "forward_step z (FwChange n v) p = p\<lparr>fp_form := forward_change n v (fp_form p)\<rparr>"
| "forward_step z (FwFiles fs) p = p\<lparr>fp_media := handleFileChange fs (fp_media p)\<rparr>"
| "forward_step z (FwRemove i) p = p\<lparr>fp_media := removeMedia i (fp_media p)\<rparr>"
| "forward_step z FwOpenFiles p = p"
| "forward_step z FwCloseError p = p\<lparr>fp_error := []\<rparr>"
| "forward_step z FwCloseSuccess p = p\<lparr>fp_success := []\<rparr>"
| "forward_step z (FwSubmit now) p = forward_submit z now p"
| "forward_step z (FwSettled r) p = forward_settled r p"

text \<open>The rendered form; \<open>clock\<close> is the time at which the user submits it.\<close>

definition labelled_field :: "string \<Rightarrow> 'a jsx list \<Rightarrow> string \<Rightarrow> 'a attr list \<Rightarrow> string \<Rightarrow> string \<Rightarrow> (string \<Rightarrow> 'a) \<Rightarrow> 'a jsx" where
  "labelled_field label icon tag as name value act =
     El ''div'' [] [El ''label'' [] [Txt label],
       El ''div'' [] (icon @ [El tag (as @ [Attr ''name'' name, Attr ''value'' value, On ''onChange'' act]) []])]"

definition select_field :: "string \<Rightarrow> 'a jsx list \<Rightarrow> string \<Rightarrow> string list \<Rightarrow> string \<Rightarrow> (string \<Rightarrow> 'a) \<Rightarrow> 'a jsx" where
  "select_field label icon name options value act =
     El ''div'' [] [El ''label'' [] [Txt label],
       El ''div'' [] (icon @ [El ''select'' [Attr ''name'' name, Attr ''value'' value, On ''onChange'' act]
         (map (\<lambda>x. El ''option'' [Attr ''key'' x, Attr ''value'' x] [Txt x]) options)])]"

definition upload_area :: "'a \<Rightarrow> (string \<Rightarrow> 'a) \<Rightarrow> previews \<Rightarrow> 'a jsx" where
  "upload_area open_files remove m =
     El ''div'' [] (
       El ''div'' [onClick open_files] [
         El ''input'' [Attr ''type'' ''file'', Flag ''multiple'' True, Attr ''accept'' ''image/*,video/*''] [],
         El ''Upload'' [] [],
         El ''p'' [] [Txt ''Click to upload photos or videos''],
         El ''p'' [] [Txt ''Drag and drop is supported. Max file size 50MB.'']] #
       only_if (pv_media m \<noteq> []) [El ''div'' [] (map (\<lambda>x. El ''div'' [Attr ''key'' (pv_id x)] [
         (if pv_type x = PreviewImage then El ''img'' [Attr ''src'' (pv_url x), Attr ''alt'' ''Preview''] []
          else El ''div'' [] [El ''video'' [Attr ''src'' (pv_url x), Attr ''preload'' ''metadata''] [], El ''div'' [] [El ''Video'' [] []]]),
         El ''button'' [Attr ''type'' ''button'', onClick (remove (pv_id x))] [El ''X'' [] []]]) (pv_media m))])"

definition publish_button :: "bool \<Rightarrow> string \<Rightarrow> 'a jsx" where
  "publish_button pending label =
     El ''div'' [] [El ''button'' [Attr ''type'' ''submit'', Flag ''disabled'' pending]
       (if pending then [El ''Loader2'' [] [], Txt ''Publishing...''] else [Txt label])]"

definition forward_product :: "forward_form \<Rightarrow> forward_act jsx" where
  "forward_product f =
     El ''section'' [] [
       El ''h2'' [] [El ''Package'' [] [], Txt '' Product Details''],
       El ''div'' [] [
         labelled_field ''Product Title'' [] ''input'' [required, Attr ''type'' ''text'', Attr ''placeholder'' ''e.g. Abandoned 40ft Container contents'']
           ''title'' (fw_title f) (FwChange FwTitle),
         El ''div'' [] [
           select_field ''Category'' [] ''category'' SHIPMENT_CATEGORIES (fw_category f) (FwChange FwCategory),
           labelled_field ''Total Weight (lbs)'' [] ''input'' [required, Attr ''type'' ''number'', Attr ''min'' ''0''] ''weight'' (fw_weight f) (FwChange FwWeight)],
         El ''div'' [] [
           labelled_field ''Length (ft)'' [] ''input'' [required, Attr ''type'' ''number'', Attr ''min'' ''0''] ''length'' (fw_length f) (FwChange FwLength),
           labelled_field ''Width (ft)'' [] ''input'' [required, Attr ''type'' ''number'', Attr ''min'' ''0''] ''width'' (fw_width f) (FwChange FwWidth),
           labelled_field ''Height (ft)'' [] ''input'' [required, Attr ''type'' ''number'', Attr ''min'' ''0''] ''height'' (fw_height f) (FwChange FwHeight)]]]"

definition forward_setup :: "forward_form \<Rightarrow> forward_act jsx" where
  "forward_setup f =
     El ''section'' [] [
       El ''h2'' [] [El ''Info'' [] [], Txt '' Auction Setup''],
       El ''div'' [] [
         El ''div'' [] [
           labelled_field ''Starting Price / Reserve ($)'' [El ''DollarSign'' [] []] ''input'' (required # number_input ''0'' ''0.01'')
             ''startingPrice'' (fw_startingPrice f) (FwChange FwStartingPrice),
           El ''p'' [] [Txt ''Buyers will bid UP starting from this price.'']],
         labelled_field ''Current Location (Where is the item?)'' [El ''MapPin'' [] []] ''input''
           [required, Attr ''type'' ''text'', Attr ''placeholder'' ''e.g. Warehouse 4, Seattle, WA''] ''location'' (fw_location f) (FwChange FwLocation)],
       El ''div'' [] [
         labelled_field ''Auction End Date'' [El ''Calendar'' [] []] ''input'' [required, Attr ''type'' ''datetime-local'']
           ''auctionEndDate'' (fw_auctionEndDate f) (FwChange FwEndDate)],
       El ''div'' [] [
         labelled_field ''Public Description'' [] ''textarea'' [required, Attr ''rows'' ''3'', Attr ''placeholder'' ''Describe the item's condition, history, etc...'']
           ''description'' (fw_description f) (FwChange FwDescription),
         labelled_field ''Additional Terms / Private Info'' [] ''textarea'' [Attr ''rows'' ''5'', Attr ''placeholder'' ''Pickup rules, required equipment for pickup...'']
           ''detailedInformation'' (fw_detailedInformation f) (FwChange FwDetails)]]"

definition NewForwardAuctionForm :: "int \<Rightarrow> forward_page \<Rightarrow> forward_act jsx" where
  "NewForwardAuctionForm clock p =
     El ''form'' [On ''onSubmit'' (\<lambda>_. FwSubmit clock)] [
       Toast (fp_error p) (Some ToastError) FwCloseError,
       Toast (fp_success p) (Some ToastSuccess) FwCloseSuccess,
       forward_product (fp_form p),
       forward_setup (fp_form p),
       El ''section'' [] [El ''h2'' [] [El ''ImageIcon'' [] [], Txt '' Media & Attachments''], upload_area FwOpenFiles FwRemove (fp_media p)],
       publish_button (fp_pending p) ''Publish Forward Auction'']"

text \<open>\<open>app/forward-auction/new/page.tsx\<close>.\<close>

definition NewForwardAuctionPage :: "'a jsx" where
  "NewForwardAuctionPage =
     El ''AdminGuard'' [] [El ''div'' [] [
       El ''div'' [] [El ''Sidebar'' [] []],
       El ''div'' [] [
         El ''header'' [] [El ''div'' [] [El ''div'' [] [
           El ''h1'' [] [Txt ''Create Forward Auction''],
           El ''p'' [] [Txt ''List abandoned freight or physical products to sell to the highest bidder.'']]]],
         El ''main'' [] [El ''div'' [] [
           El ''div'' [] [
             El ''Package'' [] [],
             El ''div'' [] [
               El ''h3'' [] [Txt ''Public Liquidation''],
               El ''p'' [] [Txt ''Forward auctions are open to the general public. Buyers will bid UP starting from your minimum reserve price. This is not for logistics loads, but for selling physical products.'']]],
           El ''NewForwardAuctionForm'' [] []]]]]]"

end
