(* ===== verification/Shipment_Form.thy ===== *)
theory Shipment_Form
  imports Freight_Forms
begin

text \<open>
  \<open>components/shipment/NewShipmentForm.tsx\<close> and \<open>app/shipment/new/page.tsx\<close>: the form that posts a shipment
  as a reverse auction. Its sections can be collapsed, which takes their inputs off the page; a
  route is asked for when both places are known; three buttons set the end from the start.
\<close>

section \<open>State\<close>

record shipment_form =
  sf_title :: string
  sf_description :: string
  sf_length :: string
  sf_width :: string
  sf_height :: string
  sf_weight :: string
  sf_origin :: string
  sf_originLat :: rat
  sf_originLng :: rat
  sf_destination :: string
  sf_destLat :: rat
  sf_destLng :: rat
  sf_initialAmount :: string
  sf_detailedInformation :: string
  sf_category :: string
  sf_timeToDeliver :: string
  sf_pickupDate :: string
  sf_auctionStartTime :: string
  sf_auctionEndTime :: string

definition shipment_form_init :: shipment_form where
  "shipment_form_init = \<lparr>sf_title = [], sf_description = [], sf_length = [], sf_width = [], sf_height = [], sf_weight = [],
     sf_origin = [], sf_originLat = 0, sf_originLng = 0, sf_destination = [], sf_destLat = 0, sf_destLng = 0,
     sf_initialAmount = [], sf_detailedInformation = [], sf_category = hd SHIPMENT_CATEGORIES,
     sf_timeToDeliver = hd TIME_TO_DELIVER_OPTIONS, sf_pickupDate = [], sf_auctionStartTime = [], sf_auctionEndTime = []\<rparr>"

datatype form_section = SecFreight | SecRoute | SecDetails | SecMedia

record collapsed =
  co_freight :: bool
  co_route :: bool
  co_details :: bool
  co_media :: bool

fun toggleCollapse :: "form_section \<Rightarrow> collapsed \<Rightarrow> collapsed" where
  "toggleCollapse SecFreight c = c\<lparr>co_freight := \<not> co_freight c\<rparr>"
| "toggleCollapse SecRoute c = c\<lparr>co_route := \<not> co_route c\<rparr>"
| "toggleCollapse SecDetails c = c\<lparr>co_details := \<not> co_details c\<rparr>"
| "toggleCollapse SecMedia c = c\<lparr>co_media := \<not> co_media c\<rparr>"

record post_page =
  po_form :: shipment_form
  po_media :: previews
  po_error :: string
  po_success :: string
  po_collapsed :: collapsed
  po_route :: bool
  po_distance :: string
  po_duration :: string
  po_pending :: bool

definition post_init :: post_page where
  "post_init = \<lparr>po_form = shipment_form_init, po_media = previews_init, po_error = [], po_success = [],
     po_collapsed = \<lparr>co_freight = False, co_route = False, co_details = False, co_media = False\<rparr>,
     po_route = False, po_distance = [], po_duration = [], po_pending = False\<rparr>"

section \<open>Places and the route\<close>

record place =
  pl_formatted_address :: "string option"
  pl_name :: "string option"
  pl_location :: "(rat \<times> rat) option"

definition place_name :: "place \<Rightarrow> string" where
  "place_name p = opt_str_or (pl_formatted_address p) (opt_str_or (pl_name p) [])"

definition place_lat :: "place \<Rightarrow> rat" where
  "place_lat p = (case pl_location p of None \<Rightarrow> 0 | Some (lat, _) \<Rightarrow> lat)"

definition place_lng :: "place \<Rightarrow> rat" where
  "place_lng p = (case pl_location p of None \<Rightarrow> 0 | Some (_, lng) \<Rightarrow> lng)"

definition onOriginPlacesChanged :: "place list option \<Rightarrow> shipment_form \<Rightarrow> shipment_form" where
  "onOriginPlacesChanged places f = (case places of
     Some (p # _) \<Rightarrow> f\<lparr>sf_origin := place_name p, sf_originLat := place_lat p, sf_originLng := place_lng p\<rparr>
   | _ \<Rightarrow> f)"

definition onDestPlacesChanged :: "place list option \<Rightarrow> shipment_form \<Rightarrow> shipment_form" where
  "onDestPlacesChanged places f = (case places of
     Some (p # _) \<Rightarrow> f\<lparr>sf_destination := place_name p, sf_destLat := place_lat p, sf_destLng := place_lng p\<rparr>
   | _ \<Rightarrow> f)"

text \<open>The length that JavaScript gives: units of UTF-16, counted on the bytes of UTF-8.\<close>

definition utf16_length :: "string \<Rightarrow> nat" where
  "utf16_length s = sum_list (map (\<lambda>c. let n = of_char c :: nat in if n < 128 then 1 else if n < 192 then 0 else if n < 240 then 1 else 2) s)"

definition valid_place :: "string \<Rightarrow> bool" where
  "valid_place s = (s \<noteq> [] \<and> s \<noteq> ''Unknown'' \<and> utf16_length s > 3)"

text \<open>The effect: the origin and the destination whose route is asked for, if any.\<close>

definition route_request :: "bool \<Rightarrow> shipment_form \<Rightarrow> (string \<times> string) option" where
  "route_request isLoaded f =
     (if valid_place (sf_origin f) \<and> valid_place (sf_destination f) \<and> isLoaded then Some (sf_origin f, sf_destination f) else None)"

text \<open>The answer: the texts of the first leg of the first route, or a status that is not \<open>OK\<close>.\<close>

definition route_answer :: "(string option \<times> string option) option \<Rightarrow> post_page \<Rightarrow> post_page" where
  "route_answer ans p = (case ans of
     None \<Rightarrow> p
   | Some (len, dur) \<Rightarrow> p\<lparr>po_route := True, po_distance := opt_str_or len [], po_duration := opt_str_or dur []\<rparr>)"

section \<open>Fields\<close>

definition setAuctionDuration :: "zone \<Rightarrow> int \<Rightarrow> shipment_form \<Rightarrow> shipment_form" where
  "setAuctionDuration z minutes f =
     (if sf_auctionStartTime f = [] then f
      else case parseLocalTime z (sf_auctionStartTime f) of
        None \<Rightarrow> f
      | Some start \<Rightarrow> f\<lparr>sf_auctionEndTime := local_text z (time_clip (start + minutes * 60 * 1000))\<rparr>)"

datatype shipment_field = SfTitle | SfDescription | SfLength | SfWidth | SfHeight | SfWeight | SfOrigin | SfDestination
  | SfInitialAmount | SfDetails | SfCategory | SfTimeToDeliver | SfPickupDate | SfStart | SfEnd

fun shipment_change :: "shipment_field \<Rightarrow> string \<Rightarrow> shipment_form \<Rightarrow> shipment_form" where
  "shipment_change SfTitle v f = f\<lparr>sf_title := v\<rparr>"
| "shipment_change SfDescription v f = f\<lparr>sf_description := v\<rparr>"
| "shipment_change SfLength v f = f\<lparr>sf_length := strip_zeros v\<rparr>"
| "shipment_change SfWidth v f = f\<lparr>sf_width := strip_zeros v\<rparr>"
| "shipment_change SfHeight v f = f\<lparr>sf_height := strip_zeros v\<rparr>"
| "shipment_change SfWeight v f = f\<lparr>sf_weight := strip_zeros v\<rparr>"
| "shipment_change SfOrigin v f = f\<lparr>sf_origin := v\<rparr>"
| "shipment_change SfDestination v f = f\<lparr>sf_destination := v\<rparr>"
| "shipment_change SfInitialAmount v f = f\<lparr>sf_initialAmount := strip_zeros v\<rparr>"
| "shipment_change SfDetails v f = f\<lparr>sf_detailedInformation := v\<rparr>"
| "shipment_change SfCategory v f = f\<lparr>sf_category := v\<rparr>"
| "shipment_change SfTimeToDeliver v f = f\<lparr>sf_timeToDeliver := v\<rparr>"
| "shipment_change SfPickupDate v f = f\<lparr>sf_pickupDate := v\<rparr>"
| "shipment_change SfStart v f = f\<lparr>sf_auctionStartTime := v\<rparr>"
| "shipment_change SfEnd v f = f\<lparr>sf_auctionEndTime := v\<rparr>"

section \<open>Submission\<close>

definition shipment_payload :: "date_parser \<Rightarrow> zone \<Rightarrow> shipment_form \<Rightarrow> string list \<Rightarrow> json option" where
  "shipment_payload date_of z f urls =
     (case (iso_seconds (date_of (sf_pickupDate f)), iso_seconds (parseLocalTime z (sf_auctionStartTime f)),
            iso_seconds (parseLocalTime z (sf_auctionEndTime f))) of
        (Some pickup, Some start, Some stop) \<Rightarrow> Some (JObj [
          (''title'', JStr (str_or (sf_title f) ''Untitled'')),
          (''description'', JStr (str_or (sf_description f) ''No description'')),
          (''auction_type'', JStr ''REVERSE''),
          (''freight_type'', JNull),
          (''item_category'', str_or_null (sf_category f)),
          (''pickup_terms'', str_or_null (sf_detailedInformation f)),
          (''origin_address'', JStr (str_or (sf_origin f) ''Unknown'')),
          (''origin_lat'', JNum (Fin (sf_originLat f))), (''origin_lng'', JNum (Fin (sf_originLng f))),
          (''dest_address'', JStr (str_or (sf_destination f) ''Unknown'')),
          (''dest_lat'', JNum (Fin (sf_destLat f))), (''dest_lng'', JNum (Fin (sf_destLng f))),
          (''pickup_date_start'', JStr pickup), (''pickup_date_end'', JStr pickup),
          (''auction_start_time'', JStr start),
          (''auction_end_time'', JStr stop),
          (''weight'', number_or_null (sf_weight f)),
          (''length'', number_or_null (sf_length f)),
          (''width'', number_or_null (sf_width f)),
          (''height'', number_or_null (sf_height f)),
          (''starting_price'', number_or_null (sf_initialAmount f)),
          (''minimum_bid_step'', JNum (Fin 1)),
          (''media_urls'', media_urls urls)])
      | _ \<Rightarrow> None)"

definition shipment_mutation ::
  "string option \<Rightarrow> storage \<Rightarrow> date_parser \<Rightarrow> zone \<Rightarrow> preview list \<Rightarrow> (nat \<Rightarrow> string reply) \<Rightarrow> unit reply \<Rightarrow> shipment_form \<Rightarrow> unit submission" where
  "shipment_mutation env st date_of z ms ans rep f = publish env st ms ans (shipment_payload date_of z f) rep"

definition shipment_error :: "zone \<Rightarrow> int \<Rightarrow> shipment_form \<Rightarrow> string option" where
  "shipment_error z now f =
     (if sf_pickupDate f = [] then Some ''Please provide a pickup date.''
      else case (parseLocalTime z (sf_auctionStartTime f), parseLocalTime z (sf_auctionEndTime f)) of
        (Some start, Some stop) \<Rightarrow>
          if start - now < 3 * 60 * 1000 then
            Some ''Auction start time must be at least 3 minutes from now. (Cannot modify within 3 minutes of start)''
          else if stop - start < 5 * 60 * 1000 then Some ''Auction duration must be at least 5 minutes.''
          else if stop \<le> start then Some ''Auction end time must be after the start time.''
          else None
      | _ \<Rightarrow> Some ''Please provide valid auction start and end times.'')"

definition post_submit :: "zone \<Rightarrow> int \<Rightarrow> post_page \<Rightarrow> post_page" where
  "post_submit z now p = (let p = p\<lparr>po_error := [], po_success := []\<rparr> in
     case shipment_error z now (po_form p) of Some e \<Rightarrow> p\<lparr>po_error := e\<rparr> | None \<Rightarrow> p\<lparr>po_pending := True\<rparr>)"

definition post_settled :: "string + unit \<Rightarrow> post_page \<Rightarrow> post_page" where
  "post_settled res p = (let p = p\<lparr>po_pending := False\<rparr> in
     case res of
       Inr _ \<Rightarrow> p\<lparr>po_success := ''Shipment Posted Successfully with media!'', po_error := [], po_form := shipment_form_init,
         po_media := clear_media (po_media p), po_route := False, po_distance := [], po_duration := []\<rparr>
     | Inl e \<Rightarrow> p\<lparr>po_error := str_or e ''Error publishing shipment.'', po_success := []\<rparr>)"

datatype post_act = PoChange shipment_field string | PoOrigin "place list option" | PoDest "place list option"
  | PoRoute "(string option \<times> string option) option" | PoDuration int | PoToggle form_section
  | PoFiles "(upload_file \<times> string \<times> string) list" | PoRemove string | PoOpenFiles
  | PoCloseError | PoCloseSuccess | PoSubmit int | PoSettled "string + unit"

fun post_step :: "zone \<Rightarrow> post_act \<Rightarrow> post_page \<Rightarrow> post_page" where
  "post_step z (PoChange n v) p = p\<lparr>po_form := shipment_change n v (po_form p)\<rparr>"
| "post_step z (PoOrigin pl) p = p\<lparr>po_form := onOriginPlacesChanged pl (po_form p)\<rparr>"
| "post_step z (PoDest pl) p = p\<lparr>po_form := onDestPlacesChanged pl (po_form p)\<rparr>"
| "post_step z (PoRoute ans) p = route_answer ans p"
| "post_step z (PoDuration m) p = p\<lparr>po_form := setAuctionDuration z m (po_form p)\<rparr>"
| "post_step z (PoToggle s) p = p\<lparr>po_collapsed := toggleCollapse s (po_collapsed p)\<rparr>"
| "post_step z (PoFiles fs) p = p\<lparr>po_media := handleFileChange fs (po_media p)\<rparr>"
| "post_step z (PoRemove i) p = p\<lparr>po_media := removeMedia i (po_media p)\<rparr>"
| "post_step z PoOpenFiles p = p"
| "post_step z PoCloseError p = p\<lparr>po_error := []\<rparr>"
| "post_step z PoCloseSuccess p = p\<lparr>po_success := []\<rparr>"
| "post_step z (PoSubmit now) p = post_submit z now p"
| "post_step z (PoSettled r) p = post_settled r p"

section \<open>Rendering\<close>

definition section_head :: "form_section \<Rightarrow> string \<Rightarrow> string \<Rightarrow> bool \<Rightarrow> post_act jsx" where
  "section_head s icon title shut =
     El ''button'' [Attr ''type'' ''button'', onClick (PoToggle s)]
       [El ''h2'' [] [El icon [] [], Txt ('' '' @ title)], El ''ChevronDown'' [Flag ''collapsed'' shut] []]"

definition freight_section :: "shipment_form \<Rightarrow> bool \<Rightarrow> post_act jsx" where
  "freight_section f shut =
     El ''section'' [] (section_head SecFreight ''Package'' ''Freight / Load Details'' shut #
       only_if (\<not> shut) [El ''div'' [] [
         labelled_field ''Shipment Title / Short Description'' [] ''input''
           [required, Attr ''minLength'' ''3'', Attr ''type'' ''text'', Attr ''placeholder'' ''e.g. 2x CNC Milling Centers''] ''title'' (sf_title f) (PoChange SfTitle),
         El ''div'' [] [
           select_field ''Shipment Category'' [] ''category'' SHIPMENT_CATEGORIES (sf_category f) (PoChange SfCategory),
           labelled_field ''Total Weight (lbs)'' [] ''input'' [required, Attr ''type'' ''number'', Attr ''min'' ''0''] ''weight'' (sf_weight f) (PoChange SfWeight)],
         El ''div'' [] [
           labelled_field ''Length (ft)'' [] ''input'' [required, Attr ''type'' ''number'', Attr ''min'' ''0''] ''length'' (sf_length f) (PoChange SfLength),
           labelled_field ''Width (ft)'' [] ''input'' [required, Attr ''type'' ''number'', Attr ''min'' ''0''] ''width'' (sf_width f) (PoChange SfWidth),
           labelled_field ''Height (ft)'' [] ''input'' [required, Attr ''type'' ''number'', Attr ''min'' ''0''] ''height'' (sf_height f) (PoChange SfHeight)]]])"

definition place_field :: "bool \<Rightarrow> string \<Rightarrow> string \<Rightarrow> string \<Rightarrow> string \<Rightarrow> shipment_field \<Rightarrow> post_act jsx" where
  "place_field isLoaded label hint name value n =
     El ''div'' [] [El ''label'' [] [Txt label], El ''div'' [] [El ''MapPin'' [] [],
       if isLoaded then El ''StandaloneSearchBox'' [] [El ''input'' [required, Attr ''type'' ''text'', Attr ''name'' name, Attr ''value'' value,
         On ''onChange'' (PoChange n), Attr ''placeholder'' hint] []]
       else El ''input'' [required, Attr ''type'' ''text'', Attr ''name'' name, Attr ''value'' value, On ''onChange'' (PoChange n),
         Attr ''placeholder'' ''Loading map...'', Flag ''disabled'' True] []]]"

definition duration_button :: "int \<Rightarrow> post_act jsx" where
  "duration_button m = El ''button'' [Attr ''type'' ''button'', onClick (PoDuration m)] [Txt (int_str m @ '' Min'')]"

definition route_inputs :: "bool \<Rightarrow> shipment_form \<Rightarrow> post_act jsx" where
  "route_inputs isLoaded f =
     El ''div'' [] [
       place_field isLoaded ''Origin (Place A)'' ''e.g. Seattle, WA'' ''origin'' (sf_origin f) SfOrigin,
       place_field isLoaded ''Destination (Place B)'' ''e.g. Miami, FL'' ''destination'' (sf_destination f) SfDestination,
       El ''div'' [] [
         labelled_field ''Target Pickup Date'' [El ''Calendar'' [] []] ''input'' [required, Attr ''type'' ''date''] ''pickupDate'' (sf_pickupDate f) (PoChange SfPickupDate),
         select_field ''Time to Deliver'' [El ''Truck'' [] []] ''timeToDeliver'' TIME_TO_DELIVER_OPTIONS (sf_timeToDeliver f) (PoChange SfTimeToDeliver)],
       El ''div'' [] [
         labelled_field ''Auction Start Time'' [El ''Calendar'' [] []] ''input'' [required, Attr ''type'' ''datetime-local''] ''auctionStartTime'' (sf_auctionStartTime f) (PoChange SfStart),
         El ''div'' [] [
           labelled_field ''Auction End Time'' [El ''Calendar'' [] []] ''input'' [required, Attr ''type'' ''datetime-local''] ''auctionEndTime'' (sf_auctionEndTime f) (PoChange SfEnd),
           El ''div'' [] [duration_button 10, duration_button 15, duration_button 20]]]]"

definition route_map :: "bool \<Rightarrow> post_page \<Rightarrow> post_act jsx" where
  "route_map isLoaded p =
     El ''div'' [] (if po_route p \<and> isLoaded then [
       El ''div'' [] [El ''GoogleMap'' [] [El ''DirectionsRenderer'' [] []], El ''div'' [] [El ''Navigation'' [] [], Txt '' Route Connected'']],
       El ''div'' [] [
         El ''div'' [] [El ''p'' [] [Txt ''Total Distance''], El ''p'' [] [Txt (po_distance p)]],
         El ''div'' [] [],
         El ''div'' [] [El ''p'' [] [Txt ''Est. Travel Time''], El ''p'' [] [Txt (po_duration p)]],
         El ''div'' [] [],
         El ''div'' [] [El ''p'' [] [Txt ''Traffic Delay''], El ''p'' [] [Txt ''Normal'']]]]
     else [El ''div'' [] [El ''MapPin'' [] [], El ''p'' [] [Txt ''Map Preview Disabled''],
       El ''p'' [] [Txt ''Select both Origin and Destination to calculate route distance and estimated time.'']]])"

definition pricing_section :: "shipment_form \<Rightarrow> bool \<Rightarrow> post_act jsx" where
  "pricing_section f shut =
     El ''section'' [] (section_head SecDetails ''Info'' ''Shipment Details & Pricing'' shut #
       only_if (\<not> shut) [El ''div'' [] [
         El ''div'' [] [
           labelled_field ''Initial Starting Amount ($)'' [El ''DollarSign'' [] []] ''input'' (required # number_input ''0'' ''0.01'')
             ''initialAmount'' (sf_initialAmount f) (PoChange SfInitialAmount),
           El ''p'' [] [Txt ''This is the maximum amount you are willing to pay. Carriers will bid down from this amount.'']],
         labelled_field ''Public Description'' [] ''textarea'' [required, Attr ''minLength'' ''5'', Attr ''rows'' ''3'', Attr ''placeholder'' ''Brief summary of the freight...'']
           ''description'' (sf_description f) (PoChange SfDescription),
         labelled_field ''Detailed Information (Private to bidders)'' [] ''textarea''
           [Attr ''rows'' ''5'', Attr ''placeholder'' ''Special instructions, loading dock info, tarping requirements...'']
           ''detailedInformation'' (sf_detailedInformation f) (PoChange SfDetails)]])"

definition media_section :: "post_page \<Rightarrow> post_act jsx" where
  "media_section p = (let c = po_collapsed p in
     El ''section'' [] (section_head SecMedia ''ImageIcon'' ''Media & Attachments'' (co_media c) #
       only_if (\<not> co_media c) [upload_area PoOpenFiles PoRemove (po_media p)]))"

definition shipment_publish :: "post_page \<Rightarrow> post_act jsx" where
  "shipment_publish p = publish_button (po_pending p) ''Publish Reverse Auction''"

definition NewShipmentForm :: "int \<Rightarrow> bool \<Rightarrow> post_page \<Rightarrow> post_act jsx" where
  "NewShipmentForm clock isLoaded p =
     (let f = po_form p; c = po_collapsed p in
      El ''form'' [On ''onSubmit'' (\<lambda>_. PoSubmit clock)] [
        Toast (po_error p) (Some ToastError) PoCloseError,
        Toast (po_success p) (Some ToastSuccess) PoCloseSuccess,
        freight_section f (co_freight c),
        El ''section'' [] (section_head SecRoute ''MapPin'' ''Route & Logistics'' (co_route c) #
          only_if (\<not> co_route c) [El ''div'' [] [route_inputs isLoaded f, route_map isLoaded p]]),
        pricing_section f (co_details c),
        media_section p,
        shipment_publish p])"

text \<open>\<open>app/shipment/new/page.tsx\<close>.\<close>

definition NewShipmentPage :: "'a jsx" where
  "NewShipmentPage =
     El ''AdminGuard'' [] [El ''div'' [] [
       El ''Sidebar'' [] [],
       El ''main'' [] [
         El ''div'' [] [
           El ''h1'' [] [Txt ''Post New Shipment''],
           El ''p'' [] [Txt ''Create a new reverse auction and invite carriers to bid.'']],
         El ''div'' [] [El ''motion.div'' [] [El ''NewShipmentForm'' [] []]]]]]"

section \<open>What is sent\<close>

lemma has_ty_num [simp]: "has_ty (TOption TNum) (JNum n)"
  by simp

lemma shipment_payload_struct:
  assumes "shipment_payload date_of z f urls = Some v"
  shows "has_struct CreateAuctionPayload v"
  using assms unfolding shipment_payload_def has_struct_def CreateAuctionPayload_def
  by (auto simp: is_option_def split: option.splits)

lemma forward_payload_struct:
  assumes "forward_payload z clock f urls = Some v"
  shows "has_struct CreateAuctionPayload v"
  using assms unfolding forward_payload_def has_struct_def CreateAuctionPayload_def
  by (auto simp: is_option_def split: option.splits)

text \<open>
  (C35) All three forms speak the type of the service: whatever is typed into their fields and
  whichever files were uploaded, a body that one of them sends can be read as
  \<open>CreateAuctionPayload\<close>.
\<close>

theorem payloads_typed:
  assumes "v \<in> set_option (auction_payload date_of f urls) \<union> set_option (forward_payload z clock g urls) \<union>
    set_option (shipment_payload date_of z h urls)"
  shows "has_struct CreateAuctionPayload v"
  using assms auction_payload_struct forward_payload_struct shipment_payload_struct by auto

theorem payloads_typed_witness:
  "has_struct CreateAuctionPayload (the (auction_payload ex_dates ex_form []))"
proof (rule payloads_typed)
  show "the (auction_payload ex_dates ex_form []) \<in> set_option (auction_payload ex_dates ex_form []) \<union>
    set_option (forward_payload \<lparr>to_local = id, to_utc = id\<rparr> 0 forward_init []) \<union>
    set_option (shipment_payload ex_dates \<lparr>to_local = id, to_utc = id\<rparr> shipment_form_init [])"
    by (simp add: auction_payload_def ex_form_def ex_dates_def iso_of_def)
qed

section \<open>Schedules\<close>

lemma duration_reads:
  assumes "parseLocalTime z (sf_auctionStartTime f) = Some t"
    and "time_clip (t + m * 60 * 1000) = Some u" and "to_utc z (to_local z u) = u" and "to_local z u mod 60000 = 0"
    and "100 \<le> year_of_day (to_local z u div ms_day)" "year_of_day (to_local z u div ms_day) < 2 ^ 53"
  shows "parseLocalTime z (sf_auctionEndTime (setAuctionDuration z m f)) = Some (t + m * 60000) \<and>
    sf_auctionStartTime (setAuctionDuration z m f) = sf_auctionStartTime f \<and>
    sf_pickupDate (setAuctionDuration z m f) = sf_pickupDate f"
proof -
  have u: "u = t + m * 60000" "time_clip u = Some u" using assms(2) by (auto simp: time_clip_def split: if_splits)
  have ne: "sf_auctionStartTime f \<noteq> []" using assms(1) by (auto simp: parseLocalTime_def)
  have "parseLocalTime z (local_text z (Some u)) = Some u"
    using local_text_reads [OF assms(4-6)] assms(3) u(2) by simp
  then show ?thesis using ne assms(1,2) u(1) by (simp add: setAuctionDuration_def)
qed

text \<open>
  The duration buttons do what they say: after a button of \<open>m\<close> minutes, at least five, the end that the
  form reads back lies exactly \<open>m\<close> minutes after the start, and the form passes its checks, if a
  pickup date is given, the start is valid and three minutes away, and the end is a whole local minute
  of a year with three digits or more at which the clocks are not set back.
\<close>

lemma duration_buttons:
  assumes "parseLocalTime z (sf_auctionStartTime f) = Some t" and "5 \<le> m" and "sf_pickupDate f \<noteq> []" and "now + 180000 \<le> t"
    and "time_clip (t + m * 60 * 1000) = Some u" and "to_utc z (to_local z u) = u" and "to_local z u mod 60000 = 0"
    and "100 \<le> year_of_day (to_local z u div ms_day)" "year_of_day (to_local z u div ms_day) < 2 ^ 53"
  shows "parseLocalTime z (sf_auctionEndTime (setAuctionDuration z m f)) = Some (t + m * 60000) \<and>
    shipment_error z now (setAuctionDuration z m f) = None"
  using duration_reads [OF assms(1,5-9)] assms(1-4) by (simp add: shipment_error_def)

definition utc_zone :: zone where
  "utc_zone = \<lparr>to_local = id, to_utc = id\<rparr>"

text \<open>
  A form that passes the checks has a schedule that the service accepts, and the message about an end
  before the start is never shown: the duration is checked first.
\<close>

lemma shipment_schedule:
  "shipment_error z now f = None \<Longrightarrow>
    \<exists>start stop. parseLocalTime z (sf_auctionStartTime f) = Some start \<and> parseLocalTime z (sf_auctionEndTime f) = Some stop \<and>
      now + 180000 \<le> start \<and> start + 300000 \<le> stop"
  by (auto simp: shipment_error_def split: if_splits option.splits)

lemma end_message_unreachable:
  "shipment_error z now f \<noteq> Some ''Auction end time must be after the start time.''"
  by (auto simp: shipment_error_def split: option.splits)

text \<open>The prices and times of the forward form, as the service reads them; the start loses its milliseconds.\<close>

definition forward_terms :: "zone \<Rightarrow> int \<Rightarrow> forward_form \<Rightarrow> auction_terms" where
  "forward_terms z clock f = \<lparr>at_type = FORWARD, at_starting_price = num_field (number_or_null (fw_startingPrice f)),
     at_minimum_bid_step = Some 1, at_reserve_price = None, at_quantity = None, at_start = clock - clock mod 1000,
     at_end = the (parseLocalTime z (fw_auctionEndDate f))\<rparr>"

text \<open>
  The forward form checks the duration too early: the start that it sends is the time when the uploads
  are finished, so a form that passed the check at \<open>now\<close> is refused by the service exactly when
  less than five minutes are left at that later time.
\<close>

lemma forward_start_moves:
  assumes "forward_error z now f = None" and "num_field (number_or_null (fw_startingPrice f)) = Some p" and "0 < p"
    and "parseLocalTime z (fw_auctionEndDate f) = Some stop" and "clock < stop"
  shows "create_rules (forward_terms z clock f) =
    (if stop - (clock - clock mod 1000) < 300000 then Some ''Auction duration must be at least 5 minutes'' else None) \<and>
    create_rules (forward_terms z now f) = None"
proof -
  have m: "0 \<le> clock mod 1000" "0 \<le> now mod 1000" by simp_all
  have "300000 \<le> stop - now" using assms(1,4) by (auto simp: forward_error_def split: if_splits)
  then show ?thesis using assms(2-5) m by (auto simp: create_rules_def forward_terms_def)
qed

end
