(* ===== verification/Listing_Service.thy ===== *)
theory Listing_Service
  imports Create_Auction
begin

text \<open>
  The life of a seller's listing: the types \<open>ListingStatus\<close>, \<open>AuctionListing\<close> and
  \<open>ListingHistoryEvent\<close> of \<open>types/api.ts\<close>, and the operations of the service that move a listing
  (\<open>apps/http-server/src/services/listing.rs\<close>), which the seller's pages and the review queue call.
  The tables are a record; a database that cannot be reached is not modelled. The check of the text
  lengths and the parser of timestamps belong to libraries and are parameters (\<open>service_env\<close>).
\<close>

section \<open>Listings\<close>

datatype listing_status = DRAFT | SUBMITTED | UNDER_REVIEW | CHANGES_REQUESTED | APPROVED | REJECTED | SCHEDULED | CANCELLED

text \<open>A row; its times are numbers in the tables and texts in the client.\<close>

record 't listing_row =
  li_id :: string
  li_seller_id :: string
  li_auction_id :: "string option"
  li_status :: listing_status
  li_auction_type :: auction_type
  li_title :: string
  li_description :: string
  li_item_category :: "string option"
  li_item_condition :: "string option"
  li_quantity :: "rat option"
  li_quantity_unit :: "string option"
  li_starting_price :: rat
  li_minimum_bid_step :: rat
  li_reserve_price :: "rat option"
  li_origin_address :: "string option"
  li_pickup_terms :: "string option"
  li_availability_start :: "'t option"
  li_availability_end :: "'t option"
  li_media_urls :: "string option list"
  li_admin_feedback :: "string option"
  li_reviewed_by :: "string option"
  li_submitted_at :: 't
  li_reviewed_at :: "'t option"
  li_created_at :: 't
  li_updated_at :: 't

record 't history_event =
  he_listing_id :: string
  he_from_status :: "listing_status option"
  he_to_status :: listing_status
  he_actor_id :: "string option"
  he_note :: "string option"
  he_created_at :: 't

text \<open>The body of a submission and of an edit.\<close>

record listing_payload =
  lp_title :: string
  lp_description :: string
  lp_auction_type :: string
  lp_item_category :: "string option"
  lp_item_condition :: "string option"
  lp_quantity :: "rat option"
  lp_quantity_unit :: "string option"
  lp_starting_price :: rat
  lp_minimum_bid_step :: rat
  lp_reserve_price :: "rat option"
  lp_origin_address :: "string option"
  lp_pickup_terms :: "string option"
  lp_availability_start :: "string option"
  lp_availability_end :: "string option"
  lp_media_urls :: "string list"

record service_env =
  sv_valid :: "listing_payload \<Rightarrow> bool"
  sv_parse :: "string \<Rightarrow> int option"

text \<open>The tables: listings, their history, and the auctions that were created from them.\<close>

record listing_db =
  db_rows :: "string \<rightharpoonup> int listing_row"
  db_history :: "int history_event list"
  db_auctions :: "(string \<times> string \<times> auction_terms) list"

definition db_empty :: listing_db where
  "db_empty = \<lparr>db_rows = Map.empty, db_history = [], db_auctions = []\<rparr>"

section \<open>Operations of the service\<close>

definition upper_char :: "char \<Rightarrow> char" where
  "upper_char c = (let n = of_char c :: nat in if 97 \<le> n \<and> n \<le> 122 then char_of (n - 32) else c)"

definition to_upper :: "string \<Rightarrow> string" where
  "to_upper s = map upper_char s"

definition type_of_str :: "string \<Rightarrow> auction_type option" where
  "type_of_str s = (if to_upper s = ''FORWARD'' then Some FORWARD else if to_upper s = ''REVERSE'' then Some REVERSE else None)"

definition parse_time :: "service_env \<Rightarrow> string option \<Rightarrow> string + int option" where
  "parse_time e v = (case v of
     None \<Rightarrow> Inr None
   | Some s \<Rightarrow> (case sv_parse e s of None \<Rightarrow> Inl ''Availability must be a valid ISO date'' | Some t \<Rightarrow> Inr (Some t)))"

text \<open>The checks that a submission and an edit share: the type and the two times of a good payload.\<close>

definition read_payload :: "service_env \<Rightarrow> listing_payload \<Rightarrow> string + auction_type \<times> int option \<times> int option" where
  "read_payload e p =
     (if \<not> sv_valid e p then Inl ''Validation failed''
      else if lp_starting_price p \<le> 0 \<or> lp_minimum_bid_step p \<le> 0 then Inl ''Price and bid step must be greater than zero''
      else case type_of_str (lp_auction_type p) of
        None \<Rightarrow> Inl ''auction_type must be FORWARD or REVERSE''
      | Some ty \<Rightarrow> (case parse_time e (lp_availability_start p) of
            Inl m \<Rightarrow> Inl m
          | Inr t1 \<Rightarrow> (case parse_time e (lp_availability_end p) of Inl m \<Rightarrow> Inl m | Inr t2 \<Rightarrow> Inr (ty, t1, t2))))"

definition insert_history ::
  "string \<Rightarrow> listing_status option \<Rightarrow> listing_status \<Rightarrow> string \<Rightarrow> string option \<Rightarrow> int \<Rightarrow> listing_db \<Rightarrow> listing_db" where
  "insert_history i from to actor note now db = db\<lparr>db_history := db_history db @
     [\<lparr>he_listing_id = i, he_from_status = from, he_to_status = to, he_actor_id = Some actor, he_note = note, he_created_at = now\<rparr>]\<rparr>"

definition put_row :: "string \<Rightarrow> int listing_row \<Rightarrow> listing_db \<Rightarrow> listing_db" where
  "put_row i r db = db\<lparr>db_rows := (db_rows db)(i \<mapsto> r)\<rparr>"

definition new_row :: "int \<Rightarrow> string \<Rightarrow> string \<Rightarrow> listing_payload \<Rightarrow> auction_type \<times> int option \<times> int option \<Rightarrow> int listing_row" where
  "new_row now i seller p x = (case x of (ty, t1, t2) \<Rightarrow>
     \<lparr>li_id = i, li_seller_id = seller, li_auction_id = None, li_status = SUBMITTED, li_auction_type = ty,
      li_title = lp_title p, li_description = lp_description p, li_item_category = lp_item_category p,
      li_item_condition = lp_item_condition p, li_quantity = lp_quantity p, li_quantity_unit = lp_quantity_unit p,
      li_starting_price = lp_starting_price p, li_minimum_bid_step = lp_minimum_bid_step p, li_reserve_price = lp_reserve_price p,
      li_origin_address = lp_origin_address p, li_pickup_terms = lp_pickup_terms p, li_availability_start = t1,
      li_availability_end = t2, li_media_urls = map Some (lp_media_urls p), li_admin_feedback = None, li_reviewed_by = None,
      li_submitted_at = now, li_reviewed_at = None, li_created_at = now, li_updated_at = now\<rparr>)"

definition create_listing :: "service_env \<Rightarrow> int \<Rightarrow> string \<Rightarrow> string \<Rightarrow> listing_payload \<Rightarrow> listing_db \<Rightarrow> string + listing_db" where
  "create_listing e now i seller p db = (case read_payload e p of
     Inl m \<Rightarrow> Inl m
   | Inr x \<Rightarrow> Inr (insert_history i None SUBMITTED seller (Some ''Listing submitted'') now (put_row i (new_row now i seller p x) db)))"

definition editable :: "listing_status \<Rightarrow> bool" where
  "editable s = (s \<in> {DRAFT, CHANGES_REQUESTED})"

definition reviewable :: "listing_status \<Rightarrow> bool" where
  "reviewable s = (s \<in> {SUBMITTED, UNDER_REVIEW, CHANGES_REQUESTED})"

definition edited_row :: "int \<Rightarrow> listing_payload \<Rightarrow> auction_type \<times> int option \<times> int option \<Rightarrow> int listing_row \<Rightarrow> int listing_row" where
  "edited_row now p x r = (case x of (ty, t1, t2) \<Rightarrow>
     r\<lparr>li_auction_type := ty, li_title := lp_title p, li_description := lp_description p,
       li_item_category := lp_item_category p, li_item_condition := lp_item_condition p, li_quantity := lp_quantity p,
       li_quantity_unit := lp_quantity_unit p, li_starting_price := lp_starting_price p,
       li_minimum_bid_step := lp_minimum_bid_step p, li_reserve_price := lp_reserve_price p,
       li_origin_address := lp_origin_address p, li_pickup_terms := lp_pickup_terms p, li_availability_start := t1,
       li_availability_end := t2, li_media_urls := map Some (lp_media_urls p), li_updated_at := now\<rparr>)"

definition update_listing :: "service_env \<Rightarrow> int \<Rightarrow> string \<Rightarrow> string \<Rightarrow> listing_payload \<Rightarrow> listing_db \<Rightarrow> string + listing_db" where
  "update_listing e now i seller p db = (case read_payload e p of
     Inl m \<Rightarrow> Inl m
   | Inr x \<Rightarrow> (case db_rows db i of
       None \<Rightarrow> Inl ''Only your drafts or change-requested listings can be edited''
     | Some r \<Rightarrow>
         if li_seller_id r = seller \<and> editable (li_status r) then
           Inr (insert_history i (Some (li_status r)) (li_status r) seller (Some ''Listing details updated'') now
             (put_row i (edited_row now p x r) db))
         else Inl ''Only your drafts or change-requested listings can be edited''))"

definition resubmit_listing :: "int \<Rightarrow> string \<Rightarrow> string \<Rightarrow> listing_db \<Rightarrow> string + listing_db" where
  "resubmit_listing now i seller db = (case db_rows db i of
     None \<Rightarrow> Inl ''Only drafts or change-requested listings can be resubmitted''
   | Some r \<Rightarrow>
       if li_seller_id r = seller \<and> editable (li_status r) then
         Inr (insert_history i (Some CHANGES_REQUESTED) SUBMITTED seller (Some ''Listing resubmitted'') now (put_row i
           (r\<lparr>li_status := SUBMITTED, li_admin_feedback := None, li_submitted_at := now, li_updated_at := now\<rparr>) db))
       else Inl ''Only drafts or change-requested listings can be resubmitted'')"

definition decision_status :: "string \<Rightarrow> listing_status option" where
  "decision_status d = (if to_upper d = ''APPROVE'' then Some APPROVED
     else if to_upper d = ''REQUEST_CHANGES'' then Some CHANGES_REQUESTED
     else if to_upper d = ''REJECT'' then Some REJECTED else None)"

definition review_listing :: "int \<Rightarrow> string \<Rightarrow> string \<Rightarrow> string \<Rightarrow> string option \<Rightarrow> listing_db \<Rightarrow> string + listing_db" where
  "review_listing now i admin decision fb db = (case decision_status decision of
     None \<Rightarrow> Inl ''decision must be APPROVE, REQUEST_CHANGES, or REJECT''
   | Some s \<Rightarrow>
       if s \<noteq> APPROVED \<and> trim (case fb of None \<Rightarrow> [] | Some f \<Rightarrow> f) = [] then Inl ''Feedback is required for changes or rejection''
       else (case db_rows db i of
         None \<Rightarrow> Inl ''Listing is not available for review''
       | Some r \<Rightarrow>
           if reviewable (li_status r) then
             Inr (insert_history i (Some (li_status r)) s admin fb now (put_row i
               (r\<lparr>li_status := s, li_admin_feedback := fb, li_reviewed_by := Some admin, li_reviewed_at := Some now,
                  li_updated_at := now\<rparr>) db))
           else Inl ''Listing is not available for review''))"

text \<open>
  Scheduling has two halves, with other requests between them: the listing is read and the auction is
  created under the rules of \<open>create_auction_service\<close>; then the listing is marked, whatever became of it.
\<close>

definition listing_terms :: "'t listing_row \<Rightarrow> int \<Rightarrow> int \<Rightarrow> auction_terms" where
  "listing_terms r start stop = \<lparr>at_type = li_auction_type r, at_starting_price = Some (li_starting_price r),
     at_minimum_bid_step = Some (li_minimum_bid_step r), at_reserve_price = li_reserve_price r, at_quantity = li_quantity r,
     at_start = start, at_end = stop\<rparr>"

definition schedule_terms :: "service_env \<Rightarrow> 't listing_row \<Rightarrow> string \<Rightarrow> string \<Rightarrow> string + auction_terms" where
  "schedule_terms e r start stop =
     (case create_rules (listing_terms r 0 300000) of
        Some m \<Rightarrow> Inl m
      | None \<Rightarrow> (case sv_parse e start of
          None \<Rightarrow> Inl ''auction_start_time must be a valid UTC timestamp''
        | Some t1 \<Rightarrow> (case sv_parse e stop of
            None \<Rightarrow> Inl ''auction_end_time must be a valid UTC timestamp''
          | Some t2 \<Rightarrow> (case create_rules (listing_terms r t1 t2) of Some m \<Rightarrow> Inl m | None \<Rightarrow> Inr (listing_terms r t1 t2)))))"

definition schedule_begin :: "service_env \<Rightarrow> string \<Rightarrow> string \<Rightarrow> string \<Rightarrow> string \<Rightarrow> listing_db \<Rightarrow> string + listing_db" where
  "schedule_begin e i aid start stop db = (case db_rows db i of
     None \<Rightarrow> Inl ''Only approved listings can be scheduled''
   | Some r \<Rightarrow>
       if li_status r = APPROVED then
         (case schedule_terms e r start stop of
            Inl m \<Rightarrow> Inl m
          | Inr t \<Rightarrow> Inr (db\<lparr>db_auctions := db_auctions db @ [(aid, i, t)]\<rparr>))
       else Inl ''Only approved listings can be scheduled'')"

definition schedule_end :: "int \<Rightarrow> string \<Rightarrow> string \<Rightarrow> string \<Rightarrow> listing_db \<Rightarrow> string + listing_db" where
  "schedule_end now i admin aid db = (case db_rows db i of
     None \<Rightarrow> Inl ''Auction created but listing update failed''
   | Some r \<Rightarrow> Inr (insert_history i (Some APPROVED) SCHEDULED admin (Some ''Auction scheduled'') now (put_row i
       (r\<lparr>li_status := SCHEDULED, li_auction_id := Some aid, li_updated_at := now\<rparr>) db)))"

section \<open>Requests in any order\<close>

text \<open>
  The service under any sequence of accepted requests; a refused one changes nothing. \<open>lw_open\<close> are
  the scheduling requests between their halves. With \<open>single\<close> no listing is scheduled by two requests at a
  time. Ids are fresh.
\<close>

record listing_world =
  lw_db :: listing_db
  lw_open :: "(string \<times> string) list"

definition world_init :: listing_world where
  "world_init = \<lparr>lw_db = db_empty, lw_open = []\<rparr>"

inductive listing_step :: "service_env \<Rightarrow> bool \<Rightarrow> listing_world \<Rightarrow> listing_world \<Rightarrow> bool" for e single where
  Create: "create_listing e now i seller p (lw_db w) = Inr db \<Longrightarrow> db_rows (lw_db w) i = None \<Longrightarrow>
    i \<notin> he_listing_id ` set (db_history (lw_db w)) \<Longrightarrow> listing_step e single w (w\<lparr>lw_db := db\<rparr>)"
| Update: "update_listing e now i seller p (lw_db w) = Inr db \<Longrightarrow> listing_step e single w (w\<lparr>lw_db := db\<rparr>)"
| Resubmit: "resubmit_listing now i seller (lw_db w) = Inr db \<Longrightarrow> listing_step e single w (w\<lparr>lw_db := db\<rparr>)"
| Review: "review_listing now i admin decision fb (lw_db w) = Inr db \<Longrightarrow> listing_step e single w (w\<lparr>lw_db := db\<rparr>)"
| Begin: "schedule_begin e i aid start stop (lw_db w) = Inr db \<Longrightarrow> aid \<notin> fst ` set (db_auctions (lw_db w)) \<Longrightarrow>
    (single \<longrightarrow> i \<notin> fst ` set (lw_open w)) \<Longrightarrow> listing_step e single w (w\<lparr>lw_db := db, lw_open := (i, aid) # lw_open w\<rparr>)"
| End: "(i, aid) \<in> set (lw_open w) \<Longrightarrow> schedule_end now i admin aid (lw_db w) = Inr db \<Longrightarrow>
    listing_step e single w (w\<lparr>lw_db := db, lw_open := remove1 (i, aid) (lw_open w)\<rparr>)"

text \<open>The life cycle itself: which status may follow which.\<close>

definition life_edge :: "listing_status option \<Rightarrow> listing_status \<Rightarrow> bool" where
  "life_edge s t = (case s of
     None \<Rightarrow> t = SUBMITTED
   | Some a \<Rightarrow> editable a \<and> t \<in> {a, SUBMITTED} \<or> reviewable a \<and> t \<in> {APPROVED, CHANGES_REQUESTED, REJECTED} \<or>
       a = APPROVED \<and> t = SCHEDULED)"

fun life_path :: "listing_status option \<Rightarrow> 't history_event list \<Rightarrow> bool" where
  "life_path s [] = True"
| "life_path s (h # hs) = (he_from_status h = s \<and> life_edge s (he_to_status h) \<and> life_path (Some (he_to_status h)) hs)"

definition life_end :: "'t history_event list \<Rightarrow> listing_status option" where
  "life_end hs = (if hs = [] then None else Some (he_to_status (last hs)))"

definition history_of :: "string \<Rightarrow> listing_db \<Rightarrow> int history_event list" where
  "history_of i db = filter (\<lambda>h. he_listing_id h = i) (db_history db)"

lemma life_path_snoc:
  "life_path s (hs @ [h]) \<longleftrightarrow> life_path s hs \<and> he_from_status h = (if hs = [] then s else Some (he_to_status (last hs))) \<and>
    life_edge (he_from_status h) (he_to_status h)"
  by (induction s hs rule: life_path.induct) auto

text \<open>What a row of the table satisfies, with the tables around it.\<close>

definition nonblank :: "string option \<Rightarrow> bool" where
  "nonblank f = (trim (case f of None \<Rightarrow> [] | Some s \<Rightarrow> s) \<noteq> [])"

definition row_ok :: "int listing_row \<Rightarrow> bool" where
  "row_ok r = (0 < li_starting_price r \<and> 0 < li_minimum_bid_step r \<and>
     li_status r \<in> {SUBMITTED, CHANGES_REQUESTED, APPROVED, REJECTED, SCHEDULED} \<and>
     (li_status r \<in> {CHANGES_REQUESTED, REJECTED} \<longrightarrow> nonblank (li_admin_feedback r)) \<and>
     (li_status r = SCHEDULED \<longleftrightarrow> li_auction_id r \<noteq> None))"

definition rows_inv :: "listing_db \<Rightarrow> bool" where
  "rows_inv db = (\<forall>i. life_path None (history_of i db) \<and> life_end (history_of i db) = map_option li_status (db_rows db i) \<and>
     (\<forall>r. db_rows db i = Some r \<longrightarrow> li_id r = i \<and> row_ok r))"

definition auctions_inv :: "listing_world \<Rightarrow> bool" where
  "auctions_inv w = (distinct (map fst (lw_open w)) \<and> distinct (map fst (db_auctions (lw_db w))) \<and>
     (\<forall>i aid. (i, aid) \<in> set (lw_open w) \<longrightarrow> (\<exists>r. db_rows (lw_db w) i = Some r \<and> li_status r = APPROVED)) \<and>
     (\<forall>aid i t. (aid, i, t) \<in> set (db_auctions (lw_db w)) \<longrightarrow> create_rules t = None \<and>
        ((i, aid) \<in> set (lw_open w) \<or> (\<exists>r. db_rows (lw_db w) i = Some r \<and> li_auction_id r = Some aid))))"

lemma auctions_invI:
  assumes "distinct (map fst (lw_open w))" and "distinct (map fst (db_auctions (lw_db w)))"
    and "\<And>i aid. (i, aid) \<in> set (lw_open w) \<Longrightarrow> \<exists>r. db_rows (lw_db w) i = Some r \<and> li_status r = APPROVED"
    and "\<And>aid i t. (aid, i, t) \<in> set (db_auctions (lw_db w)) \<Longrightarrow> create_rules t = None"
    and "\<And>aid i t. (aid, i, t) \<in> set (db_auctions (lw_db w)) \<Longrightarrow>
      (i, aid) \<in> set (lw_open w) \<or> (\<exists>r. db_rows (lw_db w) i = Some r \<and> li_auction_id r = Some aid)"
  shows "auctions_inv w"
  unfolding auctions_inv_def using assms by blast

lemma auctions_invD:
  assumes "auctions_inv w"
  shows "distinct (map fst (lw_open w))" and "distinct (map fst (db_auctions (lw_db w)))"
    and "(i, aid) \<in> set (lw_open w) \<Longrightarrow> \<exists>r. db_rows (lw_db w) i = Some r \<and> li_status r = APPROVED"
    and "(aid, i, t) \<in> set (db_auctions (lw_db w)) \<Longrightarrow> create_rules t = None"
    and "(aid, i, t) \<in> set (db_auctions (lw_db w)) \<Longrightarrow>
      (i, aid) \<in> set (lw_open w) \<or> (\<exists>r. db_rows (lw_db w) i = Some r \<and> li_auction_id r = Some aid)"
  using assms unfolding auctions_inv_def by blast+

definition life_inv :: "listing_world \<Rightarrow> bool" where
  "life_inv w = (rows_inv (lw_db w) \<and> auctions_inv w)"

section \<open>Every operation keeps the life cycle\<close>

text \<open>One row written and one event recorded.\<close>

lemma rows_inv_move:
  assumes "rows_inv db" and "li_id r = i" and "row_ok r" and "from = map_option li_status (db_rows db i)"
    and "life_edge from (li_status r)" and "to = li_status r"
  shows "rows_inv (insert_history i from to actor note now (put_row i r db))"
proof -
  have h: "life_path None (history_of j db)" "life_end (history_of j db) = map_option li_status (db_rows db j)"
    "db_rows db j = Some s \<Longrightarrow> li_id s = j \<and> row_ok s" for j s
    using assms(1) by (auto simp: rows_inv_def)
  have e: "(if history_of i db = [] then None else Some (he_to_status (last (history_of i db)))) = from"
    using h(2) [of i] assms(4) by (simp add: life_end_def)
  show ?thesis
    unfolding rows_inv_def
  proof (intro allI conjI impI)
    fix j
    show "life_path None (history_of j (insert_history i from to actor note now (put_row i r db)))"
      using h(1) [of j] e assms(5,6) by (auto simp: history_of_def insert_history_def put_row_def life_path_snoc)
    show "life_end (history_of j (insert_history i from to actor note now (put_row i r db))) =
        map_option li_status (db_rows (insert_history i from to actor note now (put_row i r db)) j)"
      using h(2) [of j] assms(2,6) by (auto simp: history_of_def insert_history_def put_row_def life_end_def)
  next
    fix j s
    assume "db_rows (insert_history i from to actor note now (put_row i r db)) j = Some s"
    then show "li_id s = j" "row_ok s"
      using h(3) [of j s] assms(2,3) by (auto simp: insert_history_def put_row_def split: if_splits)
  qed
qed

lemma insert_put_frame [simp]:
  "db_rows (insert_history i from to actor note now (put_row i r db)) = (db_rows db)(i \<mapsto> r)"
  "db_auctions (insert_history i from to actor note now (put_row i r db)) = db_auctions db"
  by (simp_all add: insert_history_def put_row_def)

text \<open>A move: the row of a listing is replaced along an edge of the life cycle, and the event is recorded.\<close>

definition moved :: "listing_db \<Rightarrow> string \<Rightarrow> int listing_row \<Rightarrow> listing_db \<Rightarrow> bool" where
  "moved db i r db' = (li_id r = i \<and> row_ok r \<and> life_edge (map_option li_status (db_rows db i)) (li_status r) \<and>
     (\<exists>actor note now. db' = insert_history i (map_option li_status (db_rows db i)) (li_status r) actor note now (put_row i r db)))"

lemma moved_rows: "moved db i r db' \<Longrightarrow> rows_inv db \<Longrightarrow> rows_inv db'"
  by (auto simp: moved_def intro!: rows_inv_move)

lemma moved_frame: "moved db i r db' \<Longrightarrow> db_rows db' = (db_rows db)(i \<mapsto> r) \<and> db_auctions db' = db_auctions db"
  by (auto simp: moved_def)

lemma rows_inv_row: "rows_inv db \<Longrightarrow> db_rows db i = Some r \<Longrightarrow> li_id r = i \<and> row_ok r"
  by (simp add: rows_inv_def)

lemma read_payload_ok:
  "read_payload e p = Inr (ty, t1, t2) \<Longrightarrow> 0 < lp_starting_price p \<and> 0 < lp_minimum_bid_step p \<and>
    type_of_str (lp_auction_type p) = Some ty \<and> parse_time e (lp_availability_start p) = Inr t1 \<and> parse_time e (lp_availability_end p) = Inr t2"
  by (auto simp: read_payload_def split: if_splits option.splits sum.splits)

lemma movedI:
  "li_id r = i \<Longrightarrow> row_ok r \<Longrightarrow> from = map_option li_status (db_rows db i) \<Longrightarrow> to = li_status r \<Longrightarrow> life_edge from to \<Longrightarrow>
    moved db i r (insert_history i from to actor note now (put_row i r db))"
  unfolding moved_def by blast

lemma create_moves:
  assumes "create_listing e now i seller p db = Inr db'" and "db_rows db i = None"
  shows "\<exists>r. moved db i r db'"
proof -
  obtain ty t1 t2 where p: "read_payload e p = Inr (ty, t1, t2)"
    using assms(1) by (auto simp: create_listing_def split: sum.splits)
  have "moved db i (new_row now i seller p (ty, t1, t2)) db'"
    using assms read_payload_ok [OF p]
    by (auto simp: create_listing_def p intro!: movedI) (auto simp: new_row_def row_ok_def life_edge_def)
  then show ?thesis ..
qed

lemma update_moves:
  assumes "update_listing e now i seller p db = Inr db'" and "rows_inv db"
  shows "\<exists>q r. db_rows db i = Some q \<and> li_status q = CHANGES_REQUESTED \<and> moved db i r db'"
proof -
  obtain ty t1 t2 q where p: "read_payload e p = Inr (ty, t1, t2)" "db_rows db i = Some q" "editable (li_status q)"
    and db: "db' = insert_history i (Some (li_status q)) (li_status q) seller (Some ''Listing details updated'') now
      (put_row i (edited_row now p (ty, t1, t2) q) db)"
    using assms(1) by (auto simp: update_listing_def split: sum.splits option.splits if_splits)
  have q: "li_id q = i" "row_ok q" using rows_inv_row [OF assms(2) p(2)] by simp_all
  have "moved db i (edited_row now p (ty, t1, t2) q) db'"
    unfolding db using read_payload_ok [OF p(1)] p q
    by (intro movedI) (auto simp: edited_row_def row_ok_def life_edge_def)
  moreover have "li_status q = CHANGES_REQUESTED" using p(3) q(2) by (auto simp: editable_def row_ok_def)
  ultimately show ?thesis using p(2) by blast
qed

lemma resubmit_moves:
  assumes "resubmit_listing now i seller db = Inr db'" and "rows_inv db"
  shows "\<exists>q r. db_rows db i = Some q \<and> li_status q = CHANGES_REQUESTED \<and> moved db i r db'"
proof -
  obtain q where q: "db_rows db i = Some q" "editable (li_status q)"
    using assms(1) by (auto simp: resubmit_listing_def split: option.splits if_splits)
  have ok: "li_id q = i" "row_ok q" using rows_inv_row [OF assms(2) q(1)] by simp_all
  then have s: "li_status q = CHANGES_REQUESTED" using q(2) by (auto simp: editable_def row_ok_def)
  let ?r = "q\<lparr>li_status := SUBMITTED, li_admin_feedback := None, li_submitted_at := now, li_updated_at := now\<rparr>"
  have "db' = insert_history i (Some CHANGES_REQUESTED) SUBMITTED seller (Some ''Listing resubmitted'') now (put_row i ?r db)"
    using assms(1) q by (auto simp: resubmit_listing_def split: if_splits)
  then have "moved db i ?r db'"
    using ok q s by (auto intro!: movedI) (auto simp: row_ok_def life_edge_def editable_def)
  then show ?thesis using q(1) s by blast
qed

lemma decision_cases: "decision_status d = Some s \<Longrightarrow> s \<in> {APPROVED, CHANGES_REQUESTED, REJECTED}"
  by (auto simp: decision_status_def split: if_splits)

lemma review_moves:
  assumes "review_listing now i admin d fb db = Inr db'" and "rows_inv db"
  shows "\<exists>q r. db_rows db i = Some q \<and> li_status q \<in> {SUBMITTED, CHANGES_REQUESTED} \<and> moved db i r db'"
proof -
  obtain s q where q: "decision_status d = Some s" "s = APPROVED \<or> nonblank fb" "db_rows db i = Some q" "reviewable (li_status q)"
    using assms(1) by (auto simp: review_listing_def nonblank_def split: option.splits if_splits)
  have ok: "li_id q = i" "row_ok q" using rows_inv_row [OF assms(2) q(3)] by simp_all
  let ?r = "q\<lparr>li_status := s, li_admin_feedback := fb, li_reviewed_by := Some admin, li_reviewed_at := Some now, li_updated_at := now\<rparr>"
  have "db' = insert_history i (Some (li_status q)) s admin fb now (put_row i ?r db)"
    using assms(1) q by (auto simp: review_listing_def split: if_splits)
  then have "moved db i ?r db'"
    using ok q decision_cases [OF q(1)] by (auto intro!: movedI) (auto simp: row_ok_def life_edge_def reviewable_def)
  moreover have "li_status q \<in> {SUBMITTED, CHANGES_REQUESTED}" using ok(2) q(4) by (auto simp: row_ok_def reviewable_def)
  ultimately show ?thesis using q(3) by blast
qed

lemma schedule_end_moves:
  assumes "schedule_end now i admin aid db = Inr db'" and "rows_inv db" and "db_rows db i = Some q" and "li_status q = APPROVED"
  shows "\<exists>r. moved db i r db' \<and> li_auction_id r = Some aid"
proof -
  let ?r = "q\<lparr>li_status := SCHEDULED, li_auction_id := Some aid, li_updated_at := now\<rparr>"
  have "db' = insert_history i (Some APPROVED) SCHEDULED admin (Some ''Auction scheduled'') now (put_row i ?r db)"
    using assms(1,3) by (simp add: schedule_end_def)
  then have "moved db i ?r db'"
    using rows_inv_row [OF assms(2,3)] assms(3,4)
    by (auto intro!: movedI) (auto simp: row_ok_def life_edge_def)
  then show ?thesis by auto
qed

text \<open>A move of a listing that is neither approved nor scheduled does not touch the auctions.\<close>

lemma auctions_inv_move:
  assumes "auctions_inv w" and "rows_inv (lw_db w)" and "moved (lw_db w) i r db"
    and "\<And>q. db_rows (lw_db w) i = Some q \<Longrightarrow> li_status q \<notin> {APPROVED, SCHEDULED}"
  shows "auctions_inv (w\<lparr>lw_db := db\<rparr>)"
proof -
  have fr: "db_rows db = (db_rows (lw_db w))(i \<mapsto> r)" "db_auctions db = db_auctions (lw_db w)"
    using moved_frame [OF assms(3)] by simp_all
  note inv = auctions_invD [OF assms(1)]
  have none: "(i, aid) \<notin> set (lw_open w)" for aid using inv(3) [of i aid] assms(4) by auto
  have gone: "li_auction_id q = None" if "db_rows (lw_db w) i = Some q" for q
    using assms(4) [OF that] rows_inv_row [OF assms(2) that] by (auto simp: row_ok_def)
  show ?thesis
  proof (rule auctions_invI)
    fix j aid
    assume "(j, aid) \<in> set (lw_open (w\<lparr>lw_db := db\<rparr>))"
    then show "\<exists>r. db_rows (lw_db (w\<lparr>lw_db := db\<rparr>)) j = Some r \<and> li_status r = APPROVED"
      using inv(3) [of j aid] none by (auto simp: fr)
  next
    fix aid j t
    assume "(aid, j, t) \<in> set (db_auctions (lw_db (w\<lparr>lw_db := db\<rparr>)))"
    then show "(j, aid) \<in> set (lw_open (w\<lparr>lw_db := db\<rparr>)) \<or>
        (\<exists>r. db_rows (lw_db (w\<lparr>lw_db := db\<rparr>)) j = Some r \<and> li_auction_id r = Some aid)"
      using inv(5) [of aid j t] none gone by (auto simp: fr)
  qed (use inv fr in auto)
qed

lemma schedule_beginE:
  assumes "schedule_begin e i aid start stop db = Inr db'"
  obtains r t where "db_rows db i = Some r" "li_status r = APPROVED" "create_rules t = None"
    "db' = db\<lparr>db_auctions := db_auctions db @ [(aid, i, t)]\<rparr>"
  using assms by (auto simp: schedule_begin_def schedule_terms_def split: option.splits if_splits sum.splits)

lemma rows_inv_cong: "db_rows db' = db_rows db \<Longrightarrow> db_history db' = db_history db \<Longrightarrow> rows_inv db' = rows_inv db"
  by (simp add: rows_inv_def history_of_def)

lemma auctions_inv_begin:
  assumes "auctions_inv w" and "schedule_begin e i aid start stop (lw_db w) = Inr db"
    and "aid \<notin> fst ` set (db_auctions (lw_db w))" and "i \<notin> fst ` set (lw_open w)"
  shows "auctions_inv (w\<lparr>lw_db := db, lw_open := (i, aid) # lw_open w\<rparr>) \<and> rows_inv db = rows_inv (lw_db w)"
proof -
  obtain r t where b: "db_rows (lw_db w) i = Some r" "li_status r = APPROVED" "create_rules t = None"
    and db: "db = (lw_db w)\<lparr>db_auctions := db_auctions (lw_db w) @ [(aid, i, t)]\<rparr>"
    using assms(2) by (rule schedule_beginE)
  note inv = auctions_invD [OF assms(1)]
  have "auctions_inv (w\<lparr>lw_db := db, lw_open := (i, aid) # lw_open w\<rparr>)"
  proof (rule auctions_invI)
    fix a j u
    assume "(a, j, u) \<in> set (db_auctions (lw_db (w\<lparr>lw_db := db, lw_open := (i, aid) # lw_open w\<rparr>)))"
    then show "(j, a) \<in> set (lw_open (w\<lparr>lw_db := db, lw_open := (i, aid) # lw_open w\<rparr>)) \<or>
        (\<exists>r. db_rows (lw_db (w\<lparr>lw_db := db, lw_open := (i, aid) # lw_open w\<rparr>)) j = Some r \<and> li_auction_id r = Some a)"
      using inv(5) [of a j u] by (auto simp: db)
  qed (use assms(3,4) b inv(1-4) db in auto)
  moreover have "rows_inv db = rows_inv (lw_db w)" by (rule rows_inv_cong) (simp_all add: db)
  ultimately show ?thesis ..
qed

lemma auctions_inv_end:
  assumes "auctions_inv w" and "rows_inv (lw_db w)" and "(i, aid) \<in> set (lw_open w)"
    and "schedule_end now i admin aid (lw_db w) = Inr db"
  shows "auctions_inv (w\<lparr>lw_db := db, lw_open := remove1 (i, aid) (lw_open w)\<rparr>) \<and> rows_inv db"
proof -
  note inv = auctions_invD [OF assms(1)]
  obtain q where q: "db_rows (lw_db w) i = Some q" "li_status q = APPROVED" using inv(3) [OF assms(3)] by blast
  obtain r where r: "moved (lw_db w) i r db" "li_auction_id r = Some aid"
    using schedule_end_moves [OF assms(4,2) q] by blast
  have fr: "db_rows db = (db_rows (lw_db w))(i \<mapsto> r)" "db_auctions db = db_auctions (lw_db w)"
    using moved_frame [OF r(1)] by simp_all
  have "li_auction_id q = None" using rows_inv_row [OF assms(2) q(1)] q(2) by (auto simp: row_ok_def)
  then have mine: "a = aid" if "(a, i, t) \<in> set (db_auctions (lw_db w))" for a t
    using inv(5) [OF that] inv(1) assms(3) q(1) eq_key_imp_eq_value [of "lw_open w" i a aid] by auto
  have d: "distinct (lw_open w)" using inv(1) by (auto simp: distinct_map)
  have other: "j \<noteq> i" if "(j, a) \<in> set (remove1 (i, aid) (lw_open w))" for j a
    using that inv(1) assms(3) d eq_key_imp_eq_value [of "lw_open w" j a aid] by auto
  have "auctions_inv (w\<lparr>lw_db := db, lw_open := remove1 (i, aid) (lw_open w)\<rparr>)"
  proof (rule auctions_invI)
    fix j a
    assume "(j, a) \<in> set (lw_open (w\<lparr>lw_db := db, lw_open := remove1 (i, aid) (lw_open w)\<rparr>))"
    then have m: "(j, a) \<in> set (remove1 (i, aid) (lw_open w))" by simp
    have "(j, a) \<in> set (lw_open w)" by (rule set_remove1_subset [THEN subsetD, OF m])
    with other [OF m] show "\<exists>s. db_rows (lw_db (w\<lparr>lw_db := db, lw_open := remove1 (i, aid) (lw_open w)\<rparr>)) j = Some s \<and> li_status s = APPROVED"
      using inv(3) [of j a] by (simp add: fr)
  next
    fix a j t
    assume "(a, j, t) \<in> set (db_auctions (lw_db (w\<lparr>lw_db := db, lw_open := remove1 (i, aid) (lw_open w)\<rparr>)))"
    then show "(j, a) \<in> set (lw_open (w\<lparr>lw_db := db, lw_open := remove1 (i, aid) (lw_open w)\<rparr>)) \<or>
        (\<exists>s. db_rows (lw_db (w\<lparr>lw_db := db, lw_open := remove1 (i, aid) (lw_open w)\<rparr>)) j = Some s \<and> li_auction_id s = Some a)"
      using inv(5) [of a j t] mine [of a t] r(2) d by (cases "j = i") (auto simp: fr)
  next
    show "distinct (map fst (lw_open (w\<lparr>lw_db := db, lw_open := remove1 (i, aid) (lw_open w)\<rparr>)))"
      using inv(1) by (auto simp: distinct_map intro: inj_on_diff)
  qed (use inv(2,4) fr in simp_all)
  moreover have "rows_inv db" using r(1) assms(2) by (rule moved_rows)
  ultimately show ?thesis ..
qed

lemma life_inv_step:
  assumes "listing_step e True w w'" and "life_inv w"
  shows "life_inv w'"
  using assms
proof (induction rule: listing_step.induct)
  case (Create now i seller p w db)
  then show ?case using create_moves [OF Create(1,2)] auctions_inv_move [of w i] moved_rows by (fastforce simp: life_inv_def)
next
  case (Update now i seller p w db)
  then show ?case using update_moves [OF Update(1)] auctions_inv_move [of w i] moved_rows by (fastforce simp: life_inv_def)
next
  case (Resubmit now i seller w db)
  then show ?case using resubmit_moves [OF Resubmit(1)] auctions_inv_move [of w i] moved_rows by (fastforce simp: life_inv_def)
next
  case (Review now i admin decision fb w db)
  then show ?case using review_moves [OF Review(1)] auctions_inv_move [of w i] moved_rows by (fastforce simp: life_inv_def)
next
  case (Begin i aid start stop w db)
  then show ?case using auctions_inv_begin [OF _ Begin(1,2)] by (simp add: life_inv_def)
next
  case (End i aid w now admin db)
  then show ?case using auctions_inv_end [OF _ _ End(1,2)] by (simp add: life_inv_def)
qed

interpretation life: step_system world_init "listing_step e True" life_inv for e
proof
  show "life_inv world_init"
    by (simp add: world_init_def life_inv_def db_empty_def rows_inv_def history_of_def life_end_def auctions_inv_def)
qed (rule life_inv_step)

section \<open>A listing that is submitted and approved\<close>

definition ex_service :: service_env where
  "ex_service = \<lparr>sv_valid = \<lambda>_. True, sv_parse = \<lambda>s. Some (if s = ''later'' then 600000 else 0)\<rparr>"

definition ex_payload :: "rat option \<Rightarrow> listing_payload" where
  "ex_payload reserve = \<lparr>lp_title = ''Press'', lp_description = ''A used press'', lp_auction_type = ''FORWARD'', lp_item_category = None,
     lp_item_condition = None, lp_quantity = None, lp_quantity_unit = None, lp_starting_price = 10, lp_minimum_bid_step = 1,
     lp_reserve_price = reserve, lp_origin_address = None, lp_pickup_terms = None, lp_availability_start = None,
     lp_availability_end = None, lp_media_urls = []\<rparr>"

definition ex_row :: "rat option \<Rightarrow> int listing_row" where
  "ex_row reserve = (new_row 0 ''l'' ''s'' (ex_payload reserve) (FORWARD, None, None))
     \<lparr>li_status := APPROVED, li_admin_feedback := None, li_reviewed_by := Some ''a'', li_reviewed_at := Some 0, li_updated_at := 0\<rparr>"

definition ex_world :: "rat option \<Rightarrow> listing_world" where
  "ex_world reserve = \<lparr>lw_db = insert_history ''l'' (Some SUBMITTED) APPROVED ''a'' None 0 (put_row ''l'' (ex_row reserve)
     (insert_history ''l'' None SUBMITTED ''s'' (Some ''Listing submitted'') 0
       (put_row ''l'' (new_row 0 ''l'' ''s'' (ex_payload reserve) (FORWARD, None, None)) db_empty))), lw_open = []\<rparr>"

lemma ex_strings: "type_of_str ''FORWARD'' = Some FORWARD" "decision_status ''APPROVE'' = Some APPROVED"
  by code_simp+

lemma ex_reach: "(listing_step ex_service single)\<^sup>*\<^sup>* world_init (ex_world reserve)"
proof -
  let ?d = "insert_history ''l'' None SUBMITTED ''s'' (Some ''Listing submitted'') 0
    (put_row ''l'' (new_row 0 ''l'' ''s'' (ex_payload reserve) (FORWARD, None, None)) db_empty)"
  have "listing_step ex_service single world_init (world_init\<lparr>lw_db := ?d\<rparr>)"
    by (rule Create [where now = 0 and i = "''l''" and seller = "''s''" and p = "ex_payload reserve"])
      (simp_all add: create_listing_def read_payload_def parse_time_def ex_service_def ex_payload_def ex_strings world_init_def db_empty_def)
  moreover have "listing_step ex_service single (world_init\<lparr>lw_db := ?d\<rparr>) (ex_world reserve)"
  proof -
    have "review_listing 0 ''l'' ''a'' ''APPROVE'' None ?d = Inr (lw_db (ex_world reserve))"
      by (simp add: review_listing_def ex_strings reviewable_def ex_world_def ex_row_def new_row_def)
    from Review [of 0 "''l''" "''a''" "''APPROVE''" None "world_init\<lparr>lw_db := ?d\<rparr>" "lw_db (ex_world reserve)" ex_service single]
    show ?thesis using \<open>review_listing 0 ''l'' ''a'' ''APPROVE'' None ?d = _\<close> by (simp add: ex_world_def world_init_def)
  qed
  ultimately show ?thesis by (meson converse_rtranclp_into_rtranclp rtranclp.rtrancl_refl)
qed

lemma ex_world_frame [simp]:
  "db_rows (lw_db (ex_world reserve)) = [''l'' \<mapsto> ex_row reserve]" "db_auctions (lw_db (ex_world reserve)) = []"
  "lw_open (ex_world reserve) = []" "li_status (ex_row reserve) = APPROVED"
  by (simp_all add: ex_world_def db_empty_def ex_row_def)

section \<open>The life of a listing\<close>



text \<open>
  One auction per listing: without overlapping requests a listing never gets a second auction, and every
  auction that was created obeys the rules of the service.
\<close>

lemma one_auction_per_listing:
  assumes "(listing_step e True)\<^sup>*\<^sup>* world_init w"
    and "(aid, i, t) \<in> set (db_auctions (lw_db w))" and "(aid', i, t') \<in> set (db_auctions (lw_db w))"
  shows "aid = aid' \<and> create_rules t = None"
proof -
  have inv: "rows_inv (lw_db w)" "auctions_inv w" using life.reach_inv [OF assms(1)] by (simp_all add: life_inv_def)
  note a = auctions_invD [OF inv(2)]
  have "(i, x) \<in> set (lw_open w) \<Longrightarrow> db_rows (lw_db w) i = Some r \<Longrightarrow> li_auction_id r = None" for x r
    using a(3) [of i x] rows_inv_row [OF inv(1), of i r] by (auto simp: row_ok_def)
  moreover have "(i, aid) \<in> set (lw_open w) \<Longrightarrow> (i, aid') \<in> set (lw_open w) \<Longrightarrow> aid = aid'"
    using eq_key_imp_eq_value [OF a(1)] by blast
  ultimately have "aid = aid'" using a(5) [OF assms(2)] a(5) [OF assms(3)] by fastforce
  then show ?thesis using a(4) [OF assms(2)] by simp
qed

lemma ex_schedule: "schedule_terms ex_service (ex_row None) ''now'' ''later'' = Inr (listing_terms (ex_row None) 0 600000)"
  by (simp add: schedule_terms_def create_rules_def listing_terms_def ex_row_def new_row_def ex_payload_def ex_service_def)

text \<open>
  Scheduling is not safe against a second request: when two requests that schedule the same approved
  listing overlap, both are accepted and create an auction each, and the listing keeps only the later one.
\<close>

lemma double_schedule:
  assumes "db_rows (lw_db w) i = Some r" and "li_status r = APPROVED" and "schedule_terms e r start stop = Inr t"
    and "aid \<noteq> aid'" and "{aid, aid'} \<inter> fst ` set (db_auctions (lw_db w)) = {}"
  shows "\<exists>w' r'. (listing_step e False)\<^sup>*\<^sup>* w w' \<and> {(aid, i, t), (aid', i, t)} \<subseteq> set (db_auctions (lw_db w')) \<and>
    db_rows (lw_db w') i = Some r' \<and> li_status r' = SCHEDULED \<and> li_auction_id r' = Some aid'"
proof -
  define d1 where "d1 = (lw_db w)\<lparr>db_auctions := db_auctions (lw_db w) @ [(aid, i, t)]\<rparr>"
  define d2 where "d2 = d1\<lparr>db_auctions := db_auctions d1 @ [(aid', i, t)]\<rparr>"
  define w1 where "w1 = w\<lparr>lw_db := d1, lw_open := (i, aid) # lw_open w\<rparr>"
  define w2 where "w2 = w1\<lparr>lw_db := d2, lw_open := (i, aid') # lw_open w1\<rparr>"
  have 1: "listing_step e False w w1"
    unfolding w1_def by (rule Begin [where start = start and stop = stop]) (use assms in \<open>auto simp: d1_def schedule_begin_def\<close>)
  have 2: "listing_step e False w1 w2"
    unfolding w2_def by (rule Begin [where start = start and stop = stop]) (use assms in \<open>auto simp: w1_def d1_def d2_def schedule_begin_def\<close>)
  obtain d3 r3 where 3: "schedule_end 0 i [] aid (lw_db w2) = Inr d3" "db_rows d3 i = Some r3" "db_auctions d3 = db_auctions d2"
    using assms(1) by (auto simp: schedule_end_def w2_def d2_def d1_def)
  define w3 where "w3 = w2\<lparr>lw_db := d3, lw_open := remove1 (i, aid) (lw_open w2)\<rparr>"
  have 4: "listing_step e False w2 w3"
    unfolding w3_def by (rule End [OF _ 3(1)]) (simp add: w2_def w1_def)
  obtain d4 r4 where 5: "schedule_end 0 i [] aid' (lw_db w3) = Inr d4" "db_rows d4 i = Some r4" "db_auctions d4 = db_auctions d2"
      "li_status r4 = SCHEDULED" "li_auction_id r4 = Some aid'"
    using 3(2,3) by (auto simp: schedule_end_def w3_def)
  have 6: "listing_step e False w3 (w3\<lparr>lw_db := d4, lw_open := remove1 (i, aid') (lw_open w3)\<rparr>)"
    by (rule End [OF _ 5(1)]) (use assms(4) in \<open>simp add: w3_def w2_def w1_def\<close>)
  have "(listing_step e False)\<^sup>*\<^sup>* w (w3\<lparr>lw_db := d4, lw_open := remove1 (i, aid') (lw_open w3)\<rparr>)"
    using 1 2 4 6 by (meson converse_rtranclp_into_rtranclp rtranclp.rtrancl_refl)
  moreover have "{(aid, i, t), (aid', i, t)} \<subseteq> set (db_auctions d4)" using 5(3) by (simp add: d1_def d2_def)
  ultimately show ?thesis using 5 by (intro exI conjI) auto
qed

text \<open>
  A dead end: the service accepts and approves a listing whose prices or quantity break the rules of auctions
  (a reserve below the starting price, for example). Scheduling it is always refused, and no other request is accepted
  for an approved listing, so it keeps that status for ever.
\<close>

lemma approved_dead_end:
  assumes "(listing_step e single)\<^sup>*\<^sup>* w w'" and "db_rows (lw_db w) i = Some r" and "li_status r = APPROVED"
    and "i \<notin> fst ` set (lw_open w)" and "create_rules (listing_terms r 0 300000) \<noteq> None"
  shows "db_rows (lw_db w') i = Some r \<and> i \<notin> fst ` set (lw_open w')"
  using assms(1)
proof (induction rule: rtranclp_induct)
  case base
  show ?case using assms by simp
next
  case (step u v)
  from step.hyps(2) step.IH assms(3,5) show ?case
  proof (induction rule: listing_step.induct)
    case (Create now j seller p w db)
    then show ?case by (auto simp: create_listing_def split: sum.splits)
  next
    case (Update now j seller p w db)
    then show ?case by (auto simp: update_listing_def editable_def split: sum.splits option.splits if_splits)
  next
    case (Resubmit now j seller w db)
    then show ?case by (auto simp: resubmit_listing_def editable_def split: option.splits if_splits)
  next
    case (Review now j admin d fb w db)
    then show ?case by (auto simp: review_listing_def reviewable_def split: option.splits if_splits)
  next
    case (Begin j aid start stop w db)
    then show ?case by (auto simp: schedule_begin_def schedule_terms_def split: option.splits if_splits sum.splits)
  next
    case (End j aid w now admin db)
    have "j \<noteq> i" using End by force
    moreover have "i \<notin> fst ` set (remove1 (j, aid) (lw_open w))"
      using End.prems(1) set_remove1_subset [of "(j, aid)" "lw_open w"] by blast
    ultimately show ?case using End by (auto simp: schedule_end_def split: option.splits)
  qed
qed

end
