(* ===== verification/Seller_Pages.thy ===== *)
theory Seller_Pages
  imports Listing_Service "HOL-Library.Monad_Syntax"
begin

text \<open>
  The pages on which a seller writes a listing: \<open>app/sell/new/page.tsx\<close>, which submits one, and
  \<open>app/sell/[id]/edit/page.tsx\<close>, which revises one after a review. \<open>read_listing\<close> is how the service
  reads their bodies (\<open>CreateListingPayload\<close> of \<open>apps/http-server/src/types.rs\<close>).
\<close>

section \<open>Reading a body\<close>

text \<open>Fields of a struct; an optional one may be missing or \<open>null\<close>, and so prints a number that is not finite.\<close>

definition get_str :: "(string \<times> json) list \<Rightarrow> string \<Rightarrow> string option" where
  "get_str kvs k = (case map_of kvs k of Some (JStr s) \<Rightarrow> Some s | _ \<Rightarrow> None)"

definition get_num :: "(string \<times> json) list \<Rightarrow> string \<Rightarrow> rat option" where
  "get_num kvs k = (case map_of kvs k of Some (JNum (Fin x)) \<Rightarrow> Some x | _ \<Rightarrow> None)"

definition get_opt_str :: "(string \<times> json) list \<Rightarrow> string \<Rightarrow> string option option" where
  "get_opt_str kvs k = (case map_of kvs k of None \<Rightarrow> Some None | Some JNull \<Rightarrow> Some None | Some (JStr s) \<Rightarrow> Some (Some s) | _ \<Rightarrow> None)"

definition get_opt_num :: "(string \<times> json) list \<Rightarrow> string \<Rightarrow> rat option option" where
  "get_opt_num kvs k = (case map_of kvs k of
     None \<Rightarrow> Some None | Some JNull \<Rightarrow> Some None | Some (JNum (Fin x)) \<Rightarrow> Some (Some x) | Some (JNum _) \<Rightarrow> Some None | _ \<Rightarrow> None)"

definition get_strs :: "(string \<times> json) list \<Rightarrow> string \<Rightarrow> string list option" where
  "get_strs kvs k = (case map_of kvs k of
     Some (JArr xs) \<Rightarrow> those (map (\<lambda>x. case x of JStr s \<Rightarrow> Some s | _ \<Rightarrow> None) xs) | _ \<Rightarrow> None)"

definition read_listing :: "json \<Rightarrow> listing_payload option" where
  "read_listing v = (case v of
     JObj kvs \<Rightarrow> do {
       title \<leftarrow> get_str kvs ''title'';
       description \<leftarrow> get_str kvs ''description'';
       ty \<leftarrow> get_str kvs ''auction_type'';
       category \<leftarrow> get_opt_str kvs ''item_category'';
       condition \<leftarrow> get_opt_str kvs ''item_condition'';
       quantity \<leftarrow> get_opt_num kvs ''quantity'';
       unit \<leftarrow> get_opt_str kvs ''quantity_unit'';
       price \<leftarrow> get_num kvs ''starting_price'';
       bid_step \<leftarrow> get_num kvs ''minimum_bid_step'';
       reserve \<leftarrow> get_opt_num kvs ''reserve_price'';
       origin \<leftarrow> get_opt_str kvs ''origin_address'';
       terms \<leftarrow> get_opt_str kvs ''pickup_terms'';
       from \<leftarrow> get_opt_str kvs ''availability_start'';
       until \<leftarrow> get_opt_str kvs ''availability_end'';
       urls \<leftarrow> get_strs kvs ''media_urls'';
       Some \<lparr>lp_title = title, lp_description = description, lp_auction_type = ty, lp_item_category = category,
         lp_item_condition = condition, lp_quantity = quantity, lp_quantity_unit = unit, lp_starting_price = price,
         lp_minimum_bid_step = bid_step, lp_reserve_price = reserve, lp_origin_address = origin, lp_pickup_terms = terms,
         lp_availability_start = from, lp_availability_end = until, lp_media_urls = urls\<rparr> }
   | _ \<Rightarrow> None)"

section \<open>NewSellerListingPage\<close>

record sell_media =
  sm_file :: upload_file
  sm_url :: string
  sm_kind :: preview_type

record sell_page =
  sp_media :: "sell_media list"
  sp_error :: string
  sp_direction :: auction_type
  sp_pending :: bool

definition sell_init :: sell_page where
  "sell_init = \<lparr>sp_media = [], sp_error = [], sp_direction = FORWARD, sp_pending = False\<rparr>"

text \<open>The answer to an upload; a body that does not parse reads as an empty object.\<close>

definition read_sell_upload :: "upload_file \<Rightarrow> string option reply \<Rightarrow> string + string" where
  "read_sell_upload f rep = (case rep of
     Ok (Some url) \<Rightarrow> if url = [] then Inl (''Upload did not return a media URL for '' @ fi_name f) else Inr url
   | Ok None \<Rightarrow> Inl (''Upload did not return a media URL for '' @ fi_name f)
   | BadBody _ \<Rightarrow> Inl (''Upload did not return a media URL for '' @ fi_name f)
   | NotOk _ err \<Rightarrow> Inl (opt_str_or err (''Could not upload '' @ fi_name f))
   | NetworkError m \<Rightarrow> Inl m)"

text \<open>The values of the form: an input that is not on the page has none, as \<open>FormData.get\<close> gives \<open>null\<close>.\<close>

type_synonym form_values = "string \<Rightarrow> string option"

definition value_or_null :: "string option \<Rightarrow> json" where
  "value_or_null v = (case v of None \<Rightarrow> JNull | Some s \<Rightarrow> JStr s)"

definition filled_or_null :: "string option \<Rightarrow> json" where
  "filled_or_null v = (case v of None \<Rightarrow> JNull | Some s \<Rightarrow> str_or_null s)"

definition value_number :: "string option \<Rightarrow> jsnum" where
  "value_number v = (case v of None \<Rightarrow> Fin 0 | Some s \<Rightarrow> num_of_str s)"

definition optional_value :: "string option \<Rightarrow> json" where
  "optional_value v = (case v of None \<Rightarrow> JNull | Some s \<Rightarrow> if s = [] then JNull else JNum (num_of_str s))"

text \<open>A filled date as ISO text; \<open>toISOString\<close> raises on an invalid one (\<open>None\<close>).\<close>

definition iso_value :: "date_parser \<Rightarrow> string option \<Rightarrow> json option" where
  "iso_value date_of v = (case v of
     None \<Rightarrow> Some JNull
   | Some s \<Rightarrow> if s = [] then Some JNull else map_option JStr (iso_of (date_of s)))"

definition listing_body :: "date_parser \<Rightarrow> auction_type \<Rightarrow> form_values \<Rightarrow> string list \<Rightarrow> json option" where
  "listing_body date_of direction values uploaded = do {
     from \<leftarrow> iso_value date_of (values ''availability_start'');
     until \<leftarrow> iso_value date_of (values ''availability_end'');
     Some (JObj [
       (''auction_type'', JStr (type_str direction)),
       (''title'', value_or_null (values ''title'')),
       (''description'', value_or_null (values ''description'')),
       (''item_category'', value_or_null (values ''category'')),
       (''item_condition'', value_or_null (values ''condition'')),
       (''quantity'', optional_value (values ''quantity'')),
       (''quantity_unit'', filled_or_null (values ''quantity_unit'')),
       (''starting_price'', JNum (value_number (values ''starting_price''))),
       (''minimum_bid_step'', JNum (value_number (values ''minimum_bid_step''))),
       (''reserve_price'', optional_value (values ''reserve_price'')),
       (''origin_address'', filled_or_null (values ''location'')),
       (''pickup_terms'', filled_or_null (values ''details'')),
       (''availability_start'', from),
       (''availability_end'', until),
       (''media_urls'', JArr (map JStr uploaded))]) }"

definition listing_request :: "string option \<Rightarrow> storage \<Rightarrow> string \<Rightarrow> string \<Rightarrow> json option \<Rightarrow> http_request" where
  "listing_request env st method path body = \<lparr>rq_method = method, rq_url = api_url env @ ''/api/listings'' @ path,
     rq_headers = [json_content, bearer (case st ''token'' of None \<Rightarrow> ''null'' | Some t \<Rightarrow> t)], rq_body = body\<rparr>"

text \<open>
  The mutation. The direction is that of the click; the values of the form are read after the uploads.
\<close>

definition sell_mutation ::
  "string option \<Rightarrow> storage \<Rightarrow> date_parser \<Rightarrow> auction_type \<Rightarrow> sell_media list \<Rightarrow> (nat \<Rightarrow> string option reply) \<Rightarrow> form_values \<Rightarrow> unit reply \<Rightarrow> unit submission" where
  "sell_mutation env st date_of direction ms ans values rep =
     (case upload_all read_sell_upload ans 0 (map sm_file ms) of
        (sent, Inl e) \<Rightarrow> \<lparr>sb_uploads = sent, sb_request = None, sb_result = Inl e\<rparr>
      | (sent, Inr urls) \<Rightarrow> (case listing_body date_of direction values urls of
            None \<Rightarrow> \<lparr>sb_uploads = sent, sb_request = None, sb_result = Inl ''Invalid time value''\<rparr>
          | Some v \<Rightarrow> \<lparr>sb_uploads = sent, sb_request = Some (listing_request env st ''POST'' [] (Some v)),
              sb_result = (case rep of
                  NotOk _ err \<Rightarrow> Inl (opt_str_or err ''Could not submit listing'')
                | NetworkError m \<Rightarrow> Inl m
                | _ \<Rightarrow> Inr ())\<rparr>))"

datatype sell_act = SellDirection auction_type | SellFiles "(upload_file \<times> string) list" | SellRemove nat | SellPick
  | SellSubmit | SellSettled "string + unit"

text \<open>A step gives the page and where it navigates, if it does.\<close>

definition sell_media_of :: "upload_file \<times> string \<Rightarrow> sell_media" where
  "sell_media_of x = \<lparr>sm_file = fst x, sm_url = snd x,
     sm_kind = (if starts_with (fi_type (fst x)) ''video/'' then PreviewVideo else PreviewImage)\<rparr>"

fun sell_step :: "sell_act \<Rightarrow> sell_page \<Rightarrow> sell_page \<times> string option" where
  "sell_step (SellDirection d) p = (p\<lparr>sp_direction := d\<rparr>, None)"
| "sell_step (SellFiles fs) p = (p\<lparr>sp_media := sp_media p @ map sell_media_of fs\<rparr>, None)"
| "sell_step (SellRemove k) p = (p\<lparr>sp_media := take k (sp_media p) @ drop (Suc k) (sp_media p)\<rparr>, None)"
| "sell_step SellPick p = (p, None)"
| "sell_step SellSubmit p = (p\<lparr>sp_error := [], sp_pending := True\<rparr>, None)"
| "sell_step (SellSettled (Inr _)) p = (p\<lparr>sp_pending := False\<rparr>, Some ''/seller/dashboard?submitted=1'')"
| "sell_step (SellSettled (Inl e)) p = (p\<lparr>sp_pending := False, sp_error := e\<rparr>, None)"

text \<open>\<open>Field\<close>: a number input accepts anything from 0.01.\<close>

definition Field :: "string \<Rightarrow> string \<Rightarrow> string \<Rightarrow> 'a attr list \<Rightarrow> 'a jsx" where
  "Field label name ty as = El ''label'' [] [Txt label,
     El ''input'' (Attr ''name'' name # only_if (ty \<noteq> []) [Attr ''type'' ty] @ as @
       only_if (ty = ''number'') [Attr ''min'' ''0.01'', Attr ''step'' ''any'']) []]"

definition options_of :: "string list \<Rightarrow> 'a jsx list" where
  "options_of vs = map (\<lambda>v. El ''option'' [Attr ''key'' v] [Txt v]) vs"

definition sell_direction :: "auction_type \<Rightarrow> auction_type \<Rightarrow> sell_act jsx" where
  "sell_direction current ty =
     El ''button'' [Attr ''key'' (type_str ty), Attr ''type'' ''button'', onClick (SellDirection ty), Flag ''selected'' (current = ty)] [
       El ''span'' [] [El (if ty = FORWARD then ''ArrowUp'' else ''ArrowDown'') [] []],
       El ''strong'' [] [Txt (if ty = FORWARD then ''Forward auction'' else ''Reverse auction'')],
       El ''span'' [] [Txt (if ty = FORWARD then ''Sell to the highest bidder.'' else ''Source from the lowest qualified bidder.'')]]"

definition sell_details :: "auction_type \<Rightarrow> sell_act jsx" where
  "sell_details direction =
     El ''section'' [] [El ''h2'' [] [Txt ''Listing details''], El ''div'' [] ([
       Field ''Title'' ''title'' [] [required],
       El ''label'' [] [Txt ''Description'', El ''textarea'' [Attr ''name'' ''description'', required, Attr ''minLength'' ''10'', Attr ''rows'' ''5''] []],
       El ''label'' [] [Txt ''Category'', El ''select'' [Attr ''name'' ''category''] (options_of AUCTION_CATEGORIES)],
       El ''label'' [] [Txt ''Condition'', El ''select'' [Attr ''name'' ''condition''] (options_of ITEM_CONDITIONS)],
       Field ''Quantity'' ''quantity'' ''number'' [], Field ''Unit'' ''quantity_unit'' [] [Attr ''placeholder'' ''item, lot, tonne''],
       Field ''Starting price'' ''starting_price'' ''number'' [required],
       Field ''Minimum bid step'' ''minimum_bid_step'' ''number'' [required, Attr ''defaultValue'' ''1'']] @
       only_if (direction = FORWARD) [Field ''Reserve price'' ''reserve_price'' ''number'' []] @ [
       Field ''Product location'' ''location'' [] [],
       El ''label'' [] [Txt ''Details and fulfilment terms'', El ''textarea'' [Attr ''name'' ''details'', Attr ''rows'' ''4''] []]])]"

definition sell_preview :: "nat \<Rightarrow> sell_media \<Rightarrow> sell_act jsx" where
  "sell_preview k m = El ''div'' [Attr ''key'' (sm_url m)] [
     El ''div'' [] [if sm_kind m = PreviewImage then El ''img'' [Attr ''src'' (sm_url m), Attr ''alt'' ''Listing preview''] []
       else El ''video'' [Attr ''src'' (sm_url m)] []],
     El ''button'' [Attr ''type'' ''button'', Attr ''aria-label'' ''Remove media'', onClick (SellRemove k)] [El ''X'' [] []]]"

definition NewSellerListingPage :: "sell_page \<Rightarrow> sell_act jsx" where
  "NewSellerListingPage p =
     El ''main'' [] [El ''div'' [] [
       El ''header'' [] [El ''p'' [] [Txt ''Seller workspace''], El ''h1'' [] [Txt ''Submit an auction listing''],
         El ''p'' [] [Txt ''Provide the product details and your availability. An administrator will review and schedule the auction.'']],
       El ''form'' [On ''onSubmit'' (\<lambda>_. SellSubmit)] ([
         El ''section'' [] (map (sell_direction (sp_direction p)) [FORWARD, REVERSE]),
         sell_details (sp_direction p),
         El ''section'' [] [El ''h2'' [] [Txt ''Availability''],
           El ''p'' [] [Txt ''These are preferences; the administrator sets the final auction time.''],
           El ''div'' [] [Field ''Available from'' ''availability_start'' ''datetime-local'' [],
             Field ''Available until'' ''availability_end'' ''datetime-local'' []]],
         El ''section'' [] (
           El ''button'' [Attr ''type'' ''button'', onClick SellPick] [El ''ImagePlus'' [] [], Txt '' Add photos or videos''] #
           El ''input'' [Flag ''hidden'' True, Flag ''multiple'' True, Attr ''type'' ''file'', Attr ''accept'' ''image/*,video/*''] [] #
           only_if (sp_media p \<noteq> []) [El ''div'' [] (map (\<lambda>(k, m). sell_preview k m) (zip [0..<length (sp_media p)] (sp_media p)))])] @
         only_if (sp_error p \<noteq> []) [El ''p'' [] [Txt (sp_error p)]] @ [
         El ''button'' [Flag ''disabled'' (sp_pending p)]
           [if sp_pending p then El ''Loader2'' [] [] else El ''Send'' [] [], Txt '' Submit for admin review'']])]]"

section \<open>EditListingPage\<close>

text \<open>What the client holds of a listing: texts for times, and the seller's data in the answers for administrators.\<close>

record client_listing = "string listing_row" +
  cl_seller_name :: "string option"
  cl_seller_email :: "string option"
  cl_seller_company :: "string option"

definition status_str :: "listing_status \<Rightarrow> string" where
  "status_str s = (case s of DRAFT \<Rightarrow> ''DRAFT'' | SUBMITTED \<Rightarrow> ''SUBMITTED'' | UNDER_REVIEW \<Rightarrow> ''UNDER_REVIEW''
     | CHANGES_REQUESTED \<Rightarrow> ''CHANGES_REQUESTED'' | APPROVED \<Rightarrow> ''APPROVED'' | REJECTED \<Rightarrow> ''REJECTED''
     | SCHEDULED \<Rightarrow> ''SCHEDULED'' | CANCELLED \<Rightarrow> ''CANCELLED'')"

record edit_page =
  ep_listing :: "client_listing option"
  ep_error :: string
  ep_pending :: bool

definition edit_init :: edit_page where
  "edit_init = \<lparr>ep_listing = None, ep_error = [], ep_pending = False\<rparr>"

text \<open>The effect on the id and the query's data: the page's copy is the one found in the data.\<close>

definition edit_loaded :: "string \<Rightarrow> client_listing list option \<Rightarrow> edit_page \<Rightarrow> edit_page" where
  "edit_loaded i data p = (case data of
     None \<Rightarrow> p
   | Some ls \<Rightarrow> (case List.find (\<lambda>l. li_id l = i) ls of None \<Rightarrow> p | Some l \<Rightarrow> p\<lparr>ep_listing := Some l\<rparr>))"

definition num_or_null :: "rat option \<Rightarrow> json" where
  "num_or_null v = (case v of None \<Rightarrow> JNull | Some x \<Rightarrow> JNum (Fin x))"

definition kept_urls :: "string option list \<Rightarrow> string list" where
  "kept_urls us = filter (\<lambda>u. u \<noteq> []) (map the (filter (\<lambda>u. u \<noteq> None) us))"

definition edit_body :: "date_parser \<Rightarrow> client_listing \<Rightarrow> json option" where
  "edit_body date_of l = do {
     from \<leftarrow> iso_value date_of (li_availability_start l);
     until \<leftarrow> iso_value date_of (li_availability_end l);
     Some (JObj [
       (''id'', JStr (li_id l)), (''seller_id'', JStr (li_seller_id l)), (''auction_id'', value_or_null (li_auction_id l)),
       (''status'', JStr (status_str (li_status l))), (''auction_type'', JStr (type_str (li_auction_type l))),
       (''title'', JStr (li_title l)), (''description'', JStr (li_description l)),
       (''item_category'', value_or_null (li_item_category l)), (''item_condition'', value_or_null (li_item_condition l)),
       (''quantity'', num_or_null (li_quantity l)), (''quantity_unit'', value_or_null (li_quantity_unit l)),
       (''starting_price'', JNum (Fin (li_starting_price l))), (''minimum_bid_step'', JNum (Fin (li_minimum_bid_step l))),
       (''reserve_price'', num_or_null (li_reserve_price l)), (''origin_address'', value_or_null (li_origin_address l)),
       (''pickup_terms'', value_or_null (li_pickup_terms l)),
       (''availability_start'', from), (''availability_end'', until),
       (''media_urls'', JArr (map JStr (kept_urls (li_media_urls l)))),
       (''admin_feedback'', value_or_null (li_admin_feedback l)), (''reviewed_by'', value_or_null (li_reviewed_by l)),
       (''submitted_at'', JStr (li_submitted_at l)), (''reviewed_at'', value_or_null (li_reviewed_at l)),
       (''created_at'', JStr (li_created_at l)), (''updated_at'', JStr (li_updated_at l))]) }"

text \<open>The mutation: the requests that were sent and the outcome. A body that does not parse is an error here.\<close>

definition read_reply :: "string \<Rightarrow> 'a reply \<Rightarrow> string + 'a" where
  "read_reply text rep = (case rep of
     Ok x \<Rightarrow> Inr x | NotOk _ err \<Rightarrow> Inl (opt_str_or err text) | BadBody m \<Rightarrow> Inl m | NetworkError m \<Rightarrow> Inl m)"

definition edit_query ::
  "string option \<Rightarrow> storage \<Rightarrow> client_listing list reply \<Rightarrow> http_request \<times> (string + client_listing list)" where
  "edit_query env st rep = (listing_request env st ''GET'' ''/mine'' None, read_reply ''Could not load listing'' rep)"

definition edit_save ::
  "string option \<Rightarrow> storage \<Rightarrow> date_parser \<Rightarrow> string \<Rightarrow> edit_page \<Rightarrow> bool \<Rightarrow> unit reply \<Rightarrow> unit reply \<Rightarrow> http_request list \<times> (string + unit)" where
  "edit_save env st date_of i p resubmit rep1 rep2 = (case ep_listing p of
     None \<Rightarrow> ([], Inr ())
   | Some l \<Rightarrow> (case edit_body date_of l of
       None \<Rightarrow> ([], Inl ''Invalid time value'')
     | Some v \<Rightarrow>
         let put = listing_request env st ''PUT'' (''/'' @ i) (Some v);
             post = listing_request env st ''POST'' (''/'' @ i @ ''/resubmit'') None
         in case read_reply ''Could not update listing'' rep1 of
              Inl m \<Rightarrow> ([put], Inl m)
            | Inr _ \<Rightarrow> if resubmit then ([put, post], read_reply ''Could not resubmit listing'' rep2) else ([put], Inr ())))"

datatype edit_field = EdTitle string | EdDescription string | EdType auction_type | EdCategory string | EdCondition string
  | EdQuantity "rat option" | EdUnit string | EdPrice "rat option" | EdStep "rat option" | EdReserve "rat option"
  | EdLocation string | EdTerms string

fun edit_set :: "edit_field \<Rightarrow> client_listing \<Rightarrow> client_listing" where
  "edit_set (EdTitle v) l = l\<lparr>li_title := v\<rparr>"
| "edit_set (EdDescription v) l = l\<lparr>li_description := v\<rparr>"
| "edit_set (EdType v) l = l\<lparr>li_auction_type := v\<rparr>"
| "edit_set (EdCategory v) l = l\<lparr>li_item_category := Some v\<rparr>"
| "edit_set (EdCondition v) l = l\<lparr>li_item_condition := Some v\<rparr>"
| "edit_set (EdQuantity v) l = l\<lparr>li_quantity := v\<rparr>"
| "edit_set (EdUnit v) l = l\<lparr>li_quantity_unit := Some v\<rparr>"
| "edit_set (EdPrice v) l = l\<lparr>li_starting_price := (case v of None \<Rightarrow> 0 | Some x \<Rightarrow> x)\<rparr>"
| "edit_set (EdStep v) l = l\<lparr>li_minimum_bid_step := (case v of None \<Rightarrow> 0 | Some x \<Rightarrow> x)\<rparr>"
| "edit_set (EdReserve v) l = l\<lparr>li_reserve_price := v\<rparr>"
| "edit_set (EdLocation v) l = l\<lparr>li_origin_address := Some v\<rparr>"
| "edit_set (EdTerms v) l = l\<lparr>li_pickup_terms := Some v\<rparr>"

datatype edit_act = EdSet edit_field | EdLoad "client_listing list option" | EdSave bool | EdSettled "string + unit"

fun edit_step :: "string \<Rightarrow> edit_act \<Rightarrow> edit_page \<Rightarrow> edit_page \<times> string option" where
  "edit_step i (EdSet f) p = (p\<lparr>ep_listing := map_option (edit_set f) (ep_listing p)\<rparr>, None)"
| "edit_step i (EdLoad data) p = (edit_loaded i data p, None)"
| "edit_step i (EdSave _) p = (p\<lparr>ep_pending := True\<rparr>, None)"
| "edit_step i (EdSettled (Inr _)) p = (p\<lparr>ep_pending := False\<rparr>, Some ''/seller/dashboard'')"
| "edit_step i (EdSettled (Inl e)) p = (p\<lparr>ep_pending := False, ep_error := e\<rparr>, None)"

text \<open>\<open>EditNumber\<close>: an empty input is \<open>null\<close>; a number input only holds finite numbers.\<close>

definition number_value :: "string \<Rightarrow> rat option" where
  "number_value s = (if s = [] then None else case num_of_str s of Fin x \<Rightarrow> Some x | _ \<Rightarrow> None)"

definition EditNumber :: "string \<Rightarrow> rat option \<Rightarrow> bool \<Rightarrow> (rat option \<Rightarrow> edit_field) \<Rightarrow> edit_act jsx" where
  "EditNumber label v req f = El ''label'' [] [Txt label,
     El ''input'' [Attr ''type'' ''number'', Attr ''min'' ''0.01'', Attr ''step'' ''any'', Flag ''required'' req,
       Attr ''value'' (case v of None \<Rightarrow> [] | Some x \<Rightarrow> num_str (Fin x)), On ''onChange'' (\<lambda>s. EdSet (f (number_value s)))] []]"

definition edit_text :: "string \<Rightarrow> string \<Rightarrow> 'a attr list \<Rightarrow> string \<Rightarrow> (string \<Rightarrow> 'a) \<Rightarrow> 'a jsx" where
  "edit_text label tag as v f = El ''label'' [] [Txt label, El tag (as @ [Attr ''value'' v, On ''onChange'' f]) []]"

definition edit_select :: "string \<Rightarrow> string \<Rightarrow> 'a jsx list \<Rightarrow> (string \<Rightarrow> 'a) \<Rightarrow> 'a jsx" where
  "edit_select label v opts f = El ''label'' [] [Txt label, El ''select'' [Attr ''value'' v, On ''onChange'' f] opts]"

definition edit_fields :: "client_listing \<Rightarrow> edit_act jsx" where
  "edit_fields l = El ''section'' [] [
     edit_text ''Title'' ''input'' [required] (li_title l) (\<lambda>s. EdSet (EdTitle s)),
     edit_text ''Description'' ''textarea'' [required, Attr ''minLength'' ''10'', Attr ''rows'' ''5''] (li_description l) (\<lambda>s. EdSet (EdDescription s)),
     edit_select ''Auction type'' (type_str (li_auction_type l))
       [El ''option'' [Attr ''value'' ''FORWARD''] [Txt ''Forward''], El ''option'' [Attr ''value'' ''REVERSE''] [Txt ''Reverse'']]
       (\<lambda>s. EdSet (EdType (if s = ''FORWARD'' then FORWARD else REVERSE))),
     edit_select ''Category'' (opt_str_or (li_item_category l) []) (options_of AUCTION_CATEGORIES) (\<lambda>s. EdSet (EdCategory s)),
     edit_select ''Condition'' (opt_str_or (li_item_condition l) []) (options_of ITEM_CONDITIONS) (\<lambda>s. EdSet (EdCondition s)),
     EditNumber ''Quantity'' (li_quantity l) False EdQuantity,
     edit_text ''Unit'' ''input'' [] (opt_str_or (li_quantity_unit l) []) (\<lambda>s. EdSet (EdUnit s)),
     EditNumber ''Starting price'' (Some (li_starting_price l)) True EdPrice,
     EditNumber ''Minimum bid step'' (Some (li_minimum_bid_step l)) True EdStep,
     EditNumber ''Reserve price'' (li_reserve_price l) False EdReserve,
     edit_text ''Location'' ''input'' [] (opt_str_or (li_origin_address l) []) (\<lambda>s. EdSet (EdLocation s)),
     edit_text ''Terms'' ''textarea'' [Attr ''rows'' ''4''] (opt_str_or (li_pickup_terms l) []) (\<lambda>s. EdSet (EdTerms s))]"

definition EditListingPage :: "bool \<Rightarrow> edit_page \<Rightarrow> edit_act jsx" where
  "EditListingPage isLoading p = (case (isLoading, ep_listing p) of
     (False, Some l) \<Rightarrow>
       if \<not> editable (li_status l) then
         El ''main'' [] [El ''div'' [] [El ''h1'' [] [Txt ''This listing cannot be edited''],
           El ''p'' [] [Txt ''Only drafts and change-requested listings are editable.'']]]
       else El ''main'' [] [El ''form'' [On ''onSubmit'' (\<lambda>_. EdSave True)] ([
         El ''header'' [] ([
           El ''p'' [] [Txt ''Seller workspace''], El ''h1'' [] [Txt ''Revise listing''],
           El ''p'' [] [Txt ''Address the review feedback, save your changes, and send it back to the queue.'']] @
           only_if (opt_str_or (li_admin_feedback l) [] \<noteq> []) [El ''p'' [] [Txt (''Admin feedback: '' @ opt_str_or (li_admin_feedback l) [])]]),
         edit_fields l] @
         only_if (ep_error p \<noteq> []) [El ''p'' [] [Txt (ep_error p)]] @ [
         El ''div'' [] [
           El ''button'' [Attr ''type'' ''button'', Flag ''disabled'' (ep_pending p), onClick (EdSave False)] [El ''Save'' [] [], Txt '' Save changes''],
           El ''button'' [Flag ''disabled'' (ep_pending p)] [if ep_pending p then El ''Loader2'' [] [] else El ''Send'' [] [], Txt '' Save and resubmit'']]])]
   | _ \<Rightarrow> El ''main'' [] [El ''Loader2'' [] []])"

section \<open>What the service reads\<close>

lemmas get_defs = get_str_def get_num_def get_opt_str_def get_opt_num_def get_strs_def

lemma those_JStr [simp]: "those (map ((\<lambda>x. case x of JStr s \<Rightarrow> Some s | _ \<Rightarrow> None) \<circ> JStr) us) = Some us"
  by (induction us) auto

lemma type_of_type_str [simp]: "type_of_str (type_str t) = Some t"
  by (cases t) (simp_all add: type_str_def, code_simp+)

text \<open>The optional fields of a form as the service reads them: what was typed, or nothing.\<close>

definition filled :: "string option \<Rightarrow> string option" where
  "filled v = (case v of None \<Rightarrow> None | Some s \<Rightarrow> if s = [] then None else Some s)"

definition filled_number :: "string option \<Rightarrow> rat option" where
  "filled_number v = (case filled v of None \<Rightarrow> None | Some s \<Rightarrow> (case num_of_str s of Fin x \<Rightarrow> Some x | _ \<Rightarrow> None))"

definition filled_time :: "date_parser \<Rightarrow> string option \<Rightarrow> string option" where
  "filled_time date_of v = (case filled v of None \<Rightarrow> None | Some s \<Rightarrow> iso_of (date_of s))"

definition valid_time :: "date_parser \<Rightarrow> string option \<Rightarrow> bool" where
  "valid_time date_of v = (case filled v of None \<Rightarrow> True | Some s \<Rightarrow> date_of s \<noteq> None)"

lemma iso_value_valid: "valid_time date_of v \<Longrightarrow> iso_value date_of v = Some (value_or_null (filled_time date_of v))"
  by (auto simp: valid_time_def filled_def iso_value_def filled_time_def value_or_null_def iso_of_def split: option.splits)

lemma get_filled [simp]:
  "(case value_or_null v of JNull \<Rightarrow> Some None | JStr s \<Rightarrow> Some (Some s) | _ \<Rightarrow> None) = Some v"
  "(case filled_or_null v of JNull \<Rightarrow> Some None | JStr s \<Rightarrow> Some (Some s) | _ \<Rightarrow> None) = Some (filled v)"
  by (auto simp: value_or_null_def filled_or_null_def filled_def str_or_null_def split: option.splits)

lemma get_filled_number [simp]:
  "(case optional_value v of JNull \<Rightarrow> Some None | JNum (Fin x) \<Rightarrow> Some (Some x) | JNum _ \<Rightarrow> Some None | _ \<Rightarrow> None) = Some (filled_number v)"
  "(case num_or_null w of JNull \<Rightarrow> Some None | JNum (Fin x) \<Rightarrow> Some (Some x) | JNum _ \<Rightarrow> Some None | _ \<Rightarrow> None) = Some w"
  by (auto simp: optional_value_def filled_number_def filled_def num_or_null_def split: option.splits jsnum.splits)

text \<open>
  A submitted listing arrives as it was typed: when the required fields are filled, the prices are numbers and
  the dates are valid or empty, the body of the request is read by the service as exactly the listing on the form,
  with the addresses of the uploaded files.
\<close>

lemma listing_arrives:
  assumes "values ''title'' = Some title" and "values ''description'' = Some description"
    and "value_number (values ''starting_price'') = Fin price" and "value_number (values ''minimum_bid_step'') = Fin bid_step"
    and "valid_time date_of (values ''availability_start'')" and "valid_time date_of (values ''availability_end'')"
  shows "Option.bind (listing_body date_of direction values urls) read_listing = Some
    \<lparr>lp_title = title, lp_description = description, lp_auction_type = type_str direction, lp_item_category = values ''category'',
     lp_item_condition = values ''condition'', lp_quantity = filled_number (values ''quantity''),
     lp_quantity_unit = filled (values ''quantity_unit''), lp_starting_price = price, lp_minimum_bid_step = bid_step,
     lp_reserve_price = filled_number (values ''reserve_price''), lp_origin_address = filled (values ''location''),
     lp_pickup_terms = filled (values ''details''), lp_availability_start = filled_time date_of (values ''availability_start''),
     lp_availability_end = filled_time date_of (values ''availability_end''), lp_media_urls = urls\<rparr>"
  using assms
  by (simp add: listing_body_def read_listing_def get_defs iso_value_valid) (simp add: value_or_null_def)

section \<open>Saving without editing\<close>

text \<open>A row as the service prints it; \<open>show\<close> prints a time, which has no zone in the tables.\<close>

definition client_of :: "(int \<Rightarrow> string) \<Rightarrow> int listing_row \<Rightarrow> client_listing" where
  "client_of show r = \<lparr>li_id = li_id r, li_seller_id = li_seller_id r, li_auction_id = li_auction_id r, li_status = li_status r,
     li_auction_type = li_auction_type r, li_title = li_title r, li_description = li_description r,
     li_item_category = li_item_category r, li_item_condition = li_item_condition r, li_quantity = li_quantity r,
     li_quantity_unit = li_quantity_unit r, li_starting_price = li_starting_price r, li_minimum_bid_step = li_minimum_bid_step r,
     li_reserve_price = li_reserve_price r, li_origin_address = li_origin_address r, li_pickup_terms = li_pickup_terms r,
     li_availability_start = map_option show (li_availability_start r), li_availability_end = map_option show (li_availability_end r),
     li_media_urls = li_media_urls r, li_admin_feedback = li_admin_feedback r, li_reviewed_by = li_reviewed_by r,
     li_submitted_at = show (li_submitted_at r), li_reviewed_at = map_option show (li_reviewed_at r),
     li_created_at = show (li_created_at r), li_updated_at = show (li_updated_at r),
     cl_seller_name = None, cl_seller_email = None, cl_seller_company = None\<rparr>"

lemma edit_body_reads:
  assumes "valid_time date_of (li_availability_start l)" and "valid_time date_of (li_availability_end l)"
  shows "Option.bind (edit_body date_of l) read_listing = Some
    \<lparr>lp_title = li_title l, lp_description = li_description l, lp_auction_type = type_str (li_auction_type l),
     lp_item_category = li_item_category l, lp_item_condition = li_item_condition l, lp_quantity = li_quantity l,
     lp_quantity_unit = li_quantity_unit l, lp_starting_price = li_starting_price l, lp_minimum_bid_step = li_minimum_bid_step l,
     lp_reserve_price = li_reserve_price l, lp_origin_address = li_origin_address l, lp_pickup_terms = li_pickup_terms l,
     lp_availability_start = filled_time date_of (li_availability_start l),
     lp_availability_end = filled_time date_of (li_availability_end l), lp_media_urls = kept_urls (li_media_urls l)\<rparr>"
  using assms by (simp add: edit_body_def read_listing_def get_defs iso_value_valid)

text \<open>
  Saving a listing that was not edited keeps everything but its availability: the service prints its times
  without a zone, the page reads such a text as local time (hypothesis \<open>local\<close>), and the service reads the ISO text it gets
  back as universal time (hypothesis \<open>utc\<close>), so every save moves the time by the offset of the seller's zone.
\<close>

lemma edit_save_shifts:
  assumes row: "db_rows db i = Some r" "li_status r = CHANGES_REQUESTED" "0 < li_starting_price r" "0 < li_minimum_bid_step r"
    and times: "li_availability_start r = Some t" "li_availability_end r = None"
    and local: "date_of (show t) = Some (to_utc z t)" "show t \<noteq> []"
    and utc: "sv_parse e (iso_string (to_utc z t)) = Some (to_utc z t)"
    and valid: "\<And>p. lp_title p = li_title r \<Longrightarrow> lp_description p = li_description r \<Longrightarrow> sv_valid e p"
  shows "\<exists>p db'. Option.bind (edit_body date_of (client_of show r)) read_listing = Some p \<and>
    update_listing e now i (li_seller_id r) p db = Inr db' \<and>
    db_rows db' i = Some (r\<lparr>li_availability_start := Some (to_utc z t),
      li_media_urls := map Some (kept_urls (li_media_urls r)), li_updated_at := now\<rparr>)"
proof -
  have v: "valid_time date_of (li_availability_start (client_of show r))" "valid_time date_of (li_availability_end (client_of show r))"
    "filled_time date_of (li_availability_start (client_of show r)) = Some (iso_string (to_utc z t))"
    "filled_time date_of (li_availability_end (client_of show r)) = None"
    using times local by (simp_all add: client_of_def valid_time_def filled_def filled_time_def iso_of_def)
  show ?thesis
    unfolding edit_body_reads [OF v(1,2)] v(3,4)
    using row utc times(2)
    by (auto simp: update_listing_def read_payload_def parse_time_def valid client_of_def editable_def edited_row_def)
qed

text \<open>
  A change of any of the seller's listings discards what was typed: the effect puts the stored listing back.
\<close>

lemma reload_discards_edits:
  "List.find (\<lambda>l. li_id l = i) ls = Some l \<Longrightarrow>
    ep_listing (fst (edit_step i (EdLoad (Some ls)) (fst (edit_step i (EdSet f) p)))) = Some l"
  by (simp add: edit_loaded_def)

text \<open>An id that is not among the seller's listings, or a query that failed, leaves the spinner on for ever.\<close>

lemma edit_spinner:
  "ep_listing p = None \<Longrightarrow> List.find (\<lambda>l. li_id l = i) (case data of None \<Rightarrow> [] | Some ls \<Rightarrow> ls) = None \<Longrightarrow>
    EditListingPage isLoading (fst (edit_step i (EdLoad data) p)) = El ''main'' [] [El ''Loader2'' [] []]"
  by (cases data; cases isLoading) (auto simp: edit_loaded_def EditListingPage_def)

end
