(* ===== verification/Review_Queue.thy ===== *)
theory Review_Queue
  imports Seller_Pages
begin

text \<open>
  The two pages that show listings: the seller's dashboard \<open>app/seller/dashboard/page.tsx\<close> and the
  administrator's queue \<open>components/admin/ListingReviewQueue.tsx\<close>, with the requests that the queue
  sends. The printers of dates and numbers are parameters: \<open>fmt_d\<close> (a date), \<open>fmt_dt\<close> (date and time),
  \<open>fmt_num\<close>; an invalid date is \<open>None\<close>.
\<close>

definition u_endash :: string where "u_endash = [CHR 0xE2, CHR 0x80, CHR 0x93]"
definition u_rsquo :: string where "u_rsquo = [CHR 0xE2, CHR 0x80, CHR 0x99]"

text \<open>\<open>value.replaceAll('_', ' ')\<close>.\<close>

definition spaced :: "string \<Rightarrow> string" where
  "spaced s = map (\<lambda>c. if c = CHR ''_'' then CHR '' '' else c) s"

section \<open>SellerDashboard\<close>

definition seller_redirect :: "auth \<Rightarrow> string option" where
  "seller_redirect a = (if \<not> au_isLoading a \<and> map_option ss_role (au_session a) \<noteq> Some CUSTOMER then Some ''/dashboard'' else None)"

definition operationalStatus :: "date_parser \<Rightarrow> int \<Rightarrow> client_listing \<Rightarrow> auction_item option \<Rightarrow> string" where
  "operationalStatus date_of now l a = (case a of
     None \<Rightarrow> status_str (li_status l)
   | Some a \<Rightarrow>
       if (case date_of (it_auction_start_time a) of None \<Rightarrow> False | Some t \<Rightarrow> now < t) then ''UPCOMING''
       else if (case date_of (it_auction_end_time a) of None \<Rightarrow> False | Some t \<Rightarrow> now \<le> t) then ''LIVE''
       else ''COMPLETED'')"

definition listing_auction :: "auction_item list \<Rightarrow> client_listing \<Rightarrow> auction_item option" where
  "listing_auction as l = List.find (\<lambda>a. Some (it_id a) = li_auction_id l) as"

definition in_review :: "client_listing list \<Rightarrow> nat" where
  "in_review ls = length (filter (\<lambda>l. li_status l \<in> {SUBMITTED, UNDER_REVIEW}) ls)"

definition SellerMetric :: "string \<Rightarrow> string \<Rightarrow> nat \<Rightarrow> 'a jsx" where
  "SellerMetric icon label n = El ''div'' [] [El icon [] [], El ''p'' [] [Txt (nat_str n)], El ''p'' [] [Txt label]]"

definition StatusBadge :: "string \<Rightarrow> 'a jsx" where
  "StatusBadge v = El ''span'' [Flag ''live'' (v = ''LIVE''), Flag ''settled'' (v \<in> {''SCHEDULED'', ''UPCOMING'', ''COMPLETED''}),
     Flag ''attention'' (v \<in> {''CHANGES_REQUESTED'', ''REJECTED''})] [Txt (spaced v)]"

datatype seller_act = ToggleHistory string

definition auction_note :: "date_parser \<Rightarrow> (int option \<Rightarrow> string) \<Rightarrow> string \<Rightarrow> auction_item \<Rightarrow> string" where
  "auction_note date_of fmt_dt st a =
     (if st = ''COMPLETED'' then
        (case it_winner_id a of Some (Some w) \<Rightarrow> if w = [] then ''Completed without a winner'' else ''Winner '' @ take 8 w
         | _ \<Rightarrow> ''Completed without a winner'')
      else if st = ''LIVE'' then ''Bidding is live '' @ u_middot @ '' ends '' @ fmt_dt (date_of (it_auction_end_time a))
      else ''Final schedule: '' @ fmt_dt (date_of (it_auction_start_time a)) @ '' '' @ u_endash @ '' '' @ fmt_dt (date_of (it_auction_end_time a)))"

definition history_item :: "date_parser \<Rightarrow> (int option \<Rightarrow> string) \<Rightarrow> string \<times> string history_event \<Rightarrow> 'a jsx" where
  "history_item date_of fmt_dt x = (case x of (k, h) \<Rightarrow>
     El ''li'' [Attr ''key'' k] ([
       El ''strong'' [] [Txt (spaced (status_str (he_to_status h)))],
       El ''span'' [] [Txt (fmt_dt (date_of (he_created_at h)))]] @
       only_if (opt_str_or (he_note h) [] \<noteq> []) [El ''p'' [] [Txt (opt_str_or (he_note h) [])]]))"

definition SellerListingRow ::
  "date_parser \<Rightarrow> (int option \<Rightarrow> string) \<Rightarrow> (int option \<Rightarrow> string) \<Rightarrow> int \<Rightarrow> bool \<Rightarrow> (string \<times> string history_event) list \<Rightarrow>
    auction_item option \<Rightarrow> client_listing \<Rightarrow> seller_act jsx" where
  "SellerListingRow date_of fmt_d fmt_dt now opened hist a l =
     (let st = operationalStatus date_of now l a in
      El ''article'' [] (
        El ''div'' [] [
          El ''div'' [] ([
            El ''strong'' [] [Txt (li_title l)],
            El ''p'' [] [Txt (opt_str_or (li_item_category l) ''General'' @ '' '' @ u_middot @ '' submitted '' @ fmt_d (date_of (li_submitted_at l)))]] @
            (case a of None \<Rightarrow> [] | Some x \<Rightarrow> [
               El ''p'' [] [Txt (auction_note date_of fmt_dt st x)],
               El ''p'' [] [Txt (''Registration closes '' @ fmt_dt (map_option (\<lambda>t. t - 5 * 60000) (date_of (it_auction_start_time x))))]])),
          El ''span'' [] [Txt (type_str (li_auction_type l))],
          StatusBadge st,
          El ''p'' [] [Txt (opt_str_or (li_admin_feedback l) ''No feedback yet'')],
          El ''div'' [] (
            (case a of None \<Rightarrow> [] | Some x \<Rightarrow>
               [El ''Link'' [Attr ''href'' ((if st = ''COMPLETED'' then ''/auction/bidinfo/'' else ''/shipment/'') @ it_id x)] [Txt ''View'']]) @
            only_if (li_status l \<in> {DRAFT, CHANGES_REQUESTED})
              [El ''Link'' [Attr ''href'' (''/sell/'' @ li_id l @ ''/edit''), Attr ''aria-label'' (''Edit '' @ li_title l)] [El ''Pencil'' [] []]] @
            [El ''button'' [onClick (ToggleHistory (li_id l)), Flag ''aria-expanded'' opened,
               Attr ''aria-label'' (''Show status history for '' @ li_title l)] [El ''ChevronDown'' [Flag ''open'' opened] []]])] #
        only_if opened [El ''ol'' [] (map (history_item date_of fmt_dt) hist)]))"

text \<open>The three queries of the page: what is asked, and what an answer gives. The history is asked for once the row is open.\<close>

definition token_get :: "string option \<Rightarrow> storage \<Rightarrow> string \<Rightarrow> http_request" where
  "token_get env st path = \<lparr>rq_method = ''GET'', rq_url = api_url env @ path,
     rq_headers = [bearer (case st ''token'' of None \<Rightarrow> ''null'' | Some t \<Rightarrow> t)], rq_body = None\<rparr>"

definition seller_query ::
  "string option \<Rightarrow> storage \<Rightarrow> client_listing list reply \<Rightarrow> http_request \<times> (string + client_listing list)" where
  "seller_query env st rep = (token_get env st ''/api/listings/mine'', read_reply ''Could not load listings'' rep)"

definition seller_auctions ::
  "string option \<Rightarrow> storage \<Rightarrow> auction_item list reply \<Rightarrow> http_request \<times> (string + auction_item list)" where
  "seller_auctions env st rep = (token_get env st ''/api/auction'', read_reply ''Could not load auction status'' rep)"

definition history_request ::
  "string option \<Rightarrow> storage \<Rightarrow> bool \<Rightarrow> string \<Rightarrow> (string \<times> string history_event) list reply \<Rightarrow>
    (http_request \<times> (string + (string \<times> string history_event) list)) option" where
  "history_request env st opened i rep = (if opened then
     Some (token_get env st (''/api/listings/'' @ i @ ''/history''), read_reply ''Could not load history'' rep) else None)"

definition toggle_row :: "seller_act \<Rightarrow> (string \<Rightarrow> bool) \<Rightarrow> string \<Rightarrow> bool" where
  "toggle_row x opened = (case x of ToggleHistory i \<Rightarrow> opened(i := \<not> opened i))"

definition SellerDashboard ::
  "date_parser \<Rightarrow> (int option \<Rightarrow> string) \<Rightarrow> (int option \<Rightarrow> string) \<Rightarrow> int \<Rightarrow> (string \<Rightarrow> bool) \<Rightarrow>
    (string \<Rightarrow> (string \<times> string history_event) list) \<Rightarrow> auction_item list \<Rightarrow> bool \<Rightarrow> client_listing list \<Rightarrow> seller_act jsx" where
  "SellerDashboard date_of fmt_d fmt_dt now opened hist as isLoading ls =
     El ''main'' [] [El ''div'' [] [
       El ''header'' [] [
         El ''div'' [] [El ''p'' [] [Txt ''Seller workspace''], El ''h1'' [] [Txt ''Your auction listings''],
           El ''p'' [] [Txt ''Track review feedback, scheduling, and live auction status.'']],
         El ''Link'' [Attr ''href'' ''/sell/new''] [El ''FilePlus2'' [] [], Txt '' New listing'']],
       El ''section'' [] [
         SellerMetric ''Gavel'' ''Total listings'' (length ls),
         SellerMetric ''Clock3'' ''In review'' (in_review ls),
         SellerMetric ''MessageSquareWarning'' ''Changes requested'' (length (filter (\<lambda>l. li_status l = CHANGES_REQUESTED) ls))],
       El ''section'' [] [El ''div'' [] (
         map (\<lambda>l. SellerListingRow date_of fmt_d fmt_dt now (opened (li_id l)) (hist (li_id l)) (listing_auction as l) l) ls @
         only_if (\<not> isLoading \<and> ls = []) [El ''p'' [] [Txt ''No listings yet. Submit your first product for review.'']] @
         only_if isLoading [El ''p'' [] [Txt ''Loading listings...'']])]]]"

section \<open>ListingReviewQueue\<close>

record queue_page =
  qp_feedback :: "string \<rightharpoonup> string"
  qp_schedule :: "string \<rightharpoonup> string \<times> string"
  qp_review_error :: "string option"
  qp_schedule_error :: "string option"

definition queue_init :: queue_page where
  "queue_init = \<lparr>qp_feedback = Map.empty, qp_schedule = Map.empty, qp_review_error = None, qp_schedule_error = None\<rparr>"

definition queue_query ::
  "string option \<Rightarrow> storage \<Rightarrow> client_listing list reply \<Rightarrow> http_request \<times> (string + client_listing list)" where
  "queue_query env st rep = (listing_request env st ''GET'' ''/admin'' None, read_reply ''Could not load listing queue'' rep)"

definition review_body :: "queue_page \<Rightarrow> string \<Rightarrow> string \<Rightarrow> json" where
  "review_body p i decision = JObj [(''decision'', JStr decision), (''feedback'', filled_or_null (qp_feedback p i))]"

definition review_request :: "string option \<Rightarrow> storage \<Rightarrow> queue_page \<Rightarrow> string \<Rightarrow> string \<Rightarrow> http_request" where
  "review_request env st p i decision = listing_request env st ''POST'' (''/'' @ i @ ''/review'') (Some (review_body p i decision))"

text \<open>The request that schedules a listing, or the error that is thrown before it.\<close>

definition schedule_request :: "string option \<Rightarrow> storage \<Rightarrow> date_parser \<Rightarrow> queue_page \<Rightarrow> string \<Rightarrow> string + http_request" where
  "schedule_request env st date_of p i = (case qp_schedule p i of
     None \<Rightarrow> Inl ''Choose the auction start and end times''
   | Some (start, stop) \<Rightarrow>
       if start = [] \<or> stop = [] then Inl ''Choose the auction start and end times''
       else case (iso_of (date_of start), iso_of (date_of stop)) of
         (Some a, Some b) \<Rightarrow> Inr (listing_request env st ''POST'' (''/'' @ i @ ''/schedule'')
             (Some (JObj [(''auction_start_time'', JStr a), (''auction_end_time'', JStr b)])))
       | _ \<Rightarrow> Inl ''Invalid time value'')"

datatype queue_act = QuFeedback string string | QuStart string string | QuEnd string string
  | QuReview string string | QuSchedule string | QuReviewed "string + unit" | QuScheduled "string + unit"

definition times_of :: "queue_page \<Rightarrow> string \<Rightarrow> string \<times> string" where
  "times_of p i = (case qp_schedule p i of None \<Rightarrow> ([], []) | Some x \<Rightarrow> x)"

definition error_of :: "string + unit \<Rightarrow> string option" where
  "error_of r = (case r of Inl m \<Rightarrow> Some m | Inr _ \<Rightarrow> None)"

text \<open>A new mutation clears the error of the last one.\<close>

fun queue_step :: "queue_act \<Rightarrow> queue_page \<Rightarrow> queue_page" where
  "queue_step (QuFeedback i v) p = p\<lparr>qp_feedback := (qp_feedback p)(i \<mapsto> v)\<rparr>"
| "queue_step (QuStart i v) p = p\<lparr>qp_schedule := (qp_schedule p)(i \<mapsto> (v, snd (times_of p i)))\<rparr>"
| "queue_step (QuEnd i v) p = p\<lparr>qp_schedule := (qp_schedule p)(i \<mapsto> (fst (times_of p i), v))\<rparr>"
| "queue_step (QuReview i d) p = p\<lparr>qp_review_error := None\<rparr>"
| "queue_step (QuSchedule i) p = p\<lparr>qp_schedule_error := None\<rparr>"
| "queue_step (QuReviewed r) p = p\<lparr>qp_review_error := error_of r\<rparr>"
| "queue_step (QuScheduled r) p = p\<lparr>qp_schedule_error := error_of r\<rparr>"

text \<open>\<open>isVideo\<close>: \<open>/\.(mp4|webm|mov|m4v)(\?|$)/i\<close>.\<close>

definition isVideo :: "string \<Rightarrow> bool" where
  "isVideo url = (let u = to_lower url in
     list_ex (\<lambda>ext. str_includes u (''.'' @ ext @ ''?'') \<or> suffix (''.'' @ ext) u) [''mp4'', ''webm'', ''mov'', ''m4v''])"

definition Detail :: "string \<Rightarrow> string \<Rightarrow> 'a jsx" where
  "Detail name v = El ''div'' [] [El ''dt'' [] [Txt name], El ''dd'' [] [Txt v]]"

definition Action :: "string \<Rightarrow> string \<Rightarrow> 'a \<Rightarrow> bool \<Rightarrow> 'a jsx" where
  "Action icon label act danger = El ''button'' [onClick act, Flag ''danger'' danger] [El icon [] [], Txt label]"

definition opt_num_truthy :: "rat option \<Rightarrow> bool" where
  "opt_num_truthy x = (x \<noteq> None \<and> x \<noteq> Some 0)"

definition queue_facts :: "(rat \<Rightarrow> string) \<Rightarrow> client_listing \<Rightarrow> queue_act jsx" where
  "queue_facts fmt_num l =
     El ''div'' [] ([
       El ''div'' [] [El ''h3'' [] [Txt (li_title l)], El ''span'' [] [Txt (spaced (status_str (li_status l)))],
         El ''span'' [] [Txt (type_str (li_auction_type l))]],
       El ''p'' [] [Txt (opt_str_or (cl_seller_name l) [] @ '' '' @
         (if opt_str_or (cl_seller_company l) [] \<noteq> [] then u_middot @ '' '' @ opt_str_or (cl_seller_company l) [] else []))],
       El ''p'' [] [Txt (opt_str_or (cl_seller_email l) [])],
       El ''p'' [] [Txt (li_description l)],
       El ''dl'' [] [Detail ''Category'' (opt_str_or (li_item_category l) ''General''),
         Detail ''Condition'' (opt_str_or (li_item_condition l) ''Not specified''),
         Detail ''Starting price'' (''$'' @ fmt_num (li_starting_price l)),
         Detail ''Bid step'' (''$'' @ fmt_num (li_minimum_bid_step l))]] @
       only_if (kept_urls (li_media_urls l) \<noteq> []) [El ''div'' [] (map (\<lambda>u.
         if isVideo u then El ''video'' [Attr ''key'' u, Attr ''src'' u, Flag ''controls'' True] []
         else El ''img'' [Attr ''key'' u, Attr ''src'' u, Attr ''alt'' ''Seller listing''] []) (kept_urls (li_media_urls l)))])"

definition queue_more :: "date_parser \<Rightarrow> (int option \<Rightarrow> string) \<Rightarrow> (rat \<Rightarrow> string) \<Rightarrow> client_listing \<Rightarrow> queue_act jsx" where
  "queue_more date_of fmt_d fmt_num l =
     El ''div'' [] [
       Detail ''Quantity'' (if opt_num_truthy (li_quantity l)
         then num_str (Fin (the (li_quantity l))) @ '' '' @ opt_str_or (li_quantity_unit l) [] else ''Not specified''),
       Detail ''Location'' (opt_str_or (li_origin_address l) ''Not specified''),
       Detail ''Reserve'' (if opt_num_truthy (li_reserve_price l) then ''$'' @ fmt_num (the (li_reserve_price l)) else ''None''),
       Detail ''Availability'' (case filled (li_availability_start l) of
           None \<Rightarrow> ''Flexible''
         | Some a \<Rightarrow> fmt_d (date_of a) @ (case filled (li_availability_end l) of
             None \<Rightarrow> [] | Some b \<Rightarrow> '' '' @ u_endash @ '' '' @ fmt_d (date_of b)))]"

definition queue_controls :: "queue_page \<Rightarrow> client_listing \<Rightarrow> queue_act jsx list" where
  "queue_controls p l =
     only_if (li_status l \<in> {SUBMITTED, UNDER_REVIEW, CHANGES_REQUESTED}) [
       El ''textarea'' [Attr ''value'' (opt_str_or (qp_feedback p (li_id l)) []), On ''onChange'' (QuFeedback (li_id l)),
         Attr ''placeholder'' ''Feedback for the seller'', Attr ''rows'' ''3''] [],
       El ''div'' [] [
         Action ''Check'' ''Approve'' (QuReview (li_id l) ''APPROVE'') False,
         Action ''MessageSquareText'' ''Changes'' (QuReview (li_id l) ''REQUEST_CHANGES'') False,
         Action ''X'' ''Reject'' (QuReview (li_id l) ''REJECT'') True]] @
     only_if (li_status l = APPROVED) [El ''div'' [] [
       El ''p'' [] [Txt ''Set the final auction schedule''],
       El ''p'' [] [Txt (''This overrides the seller'' @ u_rsquo @ ''s availability preference. Users see these final times and registration closes five minutes before the start time.'')],
       El ''label'' [] [Txt ''Final start'', El ''input'' [Attr ''type'' ''datetime-local'', On ''onChange'' (QuStart (li_id l))] []],
       El ''label'' [] [Txt ''Final end'', El ''input'' [Attr ''type'' ''datetime-local'', On ''onChange'' (QuEnd (li_id l))] []],
       El ''button'' [onClick (QuSchedule (li_id l))] [El ''CalendarClock'' [] [], Txt '' Schedule auction'']]]"

definition queue_item :: "date_parser \<Rightarrow> (int option \<Rightarrow> string) \<Rightarrow> (rat \<Rightarrow> string) \<Rightarrow> queue_page \<Rightarrow> client_listing \<Rightarrow> queue_act jsx" where
  "queue_item date_of fmt_d fmt_num p l =
     El ''article'' [Attr ''key'' (li_id l)] [
       queue_facts fmt_num l,
       El ''div'' [] (
         queue_more date_of fmt_d fmt_num l #
         only_if (opt_str_or (li_pickup_terms l) [] \<noteq> []) [El ''p'' [] [El ''strong'' [] [Txt ''Terms:''], Txt ('' '' @ opt_str_or (li_pickup_terms l) [])]] @
         queue_controls p l @
         only_if (opt_str_or (li_admin_feedback l) [] \<noteq> [])
           [El ''p'' [] [El ''strong'' [] [Txt ''Latest feedback:''], Txt ('' '' @ opt_str_or (li_admin_feedback l) [])]])]"

definition queue_error :: "queue_page \<Rightarrow> string option" where
  "queue_error p = (case qp_review_error p of Some m \<Rightarrow> Some m | None \<Rightarrow> qp_schedule_error p)"

definition ListingReviewQueue ::
  "date_parser \<Rightarrow> (int option \<Rightarrow> string) \<Rightarrow> (rat \<Rightarrow> string) \<Rightarrow> bool \<Rightarrow> client_listing list \<Rightarrow> queue_page \<Rightarrow> queue_act jsx" where
  "ListingReviewQueue date_of fmt_d fmt_num isLoading ls p =
     El ''section'' [] ([
       El ''div'' [] [El ''h2'' [] [Txt ''Seller review queue''],
         El ''p'' [] [Txt ''Review full listing details, provide feedback, and schedule approved auctions.'']],
       El ''div'' [] (map (queue_item date_of fmt_d fmt_num p) ls @
         only_if isLoading [El ''p'' [] [El ''Loader2'' [] [], Txt '' Loading review queue...'']] @
         only_if (\<not> isLoading \<and> ls = []) [El ''p'' [] [Txt ''No seller submissions yet.'']])] @
       (case queue_error p of None \<Rightarrow> [] | Some m \<Rightarrow> [El ''p'' [] [Txt m]]))"

section \<open>Controls and the service\<close>

lemma Detail_triggers [simp]: "triggers ev (Detail n v) = []"
  by (simp add: Detail_def)

lemma facts_triggers [simp]:
  "triggers ''onClick'' (queue_facts fmt_num l) = []" "triggers ''onClick'' (queue_more date_of fmt_d fmt_num l) = []"
  by (auto simp: queue_facts_def queue_more_def view_simps)

lemma item_clicks:
  "triggers ''onClick'' (queue_item date_of fmt_d fmt_num p l) =
    (if reviewable (li_status l) then map (\<lambda>d _. QuReview (li_id l) d) [''APPROVE'', ''REQUEST_CHANGES'', ''REJECT'']
     else if li_status l = APPROVED then [\<lambda>_. QuSchedule (li_id l)] else [])"
  by (auto simp: queue_item_def queue_controls_def Action_def reviewable_def view_simps)

lemma decisions:
  "decision_status ''APPROVE'' = Some APPROVED" "decision_status ''REQUEST_CHANGES'' = Some CHANGES_REQUESTED"
  "decision_status ''REJECT'' = Some REJECTED"
  by code_simp+

lemma review_accepted:
  assumes "db_rows db i = Some r" and "trim fb \<noteq> []" and "decision_status d = Some s"
  shows "(\<exists>db'. review_listing now i admin d (Some fb) db = Inr db') \<longleftrightarrow> reviewable (li_status r)"
  using assms by (simp add: review_listing_def)

lemma create_rules_text: "create_rules a \<noteq> Some ''Only approved listings can be scheduled''"
  by (cases "at_starting_price a") (simp_all add: create_rules_def)

lemma schedule_terms_text: "schedule_terms e r start stop \<noteq> Inl ''Only approved listings can be scheduled''"
  using create_rules_text by (auto simp: schedule_terms_def split: option.splits)

lemma schedule_not_refused:
  assumes "db_rows db i = Some r"
  shows "schedule_begin e i aid start stop db \<noteq> Inl ''Only approved listings can be scheduled'' \<longleftrightarrow> li_status r = APPROVED"
  using assms schedule_terms_text [of e r start stop] by (cases "schedule_terms e r start stop") (auto simp: schedule_begin_def)

text \<open>
  The queue offers what the service accepts: for an item that shows the present status of its row, each of the
  three decisions is offered exactly when the service accepts it with feedback, and scheduling is
  offered exactly when the service does not refuse it for the status of the listing.
\<close>

lemma queue_offers:
  assumes "db_rows db (li_id l) = Some r" and "li_status r = li_status l" and "trim fb \<noteq> []"
    and "d \<in> {''APPROVE'', ''REQUEST_CHANGES'', ''REJECT''}"
  shows "(QuReview (li_id l) d \<in> (\<lambda>h. h []) ` set (triggers ''onClick'' (queue_item date_of fmt_d fmt_num p l)) \<longleftrightarrow>
      (\<exists>db'. review_listing now (li_id l) admin d (Some fb) db = Inr db')) \<and>
    (QuSchedule (li_id l) \<in> (\<lambda>h. h []) ` set (triggers ''onClick'' (queue_item date_of fmt_d fmt_num p l)) \<longleftrightarrow>
      schedule_begin e (li_id l) aid start stop db \<noteq> Inl ''Only approved listings can be scheduled'')"
proof -
  obtain s where "decision_status d = Some s" using assms(4) decisions by auto
  from review_accepted [OF assms(1,3) this, of now admin] schedule_not_refused [OF assms(1), of e aid start stop] show ?thesis
    using assms(2,4) unfolding item_clicks by (auto simp: reviewable_def)
qed

text \<open>
  Two of the offered decisions need feedback: with an empty text the queue sends \<open>null\<close>, and the service
  refuses the request.
\<close>

lemma blank_feedback_refused:
  "d \<in> {''REQUEST_CHANGES'', ''REJECT''} \<Longrightarrow>
    review_listing now i admin d (filled (qp_feedback queue_init i)) db = Inl ''Feedback is required for changes or rejection''"
  by (auto simp: review_listing_def decisions queue_init_def filled_def trim_def)

text \<open>
  The seller's page offers an edit exactly when the service accepts one: the link to the form is in the row
  of a listing of one's own exactly when saving a valid payload succeeds.
\<close>

lemma row_links:
  "El ''Link'' [Attr ''href'' (''/sell/'' @ li_id l @ ''/edit''), Attr ''aria-label'' (''Edit '' @ li_title l)] [El ''Pencil'' [] []]
      \<in> set (elements ''Link'' (SellerListingRow date_of fmt_d fmt_dt now opened hist a l)) \<longleftrightarrow> editable (li_status l)"
  by (auto simp: SellerListingRow_def Let_def view_simps editable_def history_item_def StatusBadge_def split: option.splits)

lemma edit_offered:
  assumes "db_rows db (li_id l) = Some r" and "li_status r = li_status l" and "li_seller_id r = seller" and "read_payload e q = Inr x"
  shows "El ''Link'' [Attr ''href'' (''/sell/'' @ li_id l @ ''/edit''), Attr ''aria-label'' (''Edit '' @ li_title l)] [El ''Pencil'' [] []]
      \<in> set (elements ''Link'' (SellerListingRow date_of fmt_d fmt_dt now opened hist a l)) \<longleftrightarrow>
    (\<exists>db'. update_listing e now' (li_id l) seller q db = Inr db')"
  unfolding row_links using assms by (simp add: update_listing_def)

end
