(* ===== verification/Account_Pages.thy ===== *)
theory Account_Pages
  imports Shell
begin

text \<open>
  The pages around an account: \<open>app/signup/page.tsx\<close> with its two steps, \<open>app/forgot-password/page.tsx\<close>,
  \<open>app/verify-email/page.tsx\<close>, the profile (\<open>components/profile/UserProfile.tsx\<close>, \<open>app/profile/page.tsx\<close>,
  \<open>SellerProfileBadge.tsx\<close>), \<open>app/settings/page.tsx\<close> and \<open>app/notifications/page.tsx\<close>.
\<close>

section \<open>Signing up\<close>

record signup_data =
  sg_name :: string
  sg_company_name :: string
  sg_email :: string
  sg_password :: string
  sg_role_type :: string

record signup_page =
  sg_step2 :: bool
  sg_data :: signup_data
  sg_otp :: string
  sg_toast :: "toast option"
  sg_sending :: bool
  sg_signing :: bool

definition signup_init :: signup_page where
  "signup_init = \<lparr>sg_step2 = False,
     sg_data = \<lparr>sg_name = [], sg_company_name = [], sg_email = [], sg_password = [], sg_role_type = ''CARRIER''\<rparr>,
     sg_otp = [], sg_toast = None, sg_sending = False, sg_signing = False\<rparr>"

text \<open>The fields of the first form; \<open>values\<close> is what \<open>FormData.get\<close> gives.\<close>

definition signup_fields :: "(string \<Rightarrow> string option) \<Rightarrow> signup_data" where
  "signup_fields values = \<lparr>sg_name = trim (opt_str_or (values ''name'') []),
     sg_company_name = trim (opt_str_or (values ''company_name'') []),
     sg_email = to_lower (trim (opt_str_or (values ''email'') [])),
     sg_password = opt_str_or (values ''password'') [],
     sg_role_type = opt_str_or (values ''role_type'') ''CARRIER''\<rparr>"

definition auth_request :: "string option \<Rightarrow> string \<Rightarrow> json \<Rightarrow> http_request" where
  "auth_request env path body = \<lparr>rq_method = ''POST'', rq_url = api_url env @ ''/api/auth/'' @ path,
     rq_headers = [json_content], rq_body = Some body\<rparr>"

definition send_otp_request :: "string option \<Rightarrow> string \<Rightarrow> http_request" where
  "send_otp_request env email = auth_request env ''send-otp'' (JObj [(''email'', JStr email)])"

definition signup_request :: "string option \<Rightarrow> signup_data \<Rightarrow> string \<Rightarrow> http_request" where
  "signup_request env d otp = auth_request env ''signup'' (JObj [
     (''name'', JStr (sg_name d)), (''company_name'', JStr (sg_company_name d)), (''email'', JStr (sg_email d)),
     (''password'', JStr (sg_password d)), (''role_type'', JStr (sg_role_type d)), (''otp'', JStr otp)])"

text \<open>The answer to the first request is not read when it is accepted; that to the second one is.\<close>

definition otp_settled :: "unit reply \<Rightarrow> signup_page \<Rightarrow> signup_page" where
  "otp_settled rep p = (let p = p\<lparr>sg_sending := False\<rparr> in
     case rep of
       NotOk _ err \<Rightarrow> p\<lparr>sg_toast := Some \<lparr>to_message = ''Error: '' @ opt_str_or err ''Failed to send OTP'', to_type = ToastError\<rparr>\<rparr>
     | NetworkError m \<Rightarrow> p\<lparr>sg_toast := Some \<lparr>to_message = ''Error: '' @ m, to_type = ToastError\<rparr>\<rparr>
     | _ \<Rightarrow> p\<lparr>sg_step2 := True\<rparr>)"

definition signup_failed :: "string \<Rightarrow> signup_page \<Rightarrow> signup_page" where
  "signup_failed m p = p\<lparr>sg_toast := Some \<lparr>to_message = ''Signup failed: '' @ m, to_type = ToastError\<rparr>\<rparr>"

definition signup_settled :: "signin_data reply \<Rightarrow> signup_page \<times> storage \<Rightarrow> (signup_page \<times> storage) \<times> string option" where
  "signup_settled rep ps = (case ps of (p, st) \<Rightarrow> let p = p\<lparr>sg_signing := False\<rparr> in
     case rep of
       Ok d \<Rightarrow> ((p, store_signin d st), Some (if sd_role d = ''CUSTOMER'' then ''/seller/dashboard'' else ''/dashboard''))
     | NotOk _ err \<Rightarrow> ((signup_failed (opt_str_or err ''Unknown error'') p, st), None)
     | BadBody m \<Rightarrow> ((signup_failed m p, st), None)
     | NetworkError m \<Rightarrow> ((signup_failed m p, st), None))"

text \<open>What the user and the answers do. The world records the requests and storage.\<close>

datatype signup_act = SgSubmit | SgCode string | SgVerify | SgBack | SgCloseToast

record signup_world =
  sw_page :: signup_page
  sw_storage :: storage
  sw_requests :: "http_request list"
  sw_coded :: "string set"

definition signup_start :: "storage \<Rightarrow> signup_world" where
  "signup_start st = \<lparr>sw_page = signup_init, sw_storage = st, sw_requests = [], sw_coded = {}\<rparr>"

text \<open>\<open>sw_coded\<close>: the addresses for which the service has accepted a request for a code.\<close>

definition signup_accepted :: "unit reply \<Rightarrow> bool" where
  "signup_accepted rep = (case rep of Ok _ \<Rightarrow> True | BadBody _ \<Rightarrow> True | _ \<Rightarrow> False)"

text \<open>
  A form is there in its step only, and its submit button is disabled while its request is under way.
\<close>

inductive signup_step :: "string option \<Rightarrow> signup_world \<Rightarrow> signup_world \<Rightarrow> bool" for env where
  Submit: "\<not> sg_step2 (sw_page w) \<Longrightarrow> \<not> sg_sending (sw_page w) \<Longrightarrow> d = signup_fields values \<Longrightarrow>
    signup_step env w (w\<lparr>sw_page := (sw_page w)\<lparr>sg_data := d, sg_sending := True\<rparr>,
      sw_requests := sw_requests w @ [send_otp_request env (sg_email d)]\<rparr>)"
| Otp: "sg_sending (sw_page w) \<Longrightarrow>
    signup_step env w (w\<lparr>sw_page := otp_settled rep (sw_page w),
      sw_coded := (if signup_accepted rep then insert (sg_email (sg_data (sw_page w))) (sw_coded w) else sw_coded w)\<rparr>)"
| Code: "sg_step2 (sw_page w) \<Longrightarrow> signup_step env w (w\<lparr>sw_page := (sw_page w)\<lparr>sg_otp := s\<rparr>\<rparr>)"
| Verify: "sg_step2 (sw_page w) \<Longrightarrow> \<not> sg_signing (sw_page w) \<Longrightarrow>
    signup_step env w (w\<lparr>sw_page := (sw_page w)\<lparr>sg_signing := True\<rparr>,
      sw_requests := sw_requests w @ [signup_request env (sg_data (sw_page w)) (sg_otp (sw_page w))]\<rparr>)"
| Signed: "sg_signing (sw_page w) \<Longrightarrow> signup_settled rep (sw_page w, sw_storage w) = ((p, st), loc) \<Longrightarrow>
    signup_step env w (w\<lparr>sw_page := p, sw_storage := st\<rparr>)"
| Back: "sg_step2 (sw_page w) \<Longrightarrow> signup_step env w (w\<lparr>sw_page := (sw_page w)\<lparr>sg_step2 := False\<rparr>\<rparr>)"
| CloseToast: "signup_step env w (w\<lparr>sw_page := (sw_page w)\<lparr>sg_toast := None\<rparr>\<rparr>)"

inductive_cases signup_stepE: "signup_step env w w'"

text \<open>The rendered page.\<close>

definition icon_input :: "string \<Rightarrow> string \<Rightarrow> 'a attr list \<Rightarrow> 'a jsx" where
  "icon_input label icon as = El ''div'' [] [El ''label'' [] [Txt label], El ''div'' [] [El icon [] [], El ''input'' as []]]"

definition signup_marketing :: "'a jsx" where
  "signup_marketing =
     El ''div'' [] [
       El ''div'' [] [], El ''div'' [] [],
       El ''div'' [] [
         El ''Link'' [Attr ''href'' ''/''] [El ''Gavel'' [] [], El ''span'' [] [Txt ''ProcureX'']],
         El ''motion.div'' [] [
           El ''h2'' [] [Txt ''Your gateway to the global logistics market.''],
           El ''p'' [] [Txt ''Create your free account today. Shippers save up to 20% on freight costs via Reverse Auctions, and brokers can effortlessly liquidate lost cargo via Forward Auctions.''],
           El ''div'' [] [
             El ''div'' [] [El ''h4'' [] [Txt ''$50M+''], El ''p'' [] [Txt ''In processed freight'']],
             El ''div'' [] [El ''h4'' [] [Txt ''99.9%''], El ''p'' [] [Txt ''Platform uptime'']]]]]]"

definition signup_form1 :: "bool \<Rightarrow> signup_act jsx" where
  "signup_form1 sending =
     El ''form'' [On ''onSubmit'' (\<lambda>_. SgSubmit)] [
       El ''div'' [] [
         icon_input ''Full Name'' ''User'' [Attr ''name'' ''name'', Attr ''type'' ''text'', Flag ''required'' True, Attr ''placeholder'' ''Enter your full name''],
         icon_input ''Company Name'' ''Building2'' [Attr ''name'' ''company_name'', Attr ''type'' ''text'', Attr ''placeholder'' ''Enter your business name'']],
       El ''div'' [] [El ''label'' [] [Txt ''Account Type''], El ''div'' [] [
         El ''select'' [Attr ''name'' ''role_type'', Flag ''required'' True, Attr ''defaultValue'' ''CARRIER''] [
           El ''option'' [Attr ''value'' ''CARRIER''] [Txt ''Bidder - browse and bid in auctions''],
           El ''option'' [Attr ''value'' ''CUSTOMER''] [Txt ''Seller - submit products for auction'']],
         El ''div'' [] [El ''svg'' [] []]]],
       icon_input ''Email Address'' ''Mail'' [Attr ''name'' ''email'', Attr ''type'' ''email'', Flag ''required'' True, Attr ''placeholder'' ''name@company.com''],
       icon_input ''Password'' ''Lock'' [Attr ''name'' ''password'', Attr ''type'' ''password'', Flag ''required'' True, Attr ''minLength'' ''6'',
         Attr ''placeholder'' (concat (replicate 8 u_bullet))],
       El ''button'' [Attr ''type'' ''submit'', Flag ''disabled'' sending]
         (if sending then [El ''Loader2'' [] [], Txt '' Sending...''] else [Txt ''Continue '', El ''ArrowRight'' [] []])]"

definition signup_form2 :: "signup_page \<Rightarrow> signup_act jsx" where
  "signup_form2 p =
     El ''form'' [On ''onSubmit'' (\<lambda>_. SgVerify)] [
       icon_input ''Verification Code'' ''Lock'' [Attr ''type'' ''text'', Flag ''required'' True, Attr ''value'' (sg_otp p), On ''onChange'' SgCode,
         Attr ''maxLength'' ''6'', Attr ''placeholder'' ''123456''],
       El ''button'' [Attr ''type'' ''submit'', Flag ''disabled'' (sg_signing p)]
         (if sg_signing p then [El ''Loader2'' [] [], Txt '' Verifying...''] else [Txt ''Verify & Complete Signup '', El ''ArrowRight'' [] []]),
       El ''button'' [Attr ''type'' ''button'', onClick SgBack] [Txt ''Back to edit details'']]"

definition signup_footer :: "'a jsx" where
  "signup_footer = El ''p'' [] [Txt ''Already have an account? '', El ''Link'' [Attr ''href'' ''/login''] [Txt ''Sign in'']]"

definition SignupPage :: "signup_page \<Rightarrow> signup_act jsx" where
  "SignupPage p =
     El ''div'' [] [
       toast_or_empty (sg_toast p) SgCloseToast,
       signup_marketing,
       El ''div'' [] [
         El ''div'' [] [El ''ThemeToggle'' [] []],
         El ''div'' [] [], El ''div'' [] [],
         El ''motion.div'' [] [
           El ''div'' [] [
             El ''div'' [] [El (if sg_step2 p then ''Mail'' else ''Gavel'') [] []],
             El ''h1'' [] [Txt (if sg_step2 p then ''Verify Email'' else ''Create an account'')],
             El ''p'' [] [Txt (if sg_step2 p then ''Enter the 6-digit code sent to '' @ sg_email (sg_data p) else ''Join the premier logistics marketplace.'')]],
           (if sg_step2 p then signup_form2 p else signup_form1 (sg_sending p)),
           signup_footer]]]"

section \<open>Forgotten passwords and verification\<close>

record forgot_page =
  fg_submitted :: bool
  fg_toast :: "toast option"
  fg_pending :: bool

definition forgot_init :: forgot_page where
  "forgot_init = \<lparr>fg_submitted = False, fg_toast = None, fg_pending = False\<rparr>"

definition forgot_request :: "string option \<Rightarrow> string \<Rightarrow> http_request" where
  "forgot_request env email = auth_request env ''forgot-password'' (JObj [(''email'', JStr email)])"

datatype forgot_act = FgSubmit | FgCloseToast | FgSettled "unit reply"

fun forgot_step :: "forgot_act \<Rightarrow> forgot_page \<Rightarrow> forgot_page" where
  "forgot_step FgSubmit p = p\<lparr>fg_pending := True\<rparr>"
| "forgot_step FgCloseToast p = p\<lparr>fg_toast := None\<rparr>"
| "forgot_step (FgSettled (NotOk _ err)) p = p\<lparr>fg_pending := False,
     fg_toast := Some \<lparr>to_message = ''Error: '' @ opt_str_or err ''Failed to send reset link'', to_type = ToastError\<rparr>\<rparr>"
| "forgot_step (FgSettled (NetworkError m)) p = p\<lparr>fg_pending := False, fg_toast := Some \<lparr>to_message = ''Error: '' @ m, to_type = ToastError\<rparr>\<rparr>"
| "forgot_step (FgSettled _) p = p\<lparr>fg_pending := False, fg_submitted := True\<rparr>"

definition ForgotPasswordPage :: "forgot_page \<Rightarrow> forgot_act jsx" where
  "ForgotPasswordPage p =
     El ''div'' [] [
       toast_or_empty (fg_toast p) FgCloseToast,
       El ''div'' [] [El ''ThemeToggle'' [] []],
       El ''div'' [] [],
       El ''motion.div'' [] [
         El ''div'' [] [
           El ''div'' [] [El ''Gavel'' [] []],
           El ''h1'' [] [Txt ''Reset Password''],
           El ''p'' [] [Txt ''Enter your email address and we'll send you a link to reset your password.'']],
         (if \<not> fg_submitted p then
            El ''form'' [On ''onSubmit'' (\<lambda>_. FgSubmit)] [
              icon_input ''Email Address'' ''Mail'' [Attr ''type'' ''email'', Flag ''required'' True, Attr ''placeholder'' ''name@company.com''],
              El ''button'' [Attr ''type'' ''submit'', Flag ''disabled'' (fg_pending p)]
                (if fg_pending p then [El ''Loader2'' [] [], Txt '' Sending...''] else [Txt ''Send Reset Link '', El ''Send'' [] []])]
          else El ''motion.div'' [] [
            El ''p'' [] [Txt ''Check your email!''],
            El ''p'' [] [Txt ''If an account exists with that email, a reset link has been sent.'']]),
         El ''div'' [] [El ''Link'' [Attr ''href'' ''/login''] [El ''ArrowLeft'' [] [], Txt '' Back to Sign In'']]]]"

definition VerifyEmailPage :: "'a jsx" where
  "VerifyEmailPage =
     El ''div'' [] [
       El ''div'' [] [El ''ThemeToggle'' [] []],
       El ''div'' [] [],
       El ''motion.div'' [] [
         El ''div'' [] [El ''MailCheck'' [] []],
         El ''h1'' [] [Txt ''Verify your email''],
         El ''p'' [] [Txt ''We've sent a verification link to your email address. Please click the link to activate your AquaBid account.''],
         El ''button'' [] [Txt ''Resend Verification Email''],
         El ''Link'' [Attr ''href'' ''/login''] [Txt ''Proceed to Login '', El ''ArrowRight'' [] []]]]"

section \<open>Profile\<close>

text \<open>\<open>s.split(/\s+/)\<close>.\<close>

function split_spaces :: "string \<Rightarrow> string list" where
  "split_spaces s =
     (case dropWhile (\<lambda>c. \<not> is_space c) s of
        [] \<Rightarrow> [takeWhile (\<lambda>c. \<not> is_space c) s]
      | c # r \<Rightarrow> takeWhile (\<lambda>c. \<not> is_space c) s # split_spaces (dropWhile is_space r))"
  by pat_completeness auto

termination
proof (relation "measure length")
  fix s :: string and c r
  assume "dropWhile (\<lambda>c. \<not> is_space c) s = c # r"
  then have "length (dropWhile is_space r) \<le> length r" "length r < length s"
    using length_dropWhile_le [of is_space r] length_dropWhile_le [of "\<lambda>c. \<not> is_space c" s] by simp_all
  then show "(dropWhile is_space r, s) \<in> measure length" by simp
qed simp

declare split_spaces.simps [simp del]

record profile_form =
  pf_firstName :: string
  pf_lastName :: string
  pf_email :: string
  pf_phone :: string
  pf_companyName :: string
  pf_industry :: string
  pf_shippingVolume :: string
  pf_dotNumber :: string
  pf_fleetSize :: string
  pf_serviceAreas :: string

record profile_page =
  pf_form :: profile_form
  pf_toast :: "toast option"

definition profile_init :: profile_page where
  "profile_init = \<lparr>pf_form = \<lparr>pf_firstName = [], pf_lastName = [], pf_email = [], pf_phone = [], pf_companyName = [], pf_industry = [],
     pf_shippingVolume = ''10-50 loads/month'', pf_dotNumber = ''US-12345678'', pf_fleetSize = ''25-50 trucks'',
     pf_serviceAreas = ''Midwest, Northeast''\<rparr>, pf_toast = None\<rparr>"

definition load_name :: "storage \<Rightarrow> profile_form \<Rightarrow> profile_form" where
  "load_name st f = (let ws = split_spaces (trim (case st ''userName'' of None \<Rightarrow> [] | Some n \<Rightarrow> n))
     in f\<lparr>pf_firstName := hd ws, pf_lastName := join_str '' '' (tl ws)\<rparr>)"

definition save_name :: "profile_form \<Rightarrow> storage \<Rightarrow> storage" where
  "save_name f st = st(''userName'' \<mapsto> trim (pf_firstName f @ '' '' @ pf_lastName f))"

datatype profile_field = PfFirstName | PfLastName | PfEmail | PfPhone | PfCompanyName | PfIndustry | PfShippingVolume
  | PfDotNumber | PfFleetSize | PfServiceAreas

fun profile_change :: "profile_field \<Rightarrow> string \<Rightarrow> profile_form \<Rightarrow> profile_form" where
  "profile_change PfFirstName v f = f\<lparr>pf_firstName := v\<rparr>"
| "profile_change PfLastName v f = f\<lparr>pf_lastName := v\<rparr>"
| "profile_change PfEmail v f = f\<lparr>pf_email := v\<rparr>"
| "profile_change PfPhone v f = f\<lparr>pf_phone := v\<rparr>"
| "profile_change PfCompanyName v f = f\<lparr>pf_companyName := v\<rparr>"
| "profile_change PfIndustry v f = f\<lparr>pf_industry := v\<rparr>"
| "profile_change PfShippingVolume v f = f\<lparr>pf_shippingVolume := v\<rparr>"
| "profile_change PfDotNumber v f = f\<lparr>pf_dotNumber := v\<rparr>"
| "profile_change PfFleetSize v f = f\<lparr>pf_fleetSize := v\<rparr>"
| "profile_change PfServiceAreas v f = f\<lparr>pf_serviceAreas := v\<rparr>"

datatype profile_act = PfMount | PfChange profile_field string | PfSave | PfCloseToast

fun profile_step :: "profile_act \<Rightarrow> profile_page \<times> storage \<Rightarrow> profile_page \<times> storage" where
  "profile_step PfMount (p, st) = (p\<lparr>pf_form := load_name st (pf_form p)\<rparr>, st)"
| "profile_step (PfChange k v) (p, st) = (p\<lparr>pf_form := profile_change k v (pf_form p)\<rparr>, st)"
| "profile_step PfSave (p, st) =
     (p\<lparr>pf_toast := Some \<lparr>to_message = ''Profile saved successfully!'', to_type = ToastSuccess\<rparr>\<rparr>, save_name (pf_form p) st)"
| "profile_step PfCloseToast (p, st) = (p\<lparr>pf_toast := None\<rparr>, st)"

text \<open>The first character of a text: its lead byte and the continuation bytes.\<close>

definition first_char :: "string \<Rightarrow> string" where
  "first_char s = (case s of [] \<Rightarrow> [] | c # r \<Rightarrow> c # takeWhile (\<lambda>c. 128 \<le> (of_char c :: nat) \<and> (of_char c :: nat) < 192) r)"

definition profile_input :: "'a jsx list \<Rightarrow> 'a jsx list \<Rightarrow> string \<Rightarrow> string \<Rightarrow> string \<Rightarrow> (string \<Rightarrow> 'a) \<Rightarrow> 'a attr list \<Rightarrow> 'a jsx" where
  "profile_input label icon ty name v act as = El ''div'' [] [El ''label'' [] label,
     (let field = El ''input'' ([Attr ''type'' ty, Attr ''name'' name, Attr ''value'' v, On ''onChange'' act] @ as) []
      in if icon = [] then field else El ''div'' [] (icon @ [field]))]"

definition profile_select :: "string \<Rightarrow> 'a jsx list \<Rightarrow> string \<Rightarrow> string \<Rightarrow> string list \<Rightarrow> (string \<Rightarrow> 'a) \<Rightarrow> 'a jsx" where
  "profile_select label icon name v opts act = El ''div'' [] [El ''label'' [] [Txt label],
     (let field = El ''select'' [Attr ''name'' name, Attr ''value'' v, On ''onChange'' act] (map (\<lambda>x. El ''option'' [] [Txt x]) opts)
      in if icon = [] then field else El ''div'' [] (icon @ [field]))]"

definition is_seller :: "auth \<Rightarrow> bool" where
  "is_seller a = (map_option ss_role (au_session a) = Some CUSTOMER)"

definition profile_header :: "bool \<Rightarrow> profile_form \<Rightarrow> 'a jsx" where
  "profile_header seller f =
     El ''div'' [] [
       El ''div'' [] [
         El ''div'' [] [],
         El ''div'' [] [El ''span'' [] [Txt (str_or (first_char (pf_firstName f)) ''A''), Txt (first_char (pf_lastName f))]],
         El ''div'' [] [El ''Camera'' [] []]],
       El ''div'' [] [
         El ''div'' [] [El ''BadgeCheck'' [] [], Txt '' Verified Account''],
         El ''h2'' [] [Txt (pf_firstName f @ '' '' @ pf_lastName f)],
         El ''p'' [] [Txt ''Manage your '', El ''span'' [] [Txt (if seller then ''Seller'' else ''Bidder'')], Txt '' account details and preferences.'']]]"

definition profile_personal :: "profile_form \<Rightarrow> profile_act jsx" where
  "profile_personal f =
     El ''section'' [] [
       El ''h3'' [] [El ''span'' [] [El ''User'' [] []], Txt ''Personal Details''],
       El ''div'' [] [
         profile_input [Txt ''First Name''] [] ''text'' ''firstName'' (pf_firstName f) (PfChange PfFirstName) [],
         profile_input [Txt ''Last Name''] [] ''text'' ''lastName'' (pf_lastName f) (PfChange PfLastName) [],
         profile_input [Txt ''Email Address''] [El ''Mail'' [] []] ''email'' ''email'' (pf_email f) (PfChange PfEmail) [],
         profile_input [Txt ''Phone Number''] [El ''Phone'' [] []] ''tel'' ''phone'' (pf_phone f) (PfChange PfPhone) []]]"

definition profile_business :: "bool \<Rightarrow> profile_form \<Rightarrow> profile_act jsx" where
  "profile_business seller f =
     El ''section'' [] [
       El ''h3'' [] [El ''span'' [] [El ''Building'' [] []], Txt ''Business Profile''],
       El ''div'' [] (
         profile_input [Txt ''Company Name''] [El ''Building'' [] []] ''text'' ''companyName'' (pf_companyName f) (PfChange PfCompanyName) [] #
         (if seller then [
            profile_input [Txt ''Industry''] [] ''text'' ''industry'' (pf_industry f) (PfChange PfIndustry) [],
            profile_select ''Average Shipping Volume'' [] ''shippingVolume'' (pf_shippingVolume f)
              [''1-10 loads/month'', ''10-50 loads/month'', ''50-200 loads/month'', ''200+ loads/month''] (PfChange PfShippingVolume)]
          else [
            profile_input [Txt ''Carrier DOT Number '', El ''BadgeCheck'' [] []] [El ''FileText'' [] []] ''text'' ''dotNumber'' (pf_dotNumber f) (PfChange PfDotNumber) [],
            profile_select ''Fleet Size'' [El ''Truck'' [] []] ''fleetSize'' (pf_fleetSize f)
              [''1-5 trucks'', ''5-25 trucks'', ''25-50 trucks'', ''50+ trucks''] (PfChange PfFleetSize),
            profile_input [Txt ''Primary Service Areas''] [El ''MapPin'' [] []] ''text'' ''serviceAreas'' (pf_serviceAreas f) (PfChange PfServiceAreas)
              [Attr ''placeholder'' ''e.g. Midwest, Southeast'']]))]"

definition profile_save :: "'a jsx" where
  "profile_save = El ''div'' [] [El ''button'' [Attr ''type'' ''submit''] [El ''Save'' [] [], Txt '' Save Changes'']]"

definition UserProfile :: "auth \<Rightarrow> profile_page \<Rightarrow> profile_act jsx" where
  "UserProfile a p =
     (let f = pf_form p in
      El ''div'' [] [
        toast_or_empty (pf_toast p) PfCloseToast,
        El ''div'' [] [
          profile_header (is_seller a) f,
          El ''form'' [On ''onSubmit'' (\<lambda>_. PfSave)] [
            profile_personal f,
            profile_business (is_seller a) f,
            profile_save]]])"

definition ProfilePage :: "'a jsx" where
  "ProfilePage =
     El ''div'' [] [
       El ''Sidebar'' [] [],
       El ''main'' [] [
         El ''div'' [] [El ''h1'' [] [Txt ''Account Settings''], El ''p'' [] [Txt ''Manage your personal and business profile details.'']],
         El ''div'' [] [El ''motion.div'' [] [El ''UserProfile'' [] []]]]]"

definition SellerProfileBadge :: "'a jsx" where
  "SellerProfileBadge =
     El ''div'' [] [
       El ''div'' [] [
         El ''div'' [] [
           El ''div'' [] [Txt ''GF''],
           El ''div'' [] [
             El ''h3'' [] [Txt ''Global Freight Co.'', El ''ShieldCheck'' [] []],
             El ''p'' [] [El ''MapPin'' [] [], Txt '' Established 2018'']]],
         El ''div'' [] [
           El ''div'' [] [El ''Star'' [] [], El ''span'' [] [Txt ''4.9'']],
           El ''p'' [] [Txt ''124 Reviews'']]],
       El ''div'' [] [
         El ''div'' [] [El ''p'' [] [Txt ''Total Auctions''], El ''p'' [] [Txt ''342'']],
         El ''div'' [] [El ''p'' [] [Txt ''Response Rate''], El ''p'' [] [Txt ''98%'']]]]"

section \<open>Settings and notifications\<close>

datatype settings_act = SetTheme string

definition preference :: "bool \<Rightarrow> string \<Rightarrow> 'a jsx" where
  "preference checked label = El ''label'' [] [El ''input'' [Attr ''type'' ''checkbox'', Flag ''defaultChecked'' checked] [], El ''span'' [] [Txt label]]"

definition SettingsPage :: "auth \<Rightarrow> string \<Rightarrow> settings_act jsx" where
  "SettingsPage a theme =
     El ''div'' [] [
       El ''Sidebar'' [] [],
       El ''main'' [] [
         El ''div'' [] [El ''div'' [] [
           El ''h1'' [] [El ''SettingsIcon'' [] [], Txt '' Platform Settings''],
           El ''p'' [] [Txt (''Manage your '' @ (if is_seller a then ''seller'' else ''bidder'') @ '' preferences and security.'')]]],
         El ''div'' [] [
           El ''div'' [] [
             El ''button'' [] [El ''BellRing'' [] [], Txt '' Notification Preferences''],
             El ''button'' [] [El ''Shield'' [] [], Txt '' Security & Privacy''],
             El ''button'' [] [El ''CreditCard'' [] [], Txt '' Billing & Escrow'']],
           El ''motion.div'' [] [El ''div'' [] [
             El ''h3'' [] [Txt ''Notification Preferences''],
             El ''form'' [] [
               El ''div'' [] (if is_seller a then [
                 preference True ''Email me when a new bid is placed on my auction'',
                 preference True ''Alert me when a carrier asks a question in the Q&A thread'',
                 preference False ''Daily summary of active auctions'']
               else [
                 preference True ''SMS Alert when I am outbid (Reverse Auction)'',
                 preference True ''Alert me 15 minutes before an auction I bid on ends'',
                 preference False ''Notify me of new auctions matching my Service Areas'']),
               El ''div'' [] [El ''label'' [] [Txt ''Interface Theme''],
                 El ''select'' [Attr ''value'' theme, On ''onChange'' SetTheme] [
                   El ''option'' [Attr ''value'' ''light''] [Txt ''Light Mode''],
                   El ''option'' [Attr ''value'' ''dark''] [Txt ''Dark Mode''],
                   El ''option'' [Attr ''value'' ''system''] [Txt ''System Preference'']]],
               El ''div'' [] [El ''button'' [Attr ''type'' ''button''] [El ''Save'' [] [], Txt '' Save Preferences'']]]]]]]]"

datatype notif_type = NotifAlert | NotifSuccess | NotifInfo | NotifSystem

record notification =
  no_id :: string
  no_type :: notif_type
  no_title :: string
  no_desc :: string
  no_time :: string
  no_read :: bool

definition notif_icon :: "notif_type \<Rightarrow> string" where
  "notif_icon t = (case t of NotifAlert \<Rightarrow> ''TrendingDown'' | NotifSuccess \<Rightarrow> ''CheckCircle2'' | NotifInfo \<Rightarrow> ''Bell'' | NotifSystem \<Rightarrow> ''ShieldAlert'')"

definition notif_card :: "notification \<Rightarrow> 'a jsx" where
  "notif_card n =
     El ''motion.div'' [Attr ''key'' (no_id n), Flag ''read'' (no_read n)] [
       El ''div'' [] [El (notif_icon (no_type n)) [] []],
       El ''div'' [] ([
         El ''div'' [] [El ''h4'' [] [Txt (no_title n)], El ''span'' [] [El ''Clock'' [] [], Txt ('' '' @ no_time n)]],
         El ''p'' [] [Txt (no_desc n)]] @
         only_if (no_type n = NotifAlert) [El ''Link'' [Attr ''href'' ''/shipment/1''] [Txt ''Re-enter Auction'']])]"

definition notifs :: "notification list" where
  "notifs = []"

definition NotificationsPage :: "'a jsx" where
  "NotificationsPage =
     El ''div'' [] [
       El ''Sidebar'' [] [],
       El ''main'' [] [
         El ''div'' [] [
           El ''div'' [] [El ''h1'' [] [El ''Bell'' [] [], Txt '' Notifications''], El ''p'' [] [Txt ''Stay updated on your bids and marketplace activity.'']],
           El ''button'' [] [Txt ''Mark all as read'']],
         El ''div'' [] (if notifs = [] then [El ''div'' [] [El ''Bell'' [] [], El ''p'' [] [Txt ''You have no new notifications.'']]]
           else map notif_card notifs)]]"

section \<open>A code before an account\<close>

definition signup_inv :: "string option \<Rightarrow> signup_world \<Rightarrow> bool" where
  "signup_inv env w = ((sg_step2 (sw_page w) \<longrightarrow> sg_email (sg_data (sw_page w)) \<in> sw_coded w \<and> \<not> sg_sending (sw_page w)) \<and>
     (\<forall>d otp. signup_request env d otp \<in> set (sw_requests w) \<longrightarrow> sg_email d \<in> sw_coded w))"

lemma signup_not_otp [simp]: "signup_request env d otp \<noteq> send_otp_request env' email"
  by (simp add: signup_request_def send_otp_request_def auth_request_def)

lemma signup_request_email: "signup_request env d otp = signup_request env d' otp' \<Longrightarrow> sg_email d = sg_email d'"
  by (simp add: signup_request_def auth_request_def)

lemma otp_settled_frame:
  "sg_data (otp_settled rep p) = sg_data p" "\<not> sg_sending (otp_settled rep p)"
  "sg_step2 (otp_settled rep p) \<longleftrightarrow> sg_step2 p \<or> signup_accepted rep"
  by (cases rep; simp add: otp_settled_def signup_accepted_def)+

lemma signup_settled_frame:
  assumes "signup_settled rep (q, st) = ((p, st'), loc)"
  shows "sg_data p = sg_data q \<and> sg_step2 p = sg_step2 q \<and> sg_sending p = sg_sending q"
  using assms by (cases rep) (auto simp: signup_settled_def signup_failed_def Let_def)

lemma signup_inv_step: "signup_step env w w' \<Longrightarrow> signup_inv env w \<Longrightarrow> signup_inv env w'"
proof (induction rule: signup_step.induct)
  case (Signed w rep p st loc)
  then show ?case using signup_settled_frame [OF Signed(2)] by (simp add: signup_inv_def)
qed (auto simp: signup_inv_def otp_settled_frame dest: signup_request_email)

interpretation signup: step_system "signup_start st" "signup_step env" "signup_inv env" for st env
proof
  show "signup_inv env (signup_start st)" by (simp add: signup_inv_def signup_start_def signup_init_def)
qed (rule signup_inv_step)

text \<open>
  No account without a code: in every history of the page, also when the user goes back and changes the
  details, a request that creates an account is for an address for which the service has accepted a
  request for a code.
\<close>

lemma signup_code_first:
  assumes "(signup_step env)\<^sup>*\<^sup>* (signup_start st) w" and "signup_request env d otp \<in> set (sw_requests w)"
  shows "sg_email d \<in> sw_coded w"
  using signup.reach_inv [OF assms(1)] assms(2) by (auto simp: signup_inv_def)

text \<open>Going back shows the first form empty: it does not depend on the details that were entered.\<close>

lemma back_loses_details: "SignupPage (p\<lparr>sg_step2 := False, sg_data := d\<rparr>) = SignupPage (p\<lparr>sg_step2 := False\<rparr>)"
  by (simp add: SignupPage_def)

section \<open>Names that are saved and loaded\<close>

definition is_word :: "string \<Rightarrow> bool" where
  "is_word w = (w \<noteq> [] \<and> (\<forall>c \<in> set w. \<not> is_space c))"

lemma split_spaces_last:
  "dropWhile (\<lambda>c. \<not> is_space c) s = [] \<Longrightarrow> split_spaces s = [takeWhile (\<lambda>c. \<not> is_space c) s]"
  unfolding split_spaces.simps [of s] by (simp del: dropWhile_eq_Nil_conv)

lemma split_spaces_more:
  "dropWhile (\<lambda>c. \<not> is_space c) s = c # r \<Longrightarrow>
    split_spaces s = takeWhile (\<lambda>c. \<not> is_space c) s # split_spaces (dropWhile is_space r)"
  unfolding split_spaces.simps [of s] by simp

lemma split_spaces_word:
  assumes "is_word w"
  shows "split_spaces w = [w]"
proof -
  have "dropWhile (\<lambda>c. \<not> is_space c) w = []" "takeWhile (\<lambda>c. \<not> is_space c) w = w"
    using assms by (auto simp: is_word_def takeWhile_eq_all_conv)
  then show ?thesis using split_spaces_last [of w] by simp
qed

lemma split_spaces_cons:
  assumes "is_word w" and "is_space c" and "r \<noteq> []" and "\<not> is_space (hd r)"
  shows "split_spaces (w @ c # r) = w # split_spaces r"
proof -
  have "dropWhile (\<lambda>c. \<not> is_space c) (w @ c # r) = c # r" "takeWhile (\<lambda>c. \<not> is_space c) (w @ c # r) = w"
    using assms(1,2) by (simp_all add: is_word_def dropWhile_append3 takeWhile_append2)
  moreover have "dropWhile is_space r = r" using assms(3,4) by (cases r) simp_all
  ultimately show ?thesis using split_spaces_more [of "w @ c # r"] by simp
qed

lemma join_words_hd: "\<forall>w \<in> set (v # ws). is_word w \<Longrightarrow> join_str '' '' (v # ws) \<noteq> [] \<and> \<not> is_space (hd (join_str '' '' (v # ws)))"
  by (cases ws; cases v) (auto simp: is_word_def)

lemma split_join_words: "\<forall>w \<in> set ws. is_word w \<Longrightarrow> ws \<noteq> [] \<Longrightarrow> split_spaces (join_str '' '' ws) = ws"
proof (induction ws rule: induct_list012)
  case (3 v u ws)
  have s: "is_space CHR '' ''" by (simp add: is_space_def)
  show ?case using 3 split_spaces_cons [of v "CHR '' ''" "join_str '' '' (u # ws)", OF _ s] join_words_hd [of u ws] by simp
qed (simp_all add: split_spaces_word)

text \<open>The words of a text with no white space at its ends.\<close>

lemma split_spaces_words:
  assumes "s \<noteq> []" and "\<not> is_space (hd s)" and "\<not> is_space (last s)"
  shows "split_spaces s \<noteq> [] \<and> (\<forall>w \<in> set (split_spaces s). is_word w)"
  using assms
proof (induction s rule: split_spaces.induct)
  case (1 s)
  let ?w = "takeWhile (\<lambda>c. \<not> is_space c) s"
  have w: "is_word ?w" using 1(2,3) by (cases s) (auto simp: is_word_def dest: set_takeWhileD)
  show ?case
  proof (cases "dropWhile (\<lambda>c. \<not> is_space c) s")
    case Nil
    then show ?thesis using w split_spaces_last [OF Nil] by simp
  next
    case (Cons c r)
    have s: "s = ?w @ c # r" using Cons takeWhile_dropWhile_id [of "\<lambda>c. \<not> is_space c" s] by simp
    have c: "is_space c" using hd_dropWhile [of "\<lambda>c. \<not> is_space c" s] Cons by simp
    have "r \<noteq> []" using c s 1(4) by (metis last_snoc append_Nil2 append_Cons)
    then have l: "last r = last s" by (subst s) simp
    let ?r = "dropWhile is_space r"
    have ne: "?r \<noteq> []" using \<open>r \<noteq> []\<close> l 1(4) last_in_set [of r] by (auto simp: dropWhile_eq_Nil_conv)
    have "last ?r = last r" using ne takeWhile_dropWhile_id [of is_space r] by (metis last_appendR)
    then have "split_spaces ?r \<noteq> [] \<and> (\<forall>w \<in> set (split_spaces ?r). is_word w)"
      using 1(1) [OF Cons] ne hd_dropWhile [OF ne] l 1(4) by simp
    then show ?thesis using w split_spaces_more [OF Cons] by simp
  qed
qed

lemma dropWhile_hd: "s = [] \<or> \<not> P (hd s) \<Longrightarrow> dropWhile P s = s"
  by (cases s) auto

lemma trim_fixed: "s = [] \<or> \<not> is_space (hd s) \<and> \<not> is_space (last s) \<Longrightarrow> trim s = s"
  by (auto simp: trim_def dropWhile_hd hd_rev)

lemma join_words_last: "\<forall>w \<in> set ws. is_word w \<Longrightarrow> ws \<noteq> [] \<Longrightarrow> \<not> is_space (last (join_str '' '' ws))"
proof (induction ws rule: induct_list012)
  case (3 v u ws)
  then show ?case using join_words_hd [of u ws] by simp
qed (auto simp: is_word_def)

lemma trim_space_end: "\<not> is_space (last s) \<Longrightarrow> s \<noteq> [] \<Longrightarrow> \<not> is_space (hd s) \<Longrightarrow> trim (s @ '' '') = s"
proof -
  assume "\<not> is_space (last s)" "s \<noteq> []" "\<not> is_space (hd s)"
  moreover have "is_space CHR '' ''" by (simp add: is_space_def)
  ultimately show ?thesis by (simp add: trim_def dropWhile_hd hd_rev)
qed

text \<open>
  A profile's name survives saving: whatever name is stored, loading it into the form and saving the
  form stores a name that loads to the same first and last name, so the page never drifts.
\<close>

lemma profile_roundtrip:
  "load_name (save_name (load_name st f) st') g = g\<lparr>pf_firstName := pf_firstName (load_name st f), pf_lastName := pf_lastName (load_name st f)\<rparr>"
proof -
  let ?n = "trim (case st ''userName'' of None \<Rightarrow> [] | Some n \<Rightarrow> n)"
  let ?ws = "split_spaces ?n"
  have "split_spaces (trim (trim (hd ?ws @ '' '' @ join_str '' '' (tl ?ws)))) = ?ws"
  proof (cases "?n = []")
    case True
    have "split_spaces [] = [[]]" by (simp add: split_spaces_last)
    moreover have "trim ('' '') = []" "trim [] = []" by (simp_all add: trim_def is_space_def)
    ultimately show ?thesis using True by simp
  next
    case False
    obtain w ws where ws: "?ws = w # ws" "\<forall>v \<in> set (w # ws). is_word v"
      using split_spaces_words [OF False] trim_no_outer_space [OF False] by (cases ?ws) auto
    have "trim (w @ '' '' @ join_str '' '' ws) = join_str '' '' (w # ws)"
      using ws(2) join_words_hd [of w ws] join_words_last [of "w # ws"] by (cases ws) (simp_all add: trim_space_end trim_fixed)
    moreover have "trim (join_str '' '' (w # ws)) = join_str '' '' (w # ws)"
      using ws(2) join_words_hd [of w ws] join_words_last [of "w # ws"] by (intro trim_fixed) simp
    ultimately show ?thesis using split_join_words [OF ws(2)] ws(1) by simp
  qed
  then show ?thesis by (simp add: load_name_def save_name_def Let_def)
qed

text \<open>Saving keeps nothing else: two forms with the same name have the same effect on the storage.\<close>

lemma save_keeps_only_name:
  "pf_firstName f = pf_firstName g \<Longrightarrow> pf_lastName f = pf_lastName g \<Longrightarrow> save_name f st = save_name g st"
  by (simp add: save_name_def)

end
