(* ===== verification/Auction_Card.thy ===== *)
theory Auction_Card
  imports Catalogue
begin

text \<open>
  \<open>components/dashboard/ShippingAuctionCard.tsx\<close>: the card with its schedule, its action button
  and the dialogs that register for an auction and leave it. \<open>date_of\<close> is the host's \<open>Date\<close>
  parser and \<open>fmt_date\<close> its printer; a time is an option, \<open>None\<close> for \<open>NaN\<close>, with which every
  comparison is false.
\<close>

section \<open>Schedule\<close>

datatype view_mode = Grid | Strip

record card_props =
  cp_id :: "string option"
  cp_title :: string
  cp_origin :: "string option"
  cp_destination :: "string option"
  cp_distance :: string
  cp_category :: string
  cp_image :: string
  cp_lowestBid :: string
  cp_suppliers :: int
  cp_auctionStartTime :: "string option"
  cp_auctionEndTime :: "string option"
  cp_auctionType :: auction_type
  cp_isRegistered :: bool
  cp_viewMode :: view_mode

text \<open>\<open>replace(' ', 'T')\<close>: the first space.\<close>

fun replace_first :: "char \<Rightarrow> char \<Rightarrow> string \<Rightarrow> string" where
  "replace_first a b [] = []"
| "replace_first a b (c # cs) = (if c = a then b # cs else c # replace_first a b cs)"

definition parseUtcDate :: "date_parser \<Rightarrow> string \<Rightarrow> int option" where
  "parseUtcDate date_of s =
     (if str_includes s '' '' \<and> \<not> str_includes s ''Z'' then date_of (replace_first CHR '' '' CHR ''T'' s @ ''Z'')
      else date_of s)"

definition card_start :: "date_parser \<Rightarrow> int \<Rightarrow> card_props \<Rightarrow> int option" where
  "card_start date_of now p =
     (if str_truthy (cp_auctionStartTime p) then parseUtcDate date_of (the (cp_auctionStartTime p)) else Some now)"

definition card_end :: "date_parser \<Rightarrow> int \<Rightarrow> card_props \<Rightarrow> int option" where
  "card_end date_of now p =
     (if str_truthy (cp_auctionEndTime p) then parseUtcDate date_of (the (cp_auctionEndTime p)) else Some (now + 86400000))"

definition join_time :: "int option \<Rightarrow> int option" where
  "join_time start = map_option (\<lambda>s. s - 5 * 60000) start"

text \<open>Comparisons with a time that may be \<open>NaN\<close>.\<close>

definition lt_time :: "int \<Rightarrow> int option \<Rightarrow> bool" where
  "lt_time now t = (case t of None \<Rightarrow> False | Some x \<Rightarrow> now < x)"

definition ge_time :: "int \<Rightarrow> int option \<Rightarrow> bool" where
  "ge_time now t = (case t of None \<Rightarrow> False | Some x \<Rightarrow> now \<ge> x)"

definition gt_time :: "int \<Rightarrow> int option \<Rightarrow> bool" where
  "gt_time now t = (case t of None \<Rightarrow> False | Some x \<Rightarrow> now > x)"

definition le_time :: "int \<Rightarrow> int option \<Rightarrow> bool" where
  "le_time now t = (case t of None \<Rightarrow> False | Some x \<Rightarrow> now \<le> x)"

record card_action =
  ca_text :: string
  ca_isClosed :: bool
  ca_timeLabel :: string
  ca_timeDiff :: int

definition card_action_of :: "int option \<Rightarrow> int option \<Rightarrow> int \<Rightarrow> bool \<Rightarrow> card_action" where
  "card_action_of start stop now isRegistered =
     (let join = join_time start in
      if now = 0 then \<lparr>ca_text = ''Loading'' @ u_ellipsis, ca_isClosed = False, ca_timeLabel = ''Checking schedule'', ca_timeDiff = 0\<rparr>
      else if gt_time now stop then \<lparr>ca_text = ''Closed'', ca_isClosed = True, ca_timeLabel = ''Ended'', ca_timeDiff = 0\<rparr>
      else if ge_time now start \<and> le_time now stop then
        \<lparr>ca_text = (if isRegistered then ''Enter Console'' else if lt_time now join then ''Join Live'' else ''Registration closed''),
         ca_isClosed = (\<not> isRegistered \<and> ge_time now join), ca_timeLabel = ''Ends in'', ca_timeDiff = the stop - now\<rparr>
      else if lt_time now start then
        \<lparr>ca_text = (if isRegistered then ''Unregister'' else if lt_time now join then ''Register'' else ''Registration closed''),
         ca_isClosed = (\<not> isRegistered \<and> ge_time now join), ca_timeLabel = ''Time left to register'', ca_timeDiff = the join - now\<rparr>
      else \<lparr>ca_text = ''Place Bid'', ca_isClosed = False, ca_timeLabel = [], ca_timeDiff = 0\<rparr>)"

definition card_phase :: "int option \<Rightarrow> int option \<Rightarrow> int \<Rightarrow> string" where
  "card_phase start stop now =
     (if gt_time now stop then ''completed'' else if ge_time now start then ''live'' else ''upcoming'')"

definition displayTime :: "int \<Rightarrow> string" where
  "displayTime timeDiff =
     (let secs = timeDiff div 1000; days = secs div 86400; hours = (secs mod 86400) div 3600;
          minutes = (secs mod 3600) div 60
      in if timeDiff > 0 then
           (if days > 0 then int_str days @ ''d '' @ int_str hours @ ''h '' @ int_str minutes @ ''m''
            else int_str hours @ ''h '' @ int_str minutes @ ''m'')
         else [])"

definition formatCountdown :: "int \<Rightarrow> string" where
  "formatCountdown diff =
     (if diff \<le> 0 then ''00:00:00''
      else let total = diff div 1000; d = total div 86400; h = (total mod 86400) div 3600;
               m = (total mod 3600) div 60; s = total mod 60;
               timeStr = join_str '':'' (map (\<lambda>x. pad_start 2 CHR ''0'' (int_str x)) [h, m, s])
           in if d > 0 then int_str d @ ''d '' @ timeStr else timeStr)"

definition timer_text :: "(int \<Rightarrow> string) \<Rightarrow> int option \<Rightarrow> int \<Rightarrow> string \<Rightarrow> string" where
  "timer_text fmt_date t now passed =
     (case t of None \<Rightarrow> passed
      | Some x \<Rightarrow> if x - now > 0 then fmt_date x @ '' (in '' @ formatCountdown (x - now) @ '')'' else passed)"

text \<open>The pattern for videos: a known extension before a query or the end, in any case.\<close>

definition has_extension :: "string \<Rightarrow> string \<Rightarrow> bool" where
  "has_extension s e = list_ex (\<lambda>t. starts_with t e \<and> (drop (length e) t = [] \<or> hd (drop (length e) t) = CHR ''?'')) (suffixes (to_lower s))"

definition is_video :: "string \<Rightarrow> bool" where
  "is_video src = (list_ex (has_extension src) [''.mp4'', ''.webm'', ''.ogg'', ''.mov''] \<or> str_includes src ''/video/upload/'')"

section \<open>State and operations\<close>

record card =
  cd_now :: int
  cd_toastMsg :: string
  cd_toastType :: toast_type
  cd_showJoinModal :: bool
  cd_showLeaveModal :: bool
  cd_showSuccessModal :: bool

definition card_init :: card where
  "card_init = \<lparr>cd_now = 0, cd_toastMsg = [], cd_toastType = ToastInfo, cd_showJoinModal = False,
     cd_showLeaveModal = False, cd_showSuccessModal = False\<rparr>"

definition card_request :: "string option \<Rightarrow> storage \<Rightarrow> string \<Rightarrow> string \<Rightarrow> http_request" where
  "card_request env st a op = \<lparr>rq_method = ''POST'', rq_url = api_url env @ ''/api/auction/'' @ a @ ''/'' @ op,
     rq_headers = [json_content, bearer (case st ''token'' of None \<Rightarrow> ''null'' | Some t \<Rightarrow> t)], rq_body = None\<rparr>"

text \<open>
  The outcome of \<open>mutationFn\<close>: no error, or the message it throws, with the page the router is
  sent to. \<open>dflt\<close> is the message where the answer has none. The body of an accepted answer is
  not read, so that it may be anything.
\<close>

definition mutation_outcome :: "string option \<Rightarrow> string \<Rightarrow> unit reply \<Rightarrow> string option \<times> string option" where
  "mutation_outcome aid dflt rep =
     (if \<not> str_truthy aid then (Some ''No auction ID'', None)
      else case rep of
        Ok _ \<Rightarrow> (None, None)
      | NotOk code err \<Rightarrow>
          if code = 401 \<or> code = 403 then (Some ''Authentication required. Redirecting...'', Some ''/login'')
          else (Some (opt_str_or err dflt), None)
      | BadBody m \<Rightarrow> (None, None)
      | NetworkError m \<Rightarrow> (Some m, None))"

record card_effect =
  ce_card :: card
  ce_push :: "string option"
  ce_invalidate :: bool

definition joinMutation :: "string option \<Rightarrow> unit reply \<Rightarrow> card \<Rightarrow> card_effect" where
  "joinMutation aid rep c =
     (case mutation_outcome aid ''Failed to register'' rep of
        (None, push) \<Rightarrow> \<lparr>ce_card = c\<lparr>cd_toastMsg := ''Successfully registered for auction!'', cd_toastType := ToastSuccess,
            cd_showJoinModal := False, cd_showSuccessModal := True\<rparr>, ce_push = push, ce_invalidate = True\<rparr>
      | (Some m, push) \<Rightarrow>
          if m = ''You have already joined this auction'' then
            \<lparr>ce_card = c\<lparr>cd_toastMsg := ''You are already registered!'', cd_toastType := ToastInfo, cd_showJoinModal := False\<rparr>,
             ce_push = push, ce_invalidate = True\<rparr>
          else \<lparr>ce_card = c\<lparr>cd_toastMsg := m, cd_toastType := ToastError, cd_showJoinModal := False\<rparr>,
             ce_push = push, ce_invalidate = False\<rparr>)"

definition leaveMutation :: "string option \<Rightarrow> unit reply \<Rightarrow> card \<Rightarrow> card_effect" where
  "leaveMutation aid rep c =
     (case mutation_outcome aid ''Failed to unregister'' rep of
        (None, push) \<Rightarrow> \<lparr>ce_card = c\<lparr>cd_toastMsg := ''Successfully unregistered from auction.'', cd_toastType := ToastInfo,
            cd_showLeaveModal := False\<rparr>, ce_push = push, ce_invalidate = True\<rparr>
      | (Some m, push) \<Rightarrow> \<lparr>ce_card = c\<lparr>cd_toastMsg := m, cd_toastType := ToastError, cd_showLeaveModal := False\<rparr>,
             ce_push = push, ce_invalidate = False\<rparr>)"

text \<open>A template literal prints an absent id as \<open>undefined\<close>.\<close>

definition auction_href :: "string option \<Rightarrow> string" where
  "auction_href aid = ''/auction/'' @ (case aid of None \<Rightarrow> ''undefined'' | Some a \<Rightarrow> a)"

definition handleActionClick :: "card_props \<Rightarrow> string \<Rightarrow> card \<Rightarrow> card \<times> string option" where
  "handleActionClick p actionText c =
     (if actionText = ''Register'' then (c\<lparr>cd_showJoinModal := True\<rparr>, None)
      else if actionText = ''Unregister'' then (c\<lparr>cd_showLeaveModal := True\<rparr>, None)
      else if actionText = ''Enter Console'' then (c, Some (auction_href (cp_id p)))
      else if actionText = ''Join Live'' then (c\<lparr>cd_showJoinModal := True\<rparr>, None)
      else (c, None))"

definition handleCardClick :: "card_props \<Rightarrow> bool \<Rightarrow> string option" where
  "handleCardClick p inActionButton = (if inActionButton then None else Some (auction_href (cp_id p)))"

datatype card_act = CardTick int | DismissToast | ClickAction | ClickCard | CloseJoin | ConfirmJoin | CloseLeave
  | ConfirmLeave | CloseSuccess | Swallow

text \<open>The acts that do not call the server; \<open>Swallow\<close> stops a click inside a dialog.\<close>

fun card_step :: "date_parser \<Rightarrow> card_props \<Rightarrow> card_act \<Rightarrow> card \<Rightarrow> card" where
  "card_step date_of p (CardTick clock) c = c\<lparr>cd_now := clock\<rparr>"
| "card_step date_of p DismissToast c = c\<lparr>cd_toastMsg := []\<rparr>"
| "card_step date_of p ClickAction c =
     fst (handleActionClick p (ca_text (card_action_of (card_start date_of (cd_now c) p) (card_end date_of (cd_now c) p)
       (cd_now c) (cp_isRegistered p))) c)"
| "card_step date_of p CloseJoin c = c\<lparr>cd_showJoinModal := False\<rparr>"
| "card_step date_of p CloseLeave c = c\<lparr>cd_showLeaveModal := False\<rparr>"
| "card_step date_of p CloseSuccess c = c\<lparr>cd_showSuccessModal := False\<rparr>"
| "card_step date_of p _ c = c"

section \<open>Rendering\<close>

definition card_media :: "card_props \<Rightarrow> card_act jsx" where
  "card_media p =
     (if cp_image p \<noteq> [] then
        (if is_video (cp_image p) then El ''video'' [Attr ''src'' (cp_image p), Flag ''muted'' True, Flag ''playsInline'' True, Attr ''preload'' ''metadata''] []
         else El ''img'' [Attr ''src'' (cp_image p), Attr ''alt'' (cp_title p)] [])
      else El ''div'' [] [El ''PackageOpen'' [] []])"

definition card_route :: "card_props \<Rightarrow> card_act jsx" where
  "card_route p =
     (if str_truthy (cp_origin p) \<or> str_truthy (cp_destination p) then
        El ''div'' [] [
          El ''div'' [] [El ''div'' [] [], El ''div'' [] [], El ''MapPin'' [] []],
          El ''div'' [] [
            El ''div'' [] [Txt (opt_str_or (cp_origin p) ''Location not specified'')],
            El ''div'' [] (Txt (opt_str_or (cp_destination p) ''Destination not specified'') #
              only_if (str_truthy (cp_destination p)) [El ''span'' [] [Txt (cp_distance p)]])]]
      else El ''div'' [] [El ''div'' [] [El ''PackageOpen'' [] []],
        Txt (''General auction item '' @ u_middot @ '' no route required'')])"

definition card_body :: "date_parser \<Rightarrow> (int \<Rightarrow> string) \<Rightarrow> card_props \<Rightarrow> card \<Rightarrow> bool \<Rightarrow> bool \<Rightarrow> card_act jsx" where
  "card_body date_of fmt_date p c joinPending leavePending =
     (let now = cd_now c; start = card_start date_of now p; stop = card_end date_of now p; join = join_time start;
          act = card_action_of start stop now (cp_isRegistered p); phase = card_phase start stop now; t = ca_text act;
          strip = (cp_viewMode p = Strip)
      in El ''div'' [onClick ClickCard, Flag ''strip'' strip] [
        El ''div'' [Flag ''strip'' strip] [
          card_media p,
          El ''div'' [] [],
          El ''div'' [Attr ''phase'' phase] [
            (if phase = ''live'' then El ''Radio'' [] [] else if phase = ''upcoming'' then El ''Clock'' [] [] else El ''CheckCircle2'' [] []),
            Txt phase],
          El ''div'' [] [Txt (ca_timeLabel act @
            (if displayTime (ca_timeDiff act) \<noteq> [] then '' '' @ u_middot @ '' '' @ displayTime (ca_timeDiff act) else []))],
          El ''div'' [] [El ''div'' [] [El ''Package'' [] [], Txt ('' '' @ cp_category p)]]],
        El ''div'' [Flag ''strip'' strip] [
          El ''div'' [Flag ''strip'' strip] [
            El ''div'' [] [El ''h4'' [] [Txt (cp_title p)], card_route p],
            El ''div'' [Flag ''strip'' strip] [
              El ''div'' [] [El ''div'' [] [El ''CalendarDays'' [] [], El ''span'' [] [Txt ''Starts'']],
                El ''span'' [] [Txt (timer_text fmt_date start now ''Started'')]],
              El ''div'' [] [El ''div'' [] [El ''Clock'' [] [], El ''span'' [] [Txt ''Join By'']],
                El ''span'' [] [Txt (timer_text fmt_date join now ''Closed'')]]]],
          El ''div'' [Flag ''strip'' strip] [
            El ''div'' [] [
              El ''p'' [] [Txt (if cp_auctionType p = FORWARD then ''Current highest'' else ''Current lowest'')],
              El ''p'' [] [Txt (cp_lowestBid p)],
              El ''p'' [] [El ''Users'' [] [], Txt ('' '' @ int_str (cp_suppliers p) @ '' active bids'')]],
            El ''div'' [onClick ClickAction, Flag ''closed'' (ca_isClosed act), Flag ''unregister'' (t = ''Unregister'')]
              (only_if (joinPending \<and> (t = ''Register'' \<or> t = ''Join Live'') \<or> leavePending \<and> t = ''Unregister'') [El ''Loader2'' [] []] @
               [Txt t])]]])"

definition card_join_modal :: "bool \<Rightarrow> card_act jsx" where
  "card_join_modal pending =
     El ''div'' [onClick CloseJoin] [
       El ''motion.div'' [onClick Swallow] [
         El ''div'' [] [
           El ''h3'' [] [Txt ''Confirm Registration''],
           El ''p'' [] [Txt ''Are you sure you want to register for this auction? By registering, you agree to the terms and conditions.''],
           El ''div'' [] [
             El ''button'' [onClick CloseJoin] [Txt ''Cancel''],
             El ''button'' [onClick ConfirmJoin, Flag ''disabled'' pending]
               (only_if pending [El ''Loader2'' [] []] @ [Txt ''Confirm Registration''])]]]]"

definition card_leave_modal :: "bool \<Rightarrow> card_act jsx" where
  "card_leave_modal pending =
     El ''div'' [onClick CloseLeave] [
       El ''motion.div'' [onClick Swallow] [
         El ''div'' [] [El ''CheckCircle2'' [] []],
         El ''h3'' [] [Txt ''Unregister from Auction''],
         El ''p'' [] [Txt ''Are you sure you want to unregister from this auction? You can register again before the deadline.''],
         El ''div'' [] [
           El ''button'' [onClick CloseLeave, Flag ''disabled'' pending] [Txt ''Cancel''],
           El ''button'' [onClick ConfirmLeave, Flag ''disabled'' pending]
             (only_if pending [El ''Loader2'' [] []] @ [Txt ''Unregister''])]]]"

definition card_success_modal :: "string \<Rightarrow> card_act jsx" where
  "card_success_modal title =
     El ''div'' [onClick CloseSuccess] [
       El ''motion.div'' [onClick Swallow] [
         El ''div'' [] [El ''CheckCircle2'' [] []],
         El ''h3'' [] [Txt ''Registration Successful''],
         El ''p'' [] [Txt ''You are now registered for '', El ''strong'' [] [Txt title],
           Txt ''. You will be able to enter the live auction console when the event starts.''],
         El ''button'' [onClick CloseSuccess] [Txt ''Done'']]]"

definition ShippingAuctionCard ::
  "date_parser \<Rightarrow> (int \<Rightarrow> string) \<Rightarrow> card_props \<Rightarrow> card \<Rightarrow> bool \<Rightarrow> bool \<Rightarrow> card_act jsx list" where
  "ShippingAuctionCard date_of fmt_date p c joinPending leavePending = [
     Toast (cd_toastMsg c) (Some (cd_toastType c)) DismissToast,
     card_body date_of fmt_date p c joinPending leavePending,
     El ''AnimatePresence'' [] (
       only_if (cd_showJoinModal c) [card_join_modal joinPending] @
       only_if (cd_showLeaveModal c) [card_leave_modal leavePending] @
       only_if (cd_showSuccessModal c) [card_success_modal (cp_title p)])]"

section \<open>Registration\<close>

text \<open>
  The card keeps the registration deadline: for a valid schedule, a click on the action
  button opens the registration dialog exactly when the user is not registered and it is more
  than five minutes before the start, opens the dialog to leave exactly when the user is
  registered and the auction has not started, and opens the console exactly when a registered
  user clicks between start and end.
\<close>

lemma action_click_sound:
  assumes "now \<noteq> 0" and "start \<le> stop"
  shows "let t = ca_text (card_action_of (Some start) (Some stop) now reg) in
    (cd_showJoinModal (fst (handleActionClick p t (c\<lparr>cd_showJoinModal := False\<rparr>))) \<longleftrightarrow> \<not> reg \<and> now < start - 300000) \<and>
    (cd_showLeaveModal (fst (handleActionClick p t (c\<lparr>cd_showLeaveModal := False\<rparr>))) \<longleftrightarrow> reg \<and> now < start) \<and>
    (snd (handleActionClick p t c) = Some (auction_href (cp_id p)) \<longleftrightarrow> reg \<and> start \<le> now \<and> now \<le> stop)"
proof -
  consider "stop < now" | "start \<le> now" "now \<le> stop" | "now < start" by linarith
  then show ?thesis
  proof cases
    case 1
    then have "ca_text (card_action_of (Some start) (Some stop) now reg) = ''Closed''"
      using assms by (simp add: card_action_of_def gt_time_def Let_def)
    then show ?thesis using 1 assms by (simp add: handleActionClick_def Let_def)
  next
    case 2
    then have "ca_text (card_action_of (Some start) (Some stop) now reg) = (if reg then ''Enter Console'' else ''Registration closed'')"
      using assms by (simp add: card_action_of_def gt_time_def ge_time_def le_time_def lt_time_def join_time_def Let_def)
    then show ?thesis using 2 assms by (simp add: handleActionClick_def Let_def)
  next
    case 3
    then have "ca_text (card_action_of (Some start) (Some stop) now reg) =
      (if reg then ''Unregister'' else if now < start - 300000 then ''Register'' else ''Registration closed'')"
      using assms by (simp add: card_action_of_def gt_time_def ge_time_def le_time_def lt_time_def join_time_def Let_def)
    then show ?thesis using 3 assms by (simp add: handleActionClick_def Let_def)
  qed
qed

text \<open>
  A live auction can never be joined from the card: whatever the schedule, valid or not, and
  the time, the button never says Join Live, because the deadline lies before the start.
\<close>

lemma join_live_unreachable:
  "ca_text (card_action_of start stop now reg) \<noteq> ''Join Live''"
  by (auto simp: card_action_of_def Let_def join_time_def lt_time_def ge_time_def split: option.splits)

text \<open>
  An answer to a registration always closes the dialog that asked for it, shows a message,
  and reports success exactly when the server accepted; a rejected credential sends the user to the
  sign-in page.
\<close>

lemma join_outcomes:
  assumes "str_truthy aid"
  shows "\<not> cd_showJoinModal (ce_card (joinMutation aid rep c)) \<and>
    (cd_toastType (ce_card (joinMutation aid rep c)) = ToastSuccess \<longleftrightarrow> (case rep of Ok _ \<Rightarrow> True | BadBody _ \<Rightarrow> True | _ \<Rightarrow> False)) \<and>
    (ce_push (joinMutation aid rep c) = Some ''/login'' \<longleftrightarrow> (\<exists>err. rep = NotOk 401 err \<or> rep = NotOk 403 err))"
  using assms by (cases rep) (auto simp: joinMutation_def mutation_outcome_def)

section \<open>The end of an auction\<close>

text \<open>
  The views disagree at the very end: in the millisecond of the end time the marketplace
  page has dropped the auction as ended, while the card still shows it live and the store still
  has it active.
\<close>

lemma end_instant_disagreement:
  assumes "date_of (it_auction_start_time a) = Some start" and "date_of (it_auction_end_time a) = Some stop"
    and "start \<le> stop"
  shows "phaseOf date_of a stop = PhaseEnded \<and> card_phase (Some start) (Some stop) stop = ''live'' \<and>
    status_at stop start stop = Active"
  using assms by (simp add: phaseOf_def card_phase_def gt_time_def ge_time_def status_at_def)

end
