(* ===== verification/Dashboards.thy ===== *)
theory Dashboards
  imports Auction_Card
begin

text \<open>
  The pages behind the sign-in: \<open>components/Dashboard.tsx\<close> with
  \<open>components/dashboard/DashboardOverview.tsx\<close> and \<open>ReverseAuctionsView.tsx\<close>, the search bar
  and results (\<open>components/SearchBar.tsx\<close>, \<open>SearchResults.tsx\<close>), the bidding history
  (\<open>app/history/page.tsx\<close>) and the administrator's console (\<open>app/admin/page.tsx\<close>). A card
  appears as an element with the key of its auction; \<open>card_of\<close> has its properties.
\<close>

section \<open>Cards of a list\<close>

definition price_label :: "rat option \<Rightarrow> string" where
  "price_label p = ''$'' @ num_str (Fin (case p of None \<Rightarrow> 0 | Some r \<Rightarrow> r))"

definition count_or_zero :: "int option \<Rightarrow> int" where
  "count_or_zero n = (case n of None \<Rightarrow> 0 | Some k \<Rightarrow> k)"

definition card_of :: "view_mode \<Rightarrow> auction_item \<Rightarrow> card_props" where
  "card_of vm a = \<lparr>cp_id = Some (it_id a), cp_title = it_title a, cp_origin = it_origin_address a,
     cp_destination = it_dest_address a, cp_distance = ''Calculating...'',
     cp_category = opt_str_or (it_item_category a) ''General'', cp_image = first_media a,
     cp_lowestBid = price_label (it_starting_price a), cp_suppliers = count_or_zero (it_participants_count a),
     cp_auctionStartTime = Some (it_auction_start_time a), cp_auctionEndTime = Some (it_auction_end_time a),
     cp_auctionType = it_auction_type a,
     cp_isRegistered = (it_is_registered a = Some True), cp_viewMode = vm\<rparr>"

definition card_el :: "auction_item \<Rightarrow> 'a jsx" where
  "card_el a = El ''ShippingAuctionCard'' [Attr ''key'' (it_id a)] []"

definition auctions_request :: "string option \<Rightarrow> storage \<Rightarrow> string \<Rightarrow> http_request" where
  "auctions_request env st path = \<lparr>rq_method = ''GET'', rq_url = api_url env @ path,
     rq_headers = [bearer (case st ''token'' of None \<Rightarrow> ''null'' | Some t \<Rightarrow> t)], rq_body = None\<rparr>"

text \<open>
  \<open>useAuctions\<close> of the dashboard and of the history: the list of the answer, the empty one before it, after a failed request
  and where the list is missing; each asks its own address.
\<close>

definition useAuctions :: "auction_item list option reply option \<Rightarrow> auction_item list" where
  "useAuctions r = (case r of Some (Ok (Some as)) \<Rightarrow> as | _ \<Rightarrow> [])"

definition bid_history_request :: "string option \<Rightarrow> storage \<Rightarrow> http_request" where
  "bid_history_request env st = auctions_request env st ''/api/auction/history''"

definition dashboard_request :: "string option \<Rightarrow> storage \<Rightarrow> http_request" where
  "dashboard_request env st = auctions_request env st ''/api/auction''"

section \<open>Dashboard\<close>

record overview =
  ov_selectedCategory :: string
  ov_viewMode :: view_mode

definition overview_init :: overview where
  "overview_init = \<lparr>ov_selectedCategory = ''All'', ov_viewMode = Grid\<rparr>"

datatype overview_act = PickCategory string | SetViewMode view_mode

fun overview_step :: "overview_act \<Rightarrow> overview \<Rightarrow> overview" where
  "overview_step (PickCategory c) o' = o'\<lparr>ov_selectedCategory := c\<rparr>"
| "overview_step (SetViewMode v) o' = o'\<lparr>ov_viewMode := v\<rparr>"

definition overview_categories :: "auction_item list \<Rightarrow> (string \<times> nat) list" where
  "overview_categories as = count_by (category_or ''General'') as"

definition overview_filtered :: "string \<Rightarrow> auction_item list \<Rightarrow> auction_item list" where
  "overview_filtered sel as = filter (\<lambda>a. sel = ''All'' \<or> category_or ''General'' a = sel) as"

definition overview_cards :: "overview \<Rightarrow> auction_item list \<Rightarrow> card_props list" where
  "overview_cards o' as = map (card_of (ov_viewMode o')) (take 8 (overview_filtered (ov_selectedCategory o') as))"

definition DashboardOverview :: "auction_item list \<Rightarrow> string option \<Rightarrow> overview \<Rightarrow> overview_act jsx list" where
  "DashboardOverview as userRole o' =
     (let filtered = overview_filtered (ov_selectedCategory o') as in [
      El ''div'' [] [
        El ''div'' [] [El ''h1'' [] [Txt ''Executive Dashboard'']],
        El ''div'' [] (
          El ''Link'' [Attr ''href'' ''/notifications''] [El ''div'' [] [], El ''svg'' [] []] #
          only_if (userRole = Some ''ADMIN'')
            [El ''Link'' [Attr ''href'' ''/auction/new''] [El ''Factory'' [] [], Txt '' Create Auction'']])],
      El ''motion.div'' [] [
        El ''motion.div'' [] [
          El ''div'' [] [
            El ''div'' [] [
              El ''h2'' [] [Txt ''Live Auction Marketplace''],
              El ''p'' [] [Txt ''Bid up in forward auctions or bid down in reverse auctions.'']]],
          El ''div'' [] [
            El ''div'' [] [
              El ''div'' [] (map (\<lambda>category.
                El ''button'' [Attr ''key'' category, Attr ''type'' ''button'', onClick (PickCategory category),
                    Flag ''selected'' (ov_selectedCategory o' = category)]
                  [El ''span'' [] [El (if category = ''All'' then ''PackageOpen'' else categoryIcon category) [] []], Txt category])
                (''All'' # map fst (overview_categories as))),
              El ''div'' [] [
                El ''button'' [onClick (SetViewMode Grid), Flag ''selected'' (ov_viewMode o' = Grid), Attr ''title'' ''Grid View''] [El ''LayoutGrid'' [] []],
                El ''button'' [onClick (SetViewMode Strip), Flag ''selected'' (ov_viewMode o' = Strip), Attr ''title'' ''List View''] [El ''List'' [] []]]]],
          El ''div'' [Flag ''grid'' (ov_viewMode o' = Grid)] (
            map card_el (take 8 filtered) @
            only_if (filtered = []) [El ''p'' [] [Txt ''No active auctions right now.'']])]]])"

definition ReverseAuctionsView :: "auction_item list \<Rightarrow> 'a jsx" where
  "ReverseAuctionsView as =
     El ''div'' [] [
       El ''div'' [] [
         El ''div'' [] [
           El ''h1'' [] [Txt ''Auction Marketplace''],
           El ''p'' [] [Txt ''Browse items, services, assets, contracts, and logistics events.'']],
         El ''div'' [] [El ''AuctionSearch'' [] []]],
       El ''div'' [] (map card_el as @ only_if (as = []) [El ''p'' [] [Txt ''No active auctions right now.'']])]"

definition Dashboard :: "ui_state \<Rightarrow> string option \<Rightarrow> auction_item list \<Rightarrow> overview \<Rightarrow> overview_act jsx" where
  "Dashboard u userRole as o' =
     El ''div'' [] (
       (if activeTab u = ''dashboard'' then DashboardOverview as userRole o' else []) @
       only_if (activeTab u = ''reverse'') [ReverseAuctionsView as] @
       only_if (userRole = Some ''ADMIN'') [El ''div'' [] [
         El ''Link'' [Attr ''href'' ''/auction/new''] [El ''Factory'' [] [], Txt ''Create New Auction'']]])"

section \<open>Search\<close>

text \<open>\<open>encodeURIComponent\<close> on the bytes of the text.\<close>

definition uri_plain :: "char \<Rightarrow> bool" where
  "uri_plain c = (let n = of_char c :: nat in
     48 \<le> n \<and> n \<le> 57 \<or> 65 \<le> n \<and> n \<le> 90 \<or> 97 \<le> n \<and> n \<le> 122 \<or> c \<in> set ''-_.!~*'' \<or> c = CHR 0x27 \<or> c = CHR ''('' \<or> c = CHR '')'')"

definition hex_digit :: "nat \<Rightarrow> char" where
  "hex_digit d = char_of (if d < 10 then 48 + d else 55 + d)"

definition encodeURIComponent :: "string \<Rightarrow> string" where
  "encodeURIComponent s = concat (map (\<lambda>c. if uri_plain c then [c]
     else let n = of_char c :: nat in [CHR ''%'', hex_digit (n div 16), hex_digit (n mod 16)]) s)"

definition handleSearch :: "string \<Rightarrow> string option" where
  "handleSearch query = (if trim query \<noteq> [] then Some (''/search?q='' @ encodeURIComponent (trim query)) else None)"

datatype search_act = SetQuery string | SubmitSearch

definition SearchBar :: "string \<Rightarrow> search_act jsx" where
  "SearchBar query =
     El ''form'' [On ''onSubmit'' (\<lambda>_. SubmitSearch)] [
       El ''input'' [Attr ''type'' ''text'', Attr ''placeholder'' ''Search here'', Attr ''value'' query, On ''onChange'' SetQuery] [],
       El ''div'' [] [El ''Search'' [] []]]"

record search_results =
  sr_results :: "auction_item list"
  sr_loading :: bool
  sr_error :: string

definition search_init :: search_results where
  "search_init = \<lparr>sr_results = [], sr_loading = True, sr_error = []\<rparr>"

definition search_request :: "string option \<Rightarrow> string option \<Rightarrow> http_request" where
  "search_request env q = \<lparr>rq_method = ''GET'',
     rq_url = api_url env @ ''/api/search?q='' @ encodeURIComponent (opt_str_or q []), rq_headers = [], rq_body = None\<rparr>"

text \<open>One run of the effect, from its start to the answer.\<close>

definition fetchResults :: "auction_item list option reply \<Rightarrow> search_results \<Rightarrow> search_results" where
  "fetchResults rep s =
     (let s = s\<lparr>sr_loading := True\<rparr>;
          s = (case rep of
                 Ok r \<Rightarrow> s\<lparr>sr_results := (case r of None \<Rightarrow> [] | Some as \<Rightarrow> as)\<rparr>
               | NotOk _ _ \<Rightarrow> s\<lparr>sr_error := ''Failed to fetch search results''\<rparr>
               | BadBody m \<Rightarrow> s\<lparr>sr_error := m\<rparr>
               | NetworkError m \<Rightarrow> s\<lparr>sr_error := m\<rparr>)
      in s\<lparr>sr_loading := False\<rparr>)"

definition SearchResults :: "search_results \<Rightarrow> 'a jsx" where
  "SearchResults s =
     (if sr_loading s then El ''div'' [] (map (\<lambda>i. El ''div'' [Attr ''key'' (nat_str i)] []) [0..<8])
      else if sr_error s \<noteq> [] then El ''div'' [] [Txt (sr_error s)]
      else if sr_results s = [] then El ''div'' [] [
        El ''h3'' [] [Txt ''No results found''], El ''p'' [] [Txt ''Try adjusting your search terms'']]
      else El ''div'' [] (map (\<lambda>a. El ''Link'' [Attr ''key'' (it_id a), Attr ''href'' (''/auction/'' @ it_id a)] [card_el a]) (sr_results s)))"

section \<open>History\<close>

datatype history_tab = TabAll | TabWon

record history =
  hs_activeTab :: history_tab
  hs_currentPage :: int
  hs_myUserId :: "string option"

definition itemsPerPage :: int where "itemsPerPage = 10"

definition history_init :: "storage \<Rightarrow> history" where
  "history_init st = \<lparr>hs_activeTab = TabAll, hs_currentPage = 1, hs_myUserId = st ''userId''\<rparr>"

definition is_mine :: "string option \<Rightarrow> auction_item \<Rightarrow> bool" where
  "is_mine me a = (it_winner_id a = Some me)"

definition winner_of :: "auction_item \<Rightarrow> string option" where
  "winner_of a = (case it_winner_id a of None \<Rightarrow> None | Some w \<Rightarrow> w)"

definition history_filtered :: "history \<Rightarrow> auction_item list \<Rightarrow> auction_item list" where
  "history_filtered h as = (if hs_activeTab h = TabAll then as
     else filter (\<lambda>a. it_is_closed a = Some True \<and> is_mine (hs_myUserId h) a) as)"

text \<open>\<open>Math.ceil(n / 10) || 1\<close>.\<close>

definition totalPages :: "auction_item list \<Rightarrow> int" where
  "totalPages as = (let n = (int (length as) + itemsPerPage - 1) div itemsPerPage in if n = 0 then 1 else n)"

definition startIndex :: "history \<Rightarrow> int" where
  "startIndex h = (hs_currentPage h - 1) * itemsPerPage"

definition page_of :: "int \<Rightarrow> 'b list \<Rightarrow> 'b list" where
  "page_of p as = take (nat itemsPerPage) (drop (nat ((p - 1) * itemsPerPage)) as)"

datatype history_act = SetTab history_tab | PrevPage | NextPage | OpenAuction string

fun history_step :: "auction_item list \<Rightarrow> history_act \<Rightarrow> history \<Rightarrow> history" where
  "history_step as (SetTab t) h = h\<lparr>hs_activeTab := t, hs_currentPage := 1\<rparr>"
| "history_step as PrevPage h = h\<lparr>hs_currentPage := max 1 (hs_currentPage h - 1)\<rparr>"
| "history_step as NextPage h = h\<lparr>hs_currentPage := min (totalPages (history_filtered h as)) (hs_currentPage h + 1)\<rparr>"
| "history_step as (OpenAuction _) h = h"

definition history_isClosed :: "date_parser \<Rightarrow> int \<Rightarrow> auction_item \<Rightarrow> bool" where
  "history_isClosed date_of now a = (case it_is_closed a of Some b \<Rightarrow> b | None \<Rightarrow> ge_time now (date_of (it_auction_end_time a)))"

definition history_status :: "date_parser \<Rightarrow> int \<Rightarrow> string option \<Rightarrow> auction_item \<Rightarrow> string" where
  "history_status date_of now me a =
     (if \<not> history_isClosed date_of now a then ''Active''
      else if is_mine me a then ''Won'' else if str_truthy (winner_of a) then ''Lost'' else ''Closed'')"

definition u_rarr :: string where "u_rarr = [CHR 0xE2, CHR 0x86, CHR 0x92]"

text \<open>\<open>split(/[ T]/)[0]\<close>: the text up to the first space or \<open>T\<close>.\<close>

definition date_part :: "string \<Rightarrow> string" where
  "date_part s = takeWhile (\<lambda>c. c \<noteq> CHR '' '' \<and> c \<noteq> CHR ''T'') s"

definition history_row :: "date_parser \<Rightarrow> int \<Rightarrow> string option \<Rightarrow> auction_item \<Rightarrow> history_act jsx" where
  "history_row date_of now me a =
     El ''motion.tr'' [Attr ''key'' (it_id a),
         onClick (OpenAuction ((if history_isClosed date_of now a then ''/auction/bidinfo/'' else ''/auction/'') @ it_id a))] [
       El ''td'' [] [Txt (take 8 (it_id a) @ ''...'')],
       El ''td'' [] [
         El ''p'' [] [Txt (it_title a)],
         El ''p'' [] [El ''MapPin'' [] [], Txt ('' '' @ opt_str_or (it_item_category a) (opt_str_or (it_origin_address a) ''General item'') @
           (if str_truthy (it_dest_address a) then '' '' @ u_rarr @ '' '' @ the (it_dest_address a) else []))]],
       El ''td'' [] [El ''Clock'' [] [], Txt ('' '' @ date_part (opt_str_or (it_pickup_date a) (it_auction_end_time a)))],
       El ''td'' [] [Txt (case it_starting_price a of None \<Rightarrow> ''Pending''
          | Some r \<Rightarrow> if r = 0 then ''Pending'' else ''$'' @ num_str (Fin r))],
       El ''td'' [] [El ''span'' [] [Txt (history_status date_of now me a)]]]"

definition HistoryPage :: "date_parser \<Rightarrow> int \<Rightarrow> history \<Rightarrow> auction_item list \<Rightarrow> history_act jsx" where
  "HistoryPage date_of now h as =
     (let filtered = history_filtered h as; total = totalPages filtered; page = page_of (hs_currentPage h) filtered in
      El ''div'' [] [
        El ''Sidebar'' [] [],
        El ''main'' [] [
          El ''div'' [] [
            El ''div'' [] [
              El ''h1'' [] [El ''HistoryIcon'' [] [], Txt '' Bidding History''],
              El ''p'' [] [Txt ''Review every auction you joined, across both bid directions.'']],
            El ''div'' [] [
              El ''button'' [onClick (SetTab TabAll), Flag ''selected'' (hs_activeTab h = TabAll)] [Txt ''All Participated''],
              El ''button'' [onClick (SetTab TabWon), Flag ''selected'' (hs_activeTab h = TabWon)] [Txt ''Won Bids'']]],
          El ''div'' [] (
            El ''table'' [] [
              El ''thead'' [] [El ''tr'' [] (map (\<lambda>t. El ''th'' [] [Txt t]) [''Ref ID'', ''Auction item'', ''Date'', ''Final Bid'', ''Status''])],
              El ''tbody'' [] (map (history_row date_of now (hs_myUserId h)) page @
                only_if (page = []) [El ''tr'' [] [El ''td'' [Attr ''colSpan'' ''5''] [Txt
                  (if hs_activeTab h = TabWon then ''You have not won any auctions yet.'' else ''You have not participated in any auctions yet.'')]]])] #
            only_if (filtered \<noteq> []) [El ''div'' [] [
              El ''p'' [] [Txt ''Showing '', El ''span'' [] [Txt (int_str (startIndex h + 1))], Txt '' to '',
                El ''span'' [] [Txt (int_str (min (startIndex h + itemsPerPage) (int (length filtered))))], Txt '' of '',
                El ''span'' [] [Txt (nat_str (length filtered))], Txt '' results''],
              El ''div'' [] [
                El ''button'' [onClick PrevPage, Flag ''disabled'' (hs_currentPage h = 1)] [Txt ''Previous''],
                El ''button'' [onClick NextPage, Flag ''disabled'' (hs_currentPage h = total)] [Txt ''Next'']]]])]])"

section \<open>Administrator's console\<close>

definition admin_status :: "date_parser \<Rightarrow> int \<Rightarrow> auction_item \<Rightarrow> string" where
  "admin_status date_of now a =
     (if lt_time now (date_of (it_auction_start_time a)) then ''Scheduled''
      else if le_time now (date_of (it_auction_end_time a)) then ''Live'' else ''Closed'')"

record admin_metrics =
  am_live :: nat
  am_scheduled :: nat
  am_forward :: nat
  am_reverse :: nat
  am_participants :: int

definition metrics :: "date_parser \<Rightarrow> int \<Rightarrow> auction_item list \<Rightarrow> admin_metrics" where
  "metrics date_of now as = \<lparr>
     am_live = length (filter (\<lambda>a. admin_status date_of now a = ''Live'') as),
     am_scheduled = length (filter (\<lambda>a. admin_status date_of now a = ''Scheduled'') as),
     am_forward = length (filter (\<lambda>a. it_auction_type a = FORWARD) as),
     am_reverse = length (filter (\<lambda>a. it_auction_type a = REVERSE) as),
     am_participants = foldl (\<lambda>total a. total + count_or_zero (it_participants_count a)) 0 as\<rparr>"

definition Metric :: "string \<Rightarrow> int \<Rightarrow> string \<Rightarrow> 'a jsx" where
  "Metric label v icon = El ''div'' [] [El ''div'' [] [El icon [] []], El ''p'' [] [Txt (int_str v)], El ''p'' [] [Txt label]]"

definition type_name :: "auction_type \<Rightarrow> string" where
  "type_name t = (case t of REVERSE \<Rightarrow> ''REVERSE'' | FORWARD \<Rightarrow> ''FORWARD'')"

definition admin_row :: "date_parser \<Rightarrow> (string \<Rightarrow> string) \<Rightarrow> int \<Rightarrow> auction_item \<Rightarrow> 'a jsx" where
  "admin_row date_of fmt_date now a =
     El ''tr'' [Attr ''key'' (it_id a)] [
       El ''td'' [] [El ''Link'' [Attr ''href'' (''/shipment/'' @ it_id a)] [Txt (it_title a)], El ''p'' [] [Txt (take 8 (it_id a))]],
       El ''td'' [] [El ''span'' [] [El (if it_auction_type a = FORWARD then ''ArrowUp'' else ''ArrowDown'') [] [], Txt (type_name (it_auction_type a))]],
       El ''td'' [] [Txt (opt_str_or (it_item_category a) ''General'')],
       El ''td'' [] [Txt (fmt_date (it_auction_start_time a))],
       El ''td'' [] [Txt (int_str (count_or_zero (it_participants_count a)))],
       El ''td'' [] [El ''span'' [] [Txt (admin_status date_of now a)]]]"

text \<open>
  The numbers are computed when the list changes, at \<open>memo_now\<close>; the rows at every rendering, at
  \<open>now\<close>.
\<close>

definition AdminPage ::
  "date_parser \<Rightarrow> (string \<Rightarrow> string) \<Rightarrow> int \<Rightarrow> int \<Rightarrow> auth \<Rightarrow> auction_item list \<Rightarrow> bool \<Rightarrow> 'a jsx" where
  "AdminPage date_of fmt_date memo_now now a as isLoading =
     (if \<not> au_isLoading a \<and> map_option ss_role (au_session a) \<noteq> Some ADMIN then
        El ''div'' [] [El ''div'' [] [
          El ''ShieldAlert'' [] [],
          El ''h1'' [] [Txt ''Admin access required''],
          El ''p'' [] [Txt ''This operations console is available only to platform administrators.''],
          El ''Link'' [Attr ''href'' ''/admin/login''] [Txt ''Admin sign in'']]]
      else let m = metrics date_of memo_now as in
        El ''div'' [] [
          El ''Sidebar'' [] [],
          El ''main'' [] [
            El ''div'' [] [
              El ''header'' [] [
                El ''div'' [] [
                  El ''p'' [] [Txt ''Operations''], El ''h1'' [] [Txt ''Auction control center''],
                  El ''p'' [] [Txt ''Monitor marketplace direction, participation, and event readiness.'']],
                El ''Link'' [Attr ''href'' ''/auction/new''] [El ''Plus'' [] [], Txt '' Create auction'']],
              El ''section'' [] [
                Metric ''Live now'' (int (am_live m)) ''Activity'',
                Metric ''Scheduled'' (int (am_scheduled m)) ''CalendarClock'',
                Metric ''Forward'' (int (am_forward m)) ''ArrowUp'',
                Metric ''Reverse'' (int (am_reverse m)) ''ArrowDown'',
                Metric ''Participants'' (am_participants m) ''Users''],
              El ''ListingReviewQueue'' [] [],
              El ''section'' [] [
                El ''div'' [] [
                  El ''div'' [] [El ''h2'' [] [Txt ''Auction operations''], El ''p'' [] [Txt ''Current and upcoming events'']],
                  El ''span'' [] [Txt (nat_str (length as) @ '' total'')]],
                El ''div'' [] [
                  El ''table'' [] [
                    El ''thead'' [] [El ''tr'' [] (map (\<lambda>t. El ''th'' [] [Txt t])
                      [''Auction'', ''Direction'', ''Category'', ''Starts'', ''Participants'', ''Status''])],
                    El ''tbody'' [] (map (admin_row date_of fmt_date now) as @
                      only_if (\<not> isLoading \<and> as = []) [El ''tr'' [] [El ''td'' [Attr ''colSpan'' ''6''] [Txt ''No auctions available.'']]] @
                      only_if isLoading [El ''tr'' [] [El ''td'' [Attr ''colSpan'' ''6''] [Txt (''Loading operations'' @ u_ellipsis)]]])]]]]]])"

section \<open>Pages of the history\<close>

lemma concat_pages:
  "concat (map (\<lambda>p. take n (drop (p * n) xs)) [0..<k]) = take (k * n) xs"
proof (induction k)
  case (Suc k)
  have "take (k * n) xs @ take n (drop (k * n) xs) = take (k * n + n) xs" by (simp add: take_add)
  with Suc show ?case by (simp add: add.commute)
qed simp

lemma totalPages_enough: "length as \<le> nat (totalPages as) * 10" "1 \<le> totalPages as"
proof -
  have "int (length as) \<le> (int (length as) + 9) div 10 * 10" by linarith
  then show "length as \<le> nat (totalPages as) * 10" by (auto simp: totalPages_def itemsPerPage_def Let_def)
  have pos: "1 \<le> (if k = 0 then 1 else k)" if "0 \<le> k" for k :: int using that by simp
  show "1 \<le> totalPages as" unfolding totalPages_def itemsPerPage_def Let_def by (rule pos) simp
qed

text \<open>The pages a user can be on.\<close>

definition page_inv :: "auction_item list \<Rightarrow> history \<Rightarrow> bool" where
  "page_inv as h = (1 \<le> hs_currentPage h \<and> hs_currentPage h \<le> totalPages (history_filtered h as))"

lemma page_inv_step: "page_inv as h \<Longrightarrow> page_inv as (history_step as act h)"
  using totalPages_enough(2)
  by (cases act) (auto simp: page_inv_def history_filtered_def)

interpretation history_pages: machine "history_init st" "history_step as" "page_inv as" "\<lambda>_. True" for st as
  by unfold_locales (simp_all add: page_inv_step, simp add: page_inv_def history_init_def totalPages_enough)

text \<open>
  Paging through the history loses nothing: with a fixed list the tabs and buttons keep the
  page between the first and the last, and the pages one after the other are exactly the list of
  the selected tab.
\<close>

lemma history_paging:
  "let h = fold (history_step as) acts (history_init st); items = history_filtered h as in
     1 \<le> hs_currentPage h \<and> hs_currentPage h \<le> totalPages items \<and>
     concat (map (\<lambda>p. page_of (int p + 1) items) [0..<nat (totalPages items)]) = items"
proof -
  let ?h = "fold (history_step as) acts (history_init st)"
  let ?items = "history_filtered ?h as"
  have "page_inv as ?h" by (rule history_pages.run_inv) simp
  moreover have "concat (map (\<lambda>p. page_of (int p + 1) ?items) [0..<nat (totalPages ?items)]) = ?items"
    using concat_pages [of 10 ?items "nat (totalPages ?items)"] totalPages_enough(1) [of ?items]
    by (simp add: page_of_def itemsPerPage_def nat_mult_distrib)
  ultimately show ?thesis by (simp add: page_inv_def Let_def)
qed

section \<open>Search answers\<close>

text \<open>
  One failed search hides all later results: after an answer that fails with a message,
  every later successful search still shows that message and none of its results.
\<close>

lemma search_error_sticks:
  assumes "m \<noteq> []"
  shows "SearchResults (fold fetchResults (map Ok rs) (fetchResults (NetworkError m) s)) = El ''div'' [] [Txt m]"
proof -
  have "sr_error (fold fetchResults (map Ok rs) t) = sr_error t \<and> (sr_loading t = False \<longrightarrow> sr_loading (fold fetchResults (map Ok rs) t) = False)" for t
    by (induction rs arbitrary: t) (simp_all add: fetchResults_def Let_def)
  then show ?thesis using assms by (simp add: SearchResults_def) (simp add: fetchResults_def)
qed

text \<open>Reading an encoded query back, as the server does.\<close>

definition hex_val :: "char \<Rightarrow> nat" where
  "hex_val c = (let n = of_char c :: nat in if n \<le> 57 then n - 48 else n - 55)"

fun decode_uri :: "string \<Rightarrow> string" where
  "decode_uri [] = []"
| "decode_uri (c # a # b # rest) = (if c = CHR ''%'' then char_of (16 * hex_val a + hex_val b) # decode_uri rest
     else c # decode_uri (a # b # rest))"
| "decode_uri (c # rest) = c # decode_uri rest"

lemma hex_val_digit: "d < 16 \<Longrightarrow> hex_val (hex_digit d) = d"
  by (auto simp: hex_val_def hex_digit_def of_char_of)

lemma decode_plain: "c \<noteq> CHR ''%'' \<Longrightarrow> decode_uri (c # rest) = c # decode_uri rest"
  by (cases rest rule: decode_uri.cases) auto

text \<open>
  A search reaches the server as it was typed: decoding the query of the address the search
  bar opens gives the trimmed text back, for every text; an empty one opens nothing.
\<close>

lemma search_roundtrip:
  "case handleSearch query of None \<Rightarrow> trim query = []
   | Some url \<Rightarrow> \<exists>q. url = ''/search?q='' @ q \<and> decode_uri q = trim query"
proof -
  have plain: "uri_plain c \<Longrightarrow> c \<noteq> CHR ''%''" for c by (auto simp: uri_plain_def)
  have "decode_uri (encodeURIComponent s) = s" for s
  proof (induction s)
    case (Cons c s)
    have "of_char c div 16 < (16::nat)" by (simp add: less_mult_imp_div_less)
    then have "char_of (16 * hex_val (hex_digit (of_char c div 16)) + hex_val (hex_digit (of_char c mod 16))) = c"
      by (simp add: hex_val_digit)
    with Cons plain [of c] show ?case
      by (simp add: encodeURIComponent_def Let_def decode_plain)
  qed (simp add: encodeURIComponent_def)
  then show ?thesis by (auto simp: handleSearch_def)
qed

section \<open>The console's numbers\<close>

text \<open>Every auction is live, scheduled or closed, and has a direction.\<close>

lemma metrics_total:
  "am_forward (metrics d now as) + am_reverse (metrics d now as) = length as"
  "am_live (metrics d now as) + am_scheduled (metrics d now as) +
     length (filter (\<lambda>a. admin_status d now a = ''Closed'') as) = length as"
  by (induction as) (auto simp: metrics_def admin_status_def intro: auction_type.exhaust)

end
