(* ===== verification/Auction_Room.thy ===== *)
theory Auction_Room
  imports Dashboards Auction_Socket
begin

text \<open>
  \<open>app/auction/[id]/page.tsx\<close>, the page that registers a user for one auction and opens its live
  room, with \<open>loading.tsx\<close> beside it and \<open>components/auction/AuctionDetailsView.tsx\<close>. The state
  holds the page's own variables and what the query library shows it: the membership answer
  (absent until one arrives, \<open>Some None\<close> where no auction has the id) and the pending flags of the
  two mutations. An operation gives the new state with the requests and navigations it causes. A
  mutation result is a new object on every render, so the effect that depends on it runs after
  each of them.
\<close>

section \<open>State\<close>

record room =
  rm_id :: string
  rm_hasJoined :: bool
  rm_now :: int
  rm_joinError :: string
  rm_membership :: "auction_item option option"
  rm_membershipLoading :: bool
  rm_joinPending :: bool
  rm_leavePending :: bool

definition room_init :: "string \<Rightarrow> room" where
  "room_init a = \<lparr>rm_id = a, rm_hasJoined = False, rm_now = 0, rm_joinError = [], rm_membership = None,
     rm_membershipLoading = True, rm_joinPending = False, rm_leavePending = False\<rparr>"

text \<open>\<open>auction\<close> and \<open>auction?.is_registered\<close>.\<close>

definition room_auction :: "room \<Rightarrow> auction_item option" where
  "room_auction r = (case rm_membership r of None \<Rightarrow> None | Some d \<Rightarrow> d)"

definition room_registered :: "room \<Rightarrow> bool" where
  "room_registered r = (case room_auction r of None \<Rightarrow> False | Some a \<Rightarrow> it_is_registered a = Some True)"

text \<open>The auction whose events the page listens to.\<close>

definition socket_auction :: "room \<Rightarrow> string" where
  "socket_auction r = (if rm_hasJoined r then rm_id r else [])"

section \<open>Requests\<close>

definition membership_request :: "string option \<Rightarrow> storage \<Rightarrow> http_request" where
  "membership_request env st = auctions_request env st ''/api/auction''"

text \<open>
  The query's answer: \<open>None\<close> where it throws, which a list that is missing also does; otherwise the
  auction with the id, or \<open>null\<close>.
\<close>

definition membership_answer :: "string \<Rightarrow> auction_item list option reply \<Rightarrow> auction_item option option" where
  "membership_answer a rep = (case rep of
     Ok (Some items) \<Rightarrow> Some (List.find (\<lambda>item. it_id item = a) items)
   | _ \<Rightarrow> None)"

definition room_join_request :: "string option \<Rightarrow> storage \<Rightarrow> string \<Rightarrow> http_request" where
  "room_join_request env st a = \<lparr>rq_method = ''POST'', rq_url = api_url env @ ''/api/auction/'' @ a @ ''/join'',
     rq_headers = [json_content, bearer (case st ''token'' of None \<Rightarrow> ''null'' | Some t \<Rightarrow> t)], rq_body = None\<rparr>"

definition room_leave_request :: "string option \<Rightarrow> storage \<Rightarrow> string \<Rightarrow> http_request" where
  "room_leave_request env st a = \<lparr>rq_method = ''POST'', rq_url = api_url env @ ''/api/auction/'' @ a @ ''/leave'',
     rq_headers = [bearer (case st ''token'' of None \<Rightarrow> ''null'' | Some t \<Rightarrow> t)], rq_body = None\<rparr>"

text \<open>What the two mutation functions throw; the body of an accepted answer is not used.\<close>

definition join_throws :: "unit reply \<Rightarrow> string option" where
  "join_throws rep = (case rep of
     Ok _ \<Rightarrow> None
   | BadBody _ \<Rightarrow> None
   | NotOk code err \<Rightarrow> Some (if code = 401 \<or> code = 403 then ''Authentication required. Redirecting...''
       else opt_str_or err ''Failed to join auction'')
   | NetworkError m \<Rightarrow> Some m)"

definition join_pushes :: "unit reply \<Rightarrow> string option" where
  "join_pushes rep = (case rep of NotOk code _ \<Rightarrow> if code = 401 \<or> code = 403 then Some ''/login'' else None | _ \<Rightarrow> None)"

definition leave_throws :: "unit reply \<Rightarrow> string option" where
  "leave_throws rep = (case rep of
     Ok _ \<Rightarrow> None
   | BadBody _ \<Rightarrow> None
   | NotOk _ err \<Rightarrow> Some (opt_str_or err ''Could not unregister'')
   | NetworkError m \<Rightarrow> Some m)"

section \<open>Operations\<close>

datatype room_act =
    RoomTick int
  | MembershipFetch
  | MembershipAnswer "auction_item list option reply"
  | HandleJoinAuction
  | JoinAnswer "unit reply"
  | LeaveAuction
  | LeaveAnswer "unit reply"
  | CloseJoinError
  | ReturnToDashboard

datatype room_effect = SendJoin | SendLeave | PushPage string | InvalidateMembership

definition join_mutate :: "room \<Rightarrow> room \<times> room_effect list" where
  "join_mutate r = (r\<lparr>rm_joinPending := True\<rparr>, [SendJoin])"

definition leave_mutate :: "room \<Rightarrow> room \<times> room_effect list" where
  "leave_mutate r = (r\<lparr>rm_leavePending := True\<rparr>, [SendLeave])"

definition already_joined :: string where
  "already_joined = ''You have already joined this auction''"

definition join_settled :: "unit reply \<Rightarrow> room \<Rightarrow> room \<times> room_effect list" where
  "join_settled rep r =
     (let r = r\<lparr>rm_joinPending := False\<rparr> in
      case join_throws rep of
        None \<Rightarrow> (r\<lparr>rm_hasJoined := True\<rparr>, [InvalidateMembership])
      | Some m \<Rightarrow>
          (if m = already_joined then r\<lparr>rm_hasJoined := True\<rparr> else r\<lparr>rm_joinError := m\<rparr>,
           case join_pushes rep of None \<Rightarrow> [] | Some p \<Rightarrow> [PushPage p]))"

definition leave_settled :: "unit reply \<Rightarrow> room \<Rightarrow> room \<times> room_effect list" where
  "leave_settled rep r =
     (let r = r\<lparr>rm_leavePending := False\<rparr> in
      case leave_throws rep of
        None \<Rightarrow> (r\<lparr>rm_hasJoined := False\<rparr>, [InvalidateMembership])
      | Some m \<Rightarrow> (r\<lparr>rm_joinError := m\<rparr>, []))"

text \<open>A fetch shows as loading only while no answer is known; a failed one keeps the last answer.\<close>

fun room_act_step :: "room_act \<Rightarrow> room \<Rightarrow> room \<times> room_effect list" where
  "room_act_step (RoomTick clock) r = (r\<lparr>rm_now := clock\<rparr>, [])"
| "room_act_step MembershipFetch r = (r\<lparr>rm_membershipLoading := (rm_membership r = None)\<rparr>, [])"
| "room_act_step (MembershipAnswer rep) r =
     (r\<lparr>rm_membership := nullish (membership_answer (rm_id r) rep) (rm_membership r), rm_membershipLoading := False\<rparr>, [])"
| "room_act_step HandleJoinAuction r = join_mutate r"
| "room_act_step (JoinAnswer rep) r = join_settled rep r"
| "room_act_step LeaveAuction r = leave_mutate r"
| "room_act_step (LeaveAnswer rep) r = leave_settled rep r"
| "room_act_step CloseJoinError r = (r\<lparr>rm_joinError := []\<rparr>, [])"
| "room_act_step ReturnToDashboard r = (r, [PushPage ''/dashboard''])"

text \<open>The effect that registers a known participant again.\<close>

definition rehydrate :: "room \<Rightarrow> room \<times> room_effect list" where
  "rehydrate r = (if room_registered r \<and> \<not> rm_hasJoined r \<and> \<not> rm_joinPending r then join_mutate r else (r, []))"

definition room_update :: "room_act \<Rightarrow> room \<Rightarrow> room \<times> room_effect list" where
  "room_update a r =
     (let (r1, es1) = room_act_step a r; (r2, es2) = rehydrate r1 in (r2, es1 @ es2))"

section \<open>Rendering\<close>

definition room_startsAt :: "date_parser \<Rightarrow> room \<Rightarrow> int option" where
  "room_startsAt date_of r = (case room_auction r of None \<Rightarrow> Some 0 | Some a \<Rightarrow> date_of (it_auction_start_time a))"

definition room_endsAt :: "date_parser \<Rightarrow> room \<Rightarrow> int option" where
  "room_endsAt date_of r = (case room_auction r of None \<Rightarrow> Some 0 | Some a \<Rightarrow> date_of (it_auction_end_time a))"

definition room_phase :: "date_parser \<Rightarrow> room \<Rightarrow> string" where
  "room_phase date_of r =
     (if ge_time (rm_now r) (room_endsAt date_of r) then ''completed''
      else if ge_time (rm_now r) (room_startsAt date_of r) then ''live'' else ''upcoming'')"

definition canRegister :: "date_parser \<Rightarrow> room \<Rightarrow> bool" where
  "canRegister date_of r =
     (room_phase date_of r \<noteq> ''completed'' \<and> lt_time (rm_now r) (join_time (room_startsAt date_of r)))"

definition room_loading :: "'a jsx" where
  "room_loading = El ''div'' [] [El ''Loader2'' [] []]"

definition room_missing :: "room_act jsx" where
  "room_missing = El ''div'' [] [El ''div'' [] [
     El ''h1'' [] [Txt ''Auction not found''],
     El ''button'' [onClick ReturnToDashboard] [Txt ''Return to dashboard'']]]"

definition room_opening :: "'a jsx" where
  "room_opening = El ''div'' [] [El ''div'' [] [El ''Loader2'' [] [], Txt (''Opening live auction'' @ u_ellipsis)]]"

definition room_lobby_actions :: "date_parser \<Rightarrow> room \<Rightarrow> room_act jsx list" where
  "room_lobby_actions date_of r =
     (let phase = room_phase date_of r; canReg = canRegister date_of r in
      only_if (rm_hasJoined r \<and> phase = ''upcoming'')
        [El ''button'' [onClick LeaveAuction, Flag ''disabled'' (rm_leavePending r)]
           [Txt (if rm_leavePending r then ''Unregistering'' @ u_ellipsis else ''Unregister'')]] @
      only_if (\<not> rm_hasJoined r \<and> canReg)
        [El ''button'' [onClick HandleJoinAuction, Flag ''disabled'' (rm_joinPending r), Flag ''live'' (phase = ''live'')]
           [Txt (if rm_joinPending r then ''Joining'' @ u_ellipsis
                 else if phase = ''live'' then ''Join live auction'' else ''Register for auction'')]] @
      only_if (\<not> rm_hasJoined r \<and> \<not> canReg \<and> phase \<noteq> ''completed'') [El ''span'' [] [Txt ''Registration closed'']] @
      only_if (phase = ''completed'') [El ''span'' [] [Txt ''Auction completed'']])"

definition room_lobby :: "date_parser \<Rightarrow> (int option \<Rightarrow> string) \<Rightarrow> auction_item \<Rightarrow> room \<Rightarrow> room_act jsx" where
  "room_lobby date_of fmt_date a r =
     (let phase = room_phase date_of r in
      El ''div'' [] [
        Toast (rm_joinError r) (Some ToastError) CloseJoinError,
        El ''div'' [] [
          El ''section'' [] [
            El ''div'' [] [
              El ''div'' [] [
                El ''div'' [] (
                  El ''span'' [Attr ''phase'' phase] [
                    (if phase = ''live'' then El ''Radio'' [] [] else if phase = ''upcoming'' then El ''Clock'' [] []
                     else El ''CheckCircle2'' [] []), Txt phase] #
                  only_if (rm_hasJoined r) [El ''span'' [] [Txt ''Registered'']]),
                El ''h1'' [] [Txt (it_title a)],
                El ''div'' [] [
                  El ''span'' [] [El ''CalendarDays'' [] [], Txt ('' Starts '' @ fmt_date (date_of (it_auction_start_time a)))],
                  El ''span'' [] [El ''Clock'' [] [], Txt ('' Ends '' @ fmt_date (date_of (it_auction_end_time a)))],
                  El ''span'' [] [El ''Clock'' [] [], Txt ('' Register by '' @ fmt_date (join_time (room_startsAt date_of r)))],
                  El ''span'' [] [El ''Users'' [] [], Txt ('' '' @ int_str (count_or_zero (it_participants_count a)) @ '' registered'')]]],
              El ''div'' [] (room_lobby_actions date_of r)]],
          El ''div'' [] [El ''AuctionDetailsView'' [Attr ''auction'' (it_id a),
            Attr ''initialTab'' (case it_media_urls a of Some (_ # _) \<Rightarrow> ''photos'' | _ \<Rightarrow> ''details'')] []]]])"

definition room_waiting :: "room \<Rightarrow> room_act jsx" where
  "room_waiting r =
     El ''div'' [] [
       El ''div'' [] [],
       El ''div'' [] [
         El ''div'' [] [],
         El ''div'' [] [],
         El ''div'' [] [El ''Clock'' [] []],
         El ''h2'' [] [Txt ''Auction Starts Soon''],
         El ''p'' [] [Txt ''You are registered and in the waiting room. The live auction console will open automatically once the countdown reaches zero.''],
         El ''div'' [] [El ''CountdownTimer'' [] []],
         El ''button'' [onClick LeaveAuction, Flag ''disabled'' (rm_leavePending r)]
           (only_if (rm_leavePending r) [El ''Loader2'' [] []] @ [Txt '' Unregister from auction''])]]"

definition room_console :: "room \<Rightarrow> 'a jsx list" where
  "room_console r = [
     El ''header'' [] [
       El ''div'' [] [El ''h1'' [] [Txt ''Auction ID: '', El ''span'' [] [Txt (''#'' @ rm_id r)]]],
       El ''div'' [] [
         El ''button'' [] [El ''Bell'' [] [], El ''div'' [] []],
         El ''div'' [] [El ''div'' [] [El ''User'' [] []], Txt ''Participant'', El ''div'' [] []]]],
     El ''div'' [] [
       El ''div'' [] [],
       El ''div'' [] [],
       El ''div'' [] [
         El ''div'' [] [
           El ''div'' [] [
             El ''div'' [] [El ''CountdownTimer'' [] []],
             El ''div'' [] [El ''Leaderboard'' [] []]],
           El ''div'' [] [El ''BiddingConsole'' [] []]],
         El ''div'' [] [El ''AuditLedger'' [] []]]]]"

definition AuctionPage ::
  "date_parser \<Rightarrow> (int option \<Rightarrow> string) \<Rightarrow> auction_state \<Rightarrow> bool \<Rightarrow> room \<Rightarrow> room_act jsx" where
  "AuctionPage date_of fmt_date s conflict r =
     (if rm_membershipLoading r then room_loading
      else case room_auction r of
        None \<Rightarrow> room_missing
      | Some a \<Rightarrow>
          if room_phase date_of r = ''live'' \<and> it_is_registered a = Some True \<and> \<not> rm_hasJoined r then room_opening
          else if \<not> rm_hasJoined r \<or> room_phase date_of r \<noteq> ''live'' then room_lobby date_of fmt_date a r
          else El ''div'' [] [
            El ''ConcurrencyGuardModal'' [Flag ''hasConflict'' conflict] [],
            El ''main'' [] (if auctionStatus s = Waiting \<and> int_truthy (startTime s) then [room_waiting r] else room_console r)])"

text \<open>\<open>app/auction/[id]/loading.tsx\<close>: the placeholder while the page's code loads.\<close>

definition AuctionLoading :: "'a jsx" where
  "AuctionLoading =
     El ''div'' [Attr ''role'' ''status'', Attr ''aria-label'' ''Loading auction''] [
       El ''div'' [] [
         El ''div'' [] [El ''div'' [] [], El ''div'' [] []],
         El ''div'' [] [
           El ''div'' [] [
             El ''div'' [] [El ''div'' [] [], El ''div'' [] []],
             El ''div'' [] []],
           El ''div'' [] []]],
       El ''span'' [] [Txt (''Loading auction details'' @ u_ellipsis)]]"

section \<open>Auction details\<close>

datatype details_tab = DetailsTab | PhotosTab | MapTab

datatype media_type = IMAGE | VIDEO

record media =
  md_url :: string
  md_type :: media_type

datatype details_act = SetActiveTab details_tab

fun details_step :: "details_act \<Rightarrow> details_tab \<Rightarrow> details_tab" where
  "details_step (SetActiveTab t) _ = t"

definition details_media :: "auction_item option \<Rightarrow> media list" where
  "details_media a =
     map (\<lambda>url. \<lparr>md_url = url, md_type = (if is_video url then VIDEO else IMAGE)\<rparr>)
       (case Option.bind a it_media_urls of None \<Rightarrow> [] | Some us \<Rightarrow> us)"

text \<open>\<open>n || d\<close> for a number that may be absent: zero takes the default as well.\<close>

definition num_or :: "rat option \<Rightarrow> rat \<Rightarrow> rat" where
  "num_or n d = (case n of None \<Rightarrow> d | Some x \<Rightarrow> if x = 0 then d else x)"

definition map_el :: "auction_item option \<Rightarrow> 'a jsx" where
  "map_el a =
     El ''ShipmentMap'' ([
       Attr ''originLat'' (num_str (Fin (num_or (Option.bind a it_origin_lat) (3405/100)))),
       Attr ''originLng'' (num_str (Fin (num_or (Option.bind a it_origin_lng) (-11824/100)))),
       Attr ''destLat'' (num_str (Fin (num_or (Option.bind a it_dest_lat) (5150/100)))),
       Attr ''destLng'' (num_str (Fin (num_or (Option.bind a it_dest_lng) (-12/100))))] @
       only_if (str_truthy (Option.bind a it_origin_address)) [Attr ''originAddress'' (the (Option.bind a it_origin_address))] @
       only_if (str_truthy (Option.bind a it_dest_address)) [Attr ''destAddress'' (the (Option.bind a it_dest_address))]) []"

definition tab_button :: "details_tab \<Rightarrow> details_tab \<Rightarrow> string \<Rightarrow> string \<Rightarrow> details_act jsx" where
  "tab_button active t icon label =
     El ''button'' [onClick (SetActiveTab t), Flag ''active'' (active = t)] [El icon [] [], Txt ('' '' @ label)]"

definition quantity_text :: "auction_item option \<Rightarrow> string" where
  "quantity_text a = (case Option.bind a it_quantity of None \<Rightarrow> ''Not specified''
     | Some q \<Rightarrow> if q = 0 then ''Not specified''
         else num_str (Fin q) @ '' '' @ opt_str_or (Option.bind a it_quantity_unit) [])"

definition AuctionDetailsView ::
  "(rat \<Rightarrow> string) \<Rightarrow> (string \<Rightarrow> string) \<Rightarrow> auction_item option \<Rightarrow> details_tab \<Rightarrow> details_act jsx" where
  "AuctionDetailsView fmt fmt_day a active =
     (let ms = details_media a in
      El ''div'' [] [
        El ''div'' [] [
          El ''h3'' [] [Txt ''Auction Details''],
          El ''div'' [] [
            tab_button active DetailsTab ''FileText'' ''Details'',
            tab_button active PhotosTab ''ImageIcon'' (''Media ('' @ nat_str (length ms) @ '')''),
            tab_button active MapTab ''Map'' ''Map'']],
        El ''div'' [] [El ''AnimatePresence'' [] (
          only_if (active = DetailsTab) [
            El ''motion.div'' [Attr ''key'' ''details''] [
              El ''div'' [] [
                El ''div'' [] [El ''span'' [] [Txt ''Category''],
                  El ''span'' [] [Txt (opt_str_or (Option.bind a it_item_category) ''General'')]],
                El ''div'' [] [El ''span'' [] [Txt ''Direction''],
                  El ''span'' [] [Txt (if map_option it_auction_type a = Some FORWARD then ''Forward '' @ u_middot @ '' bids increase''
                    else ''Reverse '' @ u_middot @ '' bids decrease'')]]],
              El ''h4'' [] [Txt ''Description''],
              El ''p'' [] [Txt (opt_str_or (map_option it_description a) ''No description provided.'')],
              El ''ul'' [] [
                El ''li'' [] [Txt (''Condition: '' @ opt_str_or (Option.bind a it_item_condition) ''Not specified'')],
                El ''li'' [] [Txt (''Quantity: '' @ quantity_text a)],
                El ''li'' [] [Txt (''Starting price: '' @ (case Option.bind a it_starting_price of None \<Rightarrow> ''Not specified''
                  | Some p \<Rightarrow> ''$'' @ fmt p))],
                El ''li'' [] [Txt (''Origin: '' @ opt_str_or (Option.bind a it_origin_address) ''N/A'')],
                El ''li'' [] [Txt (''Destination: '' @ opt_str_or (Option.bind a it_dest_address) ''N/A'')],
                El ''li'' [] [Txt (''Pickup Date: '' @ (if str_truthy (Option.bind a it_pickup_date)
                  then fmt_day (the (Option.bind a it_pickup_date)) else ''N/A''))]]]] @
          only_if (active = PhotosTab) [
            El ''motion.div'' [Attr ''key'' ''photos''] [
              if ms \<noteq> [] then El ''MediaGallery'' (map (\<lambda>m. Attr (if md_type m = VIDEO then ''VIDEO'' else ''IMAGE'') (md_url m)) ms) []
              else El ''div'' [] [Txt ''No images or videos were added.'']]] @
          only_if (active = MapTab) [El ''motion.div'' [Attr ''key'' ''map''] [map_el a]])]])"

section \<open>The registration protocol\<close>

text \<open>
  The steps of the page, with a trace of what happened: the host ticks the clock and delivers the
  answers that are due, and the user clicks what the page shows and has not disabled.
\<close>

datatype room_event = Did room_act | Caused room_effect

fun from_host :: "room \<Rightarrow> room_act \<Rightarrow> bool" where
  "from_host r (RoomTick _) = True"
| "from_host r MembershipFetch = True"
| "from_host r (MembershipAnswer _) = True"
| "from_host r (JoinAnswer _) = rm_joinPending r"
| "from_host r (LeaveAnswer _) = rm_leavePending r"
| "from_host r _ = False"

definition room_log :: "room_act \<Rightarrow> room \<Rightarrow> room_event list" where
  "room_log a r = Did a # map Caused (snd (room_update a r))"

inductive room_step ::
  "date_parser \<Rightarrow> (int option \<Rightarrow> string) \<Rightarrow> room \<times> room_event list \<Rightarrow> room \<times> room_event list \<Rightarrow> bool"
  for date_of fmt_date where
  host: "from_host r a \<Longrightarrow> room_step date_of fmt_date (r, tr) (fst (room_update a r), tr @ room_log a r)"
| click: "h \<in> set (triggers ''onClick'' (AuctionPage date_of fmt_date s conflict r)) \<Longrightarrow>
    room_step date_of fmt_date (r, tr) (fst (room_update (h v) r), tr @ room_log (h v) r)"

inductive_cases room_stepE: "room_step date_of fmt_date x y"

text \<open>What the server has last said about this user, read from the trace.\<close>

definition join_accepted :: "unit reply \<Rightarrow> bool" where
  "join_accepted rep = (case rep of Ok _ \<Rightarrow> True | BadBody _ \<Rightarrow> True
     | NotOk code err \<Rightarrow> code \<noteq> 401 \<and> code \<noteq> 403 \<and> err = Some already_joined
     | NetworkError m \<Rightarrow> m = already_joined)"

definition leave_accepted :: "unit reply \<Rightarrow> bool" where
  "leave_accepted rep = (case rep of Ok _ \<Rightarrow> True | BadBody _ \<Rightarrow> True | _ \<Rightarrow> False)"

fun last_word :: "bool \<Rightarrow> room_event list \<Rightarrow> bool" where
  "last_word b [] = b"
| "last_word b (Did (JoinAnswer rep) # es) = last_word (b \<or> join_accepted rep) es"
| "last_word b (Did (LeaveAnswer rep) # es) = last_word (b \<and> \<not> leave_accepted rep) es"
| "last_word b (_ # es) = last_word b es"

fun in_flight :: "room_event list \<Rightarrow> int" where
  "in_flight [] = 0"
| "in_flight (Caused SendJoin # es) = 1 + in_flight es"
| "in_flight (Caused SendLeave # es) = 1 + in_flight es"
| "in_flight (Did (JoinAnswer _) # es) = in_flight es - 1"
| "in_flight (Did (LeaveAnswer _) # es) = in_flight es - 1"
| "in_flight (_ # es) = in_flight es"

lemma last_word_append: "last_word b (xs @ ys) = last_word (last_word b xs) ys"
  by (induction b xs rule: last_word.induct) simp_all

lemma in_flight_append: "in_flight (xs @ ys) = in_flight xs + in_flight ys"
  by (induction xs rule: in_flight.induct) simp_all

lemma last_word_effects: "last_word b (map Caused es) = b"
  by (induction es) simp_all

lemma join_throws_accepted: "join_accepted rep \<longleftrightarrow> join_throws rep = None \<or> join_throws rep = Some already_joined"
  by (auto simp: join_accepted_def join_throws_def already_joined_def opt_str_or_def str_or_def
      split: reply.splits option.splits if_splits)

lemma leave_throws_accepted: "leave_accepted rep \<longleftrightarrow> leave_throws rep = None"
  by (auto simp: leave_accepted_def leave_throws_def split: reply.splits)

definition room_inv :: "room \<times> room_event list \<Rightarrow> bool" where
  "room_inv x = (case x of (r, tr) \<Rightarrow>
     rm_hasJoined r = last_word False tr \<and>
     in_flight tr = of_bool (rm_joinPending r) + of_bool (rm_leavePending r) \<and>
     (rm_joinPending r \<longrightarrow> \<not> rm_hasJoined r) \<and> (rm_leavePending r \<longrightarrow> rm_hasJoined r))"

text \<open>What can be clicked.\<close>

definition may_click :: "room \<Rightarrow> room_act \<Rightarrow> bool" where
  "may_click r a = (a = CloseJoinError \<or> a = ReturnToDashboard \<or>
     a = LeaveAuction \<and> rm_hasJoined r \<and> \<not> rm_leavePending r \<or>
     a = HandleJoinAuction \<and> \<not> rm_hasJoined r \<and> \<not> rm_joinPending r)"

lemma clickable:
  "h \<in> set (triggers ''onClick'' (AuctionPage date_of fmt_date s conflict r)) \<Longrightarrow> may_click r (h v)"
  by (auto simp: AuctionPage_def room_loading_def room_missing_def room_opening_def room_lobby_def room_lobby_actions_def
      room_waiting_def room_console_def Let_def view_simps Toast_triggers may_click_def split: option.splits if_splits)

lemma room_update_inv:
  assumes "room_inv (r, tr)" and "from_host r a \<or> may_click r a"
  shows "room_inv (fst (room_update a r), tr @ room_log a r)"
  using assms
  by (cases a) (auto simp: room_inv_def room_log_def room_update_def rehydrate_def join_mutate_def leave_mutate_def
      join_settled_def leave_settled_def Let_def last_word_append in_flight_append last_word_effects may_click_def
      join_throws_accepted leave_throws_accepted split: option.splits prod.splits if_splits)

interpretation room: step_system "(room_init a, [])" "room_step date_of fmt_date" room_inv for a date_of fmt_date
proof
  show "room_inv (room_init a, [])" by (simp add: room_inv_def room_init_def)
next
  fix x y
  assume "room_step date_of fmt_date x y" and "room_inv x"
  then show "room_inv y" by (auto elim!: room_stepE intro: room_update_inv dest: clickable)
qed

text \<open>
  (C28) Registration requests never overlap, however the clock, the answers and the clicks on what the
  page offers are ordered: every request that was sent has been answered, except one at most, which
  is the one the pending flags show. The page counts as joined exactly when the last answer that
  settles it was an accepted registration, so the socket is opened for accepted users only.
\<close>

theorem room_one_request:
  assumes "(room_step date_of fmt_date)\<^sup>*\<^sup>* (room_init a, []) (r, tr)"
  shows "in_flight tr = of_bool (rm_joinPending r \<or> rm_leavePending r) \<and> in_flight tr \<le> 1 \<and>
    (rm_hasJoined r \<longleftrightarrow> last_word False tr) \<and> socket_auction r = (if last_word False tr then rm_id r else [])"
  using room.reach_inv [OF assms] by (auto simp: room_inv_def socket_auction_def)

definition ex_registered :: auction_item where
  "ex_registered = ex_item\<lparr>it_is_registered := Some True\<rparr>"

definition ex_room :: room where
  "ex_room = (room_init ''i1'')\<lparr>rm_membership := Some (Some ex_registered), rm_membershipLoading := False, rm_joinPending := True\<rparr>"

lemma ex_room_update:
  "fst (room_update (MembershipAnswer (Ok (Some [ex_registered]))) (room_init ''i1'')) = ex_room"
  "room_log (MembershipAnswer (Ok (Some [ex_registered]))) (room_init ''i1'') =
     [Did (MembershipAnswer (Ok (Some [ex_registered]))), Caused SendJoin]"
  by (simp_all add: room_update_def room_log_def room_init_def membership_answer_def ex_registered_def ex_item_def
      nullish_def rehydrate_def room_registered_def room_auction_def join_mutate_def ex_room_def)

theorem room_one_request_witness:
  "in_flight [Did (MembershipAnswer (Ok (Some [ex_registered]))), Caused SendJoin] = of_bool (rm_joinPending ex_room \<or> rm_leavePending ex_room) \<and>
   in_flight [Did (MembershipAnswer (Ok (Some [ex_registered]))), Caused SendJoin] \<le> 1 \<and>
   (rm_hasJoined ex_room \<longleftrightarrow> last_word False [Did (MembershipAnswer (Ok (Some [ex_registered]))), Caused SendJoin]) \<and>
   socket_auction ex_room =
     (if last_word False [Did (MembershipAnswer (Ok (Some [ex_registered]))), Caused SendJoin] then rm_id ex_room else [])"
proof (rule room_one_request)
  show "(room_step (\<lambda>_. None) (\<lambda>_. []))\<^sup>*\<^sup>* (room_init ''i1'', [])
    (ex_room, [Did (MembershipAnswer (Ok (Some [ex_registered]))), Caused SendJoin])"
    using host [of "room_init ''i1''" "MembershipAnswer (Ok (Some [ex_registered]))" "\<lambda>_. None" "\<lambda>_. []" "[]"]
    by (simp add: ex_room_update)
qed

section \<open>What the page offers\<close>

text \<open>
  For a loaded auction with a valid schedule the bidding console is on the page exactly
  when the user has joined, the auction is between its start and its end, and the store does not
  still wait for the start; the user can ask to register exactly when not joined, nothing is pending
  and the start is more than five minutes away; and a joined user can unregister exactly
  before the start or while the store waits for it.
\<close>

lemma room_gates:
  assumes "\<not> rm_membershipLoading r" and "room_auction r = Some a"
    and "date_of (it_auction_start_time a) = Some start" and "date_of (it_auction_end_time a) = Some stop" and "start \<le> stop"
  shows "let page = AuctionPage date_of fmt_date s conflict r; still_waiting = (auctionStatus s = Waiting \<and> int_truthy (startTime s)) in
    (elements ''BiddingConsole'' page \<noteq> [] \<longleftrightarrow>
      rm_hasJoined r \<and> start \<le> rm_now r \<and> rm_now r < stop \<and> \<not> still_waiting) \<and>
    ((\<lambda>_. HandleJoinAuction) \<in> set (triggers ''onClick'' page) \<longleftrightarrow>
      \<not> rm_hasJoined r \<and> \<not> rm_joinPending r \<and> rm_now r < start - 300000) \<and>
    ((\<lambda>_. LeaveAuction) \<in> set (triggers ''onClick'' page) \<longleftrightarrow>
      rm_hasJoined r \<and> \<not> rm_leavePending r \<and> rm_now r < stop \<and> (rm_now r < start \<or> still_waiting))"
proof -
  have phase: "room_phase date_of r = (if stop \<le> rm_now r then ''completed'' else if start \<le> rm_now r then ''live'' else ''upcoming'')"
    using assms by (simp add: room_phase_def room_startsAt_def room_endsAt_def ge_time_def)
  have reg: "canRegister date_of r \<longleftrightarrow> rm_now r < start - 300000"
    using assms by (auto simp: canRegister_def phase room_startsAt_def lt_time_def join_time_def)
  consider "stop \<le> rm_now r" | "start \<le> rm_now r" "rm_now r < stop" | "rm_now r < start" by linarith
  then show ?thesis
    by cases (use assms(1,2,5) in \<open>auto simp: AuctionPage_def room_opening_def room_lobby_def
      room_lobby_actions_def room_waiting_def room_console_def phase reg Let_def view_simps Toast_triggers Toast_elements fun_eq_iff\<close>)
qed

section \<open>Leaving and failing\<close>

text \<open>
  Unregistering does not last: when the server accepts it while the page still holds the
  membership answer that says registered, the page at once sends a new registration, and the
  acceptance of that one makes the user a participant again, with the socket open.
\<close>

lemma leave_rejoins:
  assumes "room_registered r" and "\<not> rm_joinPending r" and "leave_accepted rep" and "join_accepted rep'"
  shows "let (r1, es) = room_update (LeaveAnswer rep) r; (r2, _) = room_update (JoinAnswer rep') r1 in
    SendJoin \<in> set es \<and> rm_joinPending r1 \<and> rm_hasJoined r2 \<and> socket_auction r2 = rm_id r"
  using assms
  by (auto simp: room_update_def leave_settled_def leave_throws_accepted join_throws_accepted rehydrate_def join_mutate_def
      join_settled_def room_registered_def room_auction_def socket_auction_def Let_def split: option.splits)

text \<open>A sequence of acts with all the effects they cause.\<close>

fun room_acts :: "room_act list \<Rightarrow> room \<Rightarrow> room \<times> room_effect list" where
  "room_acts [] r = (r, [])"
| "room_acts (a # as) r = (let (r1, es1) = room_update a r; (r2, es2) = room_acts as r1 in (r2, es1 @ es2))"

lemma refused_join:
  assumes "room_registered r" and "\<not> rm_hasJoined r" and "\<not> join_accepted rep"
  shows "let (r1, es) = room_update (JoinAnswer rep) r in
    room_registered r1 \<and> \<not> rm_hasJoined r1 \<and> rm_joinPending r1 \<and> filter ((=) SendJoin) es = [SendJoin]"
  using assms
  by (auto simp: room_update_def join_settled_def join_throws_accepted rehydrate_def join_mutate_def
      room_registered_def room_auction_def Let_def split: option.splits)

text \<open>
  A registered user whom the server refuses is retried without end while the page is open: every
  refused answer is followed at once by a new registration request, so that any number of refusals
  cause as many further requests, and one is pending afterwards.
\<close>

lemma refused_join_retries:
  assumes "room_registered r" and "\<not> rm_hasJoined r" and "rm_joinPending r" and "list_all (\<lambda>rep. \<not> join_accepted rep) reps"
  shows "let (r', es) = room_acts (map JoinAnswer reps) r in
    rm_joinPending r' \<and> \<not> rm_hasJoined r' \<and> length (filter ((=) SendJoin) es) = length reps"
  using assms
proof (induction reps arbitrary: r)
  case (Cons rep reps)
  obtain r1 es where u: "room_update (JoinAnswer rep) r = (r1, es)" by fastforce
  show ?case using refused_join [of r rep] Cons.IH [of r1] Cons.prems by (auto simp: u split: prod.splits)
qed simp

end
