(* ===== verification/Auction_Pages.thy ===== *)
theory Auction_Pages
  imports Auction_Room
begin

text \<open>
  Two more pages about one auction: the audit report \<open>app/auction/bidinfo/[id]/page.tsx\<close>, which
  shows every decision of the auction engine, and \<open>app/shipment/[id]/page.tsx\<close>, which shows the
  live components next to the auction's details.
\<close>

section \<open>Audit report\<close>

record audit_event =
  au_request_id :: string
  au_bidder_id :: string
  au_username :: "string option"
  au_amount :: rat
  au_accepted :: bool
  au_rejection_reason :: "string option"
  au_previous_price :: rat
  au_resulting_price :: rat
  au_submitted_at :: string
  au_processed_at :: string
  au_source_partition :: int
  au_source_offset :: int

text \<open>
  The two queries: what they ask for, and the data the page reads, where \<open>prev\<close> is the data of the
  last answer that succeeded.
\<close>

definition history_auctions_request :: "string option \<Rightarrow> storage \<Rightarrow> http_request" where
  "history_auctions_request env st = auctions_request env st ''/api/auction/history''"

definition useAuction :: "string \<Rightarrow> auction_item list option \<Rightarrow> auction_item option" where
  "useAuction a data = (case data of None \<Rightarrow> None | Some items \<Rightarrow> List.find (\<lambda>item. it_id item = a) items)"

definition audit_request :: "string option \<Rightarrow> storage \<Rightarrow> string \<Rightarrow> http_request option" where
  "audit_request env st a =
     (if a = [] then None else Some (auctions_request env st (''/api/auction/'' @ a @ ''/audit?limit=500&offset=0'')))"

definition query_list :: "'a list option reply \<Rightarrow> 'a list option \<Rightarrow> 'a list option" where
  "query_list rep prev = (case rep of
     Ok xs \<Rightarrow> Some (case xs of None \<Rightarrow> [] | Some ys \<Rightarrow> ys)
   | _ \<Rightarrow> prev)"

definition useAuctionAudit :: "audit_event list option \<Rightarrow> audit_event list" where
  "useAuctionAudit data = (case data of None \<Rightarrow> [] | Some es \<Rightarrow> es)"

record graph_point =
  gp_time :: string
  gp_amount :: rat
  gp_bidder :: string

definition acceptedEvents :: "audit_event list \<Rightarrow> audit_event list" where
  "acceptedEvents es = filter au_accepted es"

definition graphData :: "audit_event list \<Rightarrow> graph_point list" where
  "graphData es = map (\<lambda>e. \<lparr>gp_time = au_submitted_at e, gp_amount = au_amount e, gp_bidder = au_bidder_id e\<rparr>) (acceptedEvents es)"

definition winningAmount :: "audit_event list \<Rightarrow> rat option" where
  "winningAmount es = (let acc = acceptedEvents es in if acc = [] then None else Some (au_amount (last acc)))"

text \<open>The page's own state: the user id and the time of the report, both set by the first effect.\<close>

record report =
  rp_myUserId :: "string option"
  rp_generatedAt :: string

definition report_init :: report where
  "report_init = \<lparr>rp_myUserId = None, rp_generatedAt = []\<rparr>"

definition report_mount :: "storage \<Rightarrow> string \<Rightarrow> report \<Rightarrow> report" where
  "report_mount st clock_text p = p\<lparr>rp_myUserId := st ''userId'', rp_generatedAt := clock_text\<rparr>"

definition isWinner :: "report \<Rightarrow> auction_item \<Rightarrow> bool" where
  "isWinner p a = (it_is_closed a = Some True \<and> it_winner_id a = Some (rp_myUserId p))"

datatype report_act = HandlePrint

definition report_header :: "report \<Rightarrow> auction_item \<Rightarrow> report_act jsx list" where
  "report_header p a = [
     El ''div'' [] [
       El ''div'' [] [
         El ''Link'' [Attr ''href'' ''/history''] [El ''ArrowLeft'' [] [], Txt '' Back to History''],
         El ''h1'' [] [Txt ''Auction Audit Report''],
         El ''p'' [] [Txt ''Ref ID: '', El ''span'' [] [Txt (it_id a)]]],
       El ''button'' [onClick HandlePrint] [El ''Download'' [] [], Txt '' Download PDF Report'']],
     El ''div'' [] [
       El ''h1'' [] [Txt ''Auction Audit Report''],
       El ''p'' [] [Txt (''ID: '' @ it_id a)],
       El ''p'' [] [Txt (''Generated: '' @ rp_generatedAt p)]]] @
     only_if (isWinner p a) [
       El ''div'' [] [El ''CheckCircle'' [] [], El ''div'' [] [
         El ''h3'' [] [Txt ''Congratulations, you won this auction!''],
         El ''p'' [] [Txt ''You are the confirmed winner for this auction.'']]]]"

definition labelled :: "string \<Rightarrow> string \<Rightarrow> 'a jsx" where
  "labelled label text = El ''div'' [] [El ''span'' [] [Txt label], El ''span'' [] [Txt text]]"

definition report_details :: "auction_item \<Rightarrow> report_act jsx" where
  "report_details a =
     El ''div'' [] [
       El ''h2'' [] [El ''Package'' [] [], Txt '' Auction Item Details''],
       El ''div'' [] [
         labelled ''Title'' (it_title a),
         El ''div'' [] [
           labelled ''Origin'' (opt_str_or (it_origin_address a) ''Not specified''),
           labelled ''Destination'' (opt_str_or (it_dest_address a) ''Not specified'')],
         El ''div'' [] [
           labelled ''Pickup Date'' (opt_str_or (map_option (takeWhile (\<lambda>c. c \<noteq> CHR ''T'')) (it_pickup_date a)) ''Not specified''),
           labelled ''Total Weight'' ((case it_weight a of None \<Rightarrow> ''N/A'' | Some w \<Rightarrow> if w = 0 then ''N/A'' else num_str (Fin w)) @ '' lbs'')]]]"

definition report_summary :: "auction_item \<Rightarrow> audit_event list \<Rightarrow> report_act jsx" where
  "report_summary a es =
     El ''div'' [] [
       El ''h2'' [] [El ''Info'' [] [], Txt '' Auction Summary''],
       El ''div'' [] [
         El ''div'' [] [
           labelled ''Status'' (if it_is_closed a = Some True then ''Completed'' else ''Active''),
           labelled ''Total Bids'' (nat_str (length es) @ '' attempts '' @ u_middot @ '' '' @ nat_str (length (acceptedEvents es)) @ '' accepted'')],
         El ''div'' [] [
           labelled ''Winning Bid'' (case winningAmount es of None \<Rightarrow> ''N/A'' | Some x \<Rightarrow> ''$'' @ num_str (Fin x)),
           labelled ''Winner ID'' (opt_str_or (winner_of a) ''Pending'')],
         labelled ''Seller ID'' ''System Verified Corporate'']]"

definition audit_row :: "(rat \<Rightarrow> string) \<Rightarrow> (string \<Rightarrow> string) \<Rightarrow> audit_event \<Rightarrow> report_act jsx" where
  "audit_row fmt fmt_date e =
     El ''tr'' [Attr ''key'' (au_request_id e)] [
       El ''td'' [] [Txt (fmt_date (au_processed_at e))],
       El ''td'' [] [El ''span'' [] [Txt (opt_str_or (au_username e) ''Bidder'')], El ''span'' [] [Txt (au_bidder_id e)]],
       El ''td'' [] [Txt (''$'' @ fmt (au_amount e))],
       El ''td'' [] [Txt (''$'' @ fmt (au_resulting_price e))],
       El ''td'' [] [
         if au_accepted e then El ''span'' [] [El ''CheckCircle'' [] [], Txt '' Accepted'']
         else El ''span'' [] [El ''XCircle'' [] [], Txt ('' '' @ opt_str_or (au_rejection_reason e) ''Rejected'')]],
       El ''td'' [] [Txt (''p'' @ int_str (au_source_partition e) @ '' '' @ u_middot @ '' o'' @ int_str (au_source_offset e))]]"

definition audit_table :: "(rat \<Rightarrow> string) \<Rightarrow> (string \<Rightarrow> string) \<Rightarrow> audit_event list \<Rightarrow> report_act jsx" where
  "audit_table fmt fmt_date es =
     El ''div'' [] [
       El ''h2'' [] [Txt ''Processed Bid Audit''],
       El ''p'' [] [Txt ''Accepted and rejected decisions archived from Kafka to the append-only PostgreSQL audit ledger.''],
       El ''div'' [] [El ''table'' [] [
         El ''thead'' [] [El ''tr'' [] (map (\<lambda>t. El ''th'' [] [Txt t])
           [''Processed'', ''Bidder'', ''Amount'', ''Price after'', ''Decision'', ''Kafka position''])],
         El ''tbody'' [] (map (audit_row fmt fmt_date) es @
           only_if (es = []) [El ''tr'' [] [El ''td'' [Attr ''colSpan'' ''6''] [Txt ''No processed bid decisions were recorded.'']]])]]]"

definition report_graph :: "audit_event list \<Rightarrow> report_act jsx" where
  "report_graph es =
     El ''div'' [] [
       El ''h2'' [] [Txt ''Bid Timeline''],
       El ''div'' [] [
         if graphData es \<noteq> [] then El ''BidHistoryGraph'' (map (\<lambda>g. Attr (gp_time g) (num_str (Fin (gp_amount g)))) (graphData es)) []
         else El ''div'' [] [Txt ''No bids recorded.'']]]"

text \<open>The route, for the winner only.\<close>

definition report_map :: "report \<Rightarrow> auction_item \<Rightarrow> 'a jsx list" where
  "report_map p a = only_if (isWinner p a) [
     El ''div'' [] [
       El ''h2'' [] [El ''MapIcon'' [] [], Txt '' Live Route Trace''],
       El ''div'' [] [map_el (Some a)]]]"

definition BidInfoPage ::
  "(rat \<Rightarrow> string) \<Rightarrow> (string \<Rightarrow> string) \<Rightarrow> report \<Rightarrow> auction_item option \<Rightarrow> audit_event list \<Rightarrow> report_act jsx" where
  "BidInfoPage fmt fmt_date p item es = (case item of
     None \<Rightarrow> El ''div'' [] [El ''p'' [] [Txt ''Loading auction details...'']]
   | Some a \<Rightarrow>
       El ''div'' [] [
         El ''div'' [] [El ''Sidebar'' [] []],
         El ''main'' [] (report_header p a @ [
           El ''div'' [] [report_details a, report_summary a es],
           audit_table fmt fmt_date es,
           report_graph es] @
           report_map p a),
         El ''style'' [] []])"

section \<open>Shipment page\<close>

record shipment_page =
  sp_detailsModalOpen :: bool
  sp_detailsTab :: details_tab
  sp_qnaModalOpen :: bool

definition shipment_init :: shipment_page where
  "shipment_init = \<lparr>sp_detailsModalOpen = False, sp_detailsTab = DetailsTab, sp_qnaModalOpen = False\<rparr>"

datatype shipment_act = OpenDetails details_tab | CloseDetails | OpenQna | CloseQna

fun shipment_step :: "shipment_act \<Rightarrow> shipment_page \<Rightarrow> shipment_page" where
  "shipment_step (OpenDetails t) p = p\<lparr>sp_detailsTab := t, sp_detailsModalOpen := True\<rparr>"
| "shipment_step CloseDetails p = p\<lparr>sp_detailsModalOpen := False\<rparr>"
| "shipment_step OpenQna p = p\<lparr>sp_qnaModalOpen := True\<rparr>"
| "shipment_step CloseQna p = p\<lparr>sp_qnaModalOpen := False\<rparr>"

text \<open>
  The query of the page: its request, and its data, which is undefined before the answer and after a failed request.
\<close>

definition shipment_request :: "string option \<Rightarrow> storage \<Rightarrow> http_request" where
  "shipment_request env st = auctions_request env st ''/api/auction''"

definition shipment_auctions :: "auction_item list option reply option \<Rightarrow> auction_item list option" where
  "shipment_auctions r = (case r of Some (Ok as) \<Rightarrow> Some (case as of None \<Rightarrow> [] | Some xs \<Rightarrow> xs) | _ \<Rightarrow> None)"

definition tab_name :: "details_tab \<Rightarrow> string" where
  "tab_name t = (case t of DetailsTab \<Rightarrow> ''details'' | PhotosTab \<Rightarrow> ''photos'' | MapTab \<Rightarrow> ''map'')"

definition shipment_header :: "string \<Rightarrow> auction_item option \<Rightarrow> shipment_act jsx" where
  "shipment_header a item =
     El ''div'' [] [
       El ''div'' [] [
         El ''Link'' [Attr ''href'' ''/''] [El ''ArrowLeft'' [] []],
         El ''div'' [] [
           El ''h2'' [] [Txt ((if map_option it_auction_type item = Some FORWARD then ''Forward'' else ''Reverse'') @ '' Auction: ''),
             El ''span'' [] [Txt (''#'' @ a)]],
           El ''p'' [] [Txt (opt_str_or (map_option it_title item) ''Loading...'')]]],
       El ''div'' [] [
         El ''button'' [onClick OpenQna] [El ''MessageSquare'' [] [], Txt '' Pre-Auction Discussion''],
         El ''div'' [] [
           El ''button'' [onClick (OpenDetails DetailsTab)] [El ''Map'' [] [], Txt '' View Auction Details''],
           El ''div'' [] [
             El ''button'' [onClick (OpenDetails DetailsTab)] [El ''FileText'' [] [], Txt '' Text Details''],
             El ''button'' [onClick (OpenDetails PhotosTab)] [El ''ImageIcon'' [] [], Txt '' Item Media''],
             El ''button'' [onClick (OpenDetails MapTab)] [El ''Map'' [] [], Txt '' Live Route Map'']]],
         El ''button'' [] [El ''Share2'' [] [], Txt '' Share'']]]"

definition shipment_grid :: "shipment_act jsx" where
  "shipment_grid =
     El ''div'' [] [El ''motion.div'' [] [
       El ''div'' [] [
         El ''motion.div'' [] [El ''div'' [] [El ''CountdownTimer'' [] []]],
         El ''motion.div'' [] [El ''Leaderboard'' [] []]],
       El ''div'' [] [
         El ''motion.div'' [] [El ''div'' [] [El ''BiddingConsole'' [] []]],
         El ''motion.div'' [] [El ''AuditLedger'' [] []]]]]"

definition details_modal :: "shipment_page \<Rightarrow> auction_item option \<Rightarrow> shipment_act jsx" where
  "details_modal p item =
     El ''div'' [] [El ''motion.div'' [] [
       El ''div'' [] [
         El ''h3'' [] [Txt ''Auction Information & Media''],
         El ''button'' [onClick CloseDetails] [El ''X'' [] []]],
       El ''div'' [] [El ''AuctionDetailsView'' (Attr ''initialTab'' (tab_name (sp_detailsTab p)) #
         (case item of None \<Rightarrow> [] | Some a \<Rightarrow> [Attr ''auction'' (it_id a)])) []]]]"

definition qna_modal :: "shipment_act jsx" where
  "qna_modal =
     El ''div'' [] [El ''motion.div'' [] [
       El ''div'' [] [
         El ''h3'' [] [El ''MessageSquare'' [] [], Txt '' Pre-Auction Discussion''],
         El ''button'' [onClick CloseQna] [El ''X'' [] []]],
       El ''div'' [] [El ''AuctionQnA'' [] []]]]"

definition AuctionDetailsPage :: "string \<Rightarrow> auction_item list option \<Rightarrow> shipment_page \<Rightarrow> shipment_act jsx" where
  "AuctionDetailsPage a auctions p =
     (let item = useAuction a auctions in
      El ''div'' [] [
        El ''WinnerModal'' [] [],
        El ''Sidebar'' [] [],
        El ''main'' [] [shipment_header a item, shipment_grid],
        El ''AnimatePresence'' [] (only_if (sp_detailsModalOpen p) [details_modal p item]),
        El ''AnimatePresence'' [] (only_if (sp_qnaModalOpen p) [qna_modal])])"

section \<open>The winning amount\<close>

text \<open>The accepted bids of an auction, in the order in which they were decided, improve strictly.\<close>

definition improving :: "auction_type \<Rightarrow> audit_event list \<Rightarrow> bool" where
  "improving ty es = sorted_wrt (\<lambda>x y. if ty = FORWARD then au_amount x < au_amount y else au_amount y < au_amount x) (acceptedEvents es)"

lemma winningAmountE:
  assumes "winningAmount es = Some x"
  obtains xs e where "acceptedEvents es = xs @ [e]" and "x = au_amount e"
  using assms by (cases "acceptedEvents es" rule: rev_cases) (auto simp: winningAmount_def)

text \<open>
  The report's winning bid is right whenever the answer holds the whole audit in order: if each
  accepted bid improves on the ones before it, the amount shown is that of an accepted event, and no
  accepted event has a better one.
\<close>

lemma winning_amount_best:
  assumes "improving ty es" and "winningAmount es = Some x"
  shows "(\<exists>e \<in> set es. au_accepted e \<and> au_amount e = x) \<and>
    list_all (\<lambda>e. au_accepted e \<longrightarrow> (if ty = FORWARD then au_amount e \<le> x else x \<le> au_amount e)) es"
proof -
  obtain xs e where split: "acceptedEvents es = xs @ [e]" and x: "x = au_amount e"
    using assms(2) by (rule winningAmountE)
  have mem: "e' \<in> set es \<and> au_accepted e' \<longleftrightarrow> e' \<in> set xs \<or> e' = e" for e'
    using arg_cong [OF split, of set] by (auto simp: acceptedEvents_def)
  have "if ty = FORWARD then au_amount e' \<le> x else x \<le> au_amount e'" if "e' \<in> set es" "au_accepted e'" for e'
    using assms(1) that mem [of e'] x by (auto simp: improving_def split sorted_wrt_append less_imp_le)
  then show ?thesis using mem [of e] x split by (auto simp: list_all_iff)
qed

text \<open>
  The report asks for the first 500 decisions only: for a longer audit it shows the last accepted
  bid of those, however much later bids improve on it.
\<close>

lemma report_truncated:
  assumes "length es = 500" and "winningAmount es = Some x" and "list_all au_accepted later" and "later \<noteq> []"
    and "improving ty (es @ later)"
  shows "winningAmount (take 500 (es @ later)) = Some x \<and> winningAmount (es @ later) \<noteq> Some x"
proof -
  obtain xs e where split: "later = xs @ [e]" using assms(4) by (metis rev_exhaust)
  obtain ys d where split': "acceptedEvents es = ys @ [d]" and "x = au_amount d"
    using assms(2) by (rule winningAmountE)
  then show ?thesis using assms split' unfolding split
    by (auto simp: winningAmount_def improving_def acceptedEvents_def Let_def sorted_wrt_append list_all_iff split: if_splits)
qed

section \<open>Winners\<close>

text \<open>
  A visitor without a user id is congratulated on every closed auction that nobody won: the
  report compares the server's \<open>null\<close> winner with the \<open>null\<close> of the missing id, and shows the winner's banner
  and the route. With an id stored, an auction nobody won is never shown as won.
\<close>

lemma nobody_wins:
  assumes "it_is_closed a = Some True" and "it_winner_id a = Some None"
  shows "(isWinner (report_mount st t report_init) a \<longleftrightarrow> st ''userId'' = None) \<and>
    (elements ''ShipmentMap'' (BidInfoPage fmt fmt_date (report_mount st t report_init) (Some a) es) \<noteq> [] \<longleftrightarrow> st ''userId'' = None)"
  using assms by (auto simp: isWinner_def report_mount_def report_init_def BidInfoPage_def report_header_def report_details_def
    report_summary_def report_map_def labelled_def audit_table_def audit_row_def report_graph_def map_el_def view_simps)

end
