(* ===== verification/Auction_Views.thy ===== *)
theory Auction_Views
  imports Auction_Pages Freight_Forms
begin

text \<open>
  The remaining views of auctions: the discussion \<open>AuctionQnA.tsx\<close>, the filter panel
  \<open>AuctionSearch.tsx\<close>, the charts \<open>BidHistoryGraph.tsx\<close> and \<open>TrendChart.tsx\<close>, the gallery \<open>MediaGallery.tsx\<close>
  and the map \<open>ShipmentMap.tsx\<close>; and the frame of the application, \<open>app/layout.tsx\<close>, \<open>app/providers.tsx\<close>,
  \<open>app/search/page.tsx\<close>, \<open>app/dashboard/page.tsx\<close>. What the charts take from d3 (linear scales, ticks and
  the line generator) is a parameter.
\<close>

section \<open>AuctionQnA\<close>

record qna_reply =
  qr_id :: int
  qr_user :: string
  qr_isSeller :: bool
  qr_text :: string
  qr_timestamp :: string

record question = qna_reply +
  qn_replies :: "qna_reply list"

record qna_page =
  qn_threads :: "question list"
  qn_new :: string

definition qna_init :: qna_page where
  "qna_init = \<lparr>qn_threads = [
     \<lparr>qr_id = 1, qr_user = ''Carrier_Omega'', qr_isSeller = False, qr_text = ''Are there any special tarping requirements for this load?'',
      qr_timestamp = ''2 hours ago'', qn_replies = [
        \<lparr>qr_id = 2, qr_user = ''Global Freight Co.'', qr_isSeller = True,
         qr_text = ''Yes, full lumber tarps are required to prevent moisture damage.'', qr_timestamp = ''1 hour ago''\<rparr>]\<rparr>,
     \<lparr>qr_id = 3, qr_user = ''Carrier_Zeta'', qr_isSeller = False, qr_text = ''Is there a loading dock available or do we need a forklift on-site?'',
      qr_timestamp = ''30 mins ago'', qn_replies = []\<rparr>], qn_new = []\<rparr>"

datatype qna_act = QnType string | QnSubmit int

fun qna_step :: "qna_act \<Rightarrow> qna_page \<Rightarrow> qna_page" where
  "qna_step (QnType s) p = p\<lparr>qn_new := s\<rparr>"
| "qna_step (QnSubmit now) p =
     (if trim (qn_new p) = [] then p
      else p\<lparr>qn_threads := qn_threads p @ [\<lparr>qr_id = now, qr_user = ''You'', qr_isSeller = False, qr_text = qn_new p,
              qr_timestamp = ''Just now'', qn_replies = []\<rparr>], qn_new := []\<rparr>)"

definition qna_author :: "('r qna_reply_scheme) \<Rightarrow> 'a jsx list" where
  "qna_author q = [El ''span'' [] [Txt (qr_user q @ '' '' @ (if qr_isSeller q then ''(Seller)'' else []))], El ''span'' [] [Txt (qr_timestamp q)]]"

definition qna_thread :: "question \<Rightarrow> 'a jsx" where
  "qna_thread q =
     El ''div'' [Attr ''key'' (int_str (qr_id q))] (
       El ''div'' [] [El ''div'' [] (qna_author q), El ''p'' [] [Txt (qr_text q)]] #
       map (\<lambda>r. El ''div'' [Attr ''key'' (int_str (qr_id r))] [El ''div'' [] [],
         El ''div'' [] [El ''div'' [] (qna_author r), El ''p'' [] [Txt (qr_text r)]]]) (qn_replies q))"

definition tool_button :: "string \<Rightarrow> string \<Rightarrow> 'a jsx" where
  "tool_button title icon = El ''button'' [Attr ''type'' ''button'', Attr ''title'' title] [El icon [] []]"

definition AuctionQnA :: "int \<Rightarrow> qna_page \<Rightarrow> qna_act jsx" where
  "AuctionQnA clock p =
     El ''div'' [] [
       El ''div'' [] [El ''MessageSquare'' [] [], El ''h3'' [] [Txt (''Pre-Auction Discussion ('' @ nat_str (length (qn_threads p)) @ '')'')]],
       El ''div'' [] (map qna_thread (qn_threads p)),
       El ''div'' [] [El ''form'' [On ''onSubmit'' (\<lambda>_. QnSubmit clock)] [
         El ''div'' [] [tool_button ''Bold'' ''Bold'', tool_button ''Italic'' ''Italic'', El ''div'' [] [], tool_button ''Link'' ''LinkIcon'',
           tool_button ''Bullet List'' ''List'', tool_button ''Image'' ''ImageIcon''],
         El ''div'' [] [
           El ''textarea'' [Attr ''value'' (qn_new p), On ''onChange'' QnType, Attr ''placeholder'' ''Ask a question about this shipment... (Markdown supported)''] [],
           El ''button'' [Attr ''type'' ''submit'', Flag ''disabled'' (trim (qn_new p) = [])] [El ''Send'' [] []]]]]]"

section \<open>AuctionSearch\<close>

datatype filter_act = ToggleFilters

definition filter_group :: "string \<Rightarrow> string \<Rightarrow> 'a jsx list \<Rightarrow> 'a jsx" where
  "filter_group icon label body = El ''div'' [] (El ''label'' [] [El icon [] [], Txt ('' '' @ label)] # body)"

definition AuctionSearch :: "bool \<Rightarrow> filter_act jsx" where
  "AuctionSearch isExpanded =
     El ''div'' [] (
       El ''div'' [] [
         El ''div'' [] [El ''Search'' [] [],
           El ''input'' [Attr ''type'' ''text'', Attr ''placeholder'' ''Search by ID, Origin, Destination, or Description...''] []],
         El ''button'' [onClick ToggleFilters, Flag ''expanded'' isExpanded] [El ''Filter'' [] [], Txt ''Advanced Filters'']] #
       only_if isExpanded [El ''div'' [] [
         El ''div'' [] [
           filter_group ''ArrowDownUp'' ''Auction Type'' [El ''select'' [] [
             El ''option'' [Attr ''value'' ''all''] [Txt ''All Types''],
             El ''option'' [Attr ''value'' ''reverse''] [Txt ''Reverse (Bid Down)''],
             El ''option'' [Attr ''value'' ''forward''] [Txt ''Forward (Bid Up)'']]],
           filter_group ''Tag'' ''Category'' [El ''select'' [] (El ''option'' [Attr ''value'' ''all''] [Txt ''All Categories''] #
             map (\<lambda>c. El ''option'' [Attr ''key'' c, Attr ''value'' c] [Txt c]) SHIPMENT_CATEGORIES)],
           filter_group ''Calendar'' ''Pickup Date Range'' [El ''div'' [] [
             El ''input'' [Attr ''type'' ''date''] [], El ''span'' [] [Txt ''-''], El ''input'' [Attr ''type'' ''date''] []]],
           filter_group ''DollarSign'' ''Price Range ($)'' [El ''div'' [] [
             El ''input'' [Attr ''type'' ''number'', Attr ''placeholder'' ''Min''] [], El ''span'' [] [Txt ''-''],
             El ''input'' [Attr ''type'' ''number'', Attr ''placeholder'' ''Max''] []]]],
         El ''div'' [] [El ''button'' [] [Txt ''Reset Filters''], El ''button'' [] [Txt ''Apply Filters'']]]])"

section \<open>Charts\<close>

record d3 =
  d3_scale :: "jsnum \<times> jsnum \<Rightarrow> jsnum \<times> jsnum \<Rightarrow> jsnum \<Rightarrow> jsnum"
  d3_ticks :: "rat \<Rightarrow> rat \<Rightarrow> nat \<Rightarrow> rat list"
  d3_line :: "(jsnum \<times> jsnum) list \<Rightarrow> string option"

definition js_mul :: "rat \<Rightarrow> rat \<Rightarrow> jsnum" where
  "js_mul a b = fl (a * b)"

definition js_div :: "rat \<Rightarrow> rat \<Rightarrow> jsnum" where
  "js_div a b = fl (a / b)"

text \<open>\<open>d3.min\<close> and \<open>d3.max\<close> of the amounts; there is none of an empty list.\<close>

definition least_amount :: "rat list \<Rightarrow> rat option" where
  "least_amount xs = (if xs = [] then None else Some (foldl min (hd xs) (tl xs)))"

definition greatest_amount :: "rat list \<Rightarrow> rat option" where
  "greatest_amount xs = (if xs = [] then None else Some (foldl max (hd xs) (tl xs)))"

definition padded_domain :: "rat list \<Rightarrow> jsnum \<times> jsnum" where
  "padded_domain xs = (case (least_amount xs, greatest_amount xs) of
     (Some a, Some b) \<Rightarrow> (js_mul a (rnd (9 / 10)), js_mul b (rnd (11 / 10))) | _ \<Rightarrow> (JNaN, JNaN))"

definition curve_points :: "d3 \<Rightarrow> jsnum \<Rightarrow> rat \<Rightarrow> rat list \<Rightarrow> (jsnum \<times> jsnum) list" where
  "curve_points d w h xs = map (\<lambda>(i, x). (d3_scale d (Fin 0, Fin (of_nat (length xs) - 1)) (Fin 0, w) (Fin (of_nat i)), d3_scale d (padded_domain xs) (Fin h, Fin 0) (Fin x)))
     (zip [0..<length xs] xs)"

text \<open>The effects: the path is replaced when the line generator gives one.\<close>

definition trend_path :: "d3 \<Rightarrow> rat list \<Rightarrow> string \<Rightarrow> string" where
  "trend_path d xs path = opt_str_or (d3_line d (curve_points d (Fin 100) 40 xs)) path"

definition TrendChart :: "string \<Rightarrow> string \<Rightarrow> 'a jsx" where
  "TrendChart color path =
     El ''div'' [] [El ''svg'' [Attr ''viewBox'' ''0 0 100 40'', Attr ''preserveAspectRatio'' ''none'']
       (only_if (path \<noteq> []) [El ''motion.path'' [Attr ''d'' path, Attr ''fill'' ''none'', Attr ''stroke'' color] []])]"

record graph_state =
  gs_path :: string
  gs_width :: rat

definition graph_init :: graph_state where
  "graph_init = \<lparr>gs_path = [], gs_width = 0\<rparr>"

definition graph_resize :: "rat \<Rightarrow> graph_state \<Rightarrow> graph_state" where
  "graph_resize w g = g\<lparr>gs_width := w\<rparr>"

definition graph_effect :: "d3 \<Rightarrow> rat list \<Rightarrow> graph_state \<Rightarrow> graph_state" where
  "graph_effect d xs g = (if gs_width g = 0 \<or> xs = [] then g
     else g\<lparr>gs_path := opt_str_or (d3_line d (curve_points d (case js_sub (gs_width g) 60 of Fin w \<Rightarrow> js_sub w 20 | n \<Rightarrow> n) (250 - 20 - 30) xs)) (gs_path g)\<rparr>)"

definition to_fixed1 :: "jsnum \<Rightarrow> string" where
  "to_fixed1 n = (case n of
     Fin r \<Rightarrow> (let t = nat \<lfloor>\<bar>r\<bar> * 10 + 1/2\<rfloor> in
       if 10 ^ 21 \<le> \<bar>r\<bar> then num_str n else (if r < 0 then ''-'' else []) @ nat_str (t div 10) @ ''.'' @ nat_str (t mod 10))
   | _ \<Rightarrow> num_str n)"

record graph_stats =
  gt_start :: rat
  gt_final :: rat
  gt_savings :: jsnum
  gt_percent :: string

definition graph_stats_of :: "rat list \<Rightarrow> graph_stats" where
  "graph_stats_of xs =
     (let start = (if xs = [] then 0 else hd xs); final = (if xs = [] then 0 else last xs); savings = js_sub start final in
      \<lparr>gt_start = start, gt_final = final, gt_savings = savings,
       gt_percent = (if start > 0 then
           (case savings of Fin s \<Rightarrow> (case js_div s start of Fin q \<Rightarrow> to_fixed1 (js_mul q 100) | n \<Rightarrow> to_fixed1 n) | n \<Rightarrow> to_fixed1 n)
         else ''0'')\<rparr>)"

definition graph_ticks :: "d3 \<Rightarrow> (rat \<Rightarrow> string) \<Rightarrow> rat \<Rightarrow> rat list \<Rightarrow> 'a jsx list" where
  "graph_ticks d fmt w xs =
     map (\<lambda>(i, tick). El ''g'' [Attr ''key'' (nat_str i),
         Attr ''transform'' (''translate(0, '' @ num_str (d3_scale d (padded_domain xs) (Fin 200, Fin 0) (Fin tick)) @ '')'')] [
         El ''line'' [Attr ''x1'' ''0'', Attr ''x2'' (num_str (js_sub w 80))] [],
         El ''text'' [Attr ''x'' ''-10'', Attr ''y'' ''4''] [Txt (''$'' @ fmt tick)]])
       (let ts = d3_ticks d (case least_amount xs of None \<Rightarrow> 0 | Some a \<Rightarrow> a) (case greatest_amount xs of None \<Rightarrow> 0 | Some b \<Rightarrow> b) 5
        in zip [0..<length ts] ts)"

definition BidHistoryGraph :: "d3 \<Rightarrow> (jsnum \<Rightarrow> string) \<Rightarrow> (rat \<Rightarrow> string) \<Rightarrow> rat list \<Rightarrow> graph_state \<Rightarrow> 'a jsx" where
  "BidHistoryGraph d fmt_num fmt xs g =
     (let s = graph_stats_of xs in
      El ''div'' [] [
        El ''div'' [] [
          El ''div'' [] [El ''h4'' [] [El ''TrendingDown'' [] [], Txt '' Bid Timeline Analysis''],
            El ''p'' [] [Txt ''Visualization of competitive bidding driving down the contract price.'']],
          El ''div'' [] [
            El ''div'' [] [El ''span'' [] [Txt ''Total Savings''],
              El ''span'' [] [Txt (''$'' @ fmt_num (gt_savings s) @ '' ('' @ gt_percent s @ ''%)'')]],
            El ''div'' [] [El ''span'' [] [Txt ''Total Bids''], El ''span'' [] [El ''Users'' [] [], Txt ('' '' @ nat_str (length xs))]]]],
        El ''div'' [] (only_if (gs_width g > 0) [
          El ''svg'' [Attr ''width'' (num_str (Fin (gs_width g))), Attr ''height'' ''250''] [
            El ''defs'' [] [El ''linearGradient'' [Attr ''id'' ''lineGradient''] [El ''stop'' [] [], El ''stop'' [] []],
              El ''linearGradient'' [Attr ''id'' ''areaGradient''] [El ''stop'' [] [], El ''stop'' [] []]],
            El ''g'' [Attr ''transform'' ''translate(60, 20)''] (
              graph_ticks d fmt (gs_width g) xs @
              only_if (gs_path g \<noteq> []) (
                El ''motion.path'' [Attr ''d'' (gs_path g), Attr ''fill'' ''none'', Attr ''stroke'' ''url(#lineGradient)''] [] #
                map (\<lambda>(i, (x, y)). El ''motion.circle'' [Attr ''key'' (nat_str i), Attr ''cx'' (num_str x), Attr ''cy'' (num_str y), Attr ''r'' ''4''] [])
                  (zip [0..<length xs] (curve_points d (js_sub (gs_width g) 80) 200 xs))))]])])"

section \<open>Gallery and map\<close>

definition gallery_init :: "media list \<Rightarrow> media option" where
  "gallery_init ms = (case ms of [] \<Rightarrow> None | m # _ \<Rightarrow> Some m)"

datatype gallery_act = ShowMedia media

definition MediaGallery :: "media list \<Rightarrow> media option \<Rightarrow> gallery_act jsx list" where
  "MediaGallery ms active = (case active of
     None \<Rightarrow> []
   | Some m \<Rightarrow> [El ''div'' [] [
       El ''div'' [] [El ''AnimatePresence'' [] [El ''motion.div'' [Attr ''key'' (md_url m)] [
         if md_type m = IMAGE then El ''img'' [Attr ''src'' (md_url m), Attr ''alt'' ''Shipment item''] []
         else El ''video'' [Attr ''src'' (md_url m), Flag ''controls'' True, Flag ''playsInline'' True] []]]],
       El ''div'' [] (map (\<lambda>(i, x). El ''button'' [Attr ''key'' (nat_str i), onClick (ShowMedia x), Flag ''active'' (md_url m = md_url x)] (
         (if md_type x = VIDEO then El ''video'' [Attr ''src'' (md_url x), Flag ''muted'' True, Attr ''preload'' ''metadata''] []
          else El ''img'' [Attr ''src'' (md_url x), Attr ''alt'' (''Thumbnail '' @ nat_str i)] []) #
         only_if (md_type x = VIDEO) [El ''div'' [] [El ''PlayCircle'' [] []]])) (zip [0..<length ms] ms))]])"

record map_props =
  mp_originLat :: rat
  mp_originLng :: rat
  mp_destLat :: rat
  mp_destLng :: rat
  mp_originAddress :: "string option"
  mp_destAddress :: "string option"

record map_state =
  ms_route :: bool
  ms_distance :: string
  ms_duration :: string

definition map_init :: map_state where
  "map_init = \<lparr>ms_route = False, ms_distance = [], ms_duration = []\<rparr>"

definition map_request :: "bool \<Rightarrow> map_props \<Rightarrow> ((rat \<times> rat) \<times> (rat \<times> rat)) option" where
  "map_request isLoaded p =
     (if (mp_originLat p \<noteq> 0 \<or> mp_originLng p \<noteq> 0) \<and> (mp_destLat p \<noteq> 0 \<or> mp_destLng p \<noteq> 0) \<and> isLoaded
      then Some ((mp_originLat p, mp_originLng p), (mp_destLat p, mp_destLng p)) else None)"

definition map_answer :: "(string option \<times> string option) option \<Rightarrow> map_state \<Rightarrow> map_state" where
  "map_answer ans s = (case ans of
     None \<Rightarrow> s
   | Some (len, dur) \<Rightarrow> s\<lparr>ms_route := True, ms_distance := opt_str_or len (ms_distance s), ms_duration := opt_str_or dur (ms_duration s)\<rparr>)"

definition marker :: "rat \<Rightarrow> rat \<Rightarrow> 'a jsx" where
  "marker lat lng = El ''Marker'' [Attr ''lat'' (num_str (Fin lat)), Attr ''lng'' (num_str (Fin lng))] []"

text \<open>The mean of two coordinates, as the doubles give it.\<close>

definition js_mid :: "rat \<Rightarrow> rat \<Rightarrow> jsnum" where
  "js_mid a b = (case js_add a b of Fin s \<Rightarrow> js_div s 2 | n \<Rightarrow> n)"

definition ShipmentMap :: "bool \<Rightarrow> map_props \<Rightarrow> map_state \<Rightarrow> 'a jsx" where
  "ShipmentMap isLoaded p s =
     El ''div'' [] (
       El ''div'' [] [El ''h3'' [] [Txt ''Live Route'']] #
       only_if (str_truthy (mp_originAddress p) \<or> str_truthy (mp_destAddress p)) [El ''div'' [] [
         El ''div'' [] [El ''MapPin'' [] [], El ''span'' [] [Txt (opt_str_or (mp_originAddress p) ''Origin'')]],
         El ''div'' [] [],
         El ''div'' [] [El ''span'' [] [Txt (opt_str_or (mp_destAddress p) ''Destination'')], El ''MapPin'' [] []]]] @ [
       El ''div'' [] (
         El ''div'' [] [if isLoaded then
             El ''GoogleMap'' [Attr ''lat'' (num_str (js_mid (mp_originLat p) (mp_destLat p))), Attr ''lng'' (num_str (js_mid (mp_originLng p) (mp_destLng p))), Attr ''zoom'' ''4'']
               (if ms_route s then [El ''DirectionsRenderer'' [] []]
                else [marker (mp_originLat p) (mp_originLng p), marker (mp_destLat p) (mp_destLng p)])
           else El ''div'' [] [Txt ''Loading Map...'']] #
         only_if (ms_route s \<and> ms_distance s \<noteq> [] \<and> ms_duration s \<noteq> []) [El ''div'' [] [
           El ''div'' [] [El ''p'' [] [Txt ''Total Distance''], El ''p'' [] [Txt (ms_distance s)]],
           El ''div'' [] [],
           El ''div'' [] [El ''p'' [] [Txt ''Est. Travel Time''], El ''p'' [] [Txt (ms_duration s)]],
           El ''div'' [] [],
           El ''div'' [] [El ''p'' [] [Txt ''Traffic Delay''], El ''p'' [] [Txt ''Normal'']]]])])"

section \<open>The frame\<close>

text \<open>\<open>RootLayout\<close>: the user of the cookie, if the service knows it.\<close>

definition layout_request :: "string option \<Rightarrow> string option \<Rightarrow> http_request option" where
  "layout_request env cookie = (if str_truthy cookie then
     Some \<lparr>rq_method = ''GET'', rq_url = api_url env @ ''/api/auth/me'', rq_headers = [bearer (the cookie)], rq_body = None\<rparr> else None)"

definition serverUserId :: "string option \<Rightarrow> string option reply \<Rightarrow> string" where
  "serverUserId cookie rep = (if str_truthy cookie then (case rep of Ok u \<Rightarrow> opt_str_or u [] | _ \<Rightarrow> []) else [])"

definition RootLayout :: "string \<Rightarrow> 'a jsx list \<Rightarrow> 'a jsx" where
  "RootLayout user children =
     El ''html'' [Attr ''lang'' ''en''] [El ''body'' [] [El ''Providers'' [Attr ''serverUserId'' user] [El ''AppShell'' [] children]]]"

definition Providers :: "string \<Rightarrow> 'a jsx list \<Rightarrow> 'a jsx" where
  "Providers user children =
     El ''QueryClientProvider'' [Attr ''staleTime'' ''60000''] [
       El ''Provider'' [] [El ''ThemeProvider'' [Attr ''attribute'' ''class'', Attr ''defaultTheme'' ''light'', Flag ''enableSystem'' False] [
         El ''AuthProvider'' [] [El ''SocketProvider'' [Attr ''serverUserId'' user] [El ''AuthGuard'' [] children]]]],
       El ''ReactQueryDevtools'' [Flag ''initialIsOpen'' False] []]"

definition SearchPage :: "'a jsx" where
  "SearchPage =
     El ''div'' [] [
       El ''div'' [] [El ''div'' [] [El ''h1'' [] [Txt ''Search Results''],
         El ''p'' [] [Txt ''Intelligent semantic and phonetic search powered by Elasticsearch.'']]],
       El ''Suspense'' [] [El ''SearchResults'' [] []]]"

definition DashboardHome :: "ui_state \<Rightarrow> 'a jsx" where
  "DashboardHome u = El ''div'' [] [El ''Sidebar'' [] [], El ''main'' [Flag ''collapsed'' (isSidebarCollapsed u)] [El ''Dashboard'' [] []]]"

text \<open>
  \<open>categoryTone\<close>: a style chosen by the sum of the first UTF-16 units of the characters. \<open>code_points\<close> reads the
  characters of a UTF-8 text.
\<close>

fun code_points :: "nat list \<Rightarrow> nat list" where
  "code_points [] = []"
| "code_points (a # bs) =
     (if a < 192 then a # code_points bs
      else if a < 224 then ((a - 192) * 64 + sum_list (map (\<lambda>b. b - 128) (take 1 bs))) # code_points (drop 1 bs)
      else if a < 240 then ((a - 224) * 4096 + (case bs of b # c # _ \<Rightarrow> (b - 128) * 64 + (c - 128) | _ \<Rightarrow> 0)) # code_points (drop 2 bs)
      else ((a - 240) * 262144 + (case bs of b # c # d # _ \<Rightarrow> (b - 128) * 4096 + (c - 128) * 64 + (d - 128) | _ \<Rightarrow> 0)) # code_points (drop 3 bs))"

definition first_unit :: "nat \<Rightarrow> nat" where
  "first_unit c = (if c < 65536 then c else 55296 + (c - 65536) div 1024)"

definition tones :: "string list" where
  "tones = [''border-blue-200 bg-blue-50 text-blue-700 hover:bg-blue-100'', ''border-cyan-200 bg-cyan-50 text-cyan-700 hover:bg-cyan-100'',
     ''border-violet-200 bg-violet-50 text-violet-700 hover:bg-violet-100'', ''border-emerald-200 bg-emerald-50 text-emerald-700 hover:bg-emerald-100'',
     ''border-amber-200 bg-amber-50 text-amber-700 hover:bg-amber-100'', ''border-rose-200 bg-rose-50 text-rose-700 hover:bg-rose-100'']"

definition categoryTone :: "string \<Rightarrow> string" where
  "categoryTone category = tones ! (sum_list (map first_unit (code_points (map of_char category))) mod length tones)"

lemma categoryTone_in: "categoryTone c \<in> set tones"
  unfolding categoryTone_def by (rule nth_mem) (simp add: tones_def)

text \<open>The marketplace page has its own copy of the table, without the styles of the pointer.\<close>

definition home_tones :: "string list" where
  "home_tones = [''border-blue-200 bg-blue-50 text-blue-700'', ''border-cyan-200 bg-cyan-50 text-cyan-700'',
     ''border-violet-200 bg-violet-50 text-violet-700'', ''border-emerald-200 bg-emerald-50 text-emerald-700'',
     ''border-amber-200 bg-amber-50 text-amber-700'', ''border-rose-200 bg-rose-50 text-rose-700'']"

definition home_categoryTone :: "string \<Rightarrow> string" where
  "home_categoryTone category = home_tones ! (sum_list (map first_unit (code_points (map of_char category))) mod length home_tones)"

lemma home_tone_prefix: "prefix (home_categoryTone c) (categoryTone c)"
proof -
  have "list_all2 prefix home_tones tones" by (simp add: home_tones_def tones_def)
  moreover have "length home_tones = length tones" "0 < length tones" by (simp_all add: home_tones_def tones_def)
  ultimately show ?thesis by (simp add: home_categoryTone_def categoryTone_def list_all2_nthD)
qed

section \<open>What the views show\<close>

text \<open>The filter panel has one control that does something: the button that opens it.\<close>

lemma filters_inert: "triggers ev (AuctionSearch e) = (if ev = ''onClick'' then [\<lambda>_. ToggleFilters] else [])"
  by (auto simp: AuctionSearch_def filter_group_def view_simps)

text \<open>Discussions grow at the end, by one question for each text that is not blank.\<close>

lemma qna_posts:
  "qn_threads (qna_step (QnSubmit now) p) =
    qn_threads p @ (if trim (qn_new p) = [] then [] else [\<lparr>qr_id = now, qr_user = ''You'', qr_isSeller = False, qr_text = qn_new p,
      qr_timestamp = ''Just now'', qn_replies = []\<rparr>])"
  by simp

lemma qna_keeps: "prefix (qn_threads p) (qn_threads (fold qna_step as p))"
proof (induction as arbitrary: p)
  case (Cons a as)
  have "prefix (qn_threads p) (qn_threads (qna_step a p))" by (cases a) auto
  then show ?case using Cons.IH [of "qna_step a p"] by (auto intro: prefix_order.trans)
qed simp

lemma foldl_min_le: "foldl min (a :: rat) xs \<le> a \<and> (\<forall>x \<in> set xs. foldl min a xs \<le> x)"
proof (induction xs arbitrary: a)
  case (Cons y ys)
  show ?case using Cons.IH [of "min a y"] by auto
qed simp

lemma foldl_max_ge: "(a :: rat) \<le> foldl max a xs \<and> (\<forall>x \<in> set xs. x \<le> foldl max a xs)"
proof (induction xs arbitrary: a)
  case (Cons y ys)
  show ?case using Cons.IH [of "max a y"] by auto
qed simp

lemma foldl_pick: "foldl min (a :: rat) xs \<in> insert a (set xs)" "foldl max (a :: rat) xs \<in> insert a (set xs)"
  by (induction xs arbitrary: a) (auto simp: min_def max_def split: if_splits)

lemma shrink_le:
  assumes "is_double a" and "0 \<le> a"
  shows "js_le (js_mul a (rnd (9 / 10))) (Fin a)"
proof -
  have "rnd (9 / 10) \<le> rnd (of_int 1)" by (rule rnd_mono) simp
  then have "rnd (9 / 10) \<le> 1" using rnd_safe_int [of 1] by simp
  then have "a * rnd (9 / 10) \<le> a" using assms(2) by (simp add: mult_left_le)
  from rnd_mono [OF this] have "rnd (a * rnd (9 / 10)) \<le> a" using assms(1) by (simp add: is_double_def)
  moreover have "0 \<le> rnd (a * rnd (9 / 10))" using assms(2) rnd_nonneg [of "9 / 10"] by (intro rnd_nonneg) simp
  ultimately show ?thesis using assms(1) by (auto simp: js_mul_def fl_def Let_def js_le_def is_double_def)
qed

lemma grow_ge:
  assumes "is_double a" and "0 \<le> a"
  shows "js_le (Fin a) (js_mul a (rnd (11 / 10)))"
proof -
  have "rnd (of_int 1) \<le> rnd (11 / 10)" by (rule rnd_mono) simp
  then have "1 \<le> rnd (11 / 10)" using rnd_safe_int [of 1] by simp
  then have "a \<le> a * rnd (11 / 10)" using assms(2) by (simp add: mult_le_cancel_left1)
  from rnd_mono [OF this] have "a \<le> rnd (a * rnd (11 / 10))" using assms(1) by (simp add: is_double_def)
  then show ?thesis using assms by (auto simp: js_mul_def fl_def Let_def js_le_def)
qed

text \<open>
  The chart covers its bids: with amounts that are not negative, every amount lies between the ends of
  the vertical scale, also after the rounding of the two padded ends.
\<close>

lemma chart_covers_bids:
  assumes "\<forall>x \<in> set xs. is_double x \<and> 0 \<le> x" and "x \<in> set xs"
  shows "js_le (fst (padded_domain xs)) (Fin x) \<and> js_le (Fin x) (snd (padded_domain xs))"
proof -
  obtain y ys where xs: "xs = y # ys" using assms(2) by (cases xs) auto
  let ?a = "foldl min y ys" and ?b = "foldl max y ys"
  have ab: "is_double ?a \<and> 0 \<le> ?a" "is_double ?b \<and> 0 \<le> ?b" using assms(1) foldl_pick [of y ys] xs by auto
  have "?a \<le> x" "x \<le> ?b" using assms(2) xs foldl_min_le [of y ys] foldl_max_ge [of y ys] by auto
  moreover have "padded_domain xs = (js_mul ?a (rnd (9 / 10)), js_mul ?b (rnd (11 / 10)))"
    by (simp add: padded_domain_def least_amount_def greatest_amount_def xs)
  ultimately show ?thesis using shrink_le [of ?a] grow_ge [of ?b] ab
    by (cases "js_mul ?a (rnd (9 / 10))"; cases "js_mul ?b (rnd (11 / 10))") (auto simp: js_le_def)
qed

text \<open>
  A map without coordinates: the details view replaces every missing coordinate by one of Los Angeles or London, so
  the map always asks for a route, also for an auction that has no places at all; the check for missing
  coordinates in the map never applies.
\<close>

lemma map_always_routes:
  "map_request True \<lparr>mp_originLat = num_or (Option.bind a it_origin_lat) (3405/100), mp_originLng = num_or (Option.bind a it_origin_lng) (-11824/100),
     mp_destLat = num_or (Option.bind a it_dest_lat) (5150/100), mp_destLng = num_or (Option.bind a it_dest_lng) (-12/100),
     mp_originAddress = oa, mp_destAddress = da\<rparr> \<noteq> None"
  by (auto simp: map_request_def num_or_def split: option.splits)

end
