(* ===== verification/Participants.thy ===== *)
theory Participants
  imports Js_Prelude "HOL-Library.Word"
begin

text \<open>
  Who may bid: the registrations of an auction in the database and the bitmap in Redis that the socket services read.
  \<open>join_auction_service\<close> and \<open>leave_auction_service\<close> of \<open>src/apps/http-server/src/services/auction.rs\<close> change both, the
  scheduler (\<open>src/apps/scheduler/src/main.rs\<close>) fills the bitmap at the start, and the socket server
  (\<open>src/apps/ws-server/src/auth.rs\<close>) and the gateway (\<open>src/apps/gateway-keeper/src/auction_access.rs\<close>) test a bit of it. A
  user id is a UUID, a word of 128 bits; the bit of a user is its remainder modulo \<open>2 ^ 31\<close>.
\<close>

section \<open>The bitmap\<close>

type_synonym uuid = "128 word"

definition participant_offset :: "uuid \<Rightarrow> nat" where
  "participant_offset u = unat (u mod 2 ^ 31)"

text \<open>The keys of one auction: the bitmap and the one of an older version, which is still read. A missing key reads as zeros.\<close>

record access_store =
  as_bits :: "nat set"
  as_legacy :: "nat set"

definition setbit :: "nat \<Rightarrow> bool \<Rightarrow> nat set \<Rightarrow> nat set" where
  "setbit k on bits = (if on then insert k bits else bits - {k})"

definition access_granted :: "access_store \<Rightarrow> uuid \<Rightarrow> bool" where
  "access_granted st u = (participant_offset u \<in> as_bits st \<or> participant_offset u \<in> as_legacy st)"

text \<open>
  The test of the socket server: \<open>user\<close> is the parsed id, \<open>None\<close> where the text is empty or not a UUID; an error of the first
  read, or of the read of the older key, counts as no.
\<close>

definition validate_participant :: "bool \<Rightarrow> bool \<Rightarrow> uuid option \<Rightarrow> access_store \<Rightarrow> bool" where
  "validate_participant read_ok legacy_ok user st = (case user of None \<Rightarrow> False
   | Some u \<Rightarrow> read_ok \<and> (participant_offset u \<in> as_bits st \<or> legacy_ok \<and> participant_offset u \<in> as_legacy st))"

datatype access_answer = AccessOk | AccessDenied | AccessUnavailable

text \<open>The test of the gateway, which lets administrators and sellers pass.\<close>

definition require_participant :: "bool \<Rightarrow> bool \<Rightarrow> string \<Rightarrow> uuid \<Rightarrow> access_store \<Rightarrow> access_answer" where
  "require_participant read_ok legacy_ok role u st =
     (if role \<in> {''ADMIN'', ''CUSTOMER''} then AccessOk
      else if \<not> read_ok then AccessUnavailable
      else if participant_offset u \<in> as_bits st then AccessOk
      else if \<not> legacy_ok then AccessUnavailable
      else if participant_offset u \<in> as_legacy st then AccessOk
      else AccessDenied)"

section \<open>Registration\<close>

record registry =
  rg_start :: int
  rg_users :: "uuid list"
  rg_access :: access_store

datatype reg_error = BadRequest string | ServerFailure string

text \<open>
  A call of Redis: the pool has no connection, the command fails, or it is done. \<open>set_participant_bit\<close> reports the first two.
\<close>

datatype redis_call = NoConnection | CallFails | CallDone

definition grant :: "uuid \<Rightarrow> access_store \<Rightarrow> access_store" where
  "grant u st = st\<lparr>as_bits := setbit (participant_offset u) True (as_bits st)\<rparr>"

definition set_participant_bit :: "redis_call \<Rightarrow> uuid \<Rightarrow> registry \<Rightarrow> (reg_error + unit) \<times> registry" where
  "set_participant_bit redis u rg = (case redis of
     NoConnection \<Rightarrow> (Inl (ServerFailure ''Registration access store is unavailable''), rg)
   | CallFails \<Rightarrow> (Inl (ServerFailure ''Failed to grant auction access''), rg)
   | CallDone \<Rightarrow> (Inr (), rg\<lparr>rg_access := grant u (rg_access rg)\<rparr>))"

text \<open>
  What the services answer while a user joins: the connection, the auction, the count of the rows, the new row, and Redis.
\<close>

record join_io =
  ji_db :: bool
  ji_found :: bool
  ji_count :: bool
  ji_insert :: bool
  ji_redis :: redis_call

text \<open>
  \<open>join_auction_service\<close>: a known user only gets the bit again; a new one needs five minutes before the start. A count that
  fails reads as none, and then the constraint of the table refuses the second row. When the bit cannot be set the answer is
  an error, although a new row has been stored by then.
\<close>

definition join_auction_service :: "int \<Rightarrow> join_io \<Rightarrow> uuid \<Rightarrow> registry \<Rightarrow> (reg_error + unit) \<times> registry" where
  "join_auction_service now io u rg =
     (if \<not> ji_db io then (Inl (ServerFailure ''Failed to get DB connection''), rg)
      else if \<not> ji_found io then (Inl (BadRequest ''Auction not found''), rg)
      else if ji_count io \<and> u \<in> set (rg_users rg) then set_participant_bit (ji_redis io) u rg
      else if rg_start rg - 5 * 60000 \<le> now then
        (Inl (BadRequest ''Registration closed five minutes before the auction start time''), rg)
      else if \<not> ji_insert io then (Inl (ServerFailure ''Failed to join auction''), rg)
      else if u \<in> set (rg_users rg) then (Inl (BadRequest ''You have already joined this auction''), rg)
      else set_participant_bit (ji_redis io) u (rg\<lparr>rg_users := rg_users rg @ [u]\<rparr>))"

record leave_io =
  li_db :: bool
  li_found :: bool
  li_delete :: bool
  li_redis :: bool
  li_bit :: bool
  li_legacy :: bool

text \<open>
  \<open>leave_auction_service\<close>: until the start; an error of Redis is ignored, of the pool and of each of the two keys.
\<close>

definition leave_auction_service :: "int \<Rightarrow> leave_io \<Rightarrow> uuid \<Rightarrow> registry \<Rightarrow> (reg_error + unit) \<times> registry" where
  "leave_auction_service now io u rg =
     (if \<not> li_db io then (Inl (ServerFailure ''Failed to get DB connection''), rg)
      else if \<not> li_found io then (Inl (BadRequest ''Auction not found''), rg)
      else if rg_start rg \<le> now then (Inl (BadRequest ''Too late to unregister from the auction''), rg)
      else if \<not> li_delete io then (Inl (ServerFailure ''Failed to leave auction''), rg)
      else if u \<notin> set (rg_users rg) then (Inl (BadRequest ''You are not registered for this auction''), rg)
      else let st = rg_access rg;
               st = (if li_redis io \<and> li_bit io then st\<lparr>as_bits := setbit (participant_offset u) False (as_bits st)\<rparr> else st);
               st = (if li_redis io \<and> li_legacy io then st\<lparr>as_legacy := setbit (participant_offset u) False (as_legacy st)\<rparr> else st)
           in (Inr (), rg\<lparr>rg_users := filter (\<lambda>v. v \<noteq> u) (rg_users rg), rg_access := st\<rparr>))"

text \<open>The bits that the scheduler sets when it opens the auction, in one transaction.\<close>

definition hydrate :: "registry \<Rightarrow> registry" where
  "hydrate rg = rg\<lparr>rg_access := fold grant (rg_users rg) (rg_access rg)\<rparr>"

text \<open>
  The events of one auction. The bitmap may be lost, when it expires or when Redis starts empty.
\<close>

datatype reg_event = RgJoin int join_io uuid | RgLeave int leave_io uuid | RgHydrate | RgLost

fun registry_step :: "reg_event \<Rightarrow> registry \<Rightarrow> registry" where
  "registry_step (RgJoin now io u) rg = snd (join_auction_service now io u rg)"
| "registry_step (RgLeave now io u) rg = snd (leave_auction_service now io u rg)"
| "registry_step RgHydrate rg = hydrate rg"
| "registry_step RgLost rg = rg\<lparr>rg_access := \<lparr>as_bits = {}, as_legacy = {}\<rparr>\<rparr>"

definition registry_init :: "int \<Rightarrow> uuid \<Rightarrow> registry" where
  "registry_init start creator = \<lparr>rg_start = start, rg_users = [creator], rg_access = \<lparr>as_bits = {}, as_legacy = {}\<rparr>\<rparr>"

section \<open>Access follows registration\<close>

definition reg_inv :: "uuid set \<Rightarrow> registry \<Rightarrow> bool" where
  "reg_inv U rg \<longleftrightarrow> set (rg_users rg) \<subseteq> U \<and>
     as_bits (rg_access rg) \<union> as_legacy (rg_access rg) \<subseteq> participant_offset ` set (rg_users rg)"

text \<open>The events of users in \<open>U\<close>, in which Redis does not fail where its answer is ignored.\<close>

definition redis_answers :: "leave_io \<Rightarrow> bool" where
  "redis_answers io = (li_redis io \<and> li_bit io \<and> li_legacy io)"

definition reg_ok :: "uuid set \<Rightarrow> reg_event \<Rightarrow> bool" where
  "reg_ok U e = (case e of RgJoin now io u \<Rightarrow> u \<in> U | RgLeave now io u \<Rightarrow> u \<in> U \<and> redis_answers io | RgHydrate \<Rightarrow> True | RgLost \<Rightarrow> True)"

text \<open>The events once the auction has started.\<close>

definition after_start :: "int \<Rightarrow> reg_event \<Rightarrow> bool" where
  "after_start start e = (case e of RgJoin now io u \<Rightarrow> start \<le> now | RgLeave now io u \<Rightarrow> start \<le> now | RgHydrate \<Rightarrow> True | RgLost \<Rightarrow> False)"

lemma fold_grant: "as_bits (fold grant us st) = as_bits st \<union> participant_offset ` set us" "as_legacy (fold grant us st) = as_legacy st"
  by (induction us arbitrary: st) (auto simp: grant_def setbit_def)

lemmas registry_defs = join_auction_service_def leave_auction_service_def set_participant_bit_def grant_def setbit_def hydrate_def fold_grant Let_def

lemma reg_inv_step: "reg_ok U e \<Longrightarrow> reg_inv U rg \<Longrightarrow> reg_inv U (registry_step e rg)"
proof (cases e)
  case (RgLeave now io u)
  moreover assume "reg_ok U e" "reg_inv U rg"
  ultimately show ?thesis
    by (fastforce simp: reg_inv_def reg_ok_def redis_answers_def registry_defs)
qed (auto simp: reg_inv_def reg_ok_def registry_defs split: redis_call.splits)

interpretation reg: machine "registry_init start creator" registry_step "\<lambda>rg. creator \<in> U \<longrightarrow> reg_inv U rg" "reg_ok U" for start creator U
  by unfold_locales (auto simp: reg_inv_step, auto simp: reg_inv_def registry_init_def)

text \<open>Nobody is registered or removed once the auction has started, and no bit is lost.\<close>

lemma start_kept: "rg_start (registry_step e rg) = rg_start rg"
  by (cases e) (auto simp: registry_defs split: redis_call.splits)

lemma run_start: "rg_start (fold registry_step es rg) = rg_start rg"
  by (induction es arbitrary: rg) (simp_all add: start_kept)

lemma late_step:
  "after_start (rg_start rg) e \<Longrightarrow> rg_users (registry_step e rg) = rg_users rg \<and>
    as_bits (rg_access rg) \<subseteq> as_bits (rg_access (registry_step e rg))"
  by (cases e) (auto simp: after_start_def registry_defs split: redis_call.splits)

lemma late_run:
  "\<forall>e \<in> set es. after_start (rg_start rg) e \<Longrightarrow> rg_users (fold registry_step es rg) = rg_users rg \<and>
    as_bits (rg_access rg) \<subseteq> as_bits (rg_access (fold registry_step es rg))"
proof (induction es arbitrary: rg)
  case (Cons e es)
  then have "rg_users (fold registry_step es (registry_step e rg)) = rg_users (registry_step e rg) \<and>
      as_bits (rg_access (registry_step e rg)) \<subseteq> as_bits (rg_access (fold registry_step es (registry_step e rg)))"
    by (simp add: start_kept)
  with Cons.prems show ?case using late_step [of rg e] by (simp, blast)
qed simp


definition ex_join :: "redis_call \<Rightarrow> join_io" where
  "ex_join r = \<lparr>ji_db = True, ji_found = True, ji_count = True, ji_insert = True, ji_redis = r\<rparr>"

definition ex_leave :: "bool \<Rightarrow> leave_io" where
  "ex_leave r = \<lparr>li_db = True, li_found = True, li_delete = True, li_redis = r, li_bit = True, li_legacy = True\<rparr>"

definition ex_reg_events :: "reg_event list" where
  "ex_reg_events = [RgJoin 0 (ex_join CallDone) 2, RgJoin 0 (ex_join CallFails) 3, RgLost, RgLeave 5 (ex_leave True) 2]"

definition ex_late_events :: "reg_event list" where
  "ex_late_events = [RgJoin 1000005 (ex_join CallDone) 2, RgLeave 1000007 (ex_leave True) 3]"

definition ex_opened :: registry where
  "ex_opened = fold registry_step (ex_reg_events @ [RgHydrate]) (registry_init 1000000 1)"

lemma ex_offsets: "participant_offset 1 = 1" "participant_offset 2 = 2" "participant_offset 3 = 3"
  by (simp_all add: participant_offset_def)


text \<open>
  Two users can share a bit: user ids that agree in their last 31 bits have the same place in the bitmap. Then the
  registration of one lets the other in without a registration, and when both are registered and one leaves, the other is locked
  out until the bit is set again.
\<close>

lemma shared_bit:
  assumes "u mod 2 ^ 31 = v mod 2 ^ 31" and "u \<noteq> v" and "set (rg_users rg) \<inter> {u, v} = {}" and "now < rg_start rg - 5 * 60000"
    and "as_legacy (rg_access rg) = {}"
    and "joined = registry_step (RgJoin now (ex_join CallDone) u) rg"
    and "left = registry_step (RgLeave now (ex_leave True) v) (registry_step (RgJoin now (ex_join CallDone) v) joined)"
  shows "validate_participant True True (Some v) (rg_access joined) \<and> v \<notin> set (rg_users joined) \<and>
    \<not> validate_participant True True (Some u) (rg_access left) \<and> u \<in> set (rg_users left)"
proof -
  have "participant_offset v = participant_offset u" using assms(1) by (simp add: participant_offset_def)
  then show ?thesis using assms(2-)
    by (auto simp: registry_defs validate_participant_def ex_join_def ex_leave_def)
qed

text \<open>A failure of Redis while a user leaves is ignored, and the user keeps access without a registration.\<close>

lemma leave_keeps_bit:
  assumes "u \<in> set (rg_users rg)" and "now < rg_start rg" and "participant_offset u \<in> as_bits (rg_access rg)"
  shows "fst (leave_auction_service now (ex_leave False) u rg) = Inr ()"
    and "validate_participant True True (Some u) (rg_access (snd (leave_auction_service now (ex_leave False) u rg)))"
    and "u \<notin> set (rg_users (snd (leave_auction_service now (ex_leave False) u rg)))"
  using assms by (auto simp: leave_auction_service_def validate_participant_def ex_leave_def)

text \<open>A new user whose bit cannot be set is answered with an error and is registered all the same.\<close>

lemma failed_join_registers:
  assumes "u \<notin> set (rg_users rg)" and "now < rg_start rg - 5 * 60000"
  shows "join_auction_service now (ex_join NoConnection) u rg =
      (Inl (ServerFailure ''Registration access store is unavailable''), rg\<lparr>rg_users := rg_users rg @ [u]\<rparr>)"
  using assms by (simp add: join_auction_service_def set_participant_bit_def ex_join_def)

end
