(* ===== verification/Bid_Engine.thy ===== *)
theory Bid_Engine
  imports Bidding_Console Http
begin

text \<open>
  The auction engine, \<open>src/apps/auction-engine\<close>: the actor that decides the bids of one auction
  (\<open>actor/loop_.rs\<close>), the rule it applies (\<open>types.rs\<close>), the Redis ledger it writes (\<open>ledger.rs\<close>) and the
  state it restores after a restart (\<open>actor/runtime.rs\<close>). A JSON number in Redis is finite, so that prices are
  the rationals of finite doubles; the rule itself is defined on all doubles. The keys of one auction are one record,
  every Redis command has an answer that is an argument of the operation, and the actor is a machine over tasks,
  restarts, expired keys and the deadline. Parameters: the text of a JSON value (\<open>print\<close>), which breaks ties in a sorted set, and
  the time parser of \<open>chrono\<close>.
\<close>

section \<open>The rule\<close>

definition is_better_bid :: "auction_type \<Rightarrow> jsnum \<Rightarrow> jsnum \<Rightarrow> jsnum \<Rightarrow> bool" where
  "is_better_bid t price amt bid_step = (case (price, amt, bid_step) of
     (Fin p, Fin a, Fin s) \<Rightarrow>
       if a \<le> 0 \<or> s \<le> 0 then False
       else (case t of REVERSE \<Rightarrow> js_le (Fin a) (js_sub p s) | FORWARD \<Rightarrow> js_le (js_add p s) (Fin a))
   | _ \<Rightarrow> False)"

section \<open>Tasks and decisions\<close>

record auction_task =
  tk_request_id :: string
  tk_bid :: bid_request
  tk_source_topic :: string
  tk_source_partition :: int
  tk_source_offset :: int

record decision =
  dc_request_id :: string
  dc_bid :: bid_request
  dc_auction_type :: auction_type
  dc_is_executed :: bool
  dc_rejection_reason :: "string option"
  dc_previous_price :: rat
  dc_resulting_price :: rat
  dc_processed_at :: int
  dc_source_topic :: string
  dc_source_partition :: int
  dc_source_offset :: int

definition decision_of :: "auction_task \<Rightarrow> auction_type \<Rightarrow> bool \<Rightarrow> rat \<Rightarrow> int \<Rightarrow> decision" where
  "decision_of tk t executed prev now =
     \<lparr>dc_request_id = tk_request_id tk, dc_bid = tk_bid tk, dc_auction_type = t, dc_is_executed = executed,
      dc_rejection_reason = (if executed then None else Some ''BID_DOES_NOT_IMPROVE_PRICE''), dc_previous_price = prev,
      dc_resulting_price = (if executed then br_amount (tk_bid tk) else prev), dc_processed_at = now,
      dc_source_topic = tk_source_topic tk, dc_source_partition = tk_source_partition tk,
      dc_source_offset = tk_source_offset tk\<rparr>"

datatype task_result = Committed | TaskRejected string | Retryable string

datatype ledger_write = Applied | Duplicate

record runtime =
  rt_auction_type :: auction_type
  rt_current_price :: rat
  rt_minimum_bid_step :: rat
  rt_reserve_price :: "rat option"
  rt_end_timestamp_ms :: int

section \<open>The ledger\<close>

text \<open>
  The keys of one auction: the records of accepted requests, the two streams, the sorted set, and the events that wait
  for the publisher. A sorted set is the list of its members by score, equal scores by the text of the member.
\<close>

type_synonym zset = "(rat \<times> decision) list"

record ledger =
  lg_processed :: "string \<rightharpoonup> decision"
  lg_sync :: "decision list"
  lg_live :: "decision list"
  lg_zset :: zset
  lg_pending :: "decision list"

definition ledger_empty :: ledger where
  "ledger_empty = \<lparr>lg_processed = Map.empty, lg_sync = [], lg_live = [], lg_zset = [], lg_pending = []\<rparr>"

definition z_before :: "(decision \<Rightarrow> string) \<Rightarrow> rat \<times> decision \<Rightarrow> rat \<times> decision \<Rightarrow> bool" where
  "z_before print x y = (fst x < fst y \<or> fst x = fst y \<and>
     ord_class.lexordp (map of_char (print (snd x)) :: nat list) (map of_char (print (snd y))))"

fun z_insert :: "(decision \<Rightarrow> string) \<Rightarrow> rat \<times> decision \<Rightarrow> zset \<Rightarrow> zset" where
  "z_insert print x [] = [x]"
| "z_insert print x (y # ys) = (if z_before print y x then y # z_insert print x ys else x # y # ys)"

text \<open>\<open>ZADD\<close>: a member that is there already gets the new score.\<close>

definition zadd :: "(decision \<Rightarrow> string) \<Rightarrow> rat \<Rightarrow> decision \<Rightarrow> zset \<Rightarrow> zset" where
  "zadd print score d z = z_insert print (score, d) (filter (\<lambda>y. print (snd y) \<noteq> print d) z)"

text \<open>\<open>ZRANGE 0 n\<close> or \<open>ZREVRANGE 0 n\<close>, by the direction of the auction.\<close>

definition zrange :: "auction_type \<Rightarrow> nat \<Rightarrow> zset \<Rightarrow> decision list" where
  "zrange t n z = map snd (take (Suc n) (case t of REVERSE \<Rightarrow> z | FORWARD \<Rightarrow> rev z))"

text \<open>The answer to a command: it worked, it failed, or it worked and the answer was lost.\<close>

datatype redis_io = RedisOk | RedisFails | ReplyLost

record write_io =
  wi_lookup :: bool
  wi_write :: redis_io
  wi_publish :: bool

definition redis_error :: string where
  "redis_error = ''redis error''"

text \<open>The script that stores an accepted bid; \<open>True\<close> when the request was new.\<close>

definition accept_script :: "(decision \<Rightarrow> string) \<Rightarrow> decision \<Rightarrow> ledger \<Rightarrow> bool \<times> ledger" where
  "accept_script print d L = (case lg_processed L (dc_request_id d) of
     Some _ \<Rightarrow> (False, L)
   | None \<Rightarrow> (True, L\<lparr>lg_sync := lg_sync L @ [d], lg_live := lg_live L @ [d],
       lg_zset := zadd print (br_amount (dc_bid d)) d (lg_zset L),
       lg_processed := (lg_processed L)(dc_request_id d \<mapsto> d), lg_pending := lg_pending L @ [d]\<rparr>))"

definition xadd_pending :: "decision \<Rightarrow> ledger \<Rightarrow> ledger" where
  "xadd_pending d L = L\<lparr>lg_pending := lg_pending L @ [d]\<rparr>"

text \<open>The result, the ledger, and the live updates that went out.\<close>

definition write_bid ::
  "(decision \<Rightarrow> string) \<Rightarrow> auction_task \<Rightarrow> auction_type \<Rightarrow> bool \<Rightarrow> rat \<Rightarrow> int \<Rightarrow> write_io \<Rightarrow> ledger
     \<Rightarrow> (string + ledger_write) \<times> ledger \<times> decision list" where
  "write_bid print tk t executed prev now io L =
     (let d = decision_of tk t executed prev now;
          updates = (if wi_publish io then [d] else [])
      in if \<not> executed then
           (if \<not> wi_lookup io then (Inl redis_error, L, [])
            else (case lg_processed L (tk_request_id tk) of
              Some old \<Rightarrow> (case wi_write io of
                  RedisOk \<Rightarrow> (Inr Duplicate, xadd_pending old L, [])
                | RedisFails \<Rightarrow> (Inl ''failed to queue audit replay'', L, [])
                | ReplyLost \<Rightarrow> (Inl ''failed to queue audit replay'', xadd_pending old L, []))
            | None \<Rightarrow> (case wi_write io of
                  RedisOk \<Rightarrow> (Inr Applied, xadd_pending d L, updates)
                | RedisFails \<Rightarrow> (Inl ''failed to queue audit publish'', L, [])
                | ReplyLost \<Rightarrow> (Inl ''failed to queue audit publish'', xadd_pending d L, []))))
         else (case wi_write io of
             RedisFails \<Rightarrow> (Inl redis_error, L, [])
           | ReplyLost \<Rightarrow> (Inl redis_error, snd (accept_script print d L), [])
           | RedisOk \<Rightarrow> (case accept_script print d L of
               (False, L') \<Rightarrow> (Inr Duplicate, L', [])
             | (True, L') \<Rightarrow> (Inr Applied, L', updates))))"

section \<open>The state an actor restores\<close>

definition jget :: "string \<Rightarrow> json \<Rightarrow> json option" where
  "jget k v = (case v of JObj kvs \<Rightarrow> map_of kvs k | _ \<Rightarrow> None)"

definition as_f64 :: "json \<Rightarrow> rat option" where
  "as_f64 v = (case v of JNum (Fin r) \<Rightarrow> Some r | _ \<Rightarrow> None)"

definition as_str :: "json \<Rightarrow> string option" where
  "as_str v = (case v of JStr s \<Rightarrow> Some s | _ \<Rightarrow> None)"

definition jf64 :: "string \<Rightarrow> json \<Rightarrow> rat option" where
  "jf64 k v = Option.bind (jget k v) as_f64"

definition jstr :: "string \<Rightarrow> json \<Rightarrow> string option" where
  "jstr k v = Option.bind (jget k v) as_str"

definition or_else :: "'a option \<Rightarrow> 'a option \<Rightarrow> 'a option" where
  "or_else x y = (case x of None \<Rightarrow> y | Some _ \<Rightarrow> x)"

definition unwrap_or :: "'a option \<Rightarrow> 'a \<Rightarrow> 'a" where
  "unwrap_or x d = (case x of None \<Rightarrow> d | Some v \<Rightarrow> v)"

definition keep_if :: "('a \<Rightarrow> bool) \<Rightarrow> 'a option \<Rightarrow> 'a option" where
  "keep_if P x = (case x of None \<Rightarrow> None | Some v \<Rightarrow> if P v then Some v else None)"

text \<open>\<open>to_ascii_uppercase\<close> and \<open>trim_end_matches('Z')\<close>.\<close>

definition ascii_upper :: "string \<Rightarrow> string" where
  "ascii_upper s = map (\<lambda>c. let n = of_char c :: nat in if 97 \<le> n \<and> n \<le> 122 then char_of (n - 32) else c) s"

definition trim_z :: "string \<Rightarrow> string" where
  "trim_z s = rev (dropWhile (\<lambda>c. c = CHR ''Z'') (rev s))"

definition f64_max :: rat where
  "f64_max = (2 - 1 / 2 ^ 52) * 2 ^ 1023"

text \<open>The record of the auction in a stored state, and the object its settings are read from.\<close>

definition auction_record :: "json \<Rightarrow> json option" where
  "auction_record st = or_else (jget ''auction'' st) (jget ''shipment'' st)"

definition config_record :: "json \<Rightarrow> json option" where
  "config_record st = or_else (or_else (jget ''config'' st)
     (keep_if (\<lambda>v. jget ''auction_type'' v \<noteq> None) (jget ''auction'' st))) (auction_record st)"

definition type_of_config :: "json \<Rightarrow> auction_type" where
  "type_of_config c = (if ascii_upper (unwrap_or (jstr ''auction_type'' c) ''REVERSE'') = ''FORWARD'' then FORWARD else REVERSE)"

definition step_of_config :: "json \<Rightarrow> rat" where
  "step_of_config c = unwrap_or (keep_if (\<lambda>v. v > 0) (jf64 ''minimum_bid_step'' c)) 1"

definition reserve_of_config :: "json \<Rightarrow> rat option" where
  "reserve_of_config c = keep_if (\<lambda>v. v \<ge> 0) (jf64 ''reserve_price'' c)"

text \<open>
  What the actor starts from without a bid: the defaults where the stored state has nothing. \<open>st\<close> is the state under
  the key of the auction, or else in the shared hash, where it parses.
\<close>

definition base_runtime :: "(string \<Rightarrow> int option) \<Rightarrow> int \<Rightarrow> json option \<Rightarrow> runtime" where
  "base_runtime parse now st =
     (let rec = Option.bind st auction_record; cfg = Option.bind st config_record
      in \<lparr>rt_auction_type = (case cfg of None \<Rightarrow> REVERSE | Some c \<Rightarrow> type_of_config c),
          rt_current_price = unwrap_or (Option.bind rec (jf64 ''starting_price'')) f64_max,
          rt_minimum_bid_step = (case cfg of None \<Rightarrow> 1 | Some c \<Rightarrow> step_of_config c),
          rt_reserve_price = Option.bind cfg reserve_of_config,
          rt_end_timestamp_ms = unwrap_or (Option.bind (Option.bind rec (jstr ''auction_end_time'')) (\<lambda>s. parse (trim_z s)))
            (now + 180000)\<rparr>)"

text \<open>\<open>None\<close> for a read of the sorted set that failed: the code goes on without a bid.\<close>

definition best_bid :: "auction_type \<Rightarrow> bool \<Rightarrow> zset \<Rightarrow> decision option" where
  "best_bid t read_ok z = (if read_ok then (case zrange t 0 z of [] \<Rightarrow> None | d # _ \<Rightarrow> Some d) else None)"

definition load_runtime :: "(string \<Rightarrow> int option) \<Rightarrow> int \<Rightarrow> json option \<Rightarrow> json option \<Rightarrow> bool \<Rightarrow> ledger \<Rightarrow> runtime" where
  "load_runtime parse now st_key st_hash read_ok L =
     (let rt = base_runtime parse now (or_else st_key st_hash)
      in case best_bid (rt_auction_type rt) read_ok (lg_zset L) of
           None \<Rightarrow> rt | Some d \<Rightarrow> rt\<lparr>rt_current_price := br_amount (dc_bid d)\<rparr>)"

section \<open>Closing\<close>

fun jset :: "string \<Rightarrow> json \<Rightarrow> (string \<times> json) list \<Rightarrow> (string \<times> json) list" where
  "jset k v [] = [(k, v)]"
| "jset k v ((k', v') # r) = (if k' = k then (k, v) # r else (k', v') # jset k v r)"

text \<open>\<open>x[k] = v\<close>: null becomes an object. On any other value the code would panic; the stored states are objects.\<close>

definition put_field :: "string \<Rightarrow> json \<Rightarrow> json \<Rightarrow> json" where
  "put_field k v x = (case x of JObj kvs \<Rightarrow> JObj (jset k v kvs) | JNull \<Rightarrow> JObj [(k, v)] | _ \<Rightarrow> x)"

text \<open>The winner of a closed auction: the best bid, unless a forward auction did not reach its reserve.\<close>

definition closing_winner :: "auction_type \<Rightarrow> rat option \<Rightarrow> bool \<Rightarrow> zset \<Rightarrow> decision option" where
  "closing_winner t reserve read_ok z =
     (let w = best_bid t read_ok z
      in case (t, reserve) of
           (FORWARD, Some r) \<Rightarrow> (case w of None \<Rightarrow> None | Some d \<Rightarrow> if br_amount (dc_bid d) < r then None else w)
         | _ \<Rightarrow> w)"

definition completed_state :: "(decision \<Rightarrow> json) \<Rightarrow> decision option \<Rightarrow> json \<Rightarrow> json" where
  "completed_state enc w st =
     (let done = JStr ''Completed'';
          st = (case jget ''auction'' st of
              Some a \<Rightarrow> put_field ''auction'' (put_field ''status'' done a) st
            | None \<Rightarrow> (case jget ''shipment'' st of
                Some a \<Rightarrow> put_field ''shipment'' (put_field ''status'' done a) st | None \<Rightarrow> st))
      in case w of None \<Rightarrow> st | Some d \<Rightarrow> put_field ''winner'' (enc d) st)"

record closed_event =
  ce_auction_type :: auction_type
  ce_reserve_met :: bool
  ce_data :: "decision option"

record close_io =
  ci_read :: bool
  ci_store :: bool
  ci_sync :: bool
  ci_emit :: bool

text \<open>The result, the new state in the hash, the sync messages and the events that were emitted.\<close>

definition close_auction ::
  "(decision \<Rightarrow> json) \<Rightarrow> auction_type \<Rightarrow> rat option \<Rightarrow> close_io \<Rightarrow> json option \<Rightarrow> ledger
     \<Rightarrow> (string + unit) \<times> json option \<times> nat \<times> closed_event list" where
  "close_auction enc t reserve io st L =
     (let w = closing_winner t reserve (ci_read io) (lg_zset L);
          st' = map_option (completed_state enc w) st;
          e = \<lparr>ce_auction_type = t, ce_reserve_met = (w \<noteq> None), ce_data = w\<rparr>
      in if st \<noteq> None \<and> \<not> ci_store io then (Inl redis_error, st, 0, [])
         else if \<not> ci_sync io then (Inl ''kafka error'', st', 0, [])
         else if \<not> ci_emit io then (Inl redis_error, st', 1, [])
         else (Inr (), st', 1, [e]))"

section \<open>The actor\<close>

datatype lifecycle = StateInitializing | StateActive | StateEnding | StateClosed

record engine =
  en_lifecycle :: lifecycle
  en_runtime :: runtime
  en_ledger :: ledger
  en_hash :: "json option"
  en_updates :: "decision list"
  en_syncs :: nat
  en_closed :: "closed_event list"

text \<open>One pass of the loop with a task: the answer to the consumer and the new state.\<close>

definition actor_task ::
  "(decision \<Rightarrow> string) \<Rightarrow> string \<Rightarrow> auction_task \<Rightarrow> int \<Rightarrow> write_io \<Rightarrow> engine \<Rightarrow> task_result \<times> engine" where
  "actor_task print a tk now io en =
     (if br_auction_id (tk_bid tk) \<noteq> a then (TaskRejected ''AUCTION_ID_MISMATCH'', en)
      else
        let rt = en_runtime en;
            executed = is_better_bid (rt_auction_type rt) (Fin (rt_current_price rt)) (Fin (br_amount (tk_bid tk)))
              (Fin (rt_minimum_bid_step rt))
        in case write_bid print tk (rt_auction_type rt) executed (rt_current_price rt) now io (en_ledger en) of
             (Inl err, L, _) \<Rightarrow> (Retryable err, en\<lparr>en_ledger := L\<rparr>)
           | (Inr w, L, ups) \<Rightarrow> (Committed, en\<lparr>en_ledger := L, en_updates := en_updates en @ ups,
               en_runtime := (if w = Applied \<and> executed then rt\<lparr>rt_current_price := br_amount (tk_bid tk)\<rparr> else rt)\<rparr>))"

text \<open>
  A close that fails is a panic, which the supervisor answers with a restart. A task is taken before the timer of the
  deadline fires; a restart reads the state \<open>st\<close> of the auction and the sorted set.
\<close>

datatype engine_event =
    EvTask auction_task int write_io
  | EvDeadline int close_io
  | EvRestart int "json option" bool
  | EvExpire string

definition actor_close :: "(decision \<Rightarrow> json) \<Rightarrow> close_io \<Rightarrow> engine \<Rightarrow> engine" where
  "actor_close enc io en =
     (let rt = en_runtime en in
      case close_auction enc (rt_auction_type rt) (rt_reserve_price rt) io (en_hash en) (en_ledger en) of
        (res, st, n, evs) \<Rightarrow> en\<lparr>en_lifecycle := (case res of Inl _ \<Rightarrow> StateEnding | Inr _ \<Rightarrow> StateClosed), en_hash := st,
          en_syncs := en_syncs en + n, en_closed := en_closed en @ evs\<rparr>)"

fun engine_step ::
  "(decision \<Rightarrow> string) \<Rightarrow> (decision \<Rightarrow> json) \<Rightarrow> (string \<Rightarrow> int option) \<Rightarrow> string \<Rightarrow> engine_event \<Rightarrow> engine \<Rightarrow> engine" where
  "engine_step print enc parse a (EvTask tk now io) en =
     (if en_lifecycle en = StateActive then snd (actor_task print a tk now io en) else en)"
| "engine_step print enc parse a (EvDeadline now io) en =
     (if en_lifecycle en = StateActive \<and> rt_end_timestamp_ms (en_runtime en) \<le> now then actor_close enc io en else en)"
| "engine_step print enc parse a (EvRestart now st read_ok) en =
     en\<lparr>en_lifecycle := StateActive, en_runtime := load_runtime parse now st None read_ok (en_ledger en)\<rparr>"
| "engine_step print enc parse a (EvExpire r) en =
     en\<lparr>en_ledger := (en_ledger en)\<lparr>lg_processed := (lg_processed (en_ledger en))(r := None)\<rparr>\<rparr>"

definition engine_start :: "runtime \<Rightarrow> json option \<Rightarrow> engine" where
  "engine_start rt st = \<lparr>en_lifecycle = StateActive, en_runtime = rt, en_ledger = ledger_empty, en_hash = st,
     en_updates = [], en_syncs = 0, en_closed = []\<rparr>"

section \<open>Sorted sets\<close>

lemma mset_z_insert: "mset (z_insert print x z) = add_mset x (mset z)"
  by (induction z) auto

lemma sorted_z_insert: "sorted (map fst z) \<Longrightarrow> sorted (map fst (z_insert print x z))"
proof (induction z)
  case (Cons y ys)
  have "set (z_insert print x ys) = insert x (set ys)"
    using mset_z_insert [of print x ys] by (metis set_mset_add_mset_insert set_mset_mset)
  with Cons show ?case by (auto simp: z_before_def)
qed simp

text \<open>The text of a decision tells its request.\<close>

definition names_request :: "(decision \<Rightarrow> string) \<Rightarrow> bool" where
  "names_request print \<longleftrightarrow> (\<forall>d d'. print d = print d' \<longrightarrow> dc_request_id d = dc_request_id d')"

lemma mset_zadd_new:
  assumes "dc_request_id d \<notin> dc_request_id ` snd ` set z" and "names_request print"
  shows "mset (zadd print x d z) = add_mset (x, d) (mset z)"
proof -
  have "print (snd y) \<noteq> print d" if "y \<in> set z" for y
    using that assms unfolding names_request_def by (metis image_eqI)
  then have "filter (\<lambda>y. print (snd y) \<noteq> print d) z = z" by (simp add: filter_id_conv)
  then show ?thesis by (simp add: zadd_def mset_z_insert)
qed

lemma sorted_zadd: "sorted (map fst z) \<Longrightarrow> sorted (map fst (zadd print x d z))"
  unfolding zadd_def by (intro sorted_z_insert) (metis sorted_filter)

text \<open>The first member in the direction of the auction is not beaten by any other.\<close>

lemma zrange_best:
  assumes "sorted (map fst z)" and "z \<noteq> []"
  obtains x where "x \<in> set z" and "zrange t 0 z = [snd x]" and "\<And>y. y \<in> set z \<Longrightarrow> \<not> beats t (fst y) (fst x)"
proof (cases t)
  case REVERSE
  with assms show ?thesis by (intro that [of "hd z"]) (cases z; auto simp: zrange_def beats_def)+
next
  case FORWARD
  obtain ys y where z: "z = ys @ [y]" using assms(2) by (metis rev_exhaust)
  with assms(1) FORWARD show ?thesis
    by (intro that [of y]) (auto simp: zrange_def beats_def sorted_append not_less)
qed

section \<open>The rule improves the price\<close>

lemma better_not_worse:
  assumes "is_better_bid t (Fin p) (Fin a) (Fin s)" and "is_double p"
  shows "\<not> beats t p a" and "0 < a" and "0 < s"
proof -
  show "0 < a" "0 < s" using assms(1) by (auto simp: is_better_bid_def split: if_splits)
  with min_le_double [OF assms(2), of s] add_ge_double [OF assms(2), of s] show "\<not> beats t p a"
    using assms(1) by (cases t) (auto simp: is_better_bid_def beats_def js_le_def split: if_splits)
qed

text \<open>The accepted bids of an auction, from its starting price on: each was measured against the one before it.\<close>

fun chain :: "auction_type \<Rightarrow> rat \<Rightarrow> rat \<Rightarrow> decision list \<Rightarrow> bool" where
  "chain t s p [] = True"
| "chain t s p (d # ds) = (dc_is_executed d \<and> dc_auction_type d = t \<and> dc_previous_price d = p \<and>
     dc_resulting_price d = br_amount (dc_bid d) \<and> is_double (br_amount (dc_bid d)) \<and>
     is_better_bid t (Fin p) (Fin (br_amount (dc_bid d))) (Fin s) \<and> chain t s (br_amount (dc_bid d)) ds)"

definition price_after :: "rat \<Rightarrow> decision list \<Rightarrow> rat" where
  "price_after p ds = last (p # map (\<lambda>d. br_amount (dc_bid d)) ds)"

lemma price_after_simps [simp]:
  "price_after p [] = p" "price_after p (d # ds) = price_after (br_amount (dc_bid d)) ds"
  "price_after p (ds @ [d]) = br_amount (dc_bid d)"
  by (simp_all add: price_after_def)

lemma chain_snoc:
  "chain t s p (ds @ [d]) \<longleftrightarrow> chain t s p ds \<and> dc_is_executed d \<and> dc_auction_type d = t \<and>
     dc_previous_price d = price_after p ds \<and> dc_resulting_price d = br_amount (dc_bid d) \<and> is_double (br_amount (dc_bid d)) \<and>
     is_better_bid t (Fin (price_after p ds)) (Fin (br_amount (dc_bid d))) (Fin s)"
  by (induction ds arbitrary: p) auto

lemma chain_best:
  assumes "chain t s p ds" and "is_double p"
  shows "is_double (price_after p ds)" and "\<not> beats t p (price_after p ds)"
    and "d \<in> set ds \<Longrightarrow> \<not> beats t (br_amount (dc_bid d)) (price_after p ds)"
  using assms
proof (induction ds arbitrary: p)
  case (Cons e ds)
  {
    case 1
    with Cons show ?case by simp
  next
    case 2
    with Cons have "\<not> beats t p (br_amount (dc_bid e))" by (intro better_not_worse) auto
    then show ?case using Cons.IH(2) [of "br_amount (dc_bid e)"] 2 by (cases t) (auto simp: beats_def)
  next
    case 3
    with Cons show ?case by auto
  }
qed (auto simp: beats_def split: auction_type.splits)

lemma chain_executed: "chain t s p ds \<Longrightarrow> d \<in> set ds \<Longrightarrow> dc_is_executed d"
  by (induction ds arbitrary: p) auto

section \<open>The ledger of an auction\<close>

abbreviation bid_amount :: "decision \<Rightarrow> rat" where
  "bid_amount d \<equiv> br_amount (dc_bid d)"

definition book_ok :: "auction_type \<Rightarrow> rat \<Rightarrow> rat \<Rightarrow> ledger \<Rightarrow> bool" where
  "book_ok t s p L \<longleftrightarrow> chain t s p (lg_live L) \<and> lg_sync L = lg_live L \<and>
     mset (lg_zset L) = mset (map (\<lambda>d. (bid_amount d, d)) (lg_live L)) \<and> sorted (map fst (lg_zset L)) \<and>
     distinct (map dc_request_id (lg_live L)) \<and>
     (\<forall>r d. lg_processed L r = Some d \<longleftrightarrow> d \<in> set (lg_live L) \<and> dc_request_id d = r)"

lemma book_ok_empty: "book_ok t s p ledger_empty"
  by (simp add: book_ok_def ledger_empty_def)

lemma book_ok_pending: "book_ok t s p (xadd_pending d L) \<longleftrightarrow> book_ok t s p L"
  by (simp add: book_ok_def xadd_pending_def)

lemma book_zset: "book_ok t s p L \<Longrightarrow> set (lg_zset L) = (\<lambda>d. (bid_amount d, d)) ` set (lg_live L)"
proof -
  assume "book_ok t s p L"
  then have "mset (lg_zset L) = mset (map (\<lambda>d. (bid_amount d, d)) (lg_live L))" by (simp add: book_ok_def)
  then have "set_mset (mset (lg_zset L)) = set_mset (mset (map (\<lambda>d. (bid_amount d, d)) (lg_live L)))" by (rule arg_cong)
  then show ?thesis by simp
qed

lemma book_ok_accept:
  assumes "book_ok t s p L" and "accept_script print d L = (True, L')" and "names_request print"
    and "dc_is_executed d" "dc_auction_type d = t" "dc_previous_price d = price_after p (lg_live L)"
    and "dc_resulting_price d = bid_amount d" "is_double (bid_amount d)"
    and "is_better_bid t (Fin (price_after p (lg_live L))) (Fin (bid_amount d)) (Fin s)"
  shows "book_ok t s p L'" and "lg_live L' = lg_live L @ [d]"
proof -
  have none: "lg_processed L (dc_request_id d) = None"
    and L': "L' = L\<lparr>lg_sync := lg_sync L @ [d], lg_live := lg_live L @ [d], lg_zset := zadd print (bid_amount d) d (lg_zset L),
       lg_processed := (lg_processed L)(dc_request_id d \<mapsto> d), lg_pending := lg_pending L @ [d]\<rparr>"
    using assms(2) by (auto simp: accept_script_def split: option.splits)
  have fresh: "dc_request_id d \<notin> dc_request_id ` set (lg_live L)"
    using assms(1) none by (auto simp: book_ok_def) (metis option.distinct(1))
  then have "dc_request_id d \<notin> dc_request_id ` snd ` set (lg_zset L)" using book_zset [OF assms(1)] by auto
  then have "mset (zadd print (bid_amount d) d (lg_zset L)) = add_mset (bid_amount d, d) (mset (lg_zset L))"
    using assms(3) by (rule mset_zadd_new)
  then show "book_ok t s p L'"
    using assms fresh unfolding L' by (auto simp: book_ok_def chain_snoc sorted_zadd image_iff)
  show "lg_live L' = lg_live L @ [d]" by (simp add: L')
qed

text \<open>Best bid of the sorted set: the price of the auction.\<close>

lemma best_bid_price:
  assumes "book_ok t s p L" and "is_double p"
  shows "(case best_bid t True (lg_zset L) of None \<Rightarrow> lg_live L = [] | Some d \<Rightarrow> d \<in> set (lg_live L) \<and> bid_amount d = price_after p (lg_live L))"
proof (cases "lg_zset L = []")
  case True
  with assms(1) have "lg_live L = []" by (simp add: book_ok_def)
  then show ?thesis using True by (cases t) (simp_all add: best_bid_def zrange_def)
next
  case False
  obtain x where x: "x \<in> set (lg_zset L)" "zrange t 0 (lg_zset L) = [snd x]"
    "\<And>y. y \<in> set (lg_zset L) \<Longrightarrow> \<not> beats t (fst y) (fst x)"
    using zrange_best [of "lg_zset L" t] assms(1) False unfolding book_ok_def by metis
  then obtain d where d: "x = (bid_amount d, d)" "d \<in> set (lg_live L)" using book_zset [OF assms(1)] by auto
  have ch: "chain t s p (lg_live L)" using assms(1) by (simp add: book_ok_def)
  have "lg_live L \<noteq> []" using d by auto
  then have "price_after p (lg_live L) \<in> bid_amount ` set (lg_live L)"
    by (auto simp: price_after_def image_iff intro!: bexI [of _ "last (lg_live L)"] simp: last_map)
  then have "\<not> beats t (price_after p (lg_live L)) (bid_amount d)"
    using x(3) d book_zset [OF assms(1)] by fastforce
  moreover have "\<not> beats t (bid_amount d) (price_after p (lg_live L))" using chain_best(3) [OF ch assms(2) d(2)] .
  ultimately have "bid_amount d = price_after p (lg_live L)" by (cases t) (auto simp: beats_def)
  with x d show ?thesis by (simp add: best_bid_def)
qed

section \<open>Every history of an actor\<close>

definition engine_inv :: "auction_type \<Rightarrow> rat \<Rightarrow> rat \<Rightarrow> engine \<Rightarrow> bool" where
  "engine_inv t s p en \<longleftrightarrow> rt_auction_type (en_runtime en) = t \<and> rt_minimum_bid_step (en_runtime en) = s \<and>
     book_ok t s p (en_ledger en) \<and> rt_current_price (en_runtime en) = price_after p (lg_live (en_ledger en))"

text \<open>
  The events of an undisturbed history: no answer of Redis is lost, restarts find the settings of the auction and can
  read the sorted set, and no record of a request expires (they live for a day).
\<close>

definition engine_ok :: "(string \<Rightarrow> int option) \<Rightarrow> auction_type \<Rightarrow> rat \<Rightarrow> rat \<Rightarrow> engine_event \<Rightarrow> bool" where
  "engine_ok parse t s p e = (case e of
     EvTask tk now io \<Rightarrow> wi_write io \<noteq> ReplyLost \<and> is_double (br_amount (tk_bid tk))
   | EvDeadline now io \<Rightarrow> True
   | EvRestart now st read_ok \<Rightarrow> read_ok \<and> rt_auction_type (base_runtime parse now st) = t \<and>
       rt_minimum_bid_step (base_runtime parse now st) = s \<and> rt_current_price (base_runtime parse now st) = p
   | EvExpire r \<Rightarrow> False)"

lemma decision_fields [simp]:
  "dc_request_id (decision_of tk t x p now) = tk_request_id tk" "dc_bid (decision_of tk t x p now) = tk_bid tk"
  "dc_auction_type (decision_of tk t x p now) = t" "dc_is_executed (decision_of tk t x p now) = x"
  "dc_previous_price (decision_of tk t x p now) = p"
  "dc_resulting_price (decision_of tk t x p now) = (if x then br_amount (tk_bid tk) else p)"
  by (simp_all add: decision_of_def)

lemma accept_script_dup: "accept_script print d L = (False, L') \<Longrightarrow> L' = L"
  by (auto simp: accept_script_def split: option.splits)

lemma write_bid_kept:
  assumes "\<not> (executed \<and> wi_write io = RedisOk \<and> fst (accept_script print (decision_of tk t executed prev now) L))"
    and "wi_write io \<noteq> ReplyLost"
  obtains r L' ups where "write_bid print tk t executed prev now io L = (r, L', ups)"
    and "L' = L \<or> (\<exists>e. L' = xadd_pending e L)" and "ups = [] \<or> (\<exists>d. \<not> dc_is_executed d \<and> ups = [d])"
    and "\<not> (r = Inr Applied \<and> executed)"
    and "executed \<Longrightarrow> r = Inr Duplicate \<Longrightarrow> lg_processed L (tk_request_id tk) \<noteq> None"
proof -
  obtain r L' ups where w: "write_bid print tk t executed prev now io L = (r, L', ups)" by (metis prod_cases3)
  show thesis
  proof (rule that [OF w])
    show "L' = L \<or> (\<exists>e. L' = xadd_pending e L)" "\<not> (r = Inr Applied \<and> executed)"
      using w assms accept_script_dup [of print "decision_of tk t executed prev now" L]
      by (auto simp: write_bid_def Let_def split: if_splits option.splits redis_io.splits prod.splits bool.splits)
    show "ups = [] \<or> (\<exists>d. \<not> dc_is_executed d \<and> ups = [d])"
      using w assms by (cases executed) (auto simp: write_bid_def Let_def split: if_splits option.splits redis_io.splits prod.splits bool.splits)
    show "lg_processed L (tk_request_id tk) \<noteq> None" if "executed" "r = Inr Duplicate"
      using that w by (auto simp: write_bid_def Let_def accept_script_def split: if_splits option.splits redis_io.splits)
  qed
qed

text \<open>What a task does: it accepts the bid, or leaves price and accepted bids alone.\<close>

lemma actor_task_cases:
  assumes inv: "engine_inv t s p en" and io: "wi_write io \<noteq> ReplyLost" and dbl: "is_double (br_amount (tk_bid tk))"
    and inj: "names_request print"
  obtains (accepted) d en' where "actor_task print a tk now io en = (Committed, en')"
      "d = decision_of tk t True (rt_current_price (en_runtime en)) now" "engine_inv t s p en'"
      "lg_live (en_ledger en') = lg_live (en_ledger en) @ [d]" "en_lifecycle en' = en_lifecycle en"
      "br_auction_id (tk_bid tk) = a" "lg_processed (en_ledger en) (tk_request_id tk) = None"
      "is_better_bid t (Fin (rt_current_price (en_runtime en))) (Fin (br_amount (tk_bid tk))) (Fin s)"
      "en_updates en' = en_updates en @ (if wi_publish io then [d] else [])"
  | (kept) res en' where "actor_task print a tk now io en = (res, en')" "engine_inv t s p en'"
      "lg_live (en_ledger en') = lg_live (en_ledger en)" "en_runtime en' = en_runtime en" "en_lifecycle en' = en_lifecycle en"
      "en_updates en' = en_updates en \<or> (\<exists>d. \<not> dc_is_executed d \<and> en_updates en' = en_updates en @ [d])"
      "case res of Committed \<Rightarrow> lg_processed (en_ledger en) (tk_request_id tk) \<noteq> None \<or>
          \<not> is_better_bid t (Fin (rt_current_price (en_runtime en))) (Fin (br_amount (tk_bid tk))) (Fin s)
        | TaskRejected _ \<Rightarrow> br_auction_id (tk_bid tk) \<noteq> a | Retryable _ \<Rightarrow> True"
proof -
  let ?rt = "en_runtime en" and ?L = "en_ledger en"
  let ?x = "is_better_bid t (Fin (rt_current_price ?rt)) (Fin (br_amount (tk_bid tk))) (Fin s)"
  let ?d = "decision_of tk t ?x (rt_current_price ?rt) now"
  have rt: "rt_auction_type ?rt = t" "rt_minimum_bid_step ?rt = s" and book: "book_ok t s p ?L"
    and price: "rt_current_price ?rt = price_after p (lg_live ?L)"
    using inv by (simp_all add: engine_inv_def)
  show thesis
  proof (cases "br_auction_id (tk_bid tk) = a \<and> ?x \<and> wi_write io = RedisOk \<and> fst (accept_script print ?d ?L)")
    case True
    then obtain L' where L': "accept_script print ?d ?L = (True, L')" by (metis prod.collapse)
    have "book_ok t s p L'" and live: "lg_live L' = lg_live ?L @ [?d]"
      by (rule book_ok_accept [OF book L' inj]; use True dbl price in simp)+
    with True L' show thesis
      by (intro accepted [of "snd (actor_task print a tk now io en)" ?d])
        (auto simp: actor_task_def rt write_bid_def Let_def engine_inv_def accept_script_def split: option.splits)
  next
    case False
    show thesis
    proof (cases "br_auction_id (tk_bid tk) = a")
      case same: True
      obtain r L' ups where w: "write_bid print tk t ?x (rt_current_price ?rt) now io ?L = (r, L', ups)"
        and L': "L' = ?L \<or> (\<exists>e. L' = xadd_pending e ?L)" and "ups = [] \<or> (\<exists>d. \<not> dc_is_executed d \<and> ups = [d])"
        and "\<not> (r = Inr Applied \<and> ?x)" and dup: "?x \<Longrightarrow> r = Inr Duplicate \<Longrightarrow> lg_processed ?L (tk_request_id tk) \<noteq> None"
        using write_bid_kept [of ?x io print tk t "rt_current_price ?rt" now ?L] False same io by blast
      moreover have "book_ok t s p L'" using L' book by (auto simp: book_ok_pending)
      moreover have "lg_live L' = lg_live ?L" using L' by (auto simp: xadd_pending_def)
      moreover have "actor_task print a tk now io en = (case r of Inl err \<Rightarrow> (Retryable err, en\<lparr>en_ledger := L'\<rparr>)
          | Inr _ \<Rightarrow> (Committed, en\<lparr>en_ledger := L', en_updates := en_updates en @ ups, en_runtime := ?rt\<rparr>))"
        using same w calculation(4) by (auto simp: actor_task_def rt Let_def split: sum.splits)
      ultimately show thesis
        using inv dup
        by (cases r; intro kept [of "fst (actor_task print a tk now io en)" "snd (actor_task print a tk now io en)"])
          (auto simp: engine_inv_def intro: ledger_write.exhaust)
    qed (rule kept [of "TaskRejected ''AUCTION_ID_MISMATCH''" en], use inv in \<open>auto simp: actor_task_def\<close>)
  qed
qed

lemma load_runtime_book:
  assumes "book_ok t s p L" and "is_double p" and "rt_auction_type (base_runtime parse now st) = t"
    and "rt_current_price (base_runtime parse now st) = p"
  shows "rt_current_price (load_runtime parse now st None True L) = price_after p (lg_live L)"
    and "rt_auction_type (load_runtime parse now st None True L) = t"
    and "rt_minimum_bid_step (load_runtime parse now st None True L) = rt_minimum_bid_step (base_runtime parse now st)"
proof -
  have st: "or_else st None = st" by (simp add: or_else_def split: option.splits)
  show "rt_current_price (load_runtime parse now st None True L) = price_after p (lg_live L)"
    "rt_auction_type (load_runtime parse now st None True L) = t"
    "rt_minimum_bid_step (load_runtime parse now st None True L) = rt_minimum_bid_step (base_runtime parse now st)"
    using best_bid_price [OF assms(1,2)] assms(3,4)
    by (auto simp: load_runtime_def Let_def st split: option.splits)
qed

lemma engine_step_inv:
  assumes "names_request print" and "is_double p" and "engine_ok parse t s p e" and "engine_inv t s p en"
  shows "engine_inv t s p (engine_step print enc parse a e en)"
proof (cases e)
  case (EvTask tk now io)
  then have io: "wi_write io \<noteq> ReplyLost" "is_double (br_amount (tk_bid tk))" using assms(3) by (simp_all add: engine_ok_def)
  from actor_task_cases [OF assms(4) io assms(1), of a now] show ?thesis using EvTask assms(4) by cases simp_all
next
  case (EvDeadline now io)
  then show ?thesis using assms(4) by (auto simp: actor_close_def Let_def engine_inv_def split: prod.splits)
next
  case (EvRestart now st read_ok)
  then show ?thesis using assms load_runtime_book [of t s p "en_ledger en" parse now st]
    by (auto simp: engine_ok_def engine_inv_def)
next
  case (EvExpire r)
  then show ?thesis using assms(3) by (simp add: engine_ok_def)
qed

definition engine_for :: "auction_type \<Rightarrow> rat \<Rightarrow> rat \<Rightarrow> rat option \<Rightarrow> int \<Rightarrow> json option \<Rightarrow> engine" where
  "engine_for t s p reserve stop st = engine_start \<lparr>rt_auction_type = t, rt_current_price = p, rt_minimum_bid_step = s,
     rt_reserve_price = reserve, rt_end_timestamp_ms = stop\<rparr> st"

lemma engine_for_inv: "engine_inv t s p (engine_for t s p reserve stop st)"
  by (simp add: engine_for_def engine_start_def engine_inv_def book_ok_empty) (simp add: ledger_empty_def)

interpretation actor: machine "engine_for t s p reserve stop st" "engine_step print enc parse a"
    "\<lambda>en. names_request print \<and> is_double p \<longrightarrow> engine_inv t s p en" "engine_ok parse t s p"
  for t s p reserve stop st print enc parse a
  by unfold_locales (auto simp: engine_for_inv engine_step_inv)


text \<open>
  The price survives a restart only when the sorted set can be read: a read that fails is taken for an auction without
  bids, and the actor goes on from the starting price, below the bids it has accepted.
\<close>

lemma restart_forgets_price:
  "rt_current_price (en_runtime (engine_step print enc parse a (EvRestart now st False) en)) =
     rt_current_price (base_runtime parse now st)"
  by (simp add: load_runtime_def best_bid_def or_else_def Let_def split: option.splits)

text \<open>
  A lost answer leaves the actor with an old price: when the script stored a bid but its answer was lost, the retry finds
  the request known and is acknowledged, but the actor keeps the price from before the bid and sends no live update. The next bid
  is measured against that price, so that one which is worse than the stored bid is accepted after it.
\<close>

lemma lost_answer_stale_price:
  assumes inv: "engine_inv t s p en" and inj: "names_request print"
    and first: "br_auction_id (tk_bid tk1) = a" "lg_processed (en_ledger en) (tk_request_id tk1) = None"
      "is_better_bid t (Fin (rt_current_price (en_runtime en))) (Fin (br_amount (tk_bid tk1))) (Fin s)"
    and retry: "actor_task print a tk1 now1 io1 en = (res1, en1)" "wi_write io1 = ReplyLost"
      "actor_task print a tk1 now2 io2 en1 = (res2, en2)" "wi_write io2 = RedisOk"
    and second: "br_auction_id (tk_bid tk2) = a" "tk_request_id tk2 \<noteq> tk_request_id tk1"
      "lg_processed (en_ledger en) (tk_request_id tk2) = None"
      "is_better_bid t (Fin (rt_current_price (en_runtime en))) (Fin (br_amount (tk_bid tk2))) (Fin s)"
      "actor_task print a tk2 now3 io3 en2 = (res3, en3)" "wi_write io3 = RedisOk"
  shows "res2 = Committed \<and> en_updates en2 = en_updates en \<and> rt_current_price (en_runtime en2) = rt_current_price (en_runtime en) \<and>
    map dc_bid (lg_live (en_ledger en3)) = map dc_bid (lg_live (en_ledger en)) @ [tk_bid tk1, tk_bid tk2] \<and>
    rt_current_price (en_runtime en3) = br_amount (tk_bid tk2)"
proof -
  let ?rt = "en_runtime en" and ?L = "en_ledger en"
  let ?d = "decision_of tk1 t True (rt_current_price ?rt) now1"
  have rt: "rt_auction_type ?rt = t" "rt_minimum_bid_step ?rt = s" using inv by (simp_all add: engine_inv_def)
  have en1: "en1 = en\<lparr>en_ledger := snd (accept_script print ?d ?L)\<rparr>"
    using retry(1,2) first by (simp add: actor_task_def rt Let_def write_bid_def)
  then have L1: "lg_processed (en_ledger en1) = (lg_processed ?L)(tk_request_id tk1 \<mapsto> ?d)"
    "lg_live (en_ledger en1) = lg_live ?L @ [?d]"
    using first(2) by (simp_all add: accept_script_def)
  have rt1: "en_runtime en1 = ?rt" "en_updates en1 = en_updates en" using en1 by simp_all
  have en2: "res2 = Committed \<and> en2 = en1\<lparr>en_updates := en_updates en1, en_runtime := ?rt\<rparr>"
    using retry(3,4) first L1(1) by (auto simp: actor_task_def rt rt1 Let_def write_bid_def accept_script_def)
  have "map dc_bid (lg_live (en_ledger en3)) = map dc_bid (lg_live (en_ledger en2)) @ [tk_bid tk2] \<and>
      rt_current_price (en_runtime en3) = br_amount (tk_bid tk2)"
    using second en2 L1(1) by (auto simp: actor_task_def rt Let_def write_bid_def accept_script_def)
  with en2 L1(2) rt1 show ?thesis by simp
qed

text \<open>A forward auction that did not reach its reserve.\<close>

definition below_reserve :: "engine \<Rightarrow> bool" where
  "below_reserve en = (rt_auction_type (en_runtime en) = FORWARD \<and>
     (case rt_reserve_price (en_runtime en) of None \<Rightarrow> False | Some r \<Rightarrow> rt_current_price (en_runtime en) < r))"


section \<open>A small history\<close>

definition ex_bid :: "string \<Rightarrow> rat \<Rightarrow> int \<Rightarrow> bid_request" where
  "ex_bid u x now = \<lparr>br_auction_id = ''a'', br_bidder_id = u, br_username = None, br_amount = x, br_timestamp = now\<rparr>"

definition ex_task :: "string \<Rightarrow> bid_request \<Rightarrow> auction_task" where
  "ex_task r b = \<lparr>tk_request_id = r, tk_bid = b, tk_source_topic = ''auction-bids'', tk_source_partition = 0, tk_source_offset = 0\<rparr>"

definition ex_io :: "redis_io \<Rightarrow> write_io" where
  "ex_io x = \<lparr>wi_lookup = True, wi_write = x, wi_publish = True\<rparr>"

definition ex_stored :: json where
  "ex_stored = JObj [(''auction'', JObj [(''starting_price'', JNum (Fin 100))]),
     (''config'', JObj [(''auction_type'', JStr ''REVERSE''), (''minimum_bid_step'', JNum (Fin 5))])]"

definition ex_history :: "engine_event list" where
  "ex_history = [EvTask (ex_task ''r1'' (ex_bid ''u1'' 90 1)) 1 (ex_io RedisOk), EvTask (ex_task ''r2'' (ex_bid ''u2'' 88 2)) 2 (ex_io RedisOk),
     EvRestart 3 (Some ex_stored) True, EvTask (ex_task ''r1'' (ex_bid ''u1'' 90 1)) 4 (ex_io RedisOk),
     EvTask (ex_task ''r3'' (ex_bid ''u1'' 85 5)) 5 (ex_io RedisFails), EvTask (ex_task ''r3'' (ex_bid ''u1'' 85 5)) 6 (ex_io RedisOk)]"

lemma names_request_id: "names_request dc_request_id"
  by (simp add: names_request_def)

lemma ex_doubles: "is_double 100" "is_double 90" "is_double 88" "is_double 85"
  using small_double [of 100] small_double [of 90] small_double [of 88] small_double [of 85] by simp_all

lemma ascii_upper_types [simp]: "ascii_upper ''REVERSE'' = ''REVERSE''" "ascii_upper ''FORWARD'' = ''FORWARD''"
  by code_simp+

lemma ex_base:
  "rt_auction_type (base_runtime parse now (Some ex_stored)) = REVERSE" "rt_minimum_bid_step (base_runtime parse now (Some ex_stored)) = 5"
  "rt_current_price (base_runtime parse now (Some ex_stored)) = 100"
  by (simp_all add: base_runtime_def ex_stored_def auction_record_def config_record_def or_else_def jget_def jf64_def as_f64_def
      unwrap_or_def type_of_config_def step_of_config_def keep_if_def jstr_def as_str_def)

lemma ex_history_ok: "\<forall>e \<in> set ex_history. engine_ok parse REVERSE 5 100 e"
  by (simp add: ex_history_def engine_ok_def ex_io_def ex_task_def ex_bid_def ex_doubles ex_base)

definition ex_engine :: engine where
  "ex_engine = fold (engine_step dc_request_id (\<lambda>_. JNull) (\<lambda>_. None) ''a'') ex_history (engine_for REVERSE 5 100 None 1000 None)"



lemma js_ops_int:
  "\<bar>p - s\<bar> < 2 ^ 53 \<Longrightarrow> js_sub (of_int p) (of_int s) = Fin (of_int (p - s))"
  "\<bar>p + s\<bar> < 2 ^ 53 \<Longrightarrow> js_add (of_int p) (of_int s) = Fin (of_int (p + s))"
  using small_double [of "p - s"] small_double [of "p + s"] by (simp_all add: js_sub_def js_add_def)

lemma better_int:
  "\<bar>p - s\<bar> < 2 ^ 53 \<Longrightarrow> is_better_bid REVERSE (Fin (of_int p)) (Fin x) (Fin (of_int s)) \<longleftrightarrow> 0 < x \<and> 0 < s \<and> x \<le> of_int (p - s)"
  "\<bar>p + s\<bar> < 2 ^ 53 \<Longrightarrow> is_better_bid FORWARD (Fin (of_int p)) (Fin x) (Fin (of_int s)) \<longleftrightarrow> 0 < x \<and> 0 < s \<and> of_int (p + s) \<le> x"
  by (auto simp: is_better_bid_def js_ops_int js_le_def le_less)

lemma better_100: "is_better_bid REVERSE (Fin 100) (Fin x) (Fin 5) \<longleftrightarrow> 0 < x \<and> x \<le> 95"
  using better_int(1) [of 100 5 x] by simp

lemma ex_start_fields:
  "en_runtime (engine_for t s p r e st) = \<lparr>rt_auction_type = t, rt_current_price = p, rt_minimum_bid_step = s, rt_reserve_price = r,
     rt_end_timestamp_ms = e\<rparr>" "en_ledger (engine_for t s p r e st) = ledger_empty" "en_updates (engine_for t s p r e st) = []"
  by (simp_all add: engine_for_def engine_start_def)

end
