(* ===== verification/Scheduler.thy ===== *)
theory Scheduler
  imports Participants Bid_Engine
begin

text \<open>
  The opening of an auction: \<open>src/apps/scheduler/src/main.rs\<close> looks every five seconds for schedules that are due, claims them, and
  writes to Redis what the engine and the socket server read, the state of the auction and the bits of its participants. The
  model follows one auction: its schedule, its rows in the database (\<open>src/packages/db/src/models.rs\<close>), its registrations and its
  keys in Redis, with an answer of each service for each pass. Times are in milliseconds; the text of a time is the printer
  \<open>print\<close> of the date library, an argument.
\<close>

section \<open>The rows\<close>

datatype schedule_state = SchScheduled | SchClosed | SchError | SchSuccess | SchStarted

fun schedule_name :: "schedule_state \<Rightarrow> string" where
  "schedule_name SchScheduled = ''Scheduled''"
| "schedule_name SchClosed = ''Closed''"
| "schedule_name SchError = ''Error''"
| "schedule_name SchSuccess = ''Success''"
| "schedule_name SchStarted = ''Started''"

record schedule_row =
  sr_id :: string
  sr_auction_id :: string
  sr_idempotency_key :: string
  sr_state :: schedule_state
  sr_start_time :: int
  sr_retry_count :: int

record auction_row =
  aw_id :: string
  aw_title :: string
  aw_description :: string
  aw_weight_kg :: "rat option"
  aw_dimensions :: "string option"
  aw_origin_address :: "string option"
  aw_origin_lat :: "rat option"
  aw_origin_lng :: "rat option"
  aw_dest_address :: "string option"
  aw_dest_lat :: "rat option"
  aw_dest_lng :: "rat option"
  aw_distance_miles :: "rat option"
  aw_pickup_date_start :: "int option"
  aw_pickup_date_end :: "int option"
  aw_delivery_date_start :: "int option"
  aw_delivery_date_end :: "int option"
  aw_starting_price :: "rat option"
  aw_auction_start_time :: int
  aw_auction_end_time :: int
  aw_created_at :: int
  aw_updated_at :: int
  aw_customer_id :: string

record config_row =
  cr_auction_id :: string
  cr_auction_type :: auction_type
  cr_minimum_bid_step :: rat
  cr_reserve_price :: "rat option"
  cr_item_category :: "string option"
  cr_item_condition :: "string option"
  cr_quantity :: "rat option"
  cr_quantity_unit :: "string option"
  cr_pickup_terms :: "string option"

section \<open>Their JSON\<close>

definition j_opt :: "('a \<Rightarrow> json) \<Rightarrow> 'a option \<Rightarrow> json" where
  "j_opt f x = (case x of None \<Rightarrow> JNull | Some v \<Rightarrow> f v)"

definition j_num :: "rat \<Rightarrow> json" where
  "j_num r = JNum (Fin r)"

definition wire_name :: "auction_type \<Rightarrow> string" where
  "wire_name t = (case t of REVERSE \<Rightarrow> ''REVERSE'' | FORWARD \<Rightarrow> ''FORWARD'')"

definition schedule_json :: "(int \<Rightarrow> string) \<Rightarrow> schedule_row \<Rightarrow> json" where
  "schedule_json print s = JObj [(''id'', JStr (sr_id s)), (''auction_id'', JStr (sr_auction_id s)),
     (''idempotency_key'', JStr (sr_idempotency_key s)), (''state'', JStr (schedule_name (sr_state s))),
     (''start_time'', JStr (print (sr_start_time s))), (''retry_count'', JNum (Fin (of_int (sr_retry_count s))))]"

definition auction_json :: "(int \<Rightarrow> string) \<Rightarrow> auction_row \<Rightarrow> json" where
  "auction_json print a = (let time = (\<lambda>x. JStr (print x)) in JObj
    [(''id'', JStr (aw_id a)), (''title'', JStr (aw_title a)), (''description'', JStr (aw_description a)),
     (''weight_kg'', j_opt j_num (aw_weight_kg a)), (''dimensions'', j_opt JStr (aw_dimensions a)),
     (''origin_address'', j_opt JStr (aw_origin_address a)), (''origin_lat'', j_opt j_num (aw_origin_lat a)),
     (''origin_lng'', j_opt j_num (aw_origin_lng a)), (''dest_address'', j_opt JStr (aw_dest_address a)),
     (''dest_lat'', j_opt j_num (aw_dest_lat a)), (''dest_lng'', j_opt j_num (aw_dest_lng a)),
     (''distance_miles'', j_opt j_num (aw_distance_miles a)), (''pickup_date_start'', j_opt time (aw_pickup_date_start a)),
     (''pickup_date_end'', j_opt time (aw_pickup_date_end a)), (''delivery_date_start'', j_opt time (aw_delivery_date_start a)),
     (''delivery_date_end'', j_opt time (aw_delivery_date_end a)), (''starting_price'', j_opt j_num (aw_starting_price a)),
     (''auction_start_time'', time (aw_auction_start_time a)), (''auction_end_time'', time (aw_auction_end_time a)),
     (''created_at'', time (aw_created_at a)), (''updated_at'', time (aw_updated_at a)), (''customer_id'', JStr (aw_customer_id a))])"

definition config_json :: "config_row \<Rightarrow> json" where
  "config_json c = JObj [(''auction_id'', JStr (cr_auction_id c)), (''auction_type'', JStr (wire_name (cr_auction_type c))),
     (''minimum_bid_step'', j_num (cr_minimum_bid_step c)), (''reserve_price'', j_opt j_num (cr_reserve_price c)),
     (''item_category'', j_opt JStr (cr_item_category c)), (''item_condition'', j_opt JStr (cr_item_condition c)),
     (''quantity'', j_opt j_num (cr_quantity c)), (''quantity_unit'', j_opt JStr (cr_quantity_unit c)),
     (''pickup_terms'', j_opt JStr (cr_pickup_terms c))]"

text \<open>An auction without a configuration counts as a reverse auction with a step of one.\<close>

definition config_data :: "string \<Rightarrow> config_row option \<Rightarrow> json" where
  "config_data a c = (case c of Some r \<Rightarrow> config_json r
   | None \<Rightarrow> JObj [(''auction_id'', JStr a), (''auction_type'', JStr ''REVERSE''), (''minimum_bid_step'', JNum (Fin 1)), (''reserve_price'', JNull)])"

text \<open>\<open>redis_ttl_seconds\<close>: whole seconds, rounded towards zero, with five minutes more and an hour at least.\<close>

definition redis_ttl_seconds :: "int \<Rightarrow> int \<Rightarrow> int" where
  "redis_ttl_seconds stop now = max 3600 (sgn (stop - now) * (\<bar>stop - now\<bar> div 1000) + 300)"

text \<open>The key of the state outlives the auction by almost five minutes, and lives an hour at least.\<close>

lemma redis_ttl_covers: "3600 \<le> redis_ttl_seconds stop now" "stop + 299000 < now + 1000 * redis_ttl_seconds stop now"
proof -
  show "3600 \<le> redis_ttl_seconds stop now" by (simp add: redis_ttl_seconds_def)
  have "sgn (stop - now) * (\<bar>stop - now\<bar> div 1000) + 300 \<le> redis_ttl_seconds stop now" by (simp add: redis_ttl_seconds_def)
  then show "stop + 299000 < now + 1000 * redis_ttl_seconds stop now"
    by (auto simp: sgn_if split: if_splits)
qed

definition state_payload :: "(int \<Rightarrow> string) \<Rightarrow> int \<Rightarrow> schedule_row \<Rightarrow> auction_row \<Rightarrow> config_row option \<Rightarrow> json" where
  "state_payload print now s a c = JObj [(''schema_version'', JNum (Fin 2)), (''schedule'', schedule_json print s),
     (''auction'', auction_json print a), (''config'', config_data (sr_auction_id s) c),
     (''ttl'', JNum (Fin (of_int (redis_ttl_seconds (aw_auction_end_time a) now))))]"

section \<open>A pass of the scheduler\<close>

record open_world =
  op_schedule :: schedule_row
  op_auction :: auction_row
  op_config :: "config_row option"
  op_registry :: registry
  op_state_key :: "json option"
  op_state_hash :: "json option"
  op_initialized :: "string option"

text \<open>
  The answers to one pass: the claim of the schedules, the four queries, the updates of the schedule (whose errors are
  ignored), the connection to Redis and the transaction. A claim or a transaction may be done and its answer lost.
\<close>

datatype db_io = DbOk | DbFails | DbReplyLost

record pass_io =
  pi_pool :: bool
  pi_claim :: db_io
  pi_participants :: bool
  pi_end_time :: bool
  pi_auction :: bool
  pi_config :: bool
  pi_redis :: bool
  pi_pipe :: redis_io
  pi_mark :: bool

definition set_schedule :: "bool \<Rightarrow> (schedule_row \<Rightarrow> schedule_row) \<Rightarrow> open_world \<Rightarrow> open_world" where
  "set_schedule done f w = (if done then w\<lparr>op_schedule := f (op_schedule w)\<rparr> else w)"

definition mark_success :: "schedule_row \<Rightarrow> schedule_row" where
  "mark_success s = s\<lparr>sr_state := SchSuccess\<rparr>"

definition back_to_scheduled :: "schedule_row \<Rightarrow> schedule_row" where
  "back_to_scheduled s = s\<lparr>sr_state := SchScheduled, sr_retry_count := sr_retry_count s + 1\<rparr>"

definition hydration :: "(int \<Rightarrow> string) \<Rightarrow> int \<Rightarrow> open_world \<Rightarrow> open_world" where
  "hydration print now w =
     (let payload = state_payload print now (op_schedule w) (op_auction w) (op_config w)
      in w\<lparr>op_state_key := Some payload, op_state_hash := Some payload, op_initialized := Some ''1'',
           op_registry := hydrate (op_registry w)\<rparr>)"

definition process_schedule :: "(int \<Rightarrow> string) \<Rightarrow> int \<Rightarrow> pass_io \<Rightarrow> open_world \<Rightarrow> open_world" where
  "process_schedule print now io w =
     (if \<not> pi_participants io then w
      else if rg_users (op_registry w) = [] then set_schedule (pi_mark io) mark_success w
      else if \<not> pi_end_time io then w
      else if \<not> pi_auction io then w
      else if \<not> pi_config io then w
      else if \<not> pi_redis io then set_schedule (pi_mark io) back_to_scheduled w
      else (case pi_pipe io of
          RedisFails \<Rightarrow> set_schedule (pi_mark io) back_to_scheduled w
        | ReplyLost \<Rightarrow> set_schedule (pi_mark io) back_to_scheduled (hydration print now w)
        | RedisOk \<Rightarrow> set_schedule (pi_mark io) mark_success (hydration print now w)))"

definition claim :: "schedule_row \<Rightarrow> schedule_row" where
  "claim s = s\<lparr>sr_state := SchStarted\<rparr>"

definition scheduler_pass :: "(int \<Rightarrow> string) \<Rightarrow> int \<Rightarrow> pass_io \<Rightarrow> open_world \<Rightarrow> open_world" where
  "scheduler_pass print now io w =
     (if \<not> pi_pool io \<or> now < sr_start_time (op_schedule w) \<or> sr_state (op_schedule w) \<noteq> SchScheduled then w
      else (case pi_claim io of
          DbFails \<Rightarrow> w
        | DbReplyLost \<Rightarrow> set_schedule True claim w
        | DbOk \<Rightarrow> process_schedule print now io (set_schedule True claim w)))"

datatype open_event = OpPass int pass_io | OpReg reg_event

fun open_step :: "(int \<Rightarrow> string) \<Rightarrow> open_event \<Rightarrow> open_world \<Rightarrow> open_world" where
  "open_step print (OpPass now io) w = scheduler_pass print now io w"
| "open_step print (OpReg e) w = w\<lparr>op_registry := registry_step e (op_registry w)\<rparr>"

section \<open>The auction opens\<close>

definition queries_ok :: "pass_io \<Rightarrow> bool" where
  "queries_ok io = (pi_participants io \<and> pi_end_time io \<and> pi_auction io \<and> pi_config io)"

text \<open>A pass after which the schedule is due again: the claim fails, or Redis fails and the schedule is put back.\<close>

definition retry_pass :: "pass_io \<Rightarrow> bool" where
  "retry_pass io = (\<not> pi_pool io \<or> pi_claim io = DbFails \<or>
     pi_claim io = DbOk \<and> queries_ok io \<and> pi_mark io \<and> (\<not> pi_redis io \<or> pi_pipe io \<noteq> RedisOk))"

definition good_open :: "pass_io \<Rightarrow> bool" where
  "good_open io = (pi_pool io \<and> pi_claim io = DbOk \<and> queries_ok io \<and> pi_redis io \<and> pi_pipe io = RedisOk \<and> pi_mark io)"

definition retry_event :: "int \<Rightarrow> open_event \<Rightarrow> bool" where
  "retry_event start e = (case e of OpPass now io \<Rightarrow> retry_pass io | OpReg r \<Rightarrow> after_start start r)"

definition due_again :: "int \<Rightarrow> int \<Rightarrow> uuid list \<Rightarrow> open_world \<Rightarrow> bool" where
  "due_again start begins users w \<longleftrightarrow> sr_state (op_schedule w) = SchScheduled \<and> sr_start_time (op_schedule w) = start \<and>
     rg_start (op_registry w) = begins \<and> rg_users (op_registry w) = users"

lemmas pass_defs = scheduler_pass_def process_schedule_def set_schedule_def hydration_def hydrate_def mark_success_def
  back_to_scheduled_def claim_def Let_def

lemma retry_step: "retry_event begins e \<Longrightarrow> users \<noteq> [] \<Longrightarrow> due_again start begins users w \<Longrightarrow> due_again start begins users (open_step print e w)"
proof (cases e)
  case (OpPass now io)
  moreover assume "retry_event begins e" "users \<noteq> []" "due_again start begins users w"
  ultimately show ?thesis
    by (cases "pi_pipe io") (auto simp: retry_event_def retry_pass_def queries_ok_def due_again_def pass_defs)
qed (auto simp: retry_event_def due_again_def start_kept late_step)

interpretation reopening: machine w "open_step print" "\<lambda>v. users \<noteq> [] \<and> due_again start begins users w \<longrightarrow> due_again start begins users v"
    "retry_event begins"
  for w print users start begins
  by unfold_locales (auto simp: retry_step)

lemma good_pass_opens:
  assumes "due_again start begins users w" "users \<noteq> []" "good_open io" "start \<le> now"
  shows "open_step print (OpPass now io) w = set_schedule True mark_success (hydration print now (set_schedule True claim w))"
  using assms by (simp add: due_again_def good_open_def queries_ok_def scheduler_pass_def process_schedule_def set_schedule_def)


section \<open>The auction that never opens\<close>

definition stuck :: "open_world \<Rightarrow> bool" where
  "stuck w \<longleftrightarrow> sr_state (op_schedule w) = SchStarted \<and> op_initialized w = None \<and> op_state_hash w = None"

lemma stuck_step: "stuck w \<Longrightarrow> stuck (open_step print e w)"
  by (cases e) (auto simp: stuck_def scheduler_pass_def)

interpretation stalled: machine w "open_step print" "\<lambda>v. stuck w \<longrightarrow> stuck v" "\<lambda>_. True" for w print
  by unfold_locales (auto simp: stuck_step)

text \<open>
  A failed query keeps an auction closed for ever: when, after the schedule is claimed, one of the queries of the
  database fails, or when the answer to the claim is lost, the schedule stays \<open>Started\<close>. Later passes look for \<open>Scheduled\<close> only, so
  that no pass, and nothing the users do, opens the auction.
\<close>

lemma schedule_stuck:
  assumes "due_again start begins users w" and "op_initialized w = None" and "op_state_hash w = None" and "start \<le> now" and "pi_pool io"
    and "pi_claim io = DbReplyLost \<or> pi_claim io = DbOk \<and> (\<not> pi_participants io \<or> users \<noteq> [] \<and> \<not> queries_ok io)"
  shows "sr_state (op_schedule (fold (open_step print) es (open_step print (OpPass now io) w))) = SchStarted \<and>
    op_initialized (fold (open_step print) es (open_step print (OpPass now io) w)) = None \<and>
    op_state_hash (fold (open_step print) es (open_step print (OpPass now io) w)) = None"
proof -
  have "stuck (open_step print (OpPass now io) w)"
    using assms by (auto simp: stuck_def due_again_def queries_ok_def scheduler_pass_def process_schedule_def set_schedule_def claim_def)
  then show ?thesis
    using stalled.run_inv [of es "open_step print (OpPass now io) w" print] by (simp add: stuck_def)
qed

section \<open>What the engine reads\<close>

lemma jget_obj [simp]: "jget k (JObj kvs) = map_of kvs k"
  by (simp add: jget_def)

lemma payload_reads:
  shows "jget ''auction'' (state_payload print now s a c) = Some (auction_json print a)"
    and "jget ''config'' (state_payload print now s a c) = Some (config_data (sr_auction_id s) c)"
    and "jget ''schedule'' (state_payload print now s a c) = Some (schedule_json print s)"
    and "jget ''winner'' (state_payload print now s a c) = None"
  by (simp_all add: state_payload_def)

lemma auction_reads:
  shows "jf64 ''starting_price'' (auction_json print a) = aw_starting_price a"
    and "jstr ''auction_end_time'' (auction_json print a) = Some (print (aw_auction_end_time a))"
    and "jstr ''auction_start_time'' (auction_json print a) = Some (print (aw_auction_start_time a))"
    and "jstr ''status'' (auction_json print a) = None"
  by (simp_all add: auction_json_def jf64_def jstr_def as_str_def as_f64_def j_opt_def j_num_def Let_def split: option.splits)

lemma config_reads:
  shows "jstr ''auction_type'' (config_data i c) = Some (wire_name (case c of None \<Rightarrow> REVERSE | Some r \<Rightarrow> cr_auction_type r))"
    and "jf64 ''minimum_bid_step'' (config_data i c) = Some (case c of None \<Rightarrow> 1 | Some r \<Rightarrow> cr_minimum_bid_step r)"
    and "jf64 ''reserve_price'' (config_data i c) = (case c of None \<Rightarrow> None | Some r \<Rightarrow> cr_reserve_price r)"
  by (simp_all add: config_data_def config_json_def wire_name_def jf64_def jstr_def as_str_def as_f64_def j_opt_def j_num_def split: option.splits)

lemma ascii_upper_type: "ascii_upper (wire_name t) = wire_name t"
  by (cases t) (simp_all add: wire_name_def ascii_upper_def char_of_def)

text \<open>
  (C19) The engine runs the auction of the database: from what the scheduler has written, the engine reads the type, the
  step, the reserve and the starting price of the rows and their end time, for any printer of times that its parser reads
  back. With no configuration it runs a reverse auction with a step of one.
\<close>

theorem opened_runtime:
  assumes "\<forall>x. parse (print x) = Some x" and "\<forall>x. trim_z (print x) = print x"
    and "case c of None \<Rightarrow> True | Some r \<Rightarrow> cr_minimum_bid_step r > 0 \<and> (case cr_reserve_price r of None \<Rightarrow> True | Some p \<Rightarrow> p \<ge> 0)"
  shows "load_runtime parse now (Some (state_payload print opened s a c)) (Some (state_payload print opened s a c)) True ledger_empty =
    \<lparr>rt_auction_type = (case c of None \<Rightarrow> REVERSE | Some r \<Rightarrow> cr_auction_type r),
     rt_current_price = (case aw_starting_price a of None \<Rightarrow> f64_max | Some p \<Rightarrow> p),
     rt_minimum_bid_step = (case c of None \<Rightarrow> 1 | Some r \<Rightarrow> cr_minimum_bid_step r),
     rt_reserve_price = (case c of None \<Rightarrow> None | Some r \<Rightarrow> cr_reserve_price r),
     rt_end_timestamp_ms = aw_auction_end_time a\<rparr>"
proof -
  have rec: "auction_record (state_payload print opened s a c) = Some (auction_json print a)"
    and cfg: "config_record (state_payload print opened s a c) = Some (config_data (sr_auction_id s) c)"
    by (simp_all add: auction_record_def config_record_def payload_reads or_else_def)
  have "type_of_config (config_data i c) = (case c of None \<Rightarrow> REVERSE | Some r \<Rightarrow> cr_auction_type r)"
    "step_of_config (config_data i c) = (case c of None \<Rightarrow> 1 | Some r \<Rightarrow> cr_minimum_bid_step r)"
    "reserve_of_config (config_data i c) = (case c of None \<Rightarrow> None | Some r \<Rightarrow> cr_reserve_price r)" for i
    using assms(3)
    by (auto simp: type_of_config_def step_of_config_def reserve_of_config_def config_reads ascii_upper_type unwrap_or_def
      keep_if_def split: option.splits) (auto simp: wire_name_def split: auction_type.splits)
  with rec cfg show ?thesis
    using assms(1,2)
    by (simp add: load_runtime_def base_runtime_def or_else_def best_bid_def zrange_def ledger_empty_def auction_reads unwrap_or_def Let_def split: auction_type.splits option.splits)
qed

section \<open>Examples\<close>

definition ex_schedule :: schedule_row where
  "ex_schedule = \<lparr>sr_id = ''s'', sr_auction_id = ''a'', sr_idempotency_key = ''k'', sr_state = SchScheduled, sr_start_time = 1000000,
     sr_retry_count = 0\<rparr>"

definition ex_auction_row :: auction_row where
  "ex_auction_row = \<lparr>aw_id = ''a'', aw_title = ''t'', aw_description = [], aw_weight_kg = None, aw_dimensions = None, aw_origin_address = None,
     aw_origin_lat = None, aw_origin_lng = None, aw_dest_address = None, aw_dest_lat = None, aw_dest_lng = None, aw_distance_miles = None,
     aw_pickup_date_start = None, aw_pickup_date_end = None, aw_delivery_date_start = None, aw_delivery_date_end = None,
     aw_starting_price = Some 100, aw_auction_start_time = 1000000, aw_auction_end_time = 1900000, aw_created_at = 0, aw_updated_at = 0,
     aw_customer_id = ''c''\<rparr>"

definition ex_config_row :: config_row where
  "ex_config_row = \<lparr>cr_auction_id = ''a'', cr_auction_type = FORWARD, cr_minimum_bid_step = 5, cr_reserve_price = Some 150,
     cr_item_category = None, cr_item_condition = None, cr_quantity = None, cr_quantity_unit = None, cr_pickup_terms = None\<rparr>"

definition ex_open_world :: open_world where
  "ex_open_world = \<lparr>op_schedule = ex_schedule, op_auction = ex_auction_row, op_config = Some ex_config_row,
     op_registry = registry_init 1000000 7, op_state_key = None, op_state_hash = None, op_initialized = None\<rparr>"

definition ex_pass :: "bool \<Rightarrow> redis_io \<Rightarrow> pass_io" where
  "ex_pass queries pipe = \<lparr>pi_pool = True, pi_claim = DbOk, pi_participants = queries, pi_end_time = True, pi_auction = True, pi_config = True,
     pi_redis = True, pi_pipe = pipe, pi_mark = True\<rparr>"

text \<open>A printer that can be read back: the number of the milliseconds in unary.\<close>

definition ex_print :: "int \<Rightarrow> string" where
  "ex_print x = (if 0 \<le> x then replicate (nat x) CHR ''1'' else CHR ''-'' # replicate (nat (- x)) CHR ''1'')"

definition ex_parse :: "string \<Rightarrow> int option" where
  "ex_parse s = (case s of [] \<Rightarrow> Some 0 | c # cs \<Rightarrow> Some (if c = CHR ''-'' then - int (length cs) else int (length s)))"

lemma ex_printer: "ex_parse (ex_print x) = Some x" "trim_z (ex_print x) = ex_print x"
proof -
  show "ex_parse (ex_print x) = Some x"
    by (cases "nat x") (auto simp: ex_print_def ex_parse_def)
  have "\<forall>c \<in> set (ex_print x). c \<noteq> CHR ''Z''" by (auto simp: ex_print_def)
  then show "trim_z (ex_print x) = ex_print x"
    by (cases "rev (ex_print x)") (auto simp: trim_z_def)
qed


theorem opened_runtime_witness:
  "load_runtime ex_parse 1000020 (Some (state_payload ex_print 1000005 ex_schedule ex_auction_row (Some ex_config_row)))
      (Some (state_payload ex_print 1000005 ex_schedule ex_auction_row (Some ex_config_row))) True ledger_empty =
    \<lparr>rt_auction_type = FORWARD, rt_current_price = 100, rt_minimum_bid_step = 5, rt_reserve_price = Some 150, rt_end_timestamp_ms = 1900000\<rparr>"
  using opened_runtime [of ex_parse ex_print "Some ex_config_row" 1000020 1000005 ex_schedule ex_auction_row]
  by (simp add: ex_printer ex_config_row_def ex_auction_row_def)

end
