(* ===== verification/Bid_Pipeline.thy ===== *)
theory Bid_Pipeline
  imports Bid_Engine
begin

text \<open>
  The way of a bid through the engine's process: the worker of a Kafka partition (\<open>consumer.rs\<close> of
  \<open>src/apps/auction-engine\<close>), which retries a task until the actor has settled it and then commits its offset, and the publisher
  (\<open>actor/publisher.rs\<close>), which empties the stream of pending decisions. Kafka is a log of messages with a committed
  offset that may lag behind; a crash starts again at that offset, so that messages are delivered more than once.
\<close>

section \<open>The worker of a partition\<close>

datatype bid_message = Malformed | BidMessage string bid_request

record pipeline =
  pl_log :: "bid_message list"
  pl_pos :: nat
  pl_requested :: "nat list"
  pl_committed :: nat
  pl_dead :: "(nat \<times> string) list"
  pl_engine :: engine

definition pipeline_start :: "engine \<Rightarrow> pipeline" where
  "pipeline_start en = \<lparr>pl_log = [], pl_pos = 0, pl_requested = [], pl_committed = 0, pl_dead = [], pl_engine = en\<rparr>"

definition task_for :: "nat \<Rightarrow> string \<Rightarrow> bid_request \<Rightarrow> auction_task" where
  "task_for k r b = \<lparr>tk_request_id = r, tk_bid = b, tk_source_topic = ''auction-bids'', tk_source_partition = 0, tk_source_offset = int k\<rparr>"

text \<open>\<open>commit\<close> asks for the next offset; a request that fails is repeated later, so that any of them may be stored last.\<close>

definition commit_next :: "pipeline \<Rightarrow> pipeline" where
  "commit_next pl = pl\<lparr>pl_requested := Suc (pl_pos pl) # pl_requested pl, pl_pos := Suc (pl_pos pl)\<rparr>"

definition dead_letter :: "string \<Rightarrow> pipeline \<Rightarrow> pipeline" where
  "dead_letter reason pl = pl\<lparr>pl_dead := pl_dead pl @ [(pl_pos pl, reason)]\<rparr>"

text \<open>
  One attempt at the message under the position. A bid of another auction of the partition goes to the actor of that
  auction; it is settled there.
\<close>

definition worker_attempt :: "(decision \<Rightarrow> string) \<Rightarrow> string \<Rightarrow> int \<Rightarrow> write_io \<Rightarrow> pipeline \<Rightarrow> pipeline" where
  "worker_attempt print a now io pl =
     (if length (pl_log pl) \<le> pl_pos pl then pl
      else case pl_log pl ! pl_pos pl of
        Malformed \<Rightarrow> commit_next (dead_letter ''MALFORMED_BID'' pl)
      | BidMessage r b \<Rightarrow>
          if br_amount b \<le> 0 then commit_next (dead_letter ''INVALID_BID_AMOUNT'' pl)
          else if br_auction_id b \<noteq> a then commit_next pl
          else case actor_task print a (task_for (pl_pos pl) r b) now io (pl_engine pl) of
            (Committed, en) \<Rightarrow> commit_next (pl\<lparr>pl_engine := en\<rparr>)
          | (TaskRejected reason, en) \<Rightarrow> commit_next (dead_letter reason (pl\<lparr>pl_engine := en\<rparr>))
          | (Retryable _, en) \<Rightarrow> pl\<lparr>pl_engine := en\<rparr>)"

text \<open>
  The events of the process: a message arrives, the worker tries, the broker stores a requested offset, the actor
  restarts, and the whole process crashes and starts again.
\<close>

datatype pipeline_event =
    PlSend bid_message
  | PlAttempt int write_io
  | PlStored nat
  | PlRestart int "json option"
  | PlCrash int "json option"

definition restart_actor :: "(string \<Rightarrow> int option) \<Rightarrow> int \<Rightarrow> json option \<Rightarrow> engine \<Rightarrow> engine" where
  "restart_actor parse now st en = en\<lparr>en_lifecycle := StateActive, en_runtime := load_runtime parse now st None True (en_ledger en)\<rparr>"

fun pipeline_step :: "(decision \<Rightarrow> string) \<Rightarrow> (string \<Rightarrow> int option) \<Rightarrow> string \<Rightarrow> pipeline_event \<Rightarrow> pipeline \<Rightarrow> pipeline" where
  "pipeline_step print parse a (PlSend m) pl = pl\<lparr>pl_log := pl_log pl @ [m]\<rparr>"
| "pipeline_step print parse a (PlAttempt now io) pl = worker_attempt print a now io pl"
| "pipeline_step print parse a (PlStored k) pl = (if k \<in> set (pl_requested pl) then pl\<lparr>pl_committed := k\<rparr> else pl)"
| "pipeline_step print parse a (PlRestart now st) pl = pl\<lparr>pl_engine := restart_actor parse now st (pl_engine pl)\<rparr>"
| "pipeline_step print parse a (PlCrash now st) pl =
     pl\<lparr>pl_pos := pl_committed pl, pl_requested := [], pl_engine := restart_actor parse now st (pl_engine pl)\<rparr>"

section \<open>The sequential auction\<close>

text \<open>
  What a bidder expects: the messages are taken one after the other, and a bid is accepted when it improves the price and its
  request is new. The book is the price, the accepted requests and the accepted bids.
\<close>

type_synonym book = "rat \<times> string set \<times> bid_request list"

definition accepts :: "string \<Rightarrow> auction_type \<Rightarrow> rat \<Rightarrow> rat \<Rightarrow> string set \<Rightarrow> bid_message \<Rightarrow> bool" where
  "accepts a t s p seen m = (case m of Malformed \<Rightarrow> False
   | BidMessage r b \<Rightarrow> br_auction_id b = a \<and> r \<notin> seen \<and> is_better_bid t (Fin p) (Fin (br_amount b)) (Fin s))"

definition decide :: "string \<Rightarrow> auction_type \<Rightarrow> rat \<Rightarrow> book \<Rightarrow> bid_message \<Rightarrow> book" where
  "decide a t s bk m = (case bk of (p, seen, acc) \<Rightarrow>
     if accepts a t s p seen m
     then (case m of BidMessage r b \<Rightarrow> (br_amount b, insert r seen, acc @ [b]) | Malformed \<Rightarrow> bk) else bk)"

definition book_of :: "rat \<Rightarrow> ledger \<Rightarrow> book" where
  "book_of p L = (price_after p (lg_live L), dc_request_id ` set (lg_live L), map dc_bid (lg_live L))"

text \<open>A bid that does not improve a price does not improve a better one.\<close>

lemma fl_mono: "x \<le> y \<Longrightarrow> js_le (Fin a) (fl x) \<Longrightarrow> js_le (Fin a) (fl y)" "x \<le> y \<Longrightarrow> js_le (fl y) (Fin a) \<Longrightarrow> js_le (fl x) (Fin a)"
  using rnd_mono [of x y] by (auto simp: fl_def js_le_def Let_def split: if_splits)

lemma is_better_antimono:
  assumes "is_better_bid t (Fin p') (Fin x) (Fin s)" and "\<not> beats t p p'"
  shows "is_better_bid t (Fin p) (Fin x) (Fin s)"
  using assms fl_mono(1) [of "p' - s" "p - s" x] fl_mono(2) [of "p + s" "p' + s" x]
  by (cases t) (auto simp: is_better_bid_def js_sub_def js_add_def beats_def split: if_splits)

lemma accepts_antimono:
  assumes "accepts a t s p' seen' m" and "\<not> beats t p p'" and "seen \<subseteq> seen'"
  shows "accepts a t s p seen m"
  using assms is_better_antimono [of t p' _ s p] by (auto simp: accepts_def split: bid_message.splits)

lemma processed_iff: "book_ok t s p L \<Longrightarrow> lg_processed L r = None \<longleftrightarrow> r \<notin> dc_request_id ` set (lg_live L)"
proof -
  assume "book_ok t s p L"
  then have "\<And>d. lg_processed L r = Some d \<longleftrightarrow> d \<in> set (lg_live L) \<and> dc_request_id d = r" by (simp add: book_ok_def)
  then show ?thesis by (metis image_iff not_None_eq)
qed

section \<open>The pipeline settles every message\<close>

text \<open>Up to \<open>n\<close> the messages are settled: the ledger is the book of the sequential auction, which accepts none of them again.\<close>

definition settled :: "string \<Rightarrow> auction_type \<Rightarrow> rat \<Rightarrow> rat \<Rightarrow> nat \<Rightarrow> pipeline \<Rightarrow> bool" where
  "settled a t s p n pl \<longleftrightarrow> engine_inv t s p (pl_engine pl) \<and> pl_pos pl \<le> n \<and> n \<le> length (pl_log pl) \<and>
     (\<forall>k \<in> set (pl_requested pl). k \<le> n) \<and> pl_committed pl \<le> n \<and>
     foldl (decide a t s) (p, {}, []) (take n (pl_log pl)) = book_of p (en_ledger (pl_engine pl)) \<and>
     (\<forall>i < n. \<not> accepts a t s (price_after p (lg_live (en_ledger (pl_engine pl))))
        (dc_request_id ` set (lg_live (en_ledger (pl_engine pl)))) (pl_log pl ! i))"

definition pipeline_ok :: "(string \<Rightarrow> int option) \<Rightarrow> auction_type \<Rightarrow> rat \<Rightarrow> rat \<Rightarrow> pipeline_event \<Rightarrow> bool" where
  "pipeline_ok parse t s p e = (case e of
     PlSend m \<Rightarrow> (case m of Malformed \<Rightarrow> True | BidMessage r b \<Rightarrow> is_double (br_amount b))
   | PlAttempt now io \<Rightarrow> wi_write io \<noteq> ReplyLost
   | PlStored k \<Rightarrow> True
   | PlRestart now st \<Rightarrow> engine_ok parse t s p (EvRestart now st True)
   | PlCrash now st \<Rightarrow> engine_ok parse t s p (EvRestart now st True))"

definition doubles_only :: "bid_message list \<Rightarrow> bool" where
  "doubles_only ms = list_all (\<lambda>m. case m of Malformed \<Rightarrow> True | BidMessage r b \<Rightarrow> is_double (br_amount b)) ms"

lemma restart_actor_inv:
  assumes "engine_inv t s p en" and "is_double p" and "engine_ok parse t s p (EvRestart now st True)"
  shows "engine_inv t s p (restart_actor parse now st en)" and "en_ledger (restart_actor parse now st en) = en_ledger en"
  using assms load_runtime_book [of t s p "en_ledger en" parse now st]
  by (auto simp: engine_ok_def engine_inv_def restart_actor_def)

text \<open>Moving on without a new accepted bid.\<close>

lemma settled_skip:
  assumes "settled a t s p n pl" and "pl_pos pl < length (pl_log pl)" and "engine_inv t s p en"
    and "lg_live (en_ledger en) = lg_live (en_ledger (pl_engine pl))"
    and "\<not> accepts a t s (price_after p (lg_live (en_ledger (pl_engine pl)))) (dc_request_id ` set (lg_live (en_ledger (pl_engine pl))))
      (pl_log pl ! pl_pos pl)"
    and "pl_log pl' = pl_log pl" "pl_pos pl' = Suc (pl_pos pl)" "pl_requested pl' = Suc (pl_pos pl) # pl_requested pl"
      "pl_committed pl' = pl_committed pl" "pl_engine pl' = en"
  shows "settled a t s p (max n (Suc (pl_pos pl))) pl'"
proof (cases "pl_pos pl < n")
  case True
  then have "max n (Suc (pl_pos pl)) = n" by simp
  with assms True show ?thesis by (auto simp: settled_def book_of_def)
next
  case False
  with assms(1) have n: "pl_pos pl = n" by (simp add: settled_def)
  with assms have "decide a t s (book_of p (en_ledger (pl_engine pl))) (pl_log pl ! n) = book_of p (en_ledger (pl_engine pl))"
    by (simp add: decide_def book_of_def)
  with n assms show ?thesis
    by (auto simp: settled_def take_Suc_conv_app_nth book_of_def less_Suc_eq)
qed

text \<open>Moving on with a new accepted bid: it was not settled before, so that it is the next message.\<close>

lemma settled_accept:
  assumes "settled a t s p n pl" and "is_double p" and "pl_pos pl < length (pl_log pl)" and "pl_log pl ! pl_pos pl = BidMessage r b"
    and "accepts a t s (price_after p (lg_live (en_ledger (pl_engine pl)))) (dc_request_id ` set (lg_live (en_ledger (pl_engine pl))))
      (BidMessage r b)"
    and "engine_inv t s p en" and "lg_live (en_ledger en) = lg_live (en_ledger (pl_engine pl)) @ [d]"
    and "dc_bid d = b" "dc_request_id d = r"
  shows "settled a t s p (Suc n) (commit_next (pl\<lparr>pl_engine := en\<rparr>))"
proof -
  let ?L = "en_ledger (pl_engine pl)" and ?L' = "en_ledger en"
  let ?p = "price_after p (lg_live ?L)" and ?ids = "dc_request_id ` set (lg_live ?L)"
  have n: "pl_pos pl = n"
    using assms(1,4,5) unfolding settled_def by (metis linorder_neqE_nat not_less)
  have ch: "chain t s p (lg_live ?L')" using assms(6) by (simp add: engine_inv_def book_ok_def)
  then have dbl: "is_double ?p" using assms(2,7) chain_best(1) [of t s p "lg_live ?L"] by (simp add: chain_snoc)
  have p': "price_after p (lg_live ?L') = br_amount b" using assms(7,8) by simp
  have "\<not> beats t ?p (br_amount b)"
    using ch assms(7,8) dbl by (intro better_not_worse(1) [of t ?p "br_amount b" s]) (simp_all add: chain_snoc)
  then have keep: "\<not> accepts a t s (br_amount b) (insert r ?ids) m" if "\<not> accepts a t s ?p ?ids m" for m
    using that accepts_antimono [of a t s "br_amount b" "insert r ?ids" m ?p ?ids] by blast
  have "decide a t s (book_of p ?L) (BidMessage r b) = book_of p ?L'"
    using assms(5,7-9) p' by (simp add: decide_def book_of_def)
  moreover have "\<not> accepts a t s (br_amount b) (insert r ?ids) (BidMessage r b)" by (simp add: accepts_def)
  ultimately show ?thesis
    using assms(1,3,4,6,7,9) n keep p'
    by (auto simp: settled_def commit_next_def take_Suc_conv_app_nth less_Suc_eq)
qed

lemma settled_attempt:
  assumes "settled a t s p n pl" and "names_request print" and "is_double p" and "doubles_only (pl_log pl)" and "wi_write io \<noteq> ReplyLost"
  shows "\<exists>n'. settled a t s p n' (worker_attempt print a now io pl)"
proof (cases "pl_pos pl < length (pl_log pl)")
  case True
  let ?L = "en_ledger (pl_engine pl)"
  have inv: "engine_inv t s p (pl_engine pl)" using assms(1) by (simp add: settled_def)
  then have book: "book_ok t s p ?L" and price: "rt_current_price (en_runtime (pl_engine pl)) = price_after p (lg_live ?L)"
    by (simp_all add: engine_inv_def)
  note skip = settled_skip [OF assms(1) True]
  show ?thesis
  proof (cases "pl_log pl ! pl_pos pl")
    case Malformed
    show ?thesis
      by (rule exI, rule skip [where en = "pl_engine pl"])
        (use Malformed True inv in \<open>auto simp: worker_attempt_def commit_next_def dead_letter_def accepts_def\<close>)
  next
    case (BidMessage r b)
    show ?thesis
    proof (cases "br_amount b \<le> 0 \<or> br_auction_id b \<noteq> a")
      case other: True
      then have "\<not> accepts a t s (price_after p (lg_live ?L)) (dc_request_id ` set (lg_live ?L)) (pl_log pl ! pl_pos pl)"
        using BidMessage by (auto simp: accepts_def is_better_bid_def)
      from skip [OF inv _ this] show ?thesis
        by (rule exI) (use True other BidMessage in \<open>auto simp: worker_attempt_def commit_next_def dead_letter_def\<close>)
    next
      case False
      have dbl: "is_double (br_amount (tk_bid (task_for (pl_pos pl) r b)))"
        using assms(4) True BidMessage by (auto simp: doubles_only_def list_all_length task_for_def split: bid_message.splits)
      show ?thesis
      proof (cases rule: actor_task_cases [OF inv assms(5) dbl assms(2), of a now, case_names accepted kept])
        case (accepted d en')
        then have acc: "accepts a t s (price_after p (lg_live ?L)) (dc_request_id ` set (lg_live ?L)) (BidMessage r b)"
          using False processed_iff [OF book] price by (simp add: accepts_def task_for_def)
        have "settled a t s p (Suc n) (commit_next (pl\<lparr>pl_engine := en'\<rparr>))"
          by (rule settled_accept [OF assms(1,3) True BidMessage acc accepted(3,4)]) (simp_all add: accepted(2) task_for_def)
        then show ?thesis using True BidMessage False accepted(1) by (auto simp: worker_attempt_def)
      next
        case (kept res en')
        show ?thesis
        proof (cases res)
          case Committed
          then have "\<not> accepts a t s (price_after p (lg_live ?L)) (dc_request_id ` set (lg_live ?L)) (pl_log pl ! pl_pos pl)"
            using kept(7) processed_iff [OF book] price BidMessage by (auto simp: accepts_def task_for_def)
          from skip [OF kept(2,3) this] show ?thesis
            by (rule exI) (use True BidMessage False Committed kept in \<open>auto simp: worker_attempt_def commit_next_def\<close>)
        next
          case (TaskRejected reason)
          then show ?thesis using kept(7) False by (simp add: task_for_def)
        next
          case (Retryable err)
          then have "worker_attempt print a now io pl = pl\<lparr>pl_engine := en'\<rparr>"
            using True BidMessage False kept(1) by (simp add: worker_attempt_def)
          then show ?thesis using assms(1) kept by (auto simp: settled_def book_of_def)
        qed
      qed
    qed
  qed
qed (use assms(1) in \<open>auto simp: worker_attempt_def\<close>)

definition pipe_inv :: "(decision \<Rightarrow> string) \<Rightarrow> string \<Rightarrow> auction_type \<Rightarrow> rat \<Rightarrow> rat \<Rightarrow> pipeline \<Rightarrow> bool" where
  "pipe_inv print a t s p pl \<longleftrightarrow> (names_request print \<and> is_double p \<longrightarrow> doubles_only (pl_log pl) \<and> (\<exists>n. settled a t s p n pl))"

lemma worker_attempt_log [simp]: "pl_log (worker_attempt print a now io pl) = pl_log pl"
  by (auto simp: worker_attempt_def commit_next_def dead_letter_def split: bid_message.splits task_result.splits prod.splits)

lemma pipe_inv_step:
  assumes "pipeline_ok parse t s p e" and "pipe_inv print a t s p pl"
  shows "pipe_inv print a t s p (pipeline_step print parse a e pl)"
  unfolding pipe_inv_def
proof (intro impI)
  assume h: "names_request print \<and> is_double p"
  with assms(2) obtain n where n: "settled a t s p n pl" and dbl: "doubles_only (pl_log pl)" by (auto simp: pipe_inv_def)
  have inv: "engine_inv t s p (pl_engine pl)" using n by (simp add: settled_def)
  show "doubles_only (pl_log (pipeline_step print parse a e pl)) \<and> (\<exists>n. settled a t s p n (pipeline_step print parse a e pl))"
  proof (cases e)
    case (PlSend m)
    then show ?thesis using assms(1) n dbl
      by (auto simp: doubles_only_def pipeline_ok_def settled_def nth_append intro!: exI [of _ n] split: bid_message.splits)
  next
    case (PlAttempt now io)
    then have "\<exists>n. settled a t s p n (worker_attempt print a now io pl)"
      using settled_attempt [OF n _ _ dbl] h assms(1) by (auto simp: pipeline_ok_def)
    then show ?thesis using PlAttempt dbl by simp
  next
    case (PlStored k)
    then show ?thesis using n dbl by (auto simp: settled_def)
  next
    case (PlRestart now st)
    then show ?thesis using n dbl assms(1) h restart_actor_inv [OF inv, of parse now st]
      by (auto simp: settled_def pipeline_ok_def)
  next
    case (PlCrash now st)
    then show ?thesis using n dbl assms(1) h restart_actor_inv [OF inv, of parse now st]
      by (auto simp: settled_def pipeline_ok_def)
  qed
qed

interpretation pipe: machine "pipeline_start (engine_for t s p reserve stop st)" "pipeline_step print parse a" "pipe_inv print a t s p"
    "pipeline_ok parse t s p"
  for t s p reserve stop st print parse a
  by unfold_locales
    (auto simp: pipe_inv_step, auto simp: pipe_inv_def doubles_only_def pipeline_start_def settled_def engine_for_inv book_of_def
       ex_start_fields ledger_empty_def)


definition ex_messages :: "pipeline_event list" where
  "ex_messages = [PlSend (BidMessage ''r1'' (ex_bid ''u1'' 90 1)), PlSend Malformed, PlAttempt 1 (ex_io RedisFails), PlAttempt 2 (ex_io RedisOk),
     PlCrash 3 (Some ex_stored), PlAttempt 4 (ex_io RedisOk), PlStored 1, PlSend (BidMessage ''r2'' (ex_bid ''u2'' 88 5))]"

lemma ex_messages_ok: "\<forall>e \<in> set ex_messages. pipeline_ok (\<lambda>_. None) REVERSE 5 100 e"
  by (simp add: ex_messages_def pipeline_ok_def engine_ok_def ex_io_def ex_bid_def ex_doubles ex_base)

definition ex_pipeline :: pipeline where
  "ex_pipeline = fold (pipeline_step dc_request_id (\<lambda>_. None) ''a'') ex_messages (pipeline_start (engine_for REVERSE 5 100 None 1000 None))"


definition good_io :: "bool \<Rightarrow> write_io" where
  "good_io pub = \<lparr>wi_lookup = True, wi_write = RedisOk, wi_publish = pub\<rparr>"

lemma attempt_moves:
  assumes "pl_pos pl < length (pl_log pl)"
  shows "pl_pos (worker_attempt print a now (good_io pub) pl) = Suc (pl_pos pl)"
proof -
  have r: "actor_task print a tk now (good_io pub) en \<noteq> (Retryable e, en')" for tk en e en'
    by (auto simp: actor_task_def good_io_def write_bid_def Let_def split: option.splits prod.splits bool.splits)
  show ?thesis using assms
    by (auto simp: worker_attempt_def commit_next_def dead_letter_def r split: bid_message.splits task_result.splits prod.splits)
qed

lemma attempts_finish:
  "pl_pos pl + k \<le> length (pl_log pl) \<Longrightarrow>
    pl_pos (fold (pipeline_step print parse a) (map (\<lambda>i. PlAttempt (clock i) (good_io pub)) [0..<k]) pl) = pl_pos pl + k \<and>
    pl_log (fold (pipeline_step print parse a) (map (\<lambda>i. PlAttempt (clock i) (good_io pub)) [0..<k]) pl) = pl_log pl"
  by (induction k) (auto simp: attempt_moves)



end
