(* ===== verification/Live_Server.thy ===== *)
theory Live_Server
  imports Scheduler Bid_Pipeline
begin

text \<open>
  The socket server and the ingestion of bids: \<open>src/apps/ws-server/src/auth.rs\<close> and \<open>main.rs\<close> authorise a connection from what the
  scheduler has written to Redis, send the page the state of the auction and forward its bids, and \<open>src/apps/grpc/src/main.rs\<close> checks
  a bid and puts it on the queue of the engine. The token, the ids and the times are read by libraries (\<open>decode\<close>, \<open>parse_uuid\<close>,
  \<open>parse\<close>, arguments of the definitions); \<open>show_uuid\<close> prints an id in its canonical form. What Redis, gRPC and Kafka answer is an argument.
\<close>

section \<open>The state of the auction\<close>

record validation =
  vr_is_completed :: bool
  vr_join_expired :: bool
  vr_start_ms :: int
  vr_end_ms :: int
  vr_starting_price :: "rat option"
  vr_auction_type :: string
  vr_minimum_bid_step :: rat
  vr_winner_data :: "json option"

definition is_initialized_value :: "string option \<Rightarrow> bool" where
  "is_initialized_value v = (v = Some ''1'')"

text \<open>\<open>NaiveDateTime::parse_from_str\<close> on the text without its \<open>Z\<close>, with the two formats of the source in \<open>parse\<close>.\<close>

definition read_time :: "(string \<Rightarrow> int option) \<Rightarrow> string \<Rightarrow> json \<Rightarrow> int option" where
  "read_time parse k v = Option.bind (jstr k v) (\<lambda>s. parse (trim_z s))"

definition ws_config :: "json \<Rightarrow> json option" where
  "ws_config st = or_else (jget ''config'' st) (keep_if (\<lambda>v. jget ''auction_type'' v \<noteq> None) (jget ''auction'' st))"

text \<open>
  \<open>validate_auction_state\<close>: \<open>st\<close> is the field of the hash, \<open>None\<close> where it is missing or the read failed, \<open>Some None\<close> where it
  is not JSON.
\<close>

definition validate_auction_state :: "(string \<Rightarrow> int option) \<Rightarrow> int \<Rightarrow> json option option \<Rightarrow> string + validation" where
  "validate_auction_state parse now st = (case st of
     None \<Rightarrow> Inl ''Auction has ended or does not exist''
   | Some None \<Rightarrow> Inl ''Failed to parse auction state''
   | Some (Some v) \<Rightarrow>
      (let start0 = unwrap_or (Option.bind (jget ''schedule'' v) (read_time parse ''start_time'')) 0;
           rec = auction_record v;
           start_ms = unwrap_or (Option.bind rec (read_time parse ''auction_start_time'')) start0;
           stop = Option.bind rec (read_time parse ''auction_end_time'');
           named = (case rec of None \<Rightarrow> False | Some a \<Rightarrow> unwrap_or (jstr ''status'' a) [] = ''Completed'');
           past = (case stop of None \<Rightarrow> False | Some e \<Rightarrow> e \<le> now);
           cfg = ws_config v
       in Inr \<lparr>vr_is_completed = (named \<or> past), vr_join_expired = False, vr_start_ms = start_ms, vr_end_ms = unwrap_or stop 0,
            vr_starting_price = Option.bind rec (jf64 ''starting_price''),
            vr_auction_type = (case cfg of None \<Rightarrow> ''REVERSE'' | Some c \<Rightarrow> ascii_upper (unwrap_or (jstr ''auction_type'' c) ''REVERSE'')),
            vr_minimum_bid_step = (case cfg of None \<Rightarrow> 1 | Some c \<Rightarrow> step_of_config c),
            vr_winner_data = jget ''winner'' v\<rparr>))"

section \<open>The session of a connection\<close>

record bid_session =
  bs_auction_id :: string
  bs_user_id :: string
  bs_token_expires_at_ms :: int
  bs_is_participant :: bool
  bs_is_completed :: bool
  bs_starts_at_ms :: int
  bs_ends_at_ms :: int

definition authorize :: "bid_session \<Rightarrow> string \<Rightarrow> string \<Rightarrow> int \<Rightarrow> string + unit" where
  "authorize s a who now =
     (if bs_user_id s = [] \<or> bs_token_expires_at_ms s \<le> now then Inl ''Authentication expired. Reconnect before bidding.''
      else if a \<noteq> bs_auction_id s \<or> who \<noteq> bs_user_id s then Inl ''Bid identity does not match this auction connection.''
      else if \<not> bs_is_participant s then Inl ''You are not a participant in this auction.''
      else if bs_is_completed s \<or> bs_ends_at_ms s \<le> 0 \<or> bs_ends_at_ms s \<le> now then Inl ''Auction has ended.''
      else if now < bs_starts_at_ms s then Inl ''Auction has not started.''
      else Inr ())"

definition i64_max :: int where
  "i64_max = 2 ^ 63 - 1"

text \<open>\<open>i64::try_from(exp).unwrap_or(0).saturating_mul(1000)\<close>, of the claim in seconds.\<close>

definition expiry_ms :: "nat \<Rightarrow> int" where
  "expiry_ms e = (if int e \<le> i64_max then min i64_max (int e * 1000) else 0)"

text \<open>
  The subject and the expiry of the token: both empty where there is no token, or one that the library refuses.
\<close>

definition read_token :: "(string \<Rightarrow> (string \<times> nat) option) \<Rightarrow> string option \<Rightarrow> string \<times> int" where
  "read_token decode tok = (case tok of None \<Rightarrow> ([], 0)
   | Some t \<Rightarrow> if t = [] then ([], 0) else (case decode t of None \<Rightarrow> ([], 0) | Some (sub, e) \<Rightarrow> (sub, expiry_ms e)))"

datatype live_msg = MsgInit auction_init | MsgUpdate json | MsgClosed "json option" | MsgError string | MsgInfo string

record live_socket =
  ls_open :: bool
  ls_rooms :: "string list"
  ls_session :: "bid_session option"
  ls_sent :: "live_msg list"

definition new_socket :: live_socket where
  "new_socket = \<lparr>ls_open = True, ls_rooms = [], ls_session = None, ls_sent = []\<rparr>"

definition disconnect :: "live_socket \<Rightarrow> live_socket" where
  "disconnect s = s\<lparr>ls_open := False, ls_rooms := []\<rparr>"

definition send_msg :: "live_msg \<Rightarrow> live_socket \<Rightarrow> live_socket" where
  "send_msg m s = s\<lparr>ls_sent := ls_sent s @ [m]\<rparr>"

text \<open>The types of the page: a type that is neither of the two is read as a reverse auction there.\<close>

definition wire_type :: "string \<Rightarrow> auction_type option" where
  "wire_type s = (if s = [] then None else Some (if s = ''FORWARD'' then FORWARD else REVERSE))"

definition event_of :: "decision \<Rightarrow> bid_event" where
  "event_of d = \<lparr>be_bid = Some (dc_bid d), be_is_executed = dc_is_executed d\<rparr>"

text \<open>The last fifty entries of the live stream, read backwards and turned round again; none where the read fails.\<close>

definition recent_events :: "bool \<Rightarrow> ledger \<Rightarrow> decision list" where
  "recent_events read_ok L = (if read_ok then rev (take 50 (rev (lg_live L))) else [])"

definition reload_msg :: "string \<Rightarrow> validation \<Rightarrow> bool \<Rightarrow> bool \<Rightarrow> ledger \<Rightarrow> auction_init" where
  "reload_msg a v participant stream_ok L =
     (let t = (if vr_auction_type v = ''FORWARD'' then FORWARD else REVERSE);
          leading = Some (map (\<lambda>d. Some (event_of d)) (zrange t 9 (lg_zset L)))
      in \<lparr>ai_auction_id = a, ai_auction_type = wire_type (vr_auction_type v), ai_minimum_bid_step = Some (vr_minimum_bid_step v),
          ai_leading_bids = leading, ai_lowest_bids = leading,
          ai_recent_events = Some (map (\<lambda>d. Some (event_of d)) (recent_events stream_ok L)),
          ai_start_time = vr_start_ms v, ai_end_time = vr_end_ms v, ai_initial_price = vr_starting_price v,
          ai_initial_lowest = vr_starting_price v, ai_is_participant = participant\<rparr>)"

text \<open>What Redis holds for an auction, and which reads of a connection succeed.\<close>

record connect_io =
  cn_redis :: bool
  cn_initialized :: bool
  cn_bit :: bool
  cn_legacy :: bool
  cn_state :: bool
  cn_bids :: bool
  cn_stream :: bool

definition ws_on_connect ::
  "(string \<Rightarrow> (string \<times> nat) option) \<Rightarrow> (string \<Rightarrow> uuid option) \<Rightarrow> (string \<Rightarrow> int option) \<Rightarrow> (string \<times> string option) option
     \<Rightarrow> int \<Rightarrow> connect_io \<Rightarrow> open_world \<Rightarrow> ledger \<Rightarrow> live_socket" where
  "ws_on_connect decode parse_uuid parse auth now io w L = (case auth of None \<Rightarrow> disconnect new_socket
   | Some (a, tok) \<Rightarrow>
      if \<not> cn_redis io \<or> \<not> cn_initialized io then disconnect new_socket
      else if \<not> is_initialized_value (op_initialized w) then new_socket\<lparr>ls_rooms := [a]\<rparr>
      else
       (case read_token decode tok of (user, expires) \<Rightarrow>
         let participant = validate_participant (cn_bit io) (cn_legacy io) (if user = [] then None else parse_uuid user) (rg_access (op_registry w))
         in case validate_auction_state parse now (if cn_state io then map_option Some (op_state_hash w) else None) of
              Inl e \<Rightarrow> disconnect (send_msg (MsgError e) new_socket)
            | Inr v \<Rightarrow>
               if vr_join_expired v then disconnect (send_msg (MsgError ''Joining period has expired (5 mins after start)'') new_socket)
               else
                let s = (if vr_is_completed v then send_msg (MsgClosed (vr_winner_data v)) new_socket else new_socket);
                    s = s\<lparr>ls_rooms := [a]\<rparr>;
                    s = (if cn_bids io then send_msg (MsgInit (reload_msg a v participant (cn_stream io) L)) s else s)
                in s\<lparr>ls_session := Some \<lparr>bs_auction_id = a, bs_user_id = user, bs_token_expires_at_ms = expires,
                     bs_is_participant = participant, bs_is_completed = vr_is_completed v, bs_starts_at_ms = vr_start_ms v,
                     bs_ends_at_ms = vr_end_ms v\<rparr>\<rparr>))"

section \<open>The ingestion of a bid\<close>

record place_bid_request =
  pb_auction_id :: string
  pb_user_id :: string
  pb_username :: string
  pb_bid :: jsnum
  pb_bid_time :: int
  pb_request_id :: string

text \<open>A time of the client: none, in seconds, or in milliseconds. The product is that of \<open>i64\<close>, which saturates.\<close>

definition bid_timestamp :: "int \<Rightarrow> int \<Rightarrow> int" where
  "bid_timestamp now x = (if x \<le> 0 then now else if x < 1000000000000 then min i64_max (x * 1000) else x)"

text \<open>
  \<open>publish_bid\<close> of the ingestion service up to the queue: the packet, or the error. \<open>fresh\<close> is a new random id.
\<close>

definition publish_bid ::
  "(string \<Rightarrow> uuid option) \<Rightarrow> (uuid \<Rightarrow> string) \<Rightarrow> uuid \<Rightarrow> int \<Rightarrow> place_bid_request \<Rightarrow> string + bid_message" where
  "publish_bid parse_uuid show_uuid fresh now rq =
     (if pb_auction_id rq = [] then Inl ''Auction ID cannot be empty''
      else if pb_user_id rq = [] then Inl ''User ID cannot be empty''
      else case pb_bid rq of
        Fin x \<Rightarrow>
          if x \<le> 0 then Inl ''Bid amount must be finite and greater than zero''
          else (case parse_uuid (pb_auction_id rq) of None \<Rightarrow> Inl ''Invalid auction UUID format''
          | Some a \<Rightarrow> (case parse_uuid (pb_user_id rq) of None \<Rightarrow> Inl ''Invalid user UUID format''
          | Some u \<Rightarrow>
             (case (if pb_request_id rq = [] then Some fresh else parse_uuid (pb_request_id rq)) of
                None \<Rightarrow> Inl ''Invalid request UUID format''
              | Some r \<Rightarrow> Inr (BidMessage (show_uuid r)
                  \<lparr>br_auction_id = show_uuid a, br_bidder_id = show_uuid u,
                   br_username = (if pb_username rq = [] then None else Some (pb_username rq)),
                   br_amount = x, br_timestamp = bid_timestamp now (pb_bid_time rq)\<rparr>))))
      | _ \<Rightarrow> Inl ''Bid amount must be finite and greater than zero'')"

text \<open>
  The same service over HTTP. The time is given in whole seconds. Whoever can reach the endpoint names the bidder; there is no token.
\<close>

record http_bid_payload =
  hb_auction_id :: string
  hb_user_id :: string
  hb_username :: "string option"
  hb_amount :: jsnum
  hb_request_id :: "string option"

definition http_bid_request :: "int \<Rightarrow> http_bid_payload \<Rightarrow> place_bid_request" where
  "http_bid_request now p = \<lparr>pb_auction_id = hb_auction_id p, pb_user_id = hb_user_id p, pb_username = unwrap_or (hb_username p) [],
     pb_bid = hb_amount p, pb_bid_time = now div 1000, pb_request_id = unwrap_or (hb_request_id p) []\<rparr>"

text \<open>The status, the state and the error of the answer, and what is added to the queue.\<close>

definition handle_http_bid ::
  "(string \<Rightarrow> uuid option) \<Rightarrow> (uuid \<Rightarrow> string) \<Rightarrow> uuid \<Rightarrow> int \<Rightarrow> redis_io \<Rightarrow> http_bid_payload \<Rightarrow> (int \<times> string \<times> string) \<times> bid_message list" where
  "handle_http_bid parse_uuid show_uuid fresh now io p = (case publish_bid parse_uuid show_uuid fresh now (http_bid_request now p) of
     Inl e \<Rightarrow> ((400, ''REJECTED'', e), [])
   | Inr m \<Rightarrow> if io = RedisOk then ((200, ''QUEUED'', []), [m])
       else ((400, ''REJECTED'', ''Kafka publish failed''), if io = RedisFails then [] else [m]))"

record inbound_bid =
  ib_auction_id :: string
  ib_bidder_id :: string
  ib_username :: "string option"
  ib_amount :: rat
  ib_request_id :: "string option"

text \<open>
  What the services answer to a bid: whether gRPC can be reached and its response arrives, and how the queue answers. A bid may be
  queued and its answer lost.
\<close>

record grpc_io =
  gi_connect :: bool
  gi_queue :: redis_io
  gi_reply :: bool

text \<open>
  The handler of \<open>place_bid\<close>, with the service that it calls: the messages to the socket and what is added to the queue. A socket
  without a session has no handler, and the bid is dropped.
\<close>

definition on_place_bid ::
  "(string \<Rightarrow> uuid option) \<Rightarrow> (uuid \<Rightarrow> string) \<Rightarrow> uuid \<Rightarrow> uuid \<Rightarrow> (rat \<Rightarrow> string) \<Rightarrow> int \<Rightarrow> grpc_io \<Rightarrow> inbound_bid \<Rightarrow> live_socket
     \<Rightarrow> live_socket \<times> bid_message list" where
  "on_place_bid parse_uuid show_uuid fresh fresh' show_num now io ib s = (case ls_session s of None \<Rightarrow> (s, [])
   | Some ses \<Rightarrow>
      (case authorize ses (ib_auction_id ib) (ib_bidder_id ib) now of
        Inl e \<Rightarrow> (send_msg (MsgError e) s, [])
      | Inr _ \<Rightarrow>
         (let rq = \<lparr>pb_auction_id = ib_auction_id ib, pb_user_id = ib_bidder_id ib, pb_username = unwrap_or (ib_username ib) [],
                    pb_bid = Fin (ib_amount ib), pb_bid_time = now, pb_request_id = unwrap_or (ib_request_id ib) (show_uuid fresh)\<rparr>
          in if \<not> gi_connect io then (send_msg (MsgError ''Failed to contact gRPC publisher pipeline.'') s, [])
             else let answer = publish_bid parse_uuid show_uuid fresh' now rq;
                      queued = (case answer of Inl _ \<Rightarrow> [] | Inr m \<Rightarrow> if gi_queue io = RedisFails then [] else [m]);
                      msg = (if \<not> gi_reply io then MsgError ''Failed to contact gRPC publisher pipeline.''
                             else case answer of
                               Inl e \<Rightarrow> MsgError (''Bid rejected: '' @ e)
                             | Inr _ \<Rightarrow> if gi_queue io = RedisOk
                                 then MsgInfo (''Bid of '' @ show_num (ib_amount ib) @ '' is queued and being processed...'')
                                 else MsgError ''Bid rejected: Kafka publish failed'')
                  in (send_msg msg s, queued))))"

section \<open>Only authorised bids are queued\<close>

lemma authorize_ok:
  "authorize s a who now = Inr x \<longleftrightarrow> bs_user_id s \<noteq> [] \<and> now < bs_token_expires_at_ms s \<and> a = bs_auction_id s \<and> who = bs_user_id s \<and>
     bs_is_participant s \<and> \<not> bs_is_completed s \<and> 0 < bs_ends_at_ms s \<and> bs_starts_at_ms s \<le> now \<and> now < bs_ends_at_ms s"
  by (cases x) (auto simp: authorize_def)

lemma publish_bid_ok:
  "publish_bid parse_uuid show_uuid fresh now rq = Inr m \<longleftrightarrow> pb_auction_id rq \<noteq> [] \<and> pb_user_id rq \<noteq> [] \<and>
     (\<exists>x a u r. pb_bid rq = Fin x \<and> 0 < x \<and> parse_uuid (pb_auction_id rq) = Some a \<and> parse_uuid (pb_user_id rq) = Some u \<and>
        (if pb_request_id rq = [] then Some fresh else parse_uuid (pb_request_id rq)) = Some r \<and>
        m = BidMessage (show_uuid r) \<lparr>br_auction_id = show_uuid a, br_bidder_id = show_uuid u,
          br_username = (if pb_username rq = [] then None else Some (pb_username rq)), br_amount = x,
          br_timestamp = bid_timestamp now (pb_bid_time rq)\<rparr>)"
  by (auto simp: publish_bid_def split: jsnum.splits option.splits if_splits)

lemma place_bid_queued:
  assumes "m \<in> set (snd (on_place_bid parse_uuid show_uuid fresh fresh' show_num now gio ib s))"
  obtains ses a u r where "ls_session s = Some ses" "authorize ses (ib_auction_id ib) (ib_bidder_id ib) now = Inr ()"
    "parse_uuid (ib_auction_id ib) = Some a" "parse_uuid (ib_bidder_id ib) = Some u" "0 < ib_amount ib"
    "m = BidMessage r \<lparr>br_auction_id = show_uuid a, br_bidder_id = show_uuid u,
       br_username = (if unwrap_or (ib_username ib) [] = [] then None else Some (unwrap_or (ib_username ib) [])), br_amount = ib_amount ib,
       br_timestamp = bid_timestamp now now\<rparr>"
  using assms by (auto simp: on_place_bid_def Let_def split: option.splits sum.splits if_splits dest!: sym [of "Inr _"]) (auto simp: publish_bid_ok)

lemma validate_missing [simp]: "validate_auction_state parse now None = Inl ''Auction has ended or does not exist''"
  by (simp add: validate_auction_state_def)

lemma session_of_connect:
  assumes "ls_session (ws_on_connect decode parse_uuid parse auth now io w L) = Some ses"
  obtains a tok v where "auth = Some (a, tok)" "op_initialized w = Some ''1''" "cn_state io"
    "validate_auction_state parse now (map_option Some (op_state_hash w)) = Inr v"
    "ses = \<lparr>bs_auction_id = a, bs_user_id = fst (read_token decode tok), bs_token_expires_at_ms = snd (read_token decode tok),
       bs_is_participant = validate_participant (cn_bit io) (cn_legacy io)
         (if fst (read_token decode tok) = [] then None else parse_uuid (fst (read_token decode tok))) (rg_access (op_registry w)),
       bs_is_completed = vr_is_completed v, bs_starts_at_ms = vr_start_ms v, bs_ends_at_ms = vr_end_ms v\<rparr>"
  using assms
  by (auto simp: ws_on_connect_def new_socket_def disconnect_def send_msg_def is_initialized_value_def Let_def
      split: option.split_asm if_split_asm prod.split_asm sum.split_asm)

lemma read_token_user: "fst (read_token decode tok) \<noteq> [] \<Longrightarrow> \<exists>t e. tok = Some t \<and> decode t = Some (fst (read_token decode tok), e) \<and>
    snd (read_token decode tok) = expiry_ms e"
  by (auto simp: read_token_def split: option.splits if_splits)

lemma participant_granted: "validate_participant b l user st \<Longrightarrow> \<exists>u. user = Some u \<and> access_granted st u"
  by (auto simp: validate_participant_def access_granted_def split: option.splits)

text \<open>
  (C6) Only authorised bids reach the queue of the engine: whatever the client sends and however the services fail, a bid
  that is queued from a connection has a token for its bidder that has not expired, names the auction of the connection, comes
  from a user whose bit was set for it, falls between the start and the end that the connection read, and has a positive amount;
  the queued packet carries the ids of the connection and the amount of the client, and its time is that of the server.
\<close>

theorem queued_bid_authorised:
  assumes "s = ws_on_connect decode parse_uuid parse auth opened io w L"
    and "m \<in> set (snd (on_place_bid parse_uuid show_uuid fresh fresh' show_num now gio ib s))"
  shows "\<exists>t e a u v r b. auth = Some (ib_auction_id ib, Some t) \<and> decode t = Some (ib_bidder_id ib, e) \<and> now < expiry_ms e \<and>
    parse_uuid (ib_auction_id ib) = Some a \<and> parse_uuid (ib_bidder_id ib) = Some u \<and> access_granted (rg_access (op_registry w)) u \<and>
    validate_auction_state parse opened (map_option Some (op_state_hash w)) = Inr v \<and> vr_start_ms v \<le> now \<and> now < vr_end_ms v \<and>
    m = BidMessage r b \<and> br_auction_id b = show_uuid a \<and> br_bidder_id b = show_uuid u \<and> br_amount b = ib_amount ib \<and> 0 < br_amount b \<and>
    br_timestamp b = bid_timestamp now now"
proof -
  from assms(2) obtain ses a u r where ses: "ls_session s = Some ses" "authorize ses (ib_auction_id ib) (ib_bidder_id ib) now = Inr ()"
    and ids: "parse_uuid (ib_auction_id ib) = Some a" "parse_uuid (ib_bidder_id ib) = Some u" "0 < ib_amount ib"
    and m: "m = BidMessage r \<lparr>br_auction_id = show_uuid a, br_bidder_id = show_uuid u,
       br_username = (if unwrap_or (ib_username ib) [] = [] then None else Some (unwrap_or (ib_username ib) [])), br_amount = ib_amount ib,
       br_timestamp = bid_timestamp now now\<rparr>"
    by (rule place_bid_queued)
  from ses(1) assms(1) obtain a' tok v where auth: "auth = Some (a', tok)"
    and v: "validate_auction_state parse opened (map_option Some (op_state_hash w)) = Inr v"
    and eq: "ses = \<lparr>bs_auction_id = a', bs_user_id = fst (read_token decode tok), bs_token_expires_at_ms = snd (read_token decode tok),
       bs_is_participant = validate_participant (cn_bit io) (cn_legacy io)
         (if fst (read_token decode tok) = [] then None else parse_uuid (fst (read_token decode tok))) (rg_access (op_registry w)),
       bs_is_completed = vr_is_completed v, bs_starts_at_ms = vr_start_ms v, bs_ends_at_ms = vr_end_ms v\<rparr>"
    using session_of_connect by metis
  from ses(2) have ok: "fst (read_token decode tok) \<noteq> []" "now < snd (read_token decode tok)" "ib_auction_id ib = a'"
    "ib_bidder_id ib = fst (read_token decode tok)" "vr_start_ms v \<le> now" "now < vr_end_ms v"
    "validate_participant (cn_bit io) (cn_legacy io) (parse_uuid (fst (read_token decode tok))) (rg_access (op_registry w))"
    by (auto simp: authorize_ok eq)
  from read_token_user [OF ok(1)] ok(2,4) obtain t e where "tok = Some t" "decode t = Some (ib_bidder_id ib, e)" "now < expiry_ms e"
    by auto
  moreover have "access_granted (rg_access (op_registry w)) u" using participant_granted [OF ok(7)] ids(2) ok(4) by auto
  ultimately show ?thesis using auth v ids m ok(3,5,6) by fastforce
qed

section \<open>A connection before the auction is open\<close>

lemma updates_keep_waiting:
  "startTime st = None \<Longrightarrow> startTime (fold (deliver clock r) (map (BidUpdate \<circ> event_of) ds) st) = None \<and>
     auctionStatus (fold (deliver clock r) (map (BidUpdate \<circ> event_of) ds) st) = auctionStatus st \<and>
     isParticipant (fold (deliver clock r) (map (BidUpdate \<circ> event_of) ds) st) = isParticipant st \<and>
     auctionType (fold (deliver clock r) (map (BidUpdate \<circ> event_of) ds) st) = auctionType st"
  by (induction ds arbitrary: st) (simp_all add: deliver_def onBidUpdate_def event_of_def reconcileBid_def Let_def)

text \<open>
  A connection that comes too early stays deaf: before the scheduler has opened the auction a connection is let into
  the room, but no state is sent and no handler is installed. Its bids are dropped without an answer, also after the opening,
  and a page that is fed by it takes the updates of the room for those of a reverse auction that is still waiting and that its user
  has not joined.
\<close>

lemma early_connection_deaf:
  assumes "op_initialized w = None" and "cn_redis io" and "cn_initialized io"
    and "s = ws_on_connect decode parse_uuid parse (Some (a, tok)) now io w L"
    and "page = fold (deliver clock r) (map (BidUpdate \<circ> event_of) ds) initialState"
  shows "ls_open s \<and> ls_rooms s = [a] \<and> ls_sent s = [] \<and>
    on_place_bid parse_uuid show_uuid fresh fresh' show_num later gio ib s = (s, []) \<and>
    startTime page = None \<and> auctionStatus page = Waiting \<and> \<not> isParticipant page \<and> auctionType page = REVERSE"
  using assms updates_keep_waiting [of initialState clock r ds]
  by (simp add: ws_on_connect_def is_initialized_value_def new_socket_def on_place_bid_def initialState_def)

section \<open>A connection after the auction is closed\<close>

lemma map_of_jset: "map_of (jset k v kvs) x = (if x = k then Some v else map_of kvs x)"
  by (induction k v kvs rule: jset.induct) auto

lemma jget_put_field: "jget x (put_field k v (JObj kvs)) = (if x = k then Some v else map_of kvs x)"
  by (simp add: put_field_def map_of_jset)

text \<open>A state that the engine has completed: its auction is named \<open>Completed\<close>, and its winner is the one of the event.\<close>

lemma completed_reads:
  assumes "jget ''auction'' (JObj kvs) = Some (JObj as)" and "jget ''winner'' (JObj kvs) = None"
  shows "\<exists>rec. auction_record (completed_state enc d (JObj kvs)) = Some rec \<and> jstr ''status'' rec = Some ''Completed''"
    and "jget ''winner'' (completed_state enc d (JObj kvs)) = map_option enc d"
  using assms
  by (auto simp: completed_state_def auction_record_def put_field_def map_of_jset or_else_def jstr_def as_str_def Let_def split: option.splits)

lemma validate_completed:
  assumes "auction_record st = Some rec" and "jstr ''status'' rec = Some ''Completed''"
  shows "\<exists>v. validate_auction_state parse now (Some (Some st)) = Inr v \<and> vr_is_completed v \<and> \<not> vr_join_expired v \<and> vr_winner_data v = jget ''winner'' st"
  using assms by (auto simp: validate_auction_state_def unwrap_or_def Let_def)

lemma connect_completed:
  assumes "op_initialized w = Some ''1''" "cn_redis io" "cn_initialized io" "cn_state io"
    and "validate_auction_state parse now (map_option Some (op_state_hash w)) = Inr v" "vr_is_completed v" "\<not> vr_join_expired v"
    and "s = ws_on_connect decode parse_uuid parse (Some (a, tok)) now io w L"
  shows "\<exists>ms. ls_sent s = MsgClosed (vr_winner_data v) # ms" and "\<exists>ses. ls_session s = Some ses \<and> bs_is_completed ses"
  using assms by (simp_all add: ws_on_connect_def is_initialized_value_def new_socket_def send_msg_def Let_def split: prod.splits)

lemma completed_refuses:
  assumes "ls_session s = Some ses" "bs_is_completed ses"
  shows "snd (on_place_bid parse_uuid show_uuid fresh fresh' show_num now gio ib s) = []"
proof -
  have "authorize ses (ib_auction_id ib) (ib_bidder_id ib) now \<noteq> Inr ()" using assms(2) by (simp add: authorize_ok)
  then obtain e where "authorize ses (ib_auction_id ib) (ib_bidder_id ib) now = Inl e"
    by (cases "authorize ses (ib_auction_id ib) (ib_bidder_id ib) now") auto
  then show ?thesis using assms(1) by (simp add: on_place_bid_def)
qed


section \<open>What the socket server reads of an opened auction\<close>

lemma step_of_config_data: "case c of None \<Rightarrow> True | Some r \<Rightarrow> cr_minimum_bid_step r > 0 \<Longrightarrow>
    step_of_config (config_data i c) = (case c of None \<Rightarrow> 1 | Some r \<Rightarrow> cr_minimum_bid_step r)"
  by (auto simp: step_of_config_def config_reads unwrap_or_def keep_if_def split: option.splits)

lemma validate_opened:
  assumes "\<And>x. parse (print x) = Some x" and "\<And>x. trim_z (print x) = print x"
    and "case c of None \<Rightarrow> True | Some r \<Rightarrow> cr_minimum_bid_step r > 0"
  shows "validate_auction_state parse now (Some (Some (state_payload print opened s a c))) =
    Inr \<lparr>vr_is_completed = (aw_auction_end_time a \<le> now), vr_join_expired = False, vr_start_ms = aw_auction_start_time a,
      vr_end_ms = aw_auction_end_time a, vr_starting_price = aw_starting_price a,
      vr_auction_type = wire_name (case c of None \<Rightarrow> REVERSE | Some r \<Rightarrow> cr_auction_type r),
      vr_minimum_bid_step = (case c of None \<Rightarrow> 1 | Some r \<Rightarrow> cr_minimum_bid_step r), vr_winner_data = None\<rparr>"
proof -
  have "auction_record (state_payload print opened s a c) = Some (auction_json print a)"
    "ws_config (state_payload print opened s a c) = Some (config_data (sr_auction_id s) c)"
    by (simp_all add: auction_record_def ws_config_def payload_reads or_else_def)
  then show ?thesis
    by (simp add: validate_auction_state_def read_time_def auction_reads payload_reads config_reads assms unwrap_or_def
        step_of_config_data [OF assms(3)] ascii_upper_type)
qed

section \<open>Examples\<close>

definition ex_decode :: "string \<Rightarrow> (string \<times> nat) option" where
  "ex_decode t = (if t = ''tok'' then Some (''7'', 2000) else None)"

definition ex_parse_uuid :: "string \<Rightarrow> uuid option" where
  "ex_parse_uuid s = (if s = ''7'' then Some 7 else if s = ''5'' then Some 5 else if s = ''9'' then Some 9 else None)"

definition ex_show_uuid :: "uuid \<Rightarrow> string" where
  "ex_show_uuid u = (if u = 7 then ''7'' else if u = 5 then ''5'' else ''9'')"

definition ex_opened_world :: open_world where
  "ex_opened_world = hydration ex_print 1000005 ex_open_world"

definition ex_connect :: connect_io where
  "ex_connect = \<lparr>cn_redis = True, cn_initialized = True, cn_bit = True, cn_legacy = True, cn_state = True, cn_bids = True, cn_stream = True\<rparr>"

definition ex_inbound :: inbound_bid where
  "ex_inbound = \<lparr>ib_auction_id = ''5'', ib_bidder_id = ''7'', ib_username = None, ib_amount = 110, ib_request_id = None\<rparr>"

definition ex_grpc :: grpc_io where
  "ex_grpc = \<lparr>gi_connect = True, gi_queue = RedisOk, gi_reply = True\<rparr>"

definition ex_socket :: live_socket where
  "ex_socket = ws_on_connect ex_decode ex_parse_uuid ex_parse (Some (''5'', Some ''tok'')) 1000020 ex_connect ex_opened_world ledger_empty"

definition ex_message :: bid_message where
  "ex_message = BidMessage ''9'' \<lparr>br_auction_id = ''5'', br_bidder_id = ''7'', br_username = None, br_amount = 110,
     br_timestamp = bid_timestamp 1000030 1000030\<rparr>"

lemma ex_opened_fields:
  "op_initialized ex_opened_world = Some ''1''"
  "op_state_hash ex_opened_world = Some (state_payload ex_print 1000005 ex_schedule ex_auction_row (Some ex_config_row))"
  "rg_access (op_registry ex_opened_world) = \<lparr>as_bits = {7}, as_legacy = {}\<rparr>"
  by (simp_all add: ex_opened_world_def hydration_def ex_open_world_def hydrate_def registry_init_def grant_def setbit_def participant_offset_def Let_def)

lemma ex_validation:
  "validate_auction_state ex_parse 1000020 (Some (Some (state_payload ex_print 1000005 ex_schedule ex_auction_row (Some ex_config_row)))) =
    Inr \<lparr>vr_is_completed = False, vr_join_expired = False, vr_start_ms = 1000000, vr_end_ms = 1900000, vr_starting_price = Some 100,
      vr_auction_type = ''FORWARD'', vr_minimum_bid_step = 5, vr_winner_data = None\<rparr>"
  by (subst validate_opened) (simp_all add: ex_printer ex_config_row_def ex_auction_row_def wire_name_def)

lemma ex_session:
  "ls_session ex_socket = Some \<lparr>bs_auction_id = ''5'', bs_user_id = ''7'', bs_token_expires_at_ms = 2000000, bs_is_participant = True,
     bs_is_completed = False, bs_starts_at_ms = 1000000, bs_ends_at_ms = 1900000\<rparr>"
  by (simp add: ex_socket_def ws_on_connect_def is_initialized_value_def ex_opened_fields ex_validation ex_connect_def read_token_def ex_decode_def
      expiry_ms_def i64_max_def validate_participant_def ex_parse_uuid_def participant_offset_def Let_def)

lemma ex_queued: "snd (on_place_bid ex_parse_uuid ex_show_uuid 9 9 (\<lambda>_. []) 1000030 ex_grpc ex_inbound ex_socket) = [ex_message]"
  by (simp add: on_place_bid_def ex_session authorize_def ex_inbound_def ex_grpc_def publish_bid_def ex_parse_uuid_def ex_show_uuid_def
      unwrap_or_def ex_message_def Let_def)

theorem queued_bid_authorised_witness:
  "\<exists>t e a u v r b. Some (''5'', Some ''tok'') = Some (ib_auction_id ex_inbound, Some t) \<and> ex_decode t = Some (ib_bidder_id ex_inbound, e) \<and>
    1000030 < expiry_ms e \<and> ex_parse_uuid (ib_auction_id ex_inbound) = Some a \<and> ex_parse_uuid (ib_bidder_id ex_inbound) = Some u \<and>
    access_granted (rg_access (op_registry ex_opened_world)) u \<and>
    validate_auction_state ex_parse 1000020 (map_option Some (op_state_hash ex_opened_world)) = Inr v \<and>
    vr_start_ms v \<le> 1000030 \<and> 1000030 < vr_end_ms v \<and>
    ex_message = BidMessage r b \<and> br_auction_id b = ex_show_uuid a \<and> br_bidder_id b = ex_show_uuid u \<and> br_amount b = ib_amount ex_inbound \<and>
    0 < br_amount b \<and> br_timestamp b = bid_timestamp 1000030 1000030"
  by (rule queued_bid_authorised [of ex_socket ex_decode ex_parse_uuid ex_parse "Some (''5'', Some ''tok'')" 1000020 ex_connect ex_opened_world
      ledger_empty ex_message ex_show_uuid 9 9 "\<lambda>_. []" 1000030 ex_grpc ex_inbound])
    (simp_all add: ex_socket_def [symmetric] ex_queued)

definition ex_closing :: engine where
  "ex_closing = engine_for FORWARD 5 100 (Some 150) 1900000 (Some (state_payload ex_print 1000005 ex_schedule ex_auction_row (Some ex_config_row)))"

definition ex_closed :: engine where
  "ex_closed = actor_close (\<lambda>_. JNull) \<lparr>ci_read = True, ci_store = True, ci_sync = True, ci_emit = True\<rparr> ex_closing"


end
