(* ===== verification/Bid_Path.thy ===== *)
theory Bid_Path
  imports Live_Server
begin

text \<open>
  The way of a bid through the whole system: the page takes the state that the socket server sends and the updates of the room, its
  console checks a bid against the price on screen, and the engine decides on it. The theorems join the models of the page
  (\<open>Auction_Slice\<close>, \<open>Auction_Socket\<close>, \<open>Bidding_Console\<close>), of the socket server and of the engine.
\<close>

section \<open>The rows of a page that only the server feeds\<close>

text \<open>Events with one id say the same.\<close>

definition consistent :: "reconcile_payload set \<Rightarrow> bool" where
  "consistent ps \<longleftrightarrow> (\<forall>p \<in> ps. id_keyed p) \<and> (\<forall>p \<in> ps. \<forall>q \<in> ps. rp_id p = rp_id q \<longrightarrow> p = q)"

definition rows_of :: "string \<Rightarrow> reconcile_payload set \<Rightarrow> auction_state \<Rightarrow> bool" where
  "rows_of r ps s \<longleftrightarrow> set (bids s) = new_bid r ` ps \<and>
     currentPrice s = (if live_bids s = [] then startingPrice s else Some (best_price (auctionType s) (amount ` set (live_bids s))))"

lemma new_bid_fields: "id_keyed p \<Longrightarrow> Some (bid_id (new_bid r p)) = rp_id p" "status (new_bid r p) = rp_status p"
  by (auto simp: new_bid_def id_keyed_def opt_str_or_def str_or_def)

lemma merge_new: "id_keyed p \<Longrightarrow> merge_bid (new_bid r p) p = new_bid r p"
  by (simp add: merge_bid_def new_bid_def)

lemma place_row_set:
  assumes "set bs = new_bid r ` Q" and "consistent (insert p Q)"
  shows "set (place_bid_row r p bs) = new_bid r ` insert p Q"
proof (cases "\<exists>q \<in> Q. rp_id q = rp_id p")
  case True
  then have "p \<in> Q" using assms(2) by (auto simp: consistent_def)
  have key: "id_keyed p" using assms(2) by (simp add: consistent_def)
  then obtain i where i: "rp_id p = Some i" "i \<noteq> []" by (auto simp: id_keyed_def)
  have "new_bid r p \<in> set bs" "bid_id (new_bid r p) = i" using \<open>p \<in> Q\<close> assms(1) new_bid_fields(1) [OF key, of r] i(1) by simp_all
  then have "i \<in> bid_id ` set bs" by auto
  moreover have "\<forall>x \<in> set bs. bid_id x = i \<longrightarrow> merge_bid x p = x"
  proof (intro ballI impI)
    fix x assume "x \<in> set bs" "bid_id x = i"
    then obtain q where q: "q \<in> Q" "x = new_bid r q" using assms(1) by auto
    then have "id_keyed q" using assms(2) by (simp add: consistent_def)
    from new_bid_fields(1) [OF this, of r] have "rp_id q = rp_id p" using i(1) q(2) \<open>bid_id x = i\<close> by simp
    then have "q = p" using q(1) assms(2) unfolding consistent_def by blast
    then show "merge_bid x p = x" using q(2) merge_new [OF key, of r] by simp
  qed
  ultimately show ?thesis using place_bid_row_fixed [OF i] assms(1) \<open>p \<in> Q\<close> by auto
next
  case False
  have "Some (bid_id x) \<noteq> rp_id p \<and> status x \<noteq> Pending" if x: "x \<in> set bs" for x
  proof -
    obtain q where q: "q \<in> Q" "x = new_bid r q" using x assms(1) by auto
    then have "id_keyed q" using assms(2) by (simp add: consistent_def)
    then show ?thesis using q False new_bid_fields(1) [of q r] new_bid_fields(2) [of r q] by (auto simp: id_keyed_def)
  qed
  then have "match_index p bs < 0" by (auto simp: match_index_none_iff)
  then show ?thesis using assms(1) by (simp add: place_bid_row_def Let_def)
qed

lemma rows_of_reconcile:
  assumes "rows_of r Q s" and "consistent (insert p Q)"
  shows "rows_of r (insert p Q) (reconcileBid r p s)"
  using assms place_row_set [of "bids s" r Q p] reconcileBid_price [of r p s] by (simp add: rows_of_def)

lemma rows_of_fold:
  "rows_of r Q s \<Longrightarrow> consistent (set ps \<union> Q) \<Longrightarrow>
   rows_of r (set ps \<union> Q) (fold auctionReducer (map (ReconcileBid r) ps) s) \<and>
   startingPrice (fold auctionReducer (map (ReconcileBid r) ps) s) = startingPrice s \<and>
   auctionType (fold auctionReducer (map (ReconcileBid r) ps) s) = auctionType s \<and>
   minimumBidStep (fold auctionReducer (map (ReconcileBid r) ps) s) = minimumBidStep s"
proof (induction ps arbitrary: Q s)
  case (Cons p ps)
  have "consistent (insert p Q)" using Cons.prems(2) by (auto simp: consistent_def)
  from Cons.IH [OF rows_of_reconcile [OF Cons.prems(1) this]] Cons.prems(2) show ?case by simp
qed simp

section \<open>What a page is sent\<close>

definition payload_of :: "decision \<Rightarrow> reconcile_payload" where
  "payload_of d = reconcile_of (dc_is_executed d) (dc_bid d)"

text \<open>The bids of a list of decisions have different ids, unless they are one bid with one verdict.\<close>

definition same_ids :: "decision list \<Rightarrow> bool" where
  "same_ids ds \<longleftrightarrow> (\<forall>d \<in> set ds. \<forall>e \<in> set ds. event_id (dc_bid d) = event_id (dc_bid e) \<longrightarrow> payload_of d = payload_of e)"

lemma same_ids_consistent: "same_ids ds \<Longrightarrow> set es \<subseteq> set ds \<Longrightarrow> consistent (payload_of ` set es)"
  by (auto simp: same_ids_def consistent_def payload_of_def reconcile_of_def subset_iff id_keyed_def)

lemma items_payloads: "item_payloads (Some (map (\<lambda>d. Some (event_of d)) ds)) = map payload_of ds"
  by (induction ds) (simp_all add: item_payloads_def item_payload_def event_of_def payload_of_def map_filter_simps)

lemma deliver_updates: "fold (deliver clock r) (map (BidUpdate \<circ> event_of) ds) s = fold auctionReducer (map (ReconcileBid r \<circ> payload_of) ds) s"
  by (induction ds arbitrary: s) (simp_all add: deliver_def onBidUpdate_def event_of_def payload_of_def)

lemma rows_of_init: "rows_of r {} (initAuction clock q s)"
  by (simp add: rows_of_def initAuction_def live_bids_def Let_def)

lemma init_fields:
  "startingPrice (initAuction clock q s) = ip_initialPrice q" "auctionType (initAuction clock q s) = ip_auctionType q"
  "minimumBidStep (initAuction clock q s) = ip_minimumBidStep q"
  by (simp_all add: initAuction_def Let_def)

definition shown :: "auction_type \<Rightarrow> ledger \<Rightarrow> decision list \<Rightarrow> decision list" where
  "shown t L ups = recent_events True L @ zrange t 9 (lg_zset L) @ ups"

lemma page_rows:
  assumes "page = fold (deliver clock r) (AuctionInit (reload_msg a v part True L) # map (BidUpdate \<circ> event_of) ups) page0"
    and "vr_auction_type v = wire_name t" and "0 < vr_minimum_bid_step v" and "consistent (payload_of ` set (shown t L ups))"
  shows "rows_of r (payload_of ` set (shown t L ups)) page" and "startingPrice page = vr_starting_price v" and "auctionType page = t"
    and "minimumBidStep page = vr_minimum_bid_step v"
proof -
  let ?m = "reload_msg a v part True L" and ?ps = "map payload_of (shown t L ups)"
  have m: "ai_recent_events ?m = Some (map (\<lambda>d. Some (event_of d)) (recent_events True L))"
    "nullish (ai_leading_bids ?m) (ai_lowest_bids ?m) = Some (map (\<lambda>d. Some (event_of d)) (zrange t 9 (lg_zset L)))"
    using assms(2) by (simp_all add: reload_msg_def nullish_def wire_name_def Let_def split: auction_type.splits)
  have "page = fold auctionReducer (map (ReconcileBid r) ?ps) (initAuction clock (init_of ?m) page0)"
    by (simp add: assms(1) deliver_updates deliver_def onAuctionInit_def m items_payloads shown_def)
  moreover have "startingPrice (initAuction clock (init_of ?m) page0) = vr_starting_price v"
    "auctionType (initAuction clock (init_of ?m) page0) = t" "minimumBidStep (initAuction clock (init_of ?m) page0) = vr_minimum_bid_step v"
    using assms(2,3)
    by (simp_all add: init_fields init_of_def reload_msg_def nullish_def wire_type_def wire_name_def step_or_one_def Let_def
        split: option.splits auction_type.splits)
  ultimately show "rows_of r (payload_of ` set (shown t L ups)) page" "startingPrice page = vr_starting_price v" "auctionType page = t"
    "minimumBidStep page = vr_minimum_bid_step v"
    using rows_of_fold [OF rows_of_init, of ?ps r clock "init_of ?m" page0] assms(4) by simp_all
qed

section \<open>The price on screen is that of the engine\<close>

lemma best_price_eq:
  assumes "finite A" and "x \<in> A" and "\<And>y. y \<in> A \<Longrightarrow> \<not> beats t y x"
  shows "best_price t A = x"
  using assms by (cases t) (auto simp: best_price_def beats_def intro!: Min_eqI Max_eqI simp: not_less)

lemma live_amounts:
  assumes "rows_of r (payload_of ` D) s"
  shows "amount ` set (live_bids s) = bid_amount ` {d \<in> D. dc_is_executed d}" and "live_bids s = [] \<longleftrightarrow> {d \<in> D. dc_is_executed d} = {}"
proof -
  have "set (live_bids s) = {b \<in> (\<lambda>d. new_bid r (payload_of d)) ` D. status b \<noteq> Rejected}"
    using assms by (simp add: rows_of_def live_bids_def image_image)
  moreover have "status (new_bid r (payload_of d)) \<noteq> Rejected \<longleftrightarrow> dc_is_executed d" for d
    by (simp add: new_bid_def payload_of_def reconcile_of_def)
  ultimately have live: "set (live_bids s) = (\<lambda>d. new_bid r (payload_of d)) ` {d \<in> D. dc_is_executed d}" by auto
  have "amount (new_bid r (payload_of d)) = bid_amount d" for d by (simp add: new_bid_def payload_of_def reconcile_of_def)
  then show "amount ` set (live_bids s) = bid_amount ` {d \<in> D. dc_is_executed d}" by (simp add: live image_image)
  show "live_bids s = [] \<longleftrightarrow> {d \<in> D. dc_is_executed d} = {}"
    unfolding set_empty [symmetric] live by simp
qed

lemma shown_executed:
  assumes "book_ok t s p L" and "is_double p" and "chain t s p (lg_live L @ filter dc_is_executed ups)"
  shows "{d \<in> set (shown t L ups). dc_is_executed d} \<subseteq> set (lg_live L @ filter dc_is_executed ups)"
    and "lg_live L @ filter dc_is_executed ups \<noteq> [] \<Longrightarrow>
      \<exists>d \<in> {d \<in> set (shown t L ups). dc_is_executed d}. bid_amount d = price_after p (lg_live L @ filter dc_is_executed ups)"
proof -
  have z: "set (zrange t n (lg_zset L)) \<subseteq> set (lg_live L)" for n
    using book_zset [OF assms(1)] by (cases t) (auto simp: zrange_def dest!: in_set_takeD)
  show "{d \<in> set (shown t L ups). dc_is_executed d} \<subseteq> set (lg_live L @ filter dc_is_executed ups)"
    using z [of 9] by (auto simp: shown_def recent_events_def dest!: in_set_takeD)
  assume ne: "lg_live L @ filter dc_is_executed ups \<noteq> []"
  show "\<exists>d \<in> {d \<in> set (shown t L ups). dc_is_executed d}. bid_amount d = price_after p (lg_live L @ filter dc_is_executed ups)"
  proof (cases "filter dc_is_executed ups" rule: rev_cases)
    case Nil
    then obtain d where d: "best_bid t True (lg_zset L) = Some d" "d \<in> set (lg_live L)" "bid_amount d = price_after p (lg_live L)"
      using best_bid_price [OF assms(1,2)] ne by (auto split: option.splits)
    then have "d \<in> set (zrange t 0 (lg_zset L))" by (auto simp: best_bid_def split: list.splits)
    then have "d \<in> set (zrange t 9 (lg_zset L))" 
      using set_take_subset_set_take [of "Suc 0" "Suc 9" "lg_zset L"] set_take_subset_set_take [of "Suc 0" "Suc 9" "rev (lg_zset L)"]
      by (cases t) (auto simp: zrange_def)
    then have "d \<in> set (shown t L ups)" by (simp add: shown_def)
    moreover have "dc_is_executed d" using chain_executed [OF assms(3), of d] d(2) by simp
    ultimately show ?thesis using d(3) Nil by auto
  next
    case (snoc ds d)
    then have "d \<in> set (filter dc_is_executed ups)" by simp
    then have "d \<in> {d \<in> set (shown t L ups). dc_is_executed d}" by (simp add: shown_def)
    moreover have "bid_amount d = price_after p (lg_live L @ filter dc_is_executed ups)"
      using price_after_simps(3) [of p "lg_live L @ ds" d] snoc by simp
    ultimately show ?thesis by blast
  qed
qed

text \<open>The tasks whose live update is published.\<close>

definition published :: "engine_event \<Rightarrow> bool" where
  "published e = (case e of EvTask tk now io \<Rightarrow> wi_publish io | _ \<Rightarrow> True)"

lemma step_updates:
  assumes "names_request print" and "engine_ok parse t s p e" and "published e" and "engine_inv t s p en"
    and "en' = engine_step print enc parse a e en"
  shows "\<exists>ups. en_updates en' = en_updates en @ ups \<and> lg_live (en_ledger en') = lg_live (en_ledger en) @ filter dc_is_executed ups"
proof (cases e)
  case (EvTask tk now io)
  then have io: "wi_write io \<noteq> ReplyLost" "is_double (br_amount (tk_bid tk))" "wi_publish io"
    using assms(2,3) by (simp_all add: engine_ok_def published_def)
  from actor_task_cases [OF assms(4) io(1,2) assms(1), of a now] show ?thesis
    using EvTask assms(5) io(3) by cases (auto intro: exI [of _ "[]"] exI [of _ "[_]"])
next
  case (EvDeadline now io)
  then show ?thesis using assms(5) by (auto simp: actor_close_def Let_def split: prod.splits)
qed (use assms(2,5) in \<open>auto simp: engine_ok_def\<close>)

lemma run_updates:
  assumes "names_request print" and "is_double p" and "\<forall>e \<in> set es. engine_ok parse t s p e \<and> published e" and "engine_inv t s p en"
    and "en' = fold (engine_step print enc parse a) es en"
  shows "engine_inv t s p en' \<and>
    (\<exists>ups. en_updates en' = en_updates en @ ups \<and> lg_live (en_ledger en') = lg_live (en_ledger en) @ filter dc_is_executed ups)"
  using assms(3-)
proof (induction es arbitrary: en)
  case (Cons e es)
  let ?en = "engine_step print enc parse a e en"
  have inv: "engine_inv t s p ?en" using engine_step_inv [OF assms(1,2)] Cons.prems by simp
  from step_updates [OF assms(1) _ _ Cons.prems(2) refl, of parse e enc a] Cons.prems(1) obtain ups where
    "en_updates ?en = en_updates en @ ups" "lg_live (en_ledger ?en) = lg_live (en_ledger en) @ filter dc_is_executed ups" by auto
  moreover from Cons.IH [OF _ inv] Cons.prems obtain ups' where "engine_inv t s p en'"
    "en_updates en' = en_updates ?en @ ups'" "lg_live (en_ledger en') = lg_live (en_ledger ?en) @ filter dc_is_executed ups'" by auto
  ultimately show ?case by (metis append.assoc filter_append)
qed (auto intro: exI [of _ "[]"])

text \<open>
  (C3) The page shows the price of the engine: after the state that the socket server sends at some moment of the auction,
  and after the updates of the engine since then, the price on screen is the price of the engine, whatever the page held before,
  in both directions, with rejected bids, repeated deliveries and restarts of the engine in between, as long as different bids have
  different ids and no update is lost. The page has the type and the step of the auction.
\<close>

theorem page_follows_engine:
  assumes "names_request print" and "is_double p" and "\<forall>e \<in> set es. engine_ok parse t s p e"
    and "\<forall>e \<in> set es'. engine_ok parse t s p e \<and> published e"
    and "en = fold (engine_step print enc parse a) es (engine_for t s p reserve stop st)"
    and "en' = fold (engine_step print enc parse a) es' en"
    and "ups = drop (length (en_updates en)) (en_updates en')" and "same_ids (lg_live (en_ledger en) @ ups)"
    and "vr_auction_type v = wire_name t" and "vr_minimum_bid_step v = s" and "0 < s" and "vr_starting_price v = Some p"
    and "page = fold (deliver clock r) (AuctionInit (reload_msg a v part True (en_ledger en)) # map (BidUpdate \<circ> event_of) ups) page0"
  shows "currentPrice page = Some (rt_current_price (en_runtime en')) \<and> auctionType page = rt_auction_type (en_runtime en') \<and>
    minimumBidStep page = rt_minimum_bid_step (en_runtime en')"
proof -
  let ?L = "en_ledger en" and ?live = "lg_live (en_ledger en')"
  have inv: "engine_inv t s p en" using actor.run_inv [OF assms(3)] assms(1,2,5) by blast
  from run_updates [OF assms(1,2,4) inv assms(6)] have inv': "engine_inv t s p en'"
    and live: "?live = lg_live ?L @ filter dc_is_executed ups" using assms(7) by auto
  have book: "book_ok t s p ?L" and chain: "chain t s p ?live" using inv inv' by (simp_all add: engine_inv_def book_ok_def)
  note shown = shown_executed [OF book assms(2) chain [unfolded live], folded live]
  have "set (shown t ?L ups) \<subseteq> set (lg_live ?L @ ups)"
    using book_zset [OF book] by (cases t) (auto simp: shown_def recent_events_def zrange_def dest!: in_set_takeD)
  note page = page_rows [OF assms(13,9) _ same_ids_consistent [OF assms(8) this]]
  have rows: "rows_of r (payload_of ` set (shown t ?L ups)) page" and fields: "startingPrice page = Some p" "auctionType page = t" "minimumBidStep page = s"
    using page assms(10-12) by simp_all
  let ?D = "{d \<in> set (shown t ?L ups). dc_is_executed d}"
  have "currentPrice page = Some (price_after p ?live)"
  proof (cases "?live = []")
    case True
    then have "?D = {}" using shown(1) by auto
    then show ?thesis using rows fields(1) True live_amounts(2) [OF rows] by (simp add: rows_of_def)
  next
    case False
    from shown(2) [OF this] obtain d where d: "d \<in> ?D" "bid_amount d = price_after p ?live" by blast
    have "best_price t (bid_amount ` ?D) = price_after p ?live"
    proof (rule best_price_eq)
      show "price_after p ?live \<in> bid_amount ` ?D" using d by (metis image_eqI)
      show "\<not> beats t y (price_after p ?live)" if "y \<in> bid_amount ` ?D" for y
        using that shown(1) chain_best(3) [OF chain assms(2)] by blast
    qed simp
    then show ?thesis using rows fields(2) d(1) live_amounts [OF rows] by (auto simp: rows_of_def)
  qed
  then show ?thesis using inv' fields by (simp add: engine_inv_def)
qed

section \<open>What the console lets through\<close>

text \<open>The page agrees with the engine on price, type and step.\<close>

definition agrees :: "auction_state \<Rightarrow> runtime \<Rightarrow> bool" where
  "agrees page rt \<longleftrightarrow> currentPrice page = Some (rt_current_price rt) \<and> auctionType page = rt_auction_type rt \<and>
     minimumBidStep page = rt_minimum_bid_step rt"

lemma not_lt_le: "\<not> js_lt x (Fin a) \<Longrightarrow> x \<noteq> JNaN \<Longrightarrow> js_le (Fin a) x" "\<not> js_lt (Fin a) x \<Longrightarrow> x \<noteq> JNaN \<Longrightarrow> js_le x (Fin a)"
  by (cases x; auto simp: js_le_def)+

lemma js_ops_num: "js_sub a b \<noteq> JNaN" "js_add a b \<noteq> JNaN"
  by (simp_all add: js_sub_def js_add_def fl_def Let_def)

lemma js_max_right: "js_le min_amount x \<Longrightarrow> js_max min_amount x = x"
  by (cases x) (auto simp: js_le_def min_amount_val)

text \<open>The limit of the console is the test of the engine, except where the console raises the limit to a cent.\<close>

lemma within_limit_better:
  assumes "agrees page rt" and "\<not> beyond_limit page (Fin x)" and "0 < x" and "0 < rt_minimum_bid_step rt"
    and "case rt_auction_type rt of REVERSE \<Rightarrow> js_le min_amount (js_sub (rt_current_price rt) (rt_minimum_bid_step rt)) | FORWARD \<Rightarrow> True"
  shows "is_better_bid (rt_auction_type rt) (Fin (rt_current_price rt)) (Fin x) (Fin (rt_minimum_bid_step rt))"
  using assms not_lt_le js_ops_num js_max_right
  by (cases "rt_auction_type rt") (auto simp: agrees_def beyond_limit_def out_of_range_def nextValid_def is_better_bid_def)

lemma task_executes:
  assumes "br_auction_id (tk_bid tk) = a" and "lg_processed (en_ledger en) (tk_request_id tk) = None" and "wi_write io = RedisOk"
    and "is_better_bid (rt_auction_type (en_runtime en)) (Fin (rt_current_price (en_runtime en))) (Fin (br_amount (tk_bid tk)))
      (Fin (rt_minimum_bid_step (en_runtime en)))"
    and "actor_task print a tk now io en = (res, en')"
  shows "res = Committed \<and> map dc_bid (lg_live (en_ledger en')) = map dc_bid (lg_live (en_ledger en)) @ [tk_bid tk] \<and>
    rt_current_price (en_runtime en') = br_amount (tk_bid tk)"
  using assms by (auto simp: actor_task_def write_bid_def accept_script_def Let_def)


text \<open>
  Where the price is within a step of zero, the console asks for a cent and lets it through, and the engine refuses it: at a
  price and a step of one, say.
\<close>

lemma clamped_bid_refused:
  assumes "agrees page rt" and "rt_auction_type rt = REVERSE" and "js_lt (js_sub (rt_current_price rt) (rt_minimum_bid_step rt)) min_amount"
    and "min_amount = Fin x"
  shows "nextValid page = Some min_amount \<and> \<not> beyond_limit page (Fin x) \<and>
    \<not> is_better_bid REVERSE (Fin (rt_current_price rt)) (Fin x) (Fin (rt_minimum_bid_step rt))"
proof -
  have "js_max min_amount (js_sub (rt_current_price rt) (rt_minimum_bid_step rt)) = min_amount"
    using assms(3) js_ops_num by (cases "js_sub (rt_current_price rt) (rt_minimum_bid_step rt)") (auto simp: min_amount_val)
  moreover have "\<not> js_le (Fin x) (js_sub (rt_current_price rt) (rt_minimum_bid_step rt))"
    using assms(3) unfolding assms(4) by (cases "js_sub (rt_current_price rt) (rt_minimum_bid_step rt)") (auto simp: js_le_def)
  ultimately show ?thesis
    using assms(1,2) unfolding assms(4) by (simp add: agrees_def nextValid_def beyond_limit_def out_of_range_def is_better_bid_def assms(4))
qed

section \<open>Bids over HTTP\<close>

text \<open>
  (C37) A bid over HTTP needs no session: for any two well-formed ids and any amount that beats the price, the ingestion service answers
  that the bid is queued, whether or not the user is registered for the auction or has ever signed in, and the engine
  accepts it as a bid of that user, with a time that lies up to a second back.
\<close>

theorem http_bid_unauthorised:
  assumes "parse_uuid (hb_auction_id p) = Some a" and "parse_uuid (hb_user_id p) = Some u" and "hb_auction_id p \<noteq> []" and "hb_user_id p \<noteq> []"
    and "hb_request_id p = None" and "hb_amount p = Fin x" and "0 < x" and "1000 \<le> now" and "now < 10 ^ 15"
    and "lg_processed (en_ledger en) (show_uuid fresh) = None" and "wi_write io = RedisOk"
    and "is_better_bid (rt_auction_type (en_runtime en)) (Fin (rt_current_price (en_runtime en))) (Fin x) (Fin (rt_minimum_bid_step (en_runtime en)))"
  shows "\<exists>b. handle_http_bid parse_uuid show_uuid fresh now RedisOk p = ((200, ''QUEUED'', []), [BidMessage (show_uuid fresh) b]) \<and>
      br_bidder_id b = show_uuid u \<and> br_timestamp b \<le> now \<and> now < br_timestamp b + 1000 \<and>
      (\<forall>tk res en'. tk_request_id tk = show_uuid fresh \<longrightarrow> tk_bid tk = b \<longrightarrow>
        actor_task print (show_uuid a) tk now' io en = (res, en') \<longrightarrow> res = Committed \<and> rt_current_price (en_runtime en') = x)"
proof -
  let ?b = "\<lparr>br_auction_id = show_uuid a, br_bidder_id = show_uuid u,
      br_username = (if unwrap_or (hb_username p) [] = [] then None else Some (unwrap_or (hb_username p) [])), br_amount = x,
      br_timestamp = bid_timestamp now (now div 1000)\<rparr>"
  have queued: "handle_http_bid parse_uuid show_uuid fresh now RedisOk p = ((200, ''QUEUED'', []), [BidMessage (show_uuid fresh) ?b])"
    using assms(1-7) by (simp add: handle_http_bid_def http_bid_request_def publish_bid_def unwrap_or_def)
  have "0 < now div 1000" "now div 1000 < 1000000000000" using assms(8,9) by (linarith, simp)
  then have "bid_timestamp now (now div 1000) = now div 1000 * 1000"
    by (simp add: bid_timestamp_def i64_max_def)
  then have time: "br_timestamp ?b \<le> now" "now < br_timestamp ?b + 1000" by simp_all
  have "res = Committed \<and> rt_current_price (en_runtime en') = x"
    if "tk_request_id tk = show_uuid fresh" "tk_bid tk = ?b" "actor_task print (show_uuid a) tk now' io en = (res, en')" for tk res en'
    using task_executes [of tk "show_uuid a" en io print now' res en'] assms(10-12) that by simp
  with queued time show ?thesis by fastforce
qed

section \<open>Examples\<close>

definition ex_validation_result :: validation where
  "ex_validation_result = \<lparr>vr_is_completed = False, vr_join_expired = False, vr_start_ms = 0, vr_end_ms = 1000, vr_starting_price = Some 100,
     vr_auction_type = ''REVERSE'', vr_minimum_bid_step = 5, vr_winner_data = None\<rparr>"

definition ex_first :: "engine_event list" where
  "ex_first = [EvTask (ex_task ''r1'' (ex_bid ''u1'' 90 1)) 1 (ex_io RedisOk)]"

definition ex_after :: engine where
  "ex_after = fold (engine_step dc_request_id (\<lambda>_. JNull) (\<lambda>_. None) ''a'') ex_first (engine_for REVERSE 5 100 None 1000 None)"

lemma ex_first_ok: "\<forall>e \<in> set ex_first. engine_ok parse REVERSE 5 100 e \<and> published e"
  by (simp add: ex_first_def engine_ok_def published_def ex_io_def ex_task_def ex_bid_def ex_doubles)

lemma ex_after_updates: "en_updates ex_after = [decision_of (ex_task ''r1'' (ex_bid ''u1'' 90 1)) REVERSE True 100 1]"
  by (simp add: ex_after_def ex_first_def actor_task_def ex_start_fields write_bid_def accept_script_def ledger_empty_def better_100
      ex_task_def ex_bid_def ex_io_def Let_def) (simp add: engine_for_def engine_start_def)

definition ex_page :: auction_state where
  "ex_page = fold (deliver 5 ''r'') (AuctionInit (reload_msg ''a'' ex_validation_result True True ledger_empty) #
     map (BidUpdate \<circ> event_of) [decision_of (ex_task ''r1'' (ex_bid ''u1'' 90 1)) REVERSE True 100 1]) initialState"

theorem page_follows_engine_witness:
  "currentPrice ex_page = Some (rt_current_price (en_runtime ex_after)) \<and> auctionType ex_page = rt_auction_type (en_runtime ex_after) \<and>
    minimumBidStep ex_page = rt_minimum_bid_step (en_runtime ex_after)"
  by (rule page_follows_engine [of dc_request_id 100 "[]" "\<lambda>_. None" REVERSE 5 ex_first "engine_for REVERSE 5 100 None 1000 None" "\<lambda>_. JNull" "''a''"
      None 1000 None ex_after "[decision_of (ex_task ''r1'' (ex_bid ''u1'' 90 1)) REVERSE True 100 1]" ex_validation_result ex_page 5 "''r''" True initialState,
      OF names_request_id ex_doubles(1) _ ex_first_ok _ ex_after_def])
    (simp_all add: ex_after_updates ex_start_fields ex_page_def same_ids_def ledger_empty_def ex_validation_result_def wire_name_def)

definition ex_console_task :: auction_task where
  "ex_console_task = ex_task ''r1'' (place_bid ex_env ''a'' 50)"

definition ex_console_engine :: engine where
  "ex_console_engine = snd (actor_task dc_request_id ''a'' ex_console_task 7 (ex_io RedisOk) (engine_for REVERSE 1 100 None 1000 None))"

definition ex_http_bid :: http_bid_payload where
  "ex_http_bid = \<lparr>hb_auction_id = ''a'', hb_user_id = ''u'', hb_username = None, hb_amount = Fin 90, hb_request_id = None\<rparr>"

theorem http_bid_unauthorised_witness:
  "\<exists>b. handle_http_bid (\<lambda>_. Some 7) (\<lambda>_. ''i'') 3 5500 RedisOk ex_http_bid = ((200, ''QUEUED'', []), [BidMessage ''i'' b]) \<and>
     br_timestamp b \<le> 5500 \<and> actor_task dc_request_id ''i'' (ex_task ''i'' b) 7 (ex_io RedisOk) (engine_for REVERSE 5 100 None 1000 None) =
     (Committed, snd (actor_task dc_request_id ''i'' (ex_task ''i'' b) 7 (ex_io RedisOk) (engine_for REVERSE 5 100 None 1000 None)))"
proof -
  obtain b where b: "handle_http_bid (\<lambda>_. Some 7) (\<lambda>_. ''i'') 3 5500 RedisOk ex_http_bid = ((200, ''QUEUED'', []), [BidMessage ''i'' b])" "br_timestamp b \<le> 5500"
    and run: "\<And>tk res en'. tk_request_id tk = ''i'' \<Longrightarrow> tk_bid tk = b \<Longrightarrow>
      actor_task dc_request_id ''i'' tk 7 (ex_io RedisOk) (engine_for REVERSE 5 100 None 1000 None) = (res, en') \<Longrightarrow> res = Committed"
    using http_bid_unauthorised [of "\<lambda>_. Some 7" ex_http_bid 7 7 90 5500 "engine_for REVERSE 5 100 None 1000 None" "\<lambda>_. ''i''" 3 "ex_io RedisOk" dc_request_id 7]
      better_100
    by (auto simp: ex_http_bid_def ex_start_fields ex_io_def ledger_empty_def)
  moreover have "fst (actor_task dc_request_id ''i'' (ex_task ''i'' b) 7 (ex_io RedisOk) (engine_for REVERSE 5 100 None 1000 None)) = Committed"
    by (rule run [OF _ _ prod.collapse [symmetric]]) (simp_all add: ex_task_def)
  ultimately show ?thesis by (metis prod.collapse)
qed


end
