(* ===== verification/Bid_Publisher.thy ===== *)
theory Bid_Publisher
  imports Bid_Engine "HOL-Library.Word"
begin

text \<open>
  The publisher of an actor, \<open>actor/publisher.rs\<close> of \<open>src/apps/auction-engine\<close>: it reads the stream of pending events,
  sends each to two topics, trying again until Kafka takes it, and deletes it only then. Besides the state of the loop the
  record keeps everything that the actor ever wrote to the stream (\<open>pb_written\<close>), for the statements; an
  entry of the stream has its number there as its id.
\<close>

record bid_notice =
  nt_request_id :: string
  nt_auction_type :: auction_type
  nt_bidder_id :: string
  nt_amount :: rat
  nt_is_executed :: bool
  nt_timestamp :: int
  nt_message :: string

definition notice_of :: "decision \<Rightarrow> bid_notice" where
  "notice_of d = \<lparr>nt_request_id = dc_request_id d, nt_auction_type = dc_auction_type d, nt_bidder_id = br_bidder_id (dc_bid d),
     nt_amount = br_amount (dc_bid d), nt_is_executed = dc_is_executed d, nt_timestamp = br_timestamp (dc_bid d),
     nt_message = (if dc_is_executed d then ''A valid bid was placed.''
       else ''A bid was rejected because it did not improve the current price.'')\<rparr>"

datatype pub_stage = SendDecision | SendNotification | DeleteEntry

record publisher =
  pb_written :: "decision list"
  pb_stream :: "(nat \<times> decision) list"
  pb_todo :: "(nat \<times> decision) list"
  pb_stage :: pub_stage
  pb_decisions :: "(nat \<times> decision) list"
  pb_notes :: "(nat \<times> bid_notice) list"

definition publisher_init :: publisher where
  "publisher_init = \<lparr>pb_written = [], pb_stream = [], pb_todo = [], pb_stage = SendDecision, pb_decisions = [], pb_notes = []\<rparr>"

text \<open>
  The actor writes, the loop reads the whole stream, a send succeeds or fails, the entry is deleted (or the deletion
  fails, and the loop goes on), and the task is started again.
\<close>

datatype pub_event = PbWrite decision | PbRead bool | PbSend bool | PbDelete redis_io | PbCrash

fun publisher_step :: "pub_event \<Rightarrow> publisher \<Rightarrow> publisher" where
  "publisher_step (PbWrite d) pb = pb\<lparr>pb_written := pb_written pb @ [d], pb_stream := pb_stream pb @ [(length (pb_written pb), d)]\<rparr>"
| "publisher_step (PbRead ok) pb = (if ok \<and> pb_todo pb = [] then pb\<lparr>pb_todo := pb_stream pb, pb_stage := SendDecision\<rparr> else pb)"
| "publisher_step (PbSend ok) pb = (case pb_todo pb of [] \<Rightarrow> pb
     | (k, d) # rest \<Rightarrow>
         if \<not> ok then pb
         else (case pb_stage pb of
             SendDecision \<Rightarrow> pb\<lparr>pb_decisions := pb_decisions pb @ [(k, d)], pb_stage := SendNotification\<rparr>
           | SendNotification \<Rightarrow> pb\<lparr>pb_notes := pb_notes pb @ [(k, notice_of d)], pb_stage := DeleteEntry\<rparr>
           | DeleteEntry \<Rightarrow> pb))"
| "publisher_step (PbDelete io) pb = (case pb_todo pb of [] \<Rightarrow> pb
     | (k, d) # rest \<Rightarrow>
         if pb_stage pb \<noteq> DeleteEntry then pb
         else pb\<lparr>pb_stream := (if io = RedisFails then pb_stream pb else filter (\<lambda>e. fst e \<noteq> k) (pb_stream pb)),
           pb_todo := rest, pb_stage := SendDecision\<rparr>)"
| "publisher_step PbCrash pb = pb\<lparr>pb_todo := [], pb_stage := SendDecision\<rparr>"

text \<open>\<open>100 << min(attempts, 6)\<close> milliseconds, at most five seconds, with the attempts counted in a saturating 32-bit integer.\<close>

definition next_attempt :: "32 word \<Rightarrow> 32 word" where
  "next_attempt n = (if n = - 1 then n else n + 1)"

definition retry_delay :: "32 word \<Rightarrow> 64 word" where
  "retry_delay n = min (push_bit (unat (min n 6)) 100) 5000"

lemma retry_delay_bounds: "100 \<le> retry_delay n" "retry_delay n \<le> 5000"
proof -
  have "min n 6 \<le> 6" by simp
  then have "unat (min n 6) \<in> {0, 1, 2, 3, 4, 5, 6}" using word_le_nat_alt [of "min n 6" 6] by auto
  then show "100 \<le> retry_delay n" unfolding retry_delay_def by (auto simp: push_bit_eq_mult)
  show "retry_delay n \<le> 5000" by (simp add: retry_delay_def)
qed

section \<open>Order and delivery\<close>

text \<open>The first appearance of each element, in order.\<close>

definition firsts :: "'a list \<Rightarrow> 'a list" where
  "firsts xs = rev (remdups (rev xs))"

lemma firsts_snoc: "firsts (xs @ [x]) = (if x \<in> set xs then firsts xs else firsts xs @ [x])"
  by (simp add: firsts_def)

lemma firsts_simps [simp]: "firsts [] = []" "set (firsts xs) = set xs"
  by (simp_all add: firsts_def)

abbreviation numbered :: "decision list \<Rightarrow> (nat \<times> decision) set" where
  "numbered ds \<equiv> {(k, ds ! k) | k. k < length ds}"

text \<open>The entries from \<open>m\<close> on are a run of numbers that starts there; an event is in the stream or was sent to both topics.\<close>

definition run_from :: "nat \<Rightarrow> (nat \<times> decision) list \<Rightarrow> bool" where
  "run_from m es \<longleftrightarrow> (\<exists>j. {k \<in> fst ` set es. m \<le> k} = {m..<j})"

definition safe :: "nat \<Rightarrow> publisher \<Rightarrow> nat \<Rightarrow> bool" where
  "safe m pb k \<longleftrightarrow> k \<in> fst ` set (pb_stream pb) \<or> k < m \<and> (k, notice_of (pb_written pb ! k)) \<in> set (pb_notes pb)"

definition pub_inv :: "nat \<Rightarrow> publisher \<Rightarrow> bool" where
  "pub_inv m pb \<longleftrightarrow> m \<le> length (pb_written pb) \<and>
     set (pb_stream pb) \<subseteq> numbered (pb_written pb) \<and> set (pb_todo pb) \<subseteq> numbered (pb_written pb) \<and>
     sorted_wrt (<) (map fst (pb_stream pb)) \<and> sorted_wrt (<) (map fst (pb_todo pb)) \<and>
     firsts (pb_decisions pb) = map (\<lambda>k. (k, pb_written pb ! k)) [0..<m] \<and>
     (\<forall>k < length (pb_written pb). safe m pb k) \<and> run_from m (pb_todo pb) \<and>
     (pb_stage pb \<noteq> SendDecision \<longrightarrow> pb_todo pb \<noteq> [] \<and> fst (hd (pb_todo pb)) < m) \<and>
     (pb_stage pb = DeleteEntry \<longrightarrow> (fst (hd (pb_todo pb)), notice_of (snd (hd (pb_todo pb)))) \<in> set (pb_notes pb))"

lemma pub_inv_write: "pub_inv m pb \<Longrightarrow> pub_inv m (publisher_step (PbWrite d) pb)"
proof -
  assume inv: "pub_inv m pb"
  then have "fst e < length (pb_written pb)" if "e \<in> set (pb_stream pb)" for e using that by (auto simp: pub_inv_def)
  with inv show ?thesis
    by (auto simp: pub_inv_def safe_def sorted_wrt_append nth_append less_Suc_eq intro!: map_cong)
qed

lemma sorted_filter_lt: "sorted_wrt (<) (map f xs) \<Longrightarrow> sorted_wrt (<) (map f (filter P xs))" for f :: "'a \<Rightarrow> nat"
  by (induction xs) auto

lemma pub_inv_read: "pub_inv m pb \<Longrightarrow> pub_inv m (publisher_step (PbRead ok) pb)"
proof -
  assume inv: "pub_inv m pb"
  then have "{k \<in> fst ` set (pb_stream pb). m \<le> k} = {m..<length (pb_written pb)}"
    by (auto simp: pub_inv_def safe_def image_iff)
  then have "run_from m (pb_stream pb)" unfolding run_from_def by blast
  with inv show ?thesis by (auto simp: pub_inv_def safe_def)
qed

lemma run_from_head:
  assumes "run_from m ((k, d) # es)" and "sorted_wrt (<) (map fst ((k, d) # es))" and "m \<le> k"
  shows "k = m" and "run_from (Suc m) ((k, d) # es)"
proof -
  let ?S = "fst ` set ((k, d) # es)"
  obtain j where j: "{i \<in> ?S. m \<le> i} = {m..<j}" using assms(1) by (auto simp: run_from_def)
  have "k \<in> {m..<j}" using j assms(3) by force
  then have "m \<in> ?S" using j by auto
  moreover have "k \<le> i" if "i \<in> ?S" for i using that assms(2) by auto
  ultimately show "k = m" using assms(3) by force
  have "{i \<in> ?S. Suc m \<le> i} = {i \<in> ?S. m \<le> i} - {m}" by auto
  also have "\<dots> = {Suc m..<j}" unfolding j by auto
  finally show "run_from (Suc m) ((k, d) # es)" unfolding run_from_def by blast
qed

lemma pub_inv_send:
  assumes "pub_inv m pb"
  shows "\<exists>m'. pub_inv m' (publisher_step (PbSend ok) pb)"
proof (cases "pb_todo pb")
  case (Cons e rest)
  obtain k d where e: "e = (k, d)" by fastforce
  have kd: "k < length (pb_written pb)" "d = pb_written pb ! k" using assms Cons e by (auto simp: pub_inv_def)
  have "set (firsts (pb_decisions pb)) = (\<lambda>k. (k, pb_written pb ! k)) ` {0..<m}"
    using assms by (simp add: pub_inv_def del: firsts_simps)
  then have sent: "set (pb_decisions pb) = (\<lambda>k. (k, pb_written pb ! k)) ` {0..<m}" by simp
  consider (stay) "\<not> ok \<or> pb_stage pb = DeleteEntry" | (note_it) "ok" "pb_stage pb = SendNotification"
    | (again) "ok" "pb_stage pb = SendDecision" "k < m" | (fresh) "ok" "pb_stage pb = SendDecision" "m \<le> k"
    by (metis linorder_not_less pub_stage.exhaust)
  then show ?thesis
  proof cases
    case stay
    then show ?thesis using assms Cons e by (intro exI [of _ m]) auto
  next
    case note_it
    then show ?thesis using assms Cons e by (intro exI [of _ m]) (auto simp: pub_inv_def safe_def)
  next
    case again
    then have "(k, d) \<in> set (pb_decisions pb)" using sent kd by auto
    then show ?thesis using again assms Cons e by (intro exI [of _ m]) (auto simp: pub_inv_def safe_def firsts_snoc)
  next
    case fresh
    have "run_from m (pb_todo pb)" "sorted_wrt (<) (map fst (pb_todo pb))" using assms by (simp_all add: pub_inv_def)
    then have k: "k = m" "run_from (Suc m) (pb_todo pb)"
      unfolding Cons e using run_from_head [of m k d rest] fresh(3) by blast+
    have "(k, d) \<notin> set (pb_decisions pb)" using sent k by auto
    then show ?thesis using fresh assms Cons e k kd
      by (intro exI [of _ "Suc m"]) (auto simp: pub_inv_def safe_def firsts_snoc)
  qed
qed (use assms in \<open>auto\<close>)

lemma pub_inv_delete: "pub_inv m pb \<Longrightarrow> pub_inv m (publisher_step (PbDelete io) pb)"
proof (cases "pb_todo pb")
  case (Cons e rest)
  assume inv: "pub_inv m pb"
  obtain k d where e: "e = (k, d)" by fastforce
  show ?thesis
  proof (cases "pb_stage pb = DeleteEntry")
    case True
    let ?pb = "publisher_step (PbDelete io) pb"
    have k: "k < m" "d = pb_written pb ! k" "(k, notice_of d) \<in> set (pb_notes pb)" using inv True Cons e by (auto simp: pub_inv_def)
    have pb: "pb_stream ?pb = (if io = RedisFails then pb_stream pb else filter (\<lambda>e. fst e \<noteq> k) (pb_stream pb))" "pb_todo ?pb = rest"
      "pb_stage ?pb = SendDecision" "pb_written ?pb = pb_written pb" "pb_decisions ?pb = pb_decisions pb" "pb_notes ?pb = pb_notes pb"
      using True Cons e by simp_all
    have "{i \<in> fst ` set rest. m \<le> i} = {i \<in> fst ` set (pb_todo pb). m \<le> i}" using Cons e k by auto
    then have "run_from m rest" using inv by (simp add: run_from_def pub_inv_def)
    moreover have "safe m ?pb i" if "safe m pb i" for i using that k unfolding safe_def pb by (cases "i = k") auto
    moreover have "set (pb_stream ?pb) \<subseteq> set (pb_stream pb)" "sorted_wrt (<) (map fst (pb_stream ?pb))"
      using inv unfolding pb by (auto simp: pub_inv_def sorted_filter_lt)
    moreover have "set rest \<subseteq> set (pb_todo pb)" "sorted_wrt (<) (map fst rest)" using inv Cons by (auto simp: pub_inv_def)
    ultimately show ?thesis using inv unfolding pub_inv_def pb(2-) by auto
  qed (use inv Cons e in simp)
qed simp

lemma pub_inv_step: "pub_inv m pb \<Longrightarrow> \<exists>m'. pub_inv m' (publisher_step e pb)"
proof (cases e)
  case PbCrash
  moreover assume "pub_inv m pb"
  ultimately show ?thesis by (intro exI [of _ m]) (auto simp: pub_inv_def safe_def run_from_def intro!: exI [of _ m])
qed (use pub_inv_write pub_inv_read pub_inv_send pub_inv_delete in blast)+

interpretation pub: machine publisher_init publisher_step "\<lambda>pb. \<exists>m. pub_inv m pb" "\<lambda>_. True"
  by unfold_locales (auto simp: pub_inv_step, auto simp: pub_inv_def publisher_init_def run_from_def intro!: exI [of _ 0])

text \<open>
  (C12) Decisions are published in order and never lost: in every history of writes, failed sends, failed deletions and restarts,
  the topic of decisions shows the first so many events that the actor wrote, in their order, when repetitions are left out;
  and every event that the actor wrote is still in the stream or was sent to both topics.
\<close>

theorem publisher_in_order:
  "\<exists>m. let pb = fold publisher_step es publisher_init in
     map snd (firsts (pb_decisions pb)) = take m (pb_written pb) \<and>
     list_all (\<lambda>k. k \<in> fst ` set (pb_stream pb) \<or> k < m \<and> (k, notice_of (pb_written pb ! k)) \<in> set (pb_notes pb))
       [0..<length (pb_written pb)]"
proof -
  obtain m where m: "pub_inv m (fold publisher_step es publisher_init)" using pub.run_inv [of es] by auto
  then have "map ((!) (pb_written (fold publisher_step es publisher_init))) [0..<m] = take m (pb_written (fold publisher_step es publisher_init))"
    by (intro nth_equalityI) (auto simp: pub_inv_def)
  with m show ?thesis by (intro exI [of _ m]) (auto simp: pub_inv_def safe_def Let_def list_all_iff comp_def)
qed

text \<open>A pass without failures empties the stream.\<close>

definition good_pass :: "nat \<Rightarrow> pub_event list" where
  "good_pass n = concat (replicate n [PbSend True, PbSend True, PbDelete RedisOk])"

lemma good_pass_todo:
  "pb_todo pb = es \<Longrightarrow> pb_stage pb = SendDecision \<Longrightarrow>
     fold publisher_step (good_pass (length es)) pb = pb\<lparr>pb_todo := [], pb_stream := filter (\<lambda>e. fst e \<notin> fst ` set es) (pb_stream pb),
       pb_decisions := pb_decisions pb @ es, pb_notes := pb_notes pb @ map (\<lambda>(k, d). (k, notice_of d)) es\<rparr>"
proof (induction es arbitrary: pb)
  case (Cons e es)
  obtain k d where "e = (k, d)" by fastforce
  with Cons show ?case by (simp add: good_pass_def)
qed (simp add: good_pass_def)

lemma publisher_drains:
  assumes "pb_todo pb = []"
  shows "pb_stream (fold publisher_step (PbRead True # good_pass (length (pb_stream pb))) pb) = []"
  using good_pass_todo [of "publisher_step (PbRead True) pb" "pb_stream pb"] assms
  by (auto simp: filter_empty_conv)

end
