(* ===== verification/Gateway.thy ===== *)
theory Gateway
  imports Participants
begin

text \<open>
  The gateway in front of the services (\<open>src/apps/gateway-keeper/src\<close>): the circuit breaker of a downstream service
  (\<open>circuit_breaker.rs\<close>) with the two users of it, the proxy of requests (\<open>proxy.rs\<close>) and the proxy of sockets
  (\<open>websocket_proxy.rs\<close>), the rate limiter (\<open>throttle.rs\<close>), and the tickets that a page exchanges for a socket. Times are
  milliseconds of a monotonic clock; counters have the width of the source.
\<close>

section \<open>The circuit breaker\<close>

record circuit =
  cb_failures :: "32 word"
  cb_open_until :: "int option"
  cb_probe_in_flight :: bool

definition circuit_new :: circuit where
  "circuit_new = \<lparr>cb_failures = 0, cb_open_until = None, cb_probe_in_flight = False\<rparr>"

definition saturating_inc :: "32 word \<Rightarrow> 32 word" where
  "saturating_inc n = (if n = - 1 then n else n + 1)"

definition allow_request :: "int \<Rightarrow> circuit \<Rightarrow> bool \<times> circuit" where
  "allow_request now c = (case cb_open_until c of
     None \<Rightarrow> (True, c)
   | Some until \<Rightarrow>
       if now < until then (False, c)
       else if cb_probe_in_flight c then (False, c)
       else (True, c\<lparr>cb_probe_in_flight := True\<rparr>))"

definition record_success :: "circuit \<Rightarrow> circuit" where
  "record_success c = c\<lparr>cb_failures := 0, cb_open_until := None, cb_probe_in_flight := False\<rparr>"

definition record_failure :: "32 word \<Rightarrow> int \<Rightarrow> int \<Rightarrow> circuit \<Rightarrow> circuit" where
  "record_failure threshold open_for now c =
     (let c = c\<lparr>cb_failures := saturating_inc (cb_failures c)\<rparr>;
          c = (if threshold \<le> cb_failures c \<or> cb_probe_in_flight c then c\<lparr>cb_open_until := Some (now + open_for)\<rparr> else c)
      in c\<lparr>cb_probe_in_flight := False\<rparr>)"

section \<open>The proxy of requests\<close>

text \<open>
  \<open>proxy_http\<close>, as two steps: a request asks the breaker and is sent or refused, and an answer of a sent request is
  recorded. A request may also be dropped in between: when the client closes its connection, the server drops the future
  that waits for the answer, and nothing is recorded. \<open>px_waiting\<close> counts the requests under way.
\<close>

record proxied =
  px_circuit :: circuit
  px_waiting :: nat
  px_refused :: nat

datatype proxy_event = PxRequest int | PxAnswer int nat | PxError int | PxDropped

definition is_server_error :: "nat \<Rightarrow> bool" where
  "is_server_error status = (500 \<le> status \<and> status < 600)"

fun proxy_step :: "32 word \<Rightarrow> int \<Rightarrow> proxy_event \<Rightarrow> proxied \<Rightarrow> proxied" where
  "proxy_step threshold open_for (PxRequest now) px =
     (case allow_request now (px_circuit px) of
        (True, c) \<Rightarrow> px\<lparr>px_circuit := c, px_waiting := px_waiting px + 1\<rparr>
      | (False, c) \<Rightarrow> px\<lparr>px_circuit := c, px_refused := px_refused px + 1\<rparr>)"
| "proxy_step threshold open_for (PxAnswer now status) px =
     (if px_waiting px = 0 then px
      else px\<lparr>px_waiting := px_waiting px - 1,
        px_circuit := (if is_server_error status then record_failure threshold open_for now (px_circuit px)
          else record_success (px_circuit px))\<rparr>)"
| "proxy_step threshold open_for (PxError now) px =
     (if px_waiting px = 0 then px
      else px\<lparr>px_waiting := px_waiting px - 1, px_circuit := record_failure threshold open_for now (px_circuit px)\<rparr>)"
| "proxy_step threshold open_for PxDropped px = (if px_waiting px = 0 then px else px\<lparr>px_waiting := px_waiting px - 1\<rparr>)"

definition proxied_init :: proxied where
  "proxied_init = \<lparr>px_circuit = circuit_new, px_waiting = 0, px_refused = 0\<rparr>"

section \<open>The rate limiter\<close>

text \<open>
  A fixed window: a count and the time at which it starts again. The script of Redis (\<open>INCR\<close>, and \<open>EXPIRE\<close> for the first
  request) and the window in memory that is used when Redis does not answer work alike, each with a count of its own. The windows
  of the source are whole seconds.
\<close>

type_synonym window_count = "(nat \<times> int) option"

definition window_hit :: "int \<Rightarrow> int \<Rightarrow> window_count \<Rightarrow> nat \<times> window_count" where
  "window_hit window now w =
     (let fresh = (case w of None \<Rightarrow> (0, now + window) | Some (n, resets) \<Rightarrow> if resets \<le> now then (0, now + window) else (n, resets));
          n = fst fresh + 1
      in (n, Some (n, snd fresh)))"

record limiter =
  rl_redis :: window_count
  rl_local :: window_count

definition limiter_check :: "nat \<Rightarrow> int \<Rightarrow> bool \<times> int \<Rightarrow> limiter \<Rightarrow> bool \<times> limiter" where
  "limiter_check limit window rq lm = (case rq of (redis_ok, now) \<Rightarrow>
     if redis_ok then (case window_hit window now (rl_redis lm) of (n, w) \<Rightarrow> (n \<le> limit, lm\<lparr>rl_redis := w\<rparr>))
     else (case window_hit window now (rl_local lm) of (n, w) \<Rightarrow> (n \<le> limit, lm\<lparr>rl_local := w\<rparr>)))"

text \<open>How many requests of a list are let through.\<close>

fun let_through :: "nat \<Rightarrow> int \<Rightarrow> (bool \<times> int) list \<Rightarrow> limiter \<Rightarrow> nat" where
  "let_through limit window [] lm = 0"
| "let_through limit window (rq # rqs) lm =
     (case limiter_check limit window rq lm of (ok, lm') \<Rightarrow> (if ok then 1 else 0) + let_through limit window rqs lm')"

section \<open>Socket tickets\<close>

record socket_ticket =
  st_user_id :: uuid
  st_role :: string
  st_expires_at :: int

text \<open>
  The tickets of the gateway; \<open>tk_issued\<close> and \<open>tk_admitted\<close> record what has been given out, with the auction that was
  asked for, and which sockets were let through.
\<close>

record tickets =
  tk_open :: "string \<rightharpoonup> socket_ticket"
  tk_issued :: "(string \<times> uuid \<times> string \<times> int) list"
  tk_admitted :: "(string \<times> uuid \<times> int) list"

definition tickets_init :: tickets where
  "tickets_init = \<lparr>tk_open = Map.empty, tk_issued = [], tk_admitted = []\<rparr>"

text \<open>
  \<open>create_ticket\<close>: \<open>identity\<close> is the user and role of the token (\<open>None\<close> where it is missing or invalid), \<open>allowed\<close> the
  answer of the rate limiter, \<open>st\<close> the access record of the auction.
\<close>

definition create_ticket ::
  "int \<Rightarrow> string \<Rightarrow> (uuid \<times> string) option \<Rightarrow> bool \<Rightarrow> bool \<times> bool \<Rightarrow> string \<Rightarrow> access_store \<Rightarrow> tickets \<Rightarrow> tickets" where
  "create_ticket now fresh identity allowed reads a st tk = (case identity of None \<Rightarrow> tk
   | Some (u, role) \<Rightarrow>
       if \<not> allowed then tk
       else if require_participant (fst reads) (snd reads) role u st \<noteq> AccessOk then tk
       else let kept = (\<lambda>v. case tk_open tk v of None \<Rightarrow> None | Some t \<Rightarrow> if now < st_expires_at t then Some t else None)
            in tk\<lparr>tk_open := kept(fresh \<mapsto> \<lparr>st_user_id = u, st_role = role, st_expires_at = now + 30000\<rparr>),
                  tk_issued := tk_issued tk @ [(fresh, u, a, now)]\<rparr>)"

text \<open>\<open>socket_proxy\<close> up to the upgrade: \<open>ticket\<close> is the parameter of the query, \<open>ready\<close> the answer of the breaker.\<close>

definition socket_proxy :: "int \<Rightarrow> string option \<Rightarrow> bool \<Rightarrow> bool \<Rightarrow> tickets \<Rightarrow> tickets" where
  "socket_proxy now ticket allowed ready tk =
     (if \<not> allowed then tk
      else case ticket of None \<Rightarrow> tk
      | Some v \<Rightarrow> (case tk_open tk v of None \<Rightarrow> tk
          | Some t \<Rightarrow>
             let tk = tk\<lparr>tk_open := (tk_open tk)(v := None)\<rparr>
             in if st_expires_at t \<le> now then tk
                else if \<not> ready then tk
                else tk\<lparr>tk_admitted := tk_admitted tk @ [(v, st_user_id t, now)]\<rparr>))"

datatype ticket_event =
    TkCreate int string "(uuid \<times> string) option" bool "bool \<times> bool" string access_store
  | TkConnect int "string option" bool bool

fun ticket_step :: "ticket_event \<Rightarrow> tickets \<Rightarrow> tickets" where
  "ticket_step (TkCreate now fresh identity allowed reads a st) tk = create_ticket now fresh identity allowed reads a st tk"
| "ticket_step (TkConnect now ticket allowed ready) tk = socket_proxy now ticket allowed ready tk"

section \<open>The breaker recovers, unless its probe is dropped\<close>

definition circuit_inv :: "32 word \<Rightarrow> proxied \<Rightarrow> bool" where
  "circuit_inv threshold px \<longleftrightarrow> (cb_open_until (px_circuit px) = None \<longrightarrow> cb_failures (px_circuit px) < threshold) \<and>
     (cb_probe_in_flight (px_circuit px) \<longrightarrow> cb_open_until (px_circuit px) \<noteq> None \<and> 0 < px_waiting px)"

lemmas circuit_defs = allow_request_def record_success_def record_failure_def Let_def

lemma circuit_inv_step:
  "0 < threshold \<Longrightarrow> e \<noteq> PxDropped \<Longrightarrow> circuit_inv threshold px \<Longrightarrow> circuit_inv threshold (proxy_step threshold open_for e px)"
  by (cases e) (auto simp: circuit_inv_def circuit_defs not_le split: option.splits if_splits)

interpretation breaker: machine proxied_init "proxy_step threshold open_for" "\<lambda>px. 0 < threshold \<longrightarrow> circuit_inv threshold px" "\<lambda>e. e \<noteq> PxDropped"
  for threshold open_for
  by unfold_locales (auto simp: circuit_inv_step, auto simp: circuit_inv_def proxied_init_def circuit_new_def)

text \<open>
  An idle breaker lets a request through as soon as its pause is over, in every history in which each request that is sent is
  answered or fails.
\<close>

lemma idle_breaker_allows:
  assumes "0 < threshold" and "\<forall>e \<in> set es. e \<noteq> PxDropped" and "px = fold (proxy_step threshold open_for) es proxied_init"
    and "px_waiting px = 0" and "case cb_open_until (px_circuit px) of None \<Rightarrow> True | Some until \<Rightarrow> until \<le> now"
  shows "fst (allow_request now (px_circuit px))"
  using breaker.run_inv [OF assms(2), of threshold open_for] assms by (auto simp: circuit_inv_def allow_request_def split: option.splits)

text \<open>
  A dropped probe closes the service for ever: when the breaker has opened and the one request that may test the
  service is dropped before its answer (the client goes away, or the upgrade of a socket fails), nothing clears the mark of the probe.
  Every later request is refused without being sent, however long the pause is over and however well the service works.
\<close>

lemma dropped_probe_blocks:
  assumes "cb_open_until (px_circuit px) = Some until" and "\<not> cb_probe_in_flight (px_circuit px)" and "px_waiting px = 0" and "until \<le> now"
    and "lost = proxy_step threshold open_for PxDropped (proxy_step threshold open_for (PxRequest now) px)"
    and "later = fold (proxy_step threshold open_for) es lost"
  shows "px_waiting later = 0 \<and> px_refused later = px_refused px + length (filter (\<lambda>e. case e of PxRequest _ \<Rightarrow> True | _ \<Rightarrow> False) es)"
proof -
  have lost: "cb_open_until (px_circuit lost) = Some until" "cb_probe_in_flight (px_circuit lost)" "px_waiting lost = 0" "px_refused lost = px_refused px"
    using assms(1-5) by (simp_all add: allow_request_def)
  have "px_circuit (fold (proxy_step threshold open_for) es lost) = px_circuit lost \<and> px_waiting (fold (proxy_step threshold open_for) es lost) = 0 \<and>
      px_refused (fold (proxy_step threshold open_for) es lost) =
        px_refused lost + length (filter (\<lambda>e. case e of PxRequest _ \<Rightarrow> True | _ \<Rightarrow> False) es)"
  proof (induction es rule: rev_induct)
    case (snoc e es)
    then show ?case using lost(1,2) by (cases e) (simp_all add: allow_request_def)
  qed (use lost(3) in simp)
  then show ?thesis using assms(6) lost(4) by simp
qed

section \<open>The limit of a window\<close>

text \<open>What a counter may still let through before the end \<open>stop\<close> of an interval that is no longer than its window.\<close>

definition room_left :: "nat \<Rightarrow> int \<Rightarrow> window_count \<Rightarrow> nat" where
  "room_left limit stop w = (case w of None \<Rightarrow> 2 * limit
   | Some (n, resets) \<Rightarrow> (limit - n) + (if stop \<le> resets then 0 else limit))"

lemma window_hit_room:
  assumes "a \<le> now" and "now < a + window" and "window_hit window now w = (n, w')"
  shows "(if n \<le> limit then 1 else 0) + room_left limit (a + window) w' \<le> room_left limit (a + window) w"
  using assms by (auto simp: window_hit_def room_left_def Let_def split: option.splits if_splits)

lemma room_left_bound: "room_left limit stop w \<le> 2 * limit"
  by (auto simp: room_left_def split: option.splits)

lemma let_through_room:
  assumes "\<forall>rq \<in> set rqs. a \<le> snd rq \<and> snd rq < a + window"
  shows "let_through limit window rqs lm \<le> room_left limit (a + window) (rl_redis lm) + room_left limit (a + window) (rl_local lm) \<and>
    (list_all fst rqs \<longrightarrow> let_through limit window rqs lm \<le> room_left limit (a + window) (rl_redis lm))"
  using assms
proof (induction rqs arbitrary: lm)
  case (Cons rq rqs)
  obtain redis_ok now where rq: "rq = (redis_ok, now)" by (cases rq)
  with Cons.prems have now: "a \<le> now" "now < a + window" by simp_all
  obtain n w where hit: "window_hit window now (if redis_ok then rl_redis lm else rl_local lm) = (n, w)" by fastforce
  define lm' where "lm' = (if redis_ok then lm\<lparr>rl_redis := w\<rparr> else lm\<lparr>rl_local := w\<rparr>)"
  have step: "limiter_check limit window rq lm = (n \<le> limit, lm')" using hit by (cases redis_ok) (simp_all add: limiter_check_def rq lm'_def)
  have "let_through limit window (rq # rqs) lm = (if n \<le> limit then 1 else 0) + let_through limit window rqs lm'" by (simp add: step)
  moreover note window_hit_room [OF now hit, of limit] Cons.IH [of lm'] Cons.prems
  ultimately show ?case by (cases redis_ok) (auto simp: rq lm'_def)
qed simp

text \<open>
  (C33) The limiter bounds every interval, not only its own windows: of the requests of one key that arrive within any
  interval of the length of the window, whatever came before, at most twice the limit are let through while Redis answers, and
  at most four times the limit when it answers now and then.
\<close>

theorem rate_limit_bound:
  assumes "\<forall>rq \<in> set rqs. a \<le> snd rq \<and> snd rq < a + window"
  shows "let_through limit window rqs lm \<le> (if list_all fst rqs then 2 else 4) * limit"
  using let_through_room [OF assms, of limit lm] room_left_bound [of limit "a + window" "rl_redis lm"] room_left_bound [of limit "a + window" "rl_local lm"]
  by auto

theorem rate_limit_bound_witness:
  "let_through 1 60 [(True, 59), (True, 60), (True, 61)] \<lparr>rl_redis = Some (0, 60), rl_local = None\<rparr> \<le> 2 * 1"
  using rate_limit_bound [of "[(True, 59), (True, 60), (True, 61)]" 59 60 1 "\<lparr>rl_redis = Some (0, 60), rl_local = None\<rparr>"] by simp

text \<open>The bound is reached: at the border of two windows twice the limit passes within a moment.\<close>

lemma rate_limit_tight: "let_through 1 60 [(True, 59), (True, 60), (True, 61)] \<lparr>rl_redis = Some (0, 60), rl_local = None\<rparr> = 2"
  by (simp add: limiter_check_def window_hit_def Let_def)

section \<open>A ticket is used once\<close>

definition fresh_ids :: "ticket_event list \<Rightarrow> string list" where
  "fresh_ids es = List.map_filter (\<lambda>e. case e of TkCreate now fresh identity allowed reads a st \<Rightarrow> Some fresh | TkConnect now v allowed ready \<Rightarrow> None) es"

lemma fresh_ids_simps [simp]:
  "fresh_ids [] = []" "fresh_ids (es @ es') = fresh_ids es @ fresh_ids es'"
  "fresh_ids (TkCreate now fresh identity allowed reads a st # es) = fresh # fresh_ids es" "fresh_ids (TkConnect now v allowed ready # es) = fresh_ids es"
  by (simp_all add: fresh_ids_def map_filter_def)

text \<open>
  A ticket that is open has been issued and not been used; a socket that was let through had a ticket of its user, issued less than
  thirty seconds before.
\<close>

definition ticket_inv :: "string set \<Rightarrow> tickets \<Rightarrow> bool" where
  "ticket_inv V tk \<longleftrightarrow> fst ` set (tk_issued tk) \<subseteq> V \<and> distinct (map fst (tk_issued tk)) \<and>
     (\<forall>v t. tk_open tk v = Some t \<longrightarrow> (\<exists>a. (v, st_user_id t, a, st_expires_at t - 30000) \<in> set (tk_issued tk)) \<and> v \<notin> fst ` set (tk_admitted tk)) \<and>
     (\<forall>(v, u, now) \<in> set (tk_admitted tk). \<exists>a made. (v, u, a, made) \<in> set (tk_issued tk) \<and> now < made + 30000) \<and>
     distinct (map fst (tk_admitted tk))"

lemma ticket_inv_mono: "ticket_inv V tk \<Longrightarrow> V \<subseteq> W \<Longrightarrow> ticket_inv W tk"
  by (auto simp: ticket_inv_def)

lemma issue_inv:
  assumes "ticket_inv V tk" and "fresh \<notin> V" and "\<And>v t. kept v = Some t \<Longrightarrow> tk_open tk v = Some t"
  shows "ticket_inv (insert fresh V) (tk\<lparr>tk_open := kept(fresh \<mapsto> \<lparr>st_user_id = u, st_role = role, st_expires_at = now + 30000\<rparr>),
    tk_issued := tk_issued tk @ [(fresh, u, a, now)]\<rparr>)"
proof -
  have issued: "fresh \<notin> fst ` set (tk_issued tk)" using assms(1,2) by (auto simp: ticket_inv_def)
  have "fst ` set (tk_admitted tk) \<subseteq> fst ` set (tk_issued tk)" using assms(1) by (force simp: ticket_inv_def)
  with issued have "fresh \<notin> fst ` set (tk_admitted tk)" by blast
  moreover have "\<forall>(v, u, now) \<in> set (tk_admitted tk). \<exists>a made. (v, u, a, made) \<in> set (tk_issued tk @ [x]) \<and> now < made + 30000" for x
    using assms(1) by (fastforce simp: ticket_inv_def)
  ultimately show ?thesis using assms issued by (simp add: ticket_inv_def) blast
qed

lemma create_ticket_inv:
  assumes "ticket_inv V tk" and "fresh \<notin> V"
  shows "ticket_inv (insert fresh V) (create_ticket now fresh identity allowed reads a st tk)"
proof -
  let ?kept = "\<lambda>v. case tk_open tk v of None \<Rightarrow> None | Some t \<Rightarrow> if now < st_expires_at t then Some t else None"
  have "?kept v = Some t \<Longrightarrow> tk_open tk v = Some t" for v t by (auto split: option.splits if_splits)
  from issue_inv [OF assms this] ticket_inv_mono [OF assms(1), of "insert fresh V"] show ?thesis
    by (auto simp: create_ticket_def Let_def split: option.splits)
qed

lemma socket_proxy_inv:
  assumes "ticket_inv V tk"
  shows "ticket_inv V (socket_proxy now v allowed ready tk)"
proof (cases "\<exists>x t. v = Some x \<and> tk_open tk x = Some t")
  case True
  then obtain x t where x: "v = Some x" "tk_open tk x = Some t" by blast
  then obtain a where t: "(x, st_user_id t, a, st_expires_at t - 30000) \<in> set (tk_issued tk)" "x \<notin> fst ` set (tk_admitted tk)"
    using assms unfolding ticket_inv_def by blast
  let ?tk = "tk\<lparr>tk_open := (tk_open tk)(x := None)\<rparr>"
  have removed: "ticket_inv V ?tk" using assms by (simp add: ticket_inv_def)
  moreover have "ticket_inv V (?tk\<lparr>tk_admitted := tk_admitted tk @ [(x, st_user_id t, now)]\<rparr>)" if "now < st_expires_at t"
  proof -
    have "\<exists>a made. (x, st_user_id t, a, made) \<in> set (tk_issued tk) \<and> now < made + 30000" using t(1) that by fastforce
    then show ?thesis using removed t(2) by (simp add: ticket_inv_def)
  qed
  ultimately show ?thesis using assms x by (simp add: socket_proxy_def Let_def)
next
  case False
  then show ?thesis using assms by (auto simp: socket_proxy_def split: option.splits)
qed

lemma ticket_run: "distinct (fresh_ids es) \<Longrightarrow> ticket_inv (set (fresh_ids es)) (fold ticket_step es tickets_init)"
proof (induction es rule: rev_induct)
  case (snoc e es)
  then show ?case by (cases e) (simp_all add: create_ticket_inv socket_proxy_inv)
qed (simp add: ticket_inv_def tickets_init_def)

text \<open>The event that gave out a ticket, to a user with access to the auction.\<close>

definition gives_out :: "string \<times> uuid \<times> string \<times> int \<Rightarrow> ticket_event \<Rightarrow> bool" where
  "gives_out x e = (case e of
     TkCreate now fresh (Some (u, role)) allowed reads a st \<Rightarrow>
       x = (fresh, u, a, now) \<and> allowed \<and> require_participant (fst reads) (snd reads) role u st = AccessOk
   | _ \<Rightarrow> False)"

lemma step_gives_out: "x \<in> set (tk_issued (ticket_step e tk)) \<Longrightarrow> x \<in> set (tk_issued tk) \<or> gives_out x e"
  by (cases e) (auto simp: create_ticket_def socket_proxy_def gives_out_def Let_def split: option.splits if_splits)

lemma issued_given_out: "x \<in> set (tk_issued (fold ticket_step es tickets_init)) \<Longrightarrow> list_ex (gives_out x) es"
proof (induction es rule: rev_induct)
  case (snoc e es)
  then show ?case using step_gives_out [of x e] by auto
qed (simp add: tickets_init_def)

text \<open>
  (C34) A ticket opens one socket: when ticket values do not repeat, in every history no ticket lets two sockets through, and
  every socket that is let through has a ticket that was given, less than thirty seconds before, to its user, who had access to the
  auction it was asked for.
\<close>

theorem ticket_used_once:
  assumes "distinct (fresh_ids es)" and "tk = fold ticket_step es tickets_init"
  shows "distinct (map fst (tk_admitted tk)) \<and>
    list_all (\<lambda>(v, u, now). \<exists>a made. list_ex (gives_out (v, u, a, made)) es \<and> now < made + 30000) (tk_admitted tk)"
  using ticket_run [OF assms(1)] issued_given_out [of _ es] assms(2) by (fastforce simp: ticket_inv_def list_all_iff)

definition ex_ticket_events :: "ticket_event list" where
  "ex_ticket_events = [TkCreate 0 ''v'' (Some (7, ''CARRIER'')) True (True, True) ''a'' \<lparr>as_bits = {7}, as_legacy = {}\<rparr>,
     TkConnect 5 (Some ''v'') True True, TkConnect 6 (Some ''v'') True True]"

lemma ex_ticket_admitted: "tk_admitted (fold ticket_step ex_ticket_events tickets_init) = [(''v'', 7, 5)]"
  by (simp add: ex_ticket_events_def create_ticket_def socket_proxy_def tickets_init_def require_participant_def participant_offset_def Let_def)

theorem ticket_used_once_witness:
  "list_all (\<lambda>(v, u, now). \<exists>a made. list_ex (gives_out (v, u, a, made)) ex_ticket_events \<and> now < made + 30000) [(''v'', 7, 5)]"
  using ticket_used_once [OF _ refl, of ex_ticket_events] by (simp only: ex_ticket_admitted) (simp add: ex_ticket_events_def)

end
