(* ===== verification/Account_Service.thy ===== *)
theory Account_Service
  imports Account_Pages Participants Bid_Engine
begin

text \<open>
  The accounts of the service: \<open>src/apps/http-server/src/services/auth.rs\<close> with the handlers of \<open>controllers/auth.rs\<close>, which the
  pages of \<open>Account_Pages\<close> and \<open>Session\<close> call. The table of users and the codes in Redis are a record. Hashing, the tokens, the
  check of an address and the mail library are not part of the repository: they are the functions of \<open>auth_env\<close>. Whether
  Redis and the database answer is an argument (\<open>account_io\<close>). Times are milliseconds. Of an answer to a payload that does not
  validate only the start of its text is kept, the rest is the report of the validation library.
\<close>

section \<open>Data\<close>

datatype app_error = EInternal string | EBadRequest string | EUnauthorized string | EForbidden string | ENotFound string

text \<open>The status and the text of the answer, as \<open>into_response\<close> of \<open>error.rs\<close> makes them.\<close>

definition into_response :: "app_error \<Rightarrow> int \<times> string" where
  "into_response e = (case e of EInternal m \<Rightarrow> (500, m) | EBadRequest m \<Rightarrow> (400, m) | EUnauthorized m \<Rightarrow> (401, m)
     | EForbidden m \<Rightarrow> (403, m) | ENotFound m \<Rightarrow> (404, m))"

record claims =
  cl_sub :: string
  cl_role :: string
  cl_exp :: int

record user_row =
  us_id :: uuid
  us_email :: string
  us_password_hash :: string
  us_name :: string
  us_company_name :: "string option"
  us_role :: user_role
  us_created_at :: int

datatype mail = OtpMail string string | ResetMail string string

text \<open>The codes: the value of a key of Redis and the time at which it goes.\<close>

record accounts =
  ac_users :: "user_row list"
  ac_codes :: "string \<rightharpoonup> string \<times> int"
  ac_mails :: "mail list"

record signup_payload =
  sp_email :: string
  sp_password :: string
  sp_name :: string
  sp_company_name :: "string option"
  sp_role_type :: "string option"
  sp_otp :: string

record auth_response =
  ar_token :: string
  ar_role :: string
  ar_user_id :: uuid
  ar_name :: string

record auth_env =
  av_secret :: "string option"
  av_email_ok :: "string \<Rightarrow> bool"
  av_hash :: "string \<Rightarrow> string \<Rightarrow> string option"
  av_verify :: "string \<Rightarrow> string \<Rightarrow> bool option"
  av_encode :: "string \<Rightarrow> claims \<Rightarrow> string option"
  av_decode :: "string \<Rightarrow> int \<Rightarrow> string \<Rightarrow> claims option"
  av_show_uuid :: "uuid \<Rightarrow> string"
  av_parse_uuid :: "string \<Rightarrow> uuid option"
  av_smtp_user :: string
  av_smtp_pass :: string
  av_mailbox :: "string \<Rightarrow> bool"
  av_frontend_url :: "string option"

text \<open>
  \<open>ai_mail\<close>: the mail is built, the relay is set up and takes it. \<open>ai_insert_error\<close> is the text of an insertion that failed.
\<close>

record account_io =
  ai_redis :: bool
  ai_query :: bool
  ai_del :: bool
  ai_pool :: bool
  ai_select :: bool
  ai_write :: bool
  ai_insert_error :: string
  ai_mail :: bool

definition jwt_secret :: "auth_env \<Rightarrow> string" where
  "jwt_secret env = unwrap_or (av_secret env) ''super_secret_key_change_me''"

section \<open>Codes and mails\<close>

definition otp_key :: "string \<Rightarrow> string" where
  "otp_key email = ''signup_otp:'' @ email"

definition redis_setex :: "int \<Rightarrow> string \<Rightarrow> string \<Rightarrow> accounts \<Rightarrow> accounts" where
  "redis_setex until k v ac = ac\<lparr>ac_codes := (ac_codes ac)(k \<mapsto> (v, until))\<rparr>"

definition redis_get :: "int \<Rightarrow> string \<Rightarrow> accounts \<Rightarrow> string option" where
  "redis_get now k ac = (case ac_codes ac k of None \<Rightarrow> None | Some (v, until) \<Rightarrow> if now < until then Some v else None)"

definition redis_del :: "string \<Rightarrow> accounts \<Rightarrow> accounts" where
  "redis_del k ac = ac\<lparr>ac_codes := (ac_codes ac)(k := None)\<rparr>"

text \<open>
  The task that mails, which is the same for a code and for a link: nothing of it is reported to the caller. It is spawned; here
  the mail is out when the request has been answered.
\<close>

definition send_mail :: "auth_env \<Rightarrow> account_io \<Rightarrow> string \<Rightarrow> mail \<Rightarrow> accounts \<Rightarrow> accounts" where
  "send_mail env io email m ac =
     (if av_smtp_user env = [] \<or> av_smtp_pass env = [] then ac
      else if \<not> av_mailbox env (''Auction Platform <'' @ av_smtp_user env @ ''>'') then ac
      else if \<not> av_mailbox env email then ac
      else if \<not> ai_mail io then ac
      else ac\<lparr>ac_mails := ac_mails ac @ [m]\<rparr>)"

text \<open>\<open>n\<close> is the number that \<open>gen_range(100000..999999)\<close> draws.\<close>

definition send_otp_service :: "auth_env \<Rightarrow> account_io \<Rightarrow> int \<Rightarrow> nat \<Rightarrow> string \<Rightarrow> accounts \<Rightarrow> (app_error + unit) \<times> accounts" where
  "send_otp_service env io now n email ac =
     (let otp_str = nat_str n in
      if \<not> ai_redis io then (Inl (EInternal ''Failed to connect to Redis''), ac)
      else if \<not> ai_query io then (Inl (EInternal ''Failed to store OTP''), ac)
      else (Inr (), send_mail env io email (OtpMail email otp_str) (redis_setex (now + 300 * 1000) (otp_key email) otp_str ac)))"

definition send_otp_handler :: "auth_env \<Rightarrow> account_io \<Rightarrow> int \<Rightarrow> nat \<Rightarrow> string \<Rightarrow> accounts \<Rightarrow> (app_error + unit) \<times> accounts" where
  "send_otp_handler env io now n email ac =
     (if \<not> av_email_ok env email then (Inl (EBadRequest ''Validation failed''), ac) else send_otp_service env io now n email ac)"

section \<open>Signing up\<close>

definition validate_email_helper :: "string \<Rightarrow> bool" where
  "validate_email_helper email = (CHR ''@'' \<in> set email \<and> CHR ''.'' \<in> set email)"

definition signup_valid :: "signup_payload \<Rightarrow> bool" where
  "signup_valid p = (validate_email_helper (sp_email p) \<and> 6 \<le> length (sp_password p) \<and> 2 \<le> length (sp_name p) \<and> 6 \<le> length (sp_otp p))"

definition find_email :: "string \<Rightarrow> accounts \<Rightarrow> user_row option" where
  "find_email email ac = find (\<lambda>u. us_email u = email) (ac_users ac)"

definition role_of_type :: "string option \<Rightarrow> user_role" where
  "role_of_type ty = (if ascii_upper (unwrap_or ty ''CARRIER'') \<in> {''SELLER'', ''CUSTOMER''} then CUSTOMER else CARRIER)"

text \<open>The service runs in four stages; other requests may be served between two of them. First the code:\<close>

definition signup_code_check :: "account_io \<Rightarrow> int \<Rightarrow> signup_payload \<Rightarrow> accounts \<Rightarrow> app_error option" where
  "signup_code_check io now p ac =
     (if \<not> ai_redis io then Some (EInternal ''Failed to connect to Redis'')
      else if \<not> ai_query io then Some (EInternal ''Failed to read OTP'')
      else case redis_get now (otp_key (sp_email p)) ac of
        None \<Rightarrow> Some (EBadRequest ''OTP expired or not found. Please request a new one.'')
      | Some valid_otp \<Rightarrow> if valid_otp \<noteq> sp_otp p then Some (EBadRequest ''Invalid OTP'') else None)"

text \<open>then whether the address is taken,\<close>

definition signup_email_check :: "account_io \<Rightarrow> signup_payload \<Rightarrow> accounts \<Rightarrow> app_error option" where
  "signup_email_check io p ac =
     (if \<not> ai_pool io then Some (EInternal ''Failed to get DB connection'')
      else if \<not> ai_select io then Some (EInternal ''Database error'')
      else if find_email (sp_email p) ac \<noteq> None then Some (EBadRequest ''Email already in use'')
      else None)"

text \<open>then the row, which the keys of the table may still refuse,\<close>

definition signup_insert ::
  "auth_env \<Rightarrow> account_io \<Rightarrow> int \<Rightarrow> uuid \<Rightarrow> string \<Rightarrow> signup_payload \<Rightarrow> accounts \<Rightarrow> app_error + user_row \<times> accounts" where
  "signup_insert env io now i salt p ac = (case av_hash env salt (sp_password p) of
     None \<Rightarrow> Inl (EInternal ''Failed to hash password'')
   | Some h \<Rightarrow>
       let u = \<lparr>us_id = i, us_email = sp_email p, us_password_hash = h, us_name = sp_name p, us_company_name = sp_company_name p,
                us_role = role_of_type (sp_role_type p), us_created_at = now\<rparr>
       in if \<not> ai_write io \<or> list_ex (\<lambda>v. us_id v = i \<or> us_email v = sp_email p) (ac_users ac)
          then Inl (EInternal (''Failed to insert user: '' @ ai_insert_error io))
          else Inr (u, ac\<lparr>ac_users := ac_users ac @ [u]\<rparr>))"

text \<open>and last the token. A code that cannot be deleted stays.\<close>

definition issue_token :: "auth_env \<Rightarrow> int \<Rightarrow> user_row \<Rightarrow> app_error + auth_response" where
  "issue_token env now u =
     (let c = \<lparr>cl_sub = av_show_uuid env (us_id u), cl_role = role_str (us_role u), cl_exp = now div 1000 + 24 * 3600\<rparr>
      in case av_encode env (jwt_secret env) c of
           None \<Rightarrow> Inl (EInternal ''Failed to generate token'')
         | Some t \<Rightarrow> Inr \<lparr>ar_token = t, ar_role = cl_role c, ar_user_id = us_id u, ar_name = us_name u\<rparr>)"

definition signup_finish :: "auth_env \<Rightarrow> account_io \<Rightarrow> int \<Rightarrow> user_row \<Rightarrow> accounts \<Rightarrow> (app_error + auth_response) \<times> accounts" where
  "signup_finish env io now u ac =
     (issue_token env now u, if ai_del io then redis_del (otp_key (us_email u)) ac else ac)"

definition sign_up_service ::
  "auth_env \<Rightarrow> account_io \<Rightarrow> int \<Rightarrow> uuid \<Rightarrow> string \<Rightarrow> signup_payload \<Rightarrow> accounts \<Rightarrow> (app_error + auth_response) \<times> accounts" where
  "sign_up_service env io now i salt p ac = (case signup_code_check io now p ac of
     Some e \<Rightarrow> (Inl e, ac)
   | None \<Rightarrow> (case signup_email_check io p ac of
       Some e \<Rightarrow> (Inl e, ac)
     | None \<Rightarrow> (case signup_insert env io now i salt p ac of
         Inl e \<Rightarrow> (Inl e, ac)
       | Inr (u, ac') \<Rightarrow> signup_finish env io now u ac')))"

definition sign_up_handler ::
  "auth_env \<Rightarrow> account_io \<Rightarrow> int \<Rightarrow> uuid \<Rightarrow> string \<Rightarrow> signup_payload \<Rightarrow> accounts \<Rightarrow> (app_error + auth_response) \<times> accounts" where
  "sign_up_handler env io now i salt p ac =
     (if \<not> signup_valid p then (Inl (EBadRequest ''Validation failed''), ac) else sign_up_service env io now i salt p ac)"

section \<open>Signing in and new passwords\<close>

definition sign_in_service :: "auth_env \<Rightarrow> account_io \<Rightarrow> int \<Rightarrow> string \<Rightarrow> string \<Rightarrow> accounts \<Rightarrow> app_error + auth_response" where
  "sign_in_service env io now email password ac =
     (if \<not> ai_pool io then Inl (EInternal ''Failed to get DB connection'')
      else if \<not> ai_select io then Inl (EInternal ''Database error'')
      else case find_email email ac of
        None \<Rightarrow> Inl (EUnauthorized ''Invalid credentials'')
      | Some u \<Rightarrow> if \<not> unwrap_or (av_verify env password (us_password_hash u)) False then Inl (EUnauthorized ''Invalid credentials'')
                 else issue_token env now u)"

definition sign_in_handler :: "auth_env \<Rightarrow> account_io \<Rightarrow> int \<Rightarrow> string \<Rightarrow> string \<Rightarrow> accounts \<Rightarrow> app_error + auth_response" where
  "sign_in_handler env io now email password ac =
     (if \<not> av_email_ok env email \<or> length password < 1 then Inl (EBadRequest ''Validation failed'')
      else sign_in_service env io now email password ac)"

definition reset_claims :: "auth_env \<Rightarrow> int \<Rightarrow> user_row \<Rightarrow> claims" where
  "reset_claims env now u = \<lparr>cl_sub = av_show_uuid env (us_id u), cl_role = ''RESET'', cl_exp = now div 1000 + 3600\<rparr>"

definition reset_link :: "auth_env \<Rightarrow> string \<Rightarrow> string" where
  "reset_link env token = unwrap_or (av_frontend_url env) ''http://localhost:3000'' @ ''/reset-password?token='' @ token"

definition forgot_password_service :: "auth_env \<Rightarrow> account_io \<Rightarrow> int \<Rightarrow> string \<Rightarrow> accounts \<Rightarrow> (app_error + unit) \<times> accounts" where
  "forgot_password_service env io now email ac =
     (if \<not> ai_pool io then (Inl (EInternal ''Failed to get DB connection''), ac)
      else if \<not> ai_select io then (Inl (EInternal ''Database error''), ac)
      else (Inr (), case find_email email ac of
        None \<Rightarrow> ac
      | Some u \<Rightarrow> (case av_encode env (jwt_secret env) (reset_claims env now u) of
          None \<Rightarrow> ac
        | Some t \<Rightarrow> send_mail env io email (ResetMail email (reset_link env t)) ac)))"

definition forgot_password_handler :: "auth_env \<Rightarrow> account_io \<Rightarrow> int \<Rightarrow> string \<Rightarrow> accounts \<Rightarrow> (app_error + unit) \<times> accounts" where
  "forgot_password_handler env io now email ac =
     (if \<not> av_email_ok env email then (Inl (EBadRequest ''Validation failed''), ac) else forgot_password_service env io now email ac)"

definition set_password :: "uuid \<Rightarrow> string \<Rightarrow> user_row \<Rightarrow> user_row" where
  "set_password i h u = (if us_id u = i then u\<lparr>us_password_hash := h\<rparr> else u)"

definition reset_password_service ::
  "auth_env \<Rightarrow> account_io \<Rightarrow> int \<Rightarrow> string \<Rightarrow> string \<Rightarrow> string \<Rightarrow> accounts \<Rightarrow> (app_error + unit) \<times> accounts" where
  "reset_password_service env io now salt token new_password ac = (case av_decode env (jwt_secret env) now token of
     None \<Rightarrow> (Inl (EUnauthorized ''Invalid or expired reset token''), ac)
   | Some c \<Rightarrow>
       if cl_role c \<noteq> ''RESET'' then (Inl (EUnauthorized ''Invalid token type''), ac)
       else (case av_parse_uuid env (cl_sub c) of
         None \<Rightarrow> (Inl (EBadRequest ''Invalid user ID in token''), ac)
       | Some i \<Rightarrow> (case av_hash env salt new_password of
           None \<Rightarrow> (Inl (EInternal ''Failed to hash password''), ac)
         | Some h \<Rightarrow>
             if \<not> ai_pool io then (Inl (EInternal ''Failed to get DB connection''), ac)
             else if \<not> ai_write io then (Inl (EInternal ''Failed to update password''), ac)
             else (Inr (), ac\<lparr>ac_users := map (set_password i h) (ac_users ac)\<rparr>))))"

definition reset_password_handler ::
  "auth_env \<Rightarrow> account_io \<Rightarrow> int \<Rightarrow> string \<Rightarrow> string \<Rightarrow> string \<Rightarrow> accounts \<Rightarrow> (app_error + unit) \<times> accounts" where
  "reset_password_handler env io now salt token new_password ac =
     (if length new_password < 6 then (Inl (EBadRequest ''Validation failed''), ac)
      else reset_password_service env io now salt token new_password ac)"

section \<open>The bodies of the requests\<close>

text \<open>
  What the handlers read of a body: a text that is missing or is no text refuses the request, an optional one may be missing or null.
\<close>

definition opt_field :: "string \<Rightarrow> json \<Rightarrow> string option option" where
  "opt_field k v = (case jget k v of None \<Rightarrow> Some None | Some JNull \<Rightarrow> Some None | Some (JStr s) \<Rightarrow> Some (Some s) | _ \<Rightarrow> None)"

definition signup_payload_of :: "json \<Rightarrow> signup_payload option" where
  "signup_payload_of v = (case (jstr ''email'' v, jstr ''password'' v, jstr ''name'' v, opt_field ''company_name'' v,
       opt_field ''role_type'' v, jstr ''otp'' v) of
     (Some e, Some pw, Some n, Some c, Some r, Some otp) \<Rightarrow>
       Some \<lparr>sp_email = e, sp_password = pw, sp_name = n, sp_company_name = c, sp_role_type = r, sp_otp = otp\<rparr>
   | _ \<Rightarrow> None)"

definition signin_payload_of :: "json \<Rightarrow> (string \<times> string) option" where
  "signin_payload_of v = (case (jstr ''email'' v, jstr ''password'' v) of (Some e, Some pw) \<Rightarrow> Some (e, pw) | _ \<Rightarrow> None)"

section \<open>Requests that overlap\<close>

text \<open>A request to sign up whose code was right, whose address was free, and whose row is stored.\<close>

datatype signup_stage = Coded signup_payload | Free signup_payload | Stored user_row

record account_world =
  aw_accounts :: accounts
  aw_tasks :: "nat \<rightharpoonup> signup_stage"

datatype account_event =
    AcSendOtp account_io int nat string
  | AcSignUp nat account_io int signup_payload
  | AcLook nat account_io
  | AcInsert nat account_io int uuid string
  | AcFinish nat account_io int
  | AcForgot account_io int string
  | AcReset account_io int string string string

definition set_task :: "nat \<Rightarrow> signup_stage option \<Rightarrow> account_world \<Rightarrow> account_world" where
  "set_task k s w = w\<lparr>aw_tasks := (aw_tasks w)(k := s)\<rparr>"

fun account_step :: "auth_env \<Rightarrow> account_event \<Rightarrow> account_world \<Rightarrow> account_world" where
  "account_step env (AcSendOtp io now n email) w = w\<lparr>aw_accounts := snd (send_otp_handler env io now n email (aw_accounts w))\<rparr>"
| "account_step env (AcSignUp k io now p) w =
     (if signup_valid p \<and> signup_code_check io now p (aw_accounts w) = None then set_task k (Some (Coded p)) w else w)"
| "account_step env (AcLook k io) w = (case aw_tasks w k of
     Some (Coded p) \<Rightarrow> set_task k (if signup_email_check io p (aw_accounts w) = None then Some (Free p) else None) w
   | _ \<Rightarrow> w)"
| "account_step env (AcInsert k io now i salt) w = (case aw_tasks w k of
     Some (Free p) \<Rightarrow> (case signup_insert env io now i salt p (aw_accounts w) of
       Inl e \<Rightarrow> set_task k None w
     | Inr (u, ac) \<Rightarrow> set_task k (Some (Stored u)) (w\<lparr>aw_accounts := ac\<rparr>))
   | _ \<Rightarrow> w)"
| "account_step env (AcFinish k io now) w = (case aw_tasks w k of
     Some (Stored u) \<Rightarrow> set_task k None (w\<lparr>aw_accounts := snd (signup_finish env io now u (aw_accounts w))\<rparr>)
   | _ \<Rightarrow> w)"
| "account_step env (AcForgot io now email) w = w\<lparr>aw_accounts := snd (forgot_password_handler env io now email (aw_accounts w))\<rparr>"
| "account_step env (AcReset io now salt token pw) w = w\<lparr>aw_accounts := snd (reset_password_handler env io now salt token pw (aw_accounts w))\<rparr>"

definition accounts_start :: "user_row list \<Rightarrow> account_world" where
  "accounts_start us = \<lparr>aw_accounts = \<lparr>ac_users = us, ac_codes = Map.empty, ac_mails = []\<rparr>, aw_tasks = Map.empty\<rparr>"

text \<open>One request without another in between is the service as it is written.\<close>

lemma stages_are_service:
  assumes "signup_valid p" and "aw_tasks w k = None"
  shows "aw_accounts (fold (account_step env) [AcSignUp k io now p, AcLook k io, AcInsert k io now i salt, AcFinish k io now] w) =
    snd (sign_up_handler env io now i salt p (aw_accounts w))"
  using assms
  by (auto simp: sign_up_handler_def sign_up_service_def set_task_def signup_finish_def split: option.splits sum.splits)

section \<open>No account without the code\<close>

text \<open>
  \<open>coded E p\<close>: among the events are a request for a code for this address and, at most five minutes later, the request to
  sign up with that code.
\<close>

definition coded :: "account_event set \<Rightarrow> signup_payload \<Rightarrow> bool" where
  "coded E p = (\<exists>io t n k io' t'. AcSendOtp io t n (sp_email p) \<in> E \<and> AcSignUp k io' t' p \<in> E \<and> signup_valid p \<and>
     sp_otp p = nat_str n \<and> t' < t + 300 * 1000)"

definition same_account :: "user_row \<Rightarrow> user_row \<Rightarrow> bool" where
  "same_account u v = (us_id u = us_id v \<and> us_email u = us_email v \<and> us_role u = us_role v)"

definition signed_up :: "account_event set \<Rightarrow> user_row \<Rightarrow> bool" where
  "signed_up E u = (us_role u \<noteq> ADMIN \<and> (\<exists>p. coded E p \<and> sp_email p = us_email u))"

definition accounts_inv :: "account_event set \<Rightarrow> user_row list \<Rightarrow> account_world \<Rightarrow> bool" where
  "accounts_inv E us w = (distinct (map us_email (ac_users (aw_accounts w))) \<and>
     (\<forall>u \<in> set (ac_users (aw_accounts w)). (\<exists>v \<in> set us. same_account u v) \<or> signed_up E u) \<and>
     (\<forall>email v x. ac_codes (aw_accounts w) (otp_key email) = Some (v, x) \<longrightarrow>
        (\<exists>io t n. AcSendOtp io t n email \<in> E \<and> v = nat_str n \<and> x = t + 300 * 1000)) \<and>
     (\<forall>k p. aw_tasks w k = Some (Coded p) \<or> aw_tasks w k = Some (Free p) \<longrightarrow> coded E p))"

lemma otp_key_eq [simp]: "otp_key a = otp_key b \<longleftrightarrow> a = b"
  by (simp add: otp_key_def)

lemma send_mail_frame [simp]:
  "ac_users (send_mail env io email m ac) = ac_users ac" "ac_codes (send_mail env io email m ac) = ac_codes ac"
  by (simp_all add: send_mail_def)

lemma role_of_type_not_admin [simp]: "role_of_type ty \<noteq> ADMIN"
  by (simp add: role_of_type_def)

lemma accounts_inv_codes:
  assumes "accounts_inv E us w" and "ac_users ac = ac_users (aw_accounts w)"
    and "\<And>email v x. ac_codes ac (otp_key email) = Some (v, x) \<Longrightarrow> ac_codes (aw_accounts w) (otp_key email) = Some (v, x) \<or>
      (\<exists>io t n. AcSendOtp io t n email \<in> E \<and> v = nat_str n \<and> x = t + 300 * 1000)"
  shows "accounts_inv E us (w\<lparr>aw_accounts := ac\<rparr>)"
  using assms unfolding accounts_inv_def by simp blast

lemma accounts_inv_task:
  assumes "accounts_inv E us w" and "\<And>p. s = Some (Coded p) \<or> s = Some (Free p) \<Longrightarrow> coded E p"
  shows "accounts_inv E us (set_task k s w)"
  using assms unfolding accounts_inv_def set_task_def by simp

lemma code_check_coded:
  assumes "accounts_inv E us w" and "AcSignUp k io now p \<in> E" and "signup_valid p" and "signup_code_check io now p (aw_accounts w) = None"
  shows "coded E p"
proof -
  obtain x where "ac_codes (aw_accounts w) (otp_key (sp_email p)) = Some (sp_otp p, x)" and "now < x"
    using assms(4) by (auto simp: signup_code_check_def redis_get_def split: if_splits option.splits)
  moreover from this(1) obtain io' t n where "AcSendOtp io' t n (sp_email p) \<in> E" "sp_otp p = nat_str n" "x = t + 300 * 1000"
    using assms(1) unfolding accounts_inv_def by metis
  ultimately show ?thesis using assms(2,3) unfolding coded_def by blast
qed

lemma insert_inv:
  assumes "accounts_inv E us w" and "coded E p" and "signup_insert env io now i salt p (aw_accounts w) = Inr (u, ac)"
  shows "accounts_inv E us (w\<lparr>aw_accounts := ac\<rparr>)"
proof -
  have ac: "ac = (aw_accounts w)\<lparr>ac_users := ac_users (aw_accounts w) @ [u]\<rparr>" and u: "us_email u = sp_email p" "us_role u \<noteq> ADMIN"
    and new: "sp_email p \<notin> us_email ` set (ac_users (aw_accounts w))"
    using assms(3) by (auto simp: signup_insert_def Let_def list_ex_iff split: option.splits if_splits)
  from u assms(2) have "signed_up E u" by (auto simp: signed_up_def)
  with assms(1) new u(1) show ?thesis unfolding accounts_inv_def ac by simp
qed

lemma set_password_same [simp]: "same_account (set_password i h u) u"
  by (simp add: same_account_def set_password_def)

lemma reset_effect:
  "snd (reset_password_handler env io now salt token pw ac) = ac \<or>
   (\<exists>i h. snd (reset_password_handler env io now salt token pw ac) = ac\<lparr>ac_users := map (set_password i h) (ac_users ac)\<rparr>)"
  by (auto simp: reset_password_handler_def reset_password_service_def split: option.split)

lemma same_account_signed: "same_account u v \<Longrightarrow> signed_up E v \<Longrightarrow> signed_up E u"
  by (auto simp: same_account_def signed_up_def)

lemma reset_inv:
  assumes "accounts_inv E us w"
  shows "accounts_inv E us (w\<lparr>aw_accounts := snd (reset_password_handler env io now salt token pw (aw_accounts w))\<rparr>)"
proof (cases "snd (reset_password_handler env io now salt token pw (aw_accounts w)) = aw_accounts w")
  case False
  then obtain i h where new: "snd (reset_password_handler env io now salt token pw (aw_accounts w)) =
      (aw_accounts w)\<lparr>ac_users := map (set_password i h) (ac_users (aw_accounts w))\<rparr>"
    using reset_effect [of env io now salt token pw "aw_accounts w"] by blast
  have "us_email \<circ> set_password i h = us_email" by (auto simp: set_password_def)
  moreover have "(\<exists>v \<in> set us. same_account (set_password i h u) v) \<or> signed_up E (set_password i h u)"
    if "(\<exists>v \<in> set us. same_account u v) \<or> signed_up E u" for u
    using that set_password_same [of i h u] same_account_signed by (auto simp: same_account_def)
  ultimately show ?thesis using assms unfolding accounts_inv_def by (simp add: new)
qed (use assms in simp)

lemma accounts_inv_step:
  assumes "e \<in> E" and "accounts_inv E us w"
  shows "accounts_inv E us (account_step env e w)"
proof (cases e)
  case (AcSendOtp io now n email)
  with assms show ?thesis
    by (auto simp: send_otp_handler_def send_otp_service_def redis_setex_def Let_def intro!: accounts_inv_codes split: if_splits; metis)
next
  case (AcSignUp k io now p)
  with assms show ?thesis by (auto intro!: accounts_inv_task dest: code_check_coded)
next
  case (AcLook k io)
  have "coded E p" if "aw_tasks w k = Some (Coded p)" for p using assms(2) that by (simp add: accounts_inv_def)
  with AcLook assms(2) show ?thesis by (auto intro!: accounts_inv_task split: option.splits signup_stage.splits if_splits)
next
  case (AcInsert k io now i salt)
  have "coded E p" if "aw_tasks w k = Some (Free p)" for p using assms(2) that by (simp add: accounts_inv_def)
  with AcInsert assms(2) show ?thesis
    by (auto intro!: accounts_inv_task intro: insert_inv split: option.splits signup_stage.splits sum.splits)
next
  case (AcFinish k io now)
  with assms show ?thesis
    by (auto simp: signup_finish_def redis_del_def intro!: accounts_inv_task accounts_inv_codes split: option.splits signup_stage.splits if_splits)
next
  case (AcForgot io now email)
  with assms show ?thesis
    by (auto simp: forgot_password_handler_def forgot_password_service_def intro!: accounts_inv_codes split: option.splits)
next
  case (AcReset io now salt token pw)
  with assms show ?thesis by (simp add: reset_inv)
qed

lemma accounts_inv_start: "distinct (map us_email us) \<Longrightarrow> accounts_inv E us (accounts_start us)"
  by (auto simp: accounts_inv_def accounts_start_def same_account_def)

interpretation account_run: machine "accounts_start us" "account_step env"
  "\<lambda>w. distinct (map us_email us) \<longrightarrow> accounts_inv E us w" "\<lambda>e. e \<in> E" for us env E
  by unfold_locales (auto intro: accounts_inv_start accounts_inv_step)

text \<open>
  (C20) No account without the code that was mailed: whatever requests the service receives and however the stages of concurrent
  sign-ups interleave, every account it holds is one that it held at the start, or belongs to an address for which a code
  was requested and that signed up with this code within five minutes; such an account is never an administrator's, and
  no address has two accounts.
\<close>

theorem accounts_need_code:
  assumes "distinct (map us_email us)" and "u \<in> set (ac_users (aw_accounts (fold (account_step env) es (accounts_start us))))"
  shows "((\<exists>v \<in> set us. same_account u v) \<or>
      us_role u \<noteq> ADMIN \<and> (\<exists>io t n k io' t' p. AcSendOtp io t n (us_email u) \<in> set es \<and> AcSignUp k io' t' p \<in> set es \<and>
        sp_email p = us_email u \<and> sp_otp p = nat_str n \<and> t' < t + 300 * 1000)) \<and>
    distinct (map us_email (ac_users (aw_accounts (fold (account_step env) es (accounts_start us)))))"
proof -
  have inv: "accounts_inv (set es) us (fold (account_step env) es (accounts_start us))"
    using account_run.run_inv [of es "set es"] assms(1) by blast
  then have "distinct (map us_email (ac_users (aw_accounts (fold (account_step env) es (accounts_start us)))))"
    by (simp add: accounts_inv_def)
  moreover from inv assms(2) have "(\<exists>v \<in> set us. same_account u v) \<or> signed_up (set es) u" by (simp add: accounts_inv_def)
  then have "(\<exists>v \<in> set us. same_account u v) \<or>
      us_role u \<noteq> ADMIN \<and> (\<exists>io t n k io' t' p. AcSendOtp io t n (us_email u) \<in> set es \<and> AcSignUp k io' t' p \<in> set es \<and>
        sp_email p = us_email u \<and> sp_otp p = nat_str n \<and> t' < t + 300 * 1000)"
    unfolding signed_up_def coded_def by metis
  ultimately show ?thesis by (rule conjI [rotated])
qed

definition ex_auth_env :: auth_env where
  "ex_auth_env = \<lparr>av_secret = None, av_email_ok = (\<lambda>s. CHR ''@'' \<in> set s), av_hash = (\<lambda>s q. Some q), av_verify = (\<lambda>q h. Some (q = h)),
     av_encode = (\<lambda>k c. Some (cl_role c)),
     av_decode = (\<lambda>k now t. if now \<le> 3600 * 1000 \<and> t = ''RESET'' then Some \<lparr>cl_sub = [], cl_role = ''RESET'', cl_exp = 3600\<rparr> else None),
     av_show_uuid = (\<lambda>u. []), av_parse_uuid = (\<lambda>s. if s = [] then Some 7 else None), av_smtp_user = ''u'', av_smtp_pass = ''p'',
     av_mailbox = (\<lambda>s. True), av_frontend_url = None\<rparr>"

definition ex_account_io :: account_io where
  "ex_account_io = \<lparr>ai_redis = True, ai_query = True, ai_del = True, ai_pool = True, ai_select = True, ai_write = True,
     ai_insert_error = [], ai_mail = True\<rparr>"

definition ex_signup_payload :: signup_payload where
  "ex_signup_payload = \<lparr>sp_email = ''a@b.c'', sp_password = ''secret'', sp_name = ''Al'', sp_company_name = None,
     sp_role_type = Some ''admin'', sp_otp = ''123456''\<rparr>"

definition ex_account_events :: "account_event list" where
  "ex_account_events = [AcSendOtp ex_account_io 0 123456 ''a@b.c'', AcSignUp 1 ex_account_io 1000 ex_signup_payload,
     AcSignUp 2 ex_account_io 2000 ex_signup_payload, AcLook 1 ex_account_io, AcLook 2 ex_account_io,
     AcInsert 2 ex_account_io 3000 7 [], AcInsert 1 ex_account_io 3000 8 [], AcFinish 2 ex_account_io 4000]"

definition ex_user :: user_row where
  "ex_user = \<lparr>us_id = 7, us_email = ''a@b.c'', us_password_hash = ''secret'', us_name = ''Al'', us_company_name = None,
     us_role = CARRIER, us_created_at = 3000\<rparr>"

lemmas account_defs = send_otp_handler_def send_otp_service_def send_mail_def redis_setex_def redis_get_def redis_del_def
  signup_valid_def validate_email_helper_def signup_code_check_def signup_email_check_def signup_insert_def signup_finish_def
  issue_token_def find_email_def set_task_def jwt_secret_def Let_def

lemma ex_code: "nat_str 123456 = ''123456''"
  by (simp add: nat_str.simps, code_simp)

lemma ex_role: "role_of_type (Some ''admin'') = CARRIER"
  by code_simp

lemma ex_account_run: "ac_users (aw_accounts (fold (account_step ex_auth_env) ex_account_events (accounts_start []))) = [ex_user]"
  by (simp add: ex_account_events_def ex_account_io_def ex_signup_payload_def ex_auth_env_def ex_user_def accounts_start_def
      account_defs ex_code ex_role del: One_nat_def)

theorem accounts_need_code_witness:
  "\<exists>io t n k io' t' p. AcSendOtp io t n ''a@b.c'' \<in> set ex_account_events \<and> AcSignUp k io' t' p \<in> set ex_account_events \<and>
     sp_email p = ''a@b.c'' \<and> sp_otp p = nat_str n \<and> t' < t + 300 * 1000"
  using accounts_need_code [of "[]" ex_user ex_auth_env ex_account_events] ex_account_run
  by (simp add: ex_user_def)

section \<open>Signing in afterwards\<close>

text \<open>The row of a sign-up that was accepted.\<close>

lemma sign_up_row:
  assumes "sign_up_handler env io now i salt p ac = (Inr r, ac')"
  obtains u h where "av_hash env salt (sp_password p) = Some h" and "us_email u = sp_email p" and "us_password_hash u = h"
    and "issue_token env now u = Inr r" and "ac_users ac' = ac_users ac @ [u]" and "find_email (sp_email p) ac = None"
    and "signup_valid p" and "signup_code_check io now p ac = None"
    and "signup_insert env io now i salt p ac = Inr (u, ac\<lparr>ac_users := ac_users ac @ [u]\<rparr>)"
    and "ac' = (if ai_del io then redis_del (otp_key (sp_email p)) (ac\<lparr>ac_users := ac_users ac @ [u]\<rparr>) else ac\<lparr>ac_users := ac_users ac @ [u]\<rparr>)"
proof -
  let ?u = "\<lparr>us_id = i, us_email = sp_email p, us_password_hash = the (av_hash env salt (sp_password p)), us_name = sp_name p,
      us_company_name = sp_company_name p, us_role = role_of_type (sp_role_type p), us_created_at = now\<rparr>"
  show ?thesis
    by (rule that [of "the (av_hash env salt (sp_password p))" ?u]) (use assms in \<open>auto simp: sign_up_handler_def sign_up_service_def signup_finish_def
      signup_insert_def signup_email_check_def redis_del_def Let_def split: if_splits option.splits sum.splits\<close>)
qed

lemma sign_up_keeps_inv:
  assumes "accounts_inv UNIV us w" and "sign_up_handler env io now i salt p (aw_accounts w) = (Inr r, ac')"
  shows "accounts_inv UNIV us (w\<lparr>aw_accounts := ac'\<rparr>)"
proof -
  from assms(2) obtain u where p: "signup_valid p" "signup_code_check io now p (aw_accounts w) = None"
    and ins: "signup_insert env io now i salt p (aw_accounts w) = Inr (u, (aw_accounts w)\<lparr>ac_users := ac_users (aw_accounts w) @ [u]\<rparr>)"
    and ac': "ac' = (if ai_del io then redis_del (otp_key (sp_email p)) ((aw_accounts w)\<lparr>ac_users := ac_users (aw_accounts w) @ [u]\<rparr>)
      else (aw_accounts w)\<lparr>ac_users := ac_users (aw_accounts w) @ [u]\<rparr>)"
    by (rule sign_up_row)
  have "accounts_inv UNIV us (w\<lparr>aw_accounts := (aw_accounts w)\<lparr>ac_users := ac_users (aw_accounts w) @ [u]\<rparr>\<rparr>)"
    using insert_inv [OF assms(1) code_check_coded [OF assms(1) UNIV_I p] ins] .
  then have "accounts_inv UNIV us ((w\<lparr>aw_accounts := (aw_accounts w)\<lparr>ac_users := ac_users (aw_accounts w) @ [u]\<rparr>\<rparr>)\<lparr>aw_accounts := ac'\<rparr>)"
    by (rule accounts_inv_codes) (auto simp: ac' redis_del_def split: if_splits)
  then show ?thesis by simp
qed

fun is_reset :: "account_event \<Rightarrow> bool" where
  "is_reset (AcReset _ _ _ _ _) = True"
| "is_reset _ = False"

lemma rows_stay:
  assumes "list_all (\<lambda>e. \<not> is_reset e) es"
  shows "set (ac_users (aw_accounts w)) \<subseteq> set (ac_users (aw_accounts (fold (account_step env) es w)))"
  using assms
proof (induction es arbitrary: w)
  case (Cons e es)
  have "set (ac_users (aw_accounts w)) \<subseteq> set (ac_users (aw_accounts (account_step env e w)))"
    using Cons.prems
    by (cases e) (auto simp: send_otp_handler_def send_otp_service_def redis_setex_def forgot_password_handler_def forgot_password_service_def
      signup_finish_def redis_del_def signup_insert_def set_task_def Let_def split: option.splits signup_stage.splits sum.splits if_splits)
  also have "\<dots> \<subseteq> set (ac_users (aw_accounts (fold (account_step env) es (account_step env e w))))"
    using Cons by simp
  finally show ?case by simp
qed simp

lemma find_unique:
  assumes "distinct (map us_email (ac_users ac))" and "u \<in> set (ac_users ac)"
  shows "find_email (us_email u) ac = Some u"
proof -
  have "find (\<lambda>v. us_email v = us_email u) us = Some u" if "distinct (map us_email us)" "u \<in> set us" for us
    using that by (induction us) force+
  with assms show ?thesis by (simp add: find_email_def)
qed

text \<open>
  (C21) An account that was opened can be used: whatever happened before, after a sign-up that was accepted and any requests
  of others, except a change of a password, the same address and password sign in, and the answer names the same user, role
  and name. What the hash library promises is that a password fits its own hash, and the token library that it makes a token.
\<close>

theorem signup_then_signin:
  assumes "distinct (map us_email us)"
    and "w = fold (account_step env) es (accounts_start us)"
    and "sign_up_handler env io now i salt p (aw_accounts w) = (Inr r, ac')"
    and "list_all (\<lambda>e. \<not> is_reset e) es'"
    and "\<And>s q h. av_hash env s q = Some h \<Longrightarrow> av_verify env q h = Some True"
    and "\<And>c. av_encode env (jwt_secret env) c \<noteq> None"
    and "av_email_ok env (sp_email p)" and "ai_pool io'" and "ai_select io'"
  shows "\<exists>t. sign_in_handler env io' now' (sp_email p) (sp_password p) (aw_accounts (fold (account_step env) es' (w\<lparr>aw_accounts := ac'\<rparr>))) =
      Inr (r\<lparr>ar_token := t\<rparr>)"
proof -
  let ?w = "fold (account_step env) es' (w\<lparr>aw_accounts := ac'\<rparr>)"
  from assms(3) obtain u h where u: "av_hash env salt (sp_password p) = Some h" "us_email u = sp_email p" "us_password_hash u = h"
      "issue_token env now u = Inr r" "ac_users ac' = ac_users (aw_accounts w) @ [u]" "signup_valid p"
    by (rule sign_up_row)
  have "accounts_inv UNIV us w" using account_run.run_inv [of es UNIV us env] assms(1,2) by simp
  then have "accounts_inv UNIV us ?w"
    using account_run.fold_inv [of es' UNIV us "w\<lparr>aw_accounts := ac'\<rparr>" env] sign_up_keeps_inv [OF _ assms(3)] assms(1) by simp
  moreover have "u \<in> set (ac_users (aw_accounts ?w))"
    using rows_stay [OF assms(4), of "w\<lparr>aw_accounts := ac'\<rparr>" env] u(5) by auto
  ultimately have found: "find_email (sp_email p) (aw_accounts ?w) = Some u"
    using find_unique [of "aw_accounts ?w" u] u(2) by (simp add: accounts_inv_def)
  have "av_verify env (sp_password p) (us_password_hash u) = Some True" using assms(5) u(1,3) by simp
  moreover have "\<not> length (sp_password p) < 1" using u(6) by (auto simp: signup_valid_def)
  ultimately have "sign_in_handler env io' now' (sp_email p) (sp_password p) (aw_accounts ?w) = issue_token env now' u"
    using assms(7-9) by (simp add: sign_in_handler_def sign_in_service_def found unwrap_or_def)
  moreover have "\<exists>t. issue_token env now' u = Inr (r\<lparr>ar_token := t\<rparr>)"
    using u(4) assms(6) by (auto simp: issue_token_def Let_def split: option.splits)
  ultimately show ?thesis by simp
qed

lemma ex_sign_up:
  "sign_up_handler ex_auth_env ex_account_io 1000 7 [] ex_signup_payload
     (aw_accounts (fold (account_step ex_auth_env) [AcSendOtp ex_account_io 0 123456 ''a@b.c''] (accounts_start []))) =
   (Inr \<lparr>ar_token = ''CARRIER'', ar_role = ''CARRIER'', ar_user_id = 7, ar_name = ''Al''\<rparr>,
    \<lparr>ac_users = [ex_user\<lparr>us_created_at := 1000\<rparr>], ac_codes = Map.empty, ac_mails = [OtpMail ''a@b.c'' ''123456'']\<rparr>)"
  by (simp add: sign_up_handler_def sign_up_service_def ex_account_io_def ex_signup_payload_def ex_auth_env_def ex_user_def accounts_start_def
      account_defs ex_code ex_role role_str_def del: One_nat_def)

theorem signup_then_signin_witness:
  "\<exists>t. sign_in_handler ex_auth_env ex_account_io 9000 ''a@b.c'' ''secret''
     \<lparr>ac_users = [ex_user\<lparr>us_created_at := 1000\<rparr>], ac_codes = Map.empty, ac_mails = [OtpMail ''a@b.c'' ''123456'']\<rparr> =
   Inr \<lparr>ar_token = t, ar_role = ''CARRIER'', ar_user_id = 7, ar_name = ''Al''\<rparr>"
  using signup_then_signin [OF _ refl ex_sign_up, of "[]" ex_account_io 9000]
  by (simp add: ex_auth_env_def ex_signup_payload_def ex_account_io_def)

section \<open>Addresses in capitals\<close>

lemma page_payload:
  "Option.bind (rq_body (signup_request url d otp)) signup_payload_of =
     Some \<lparr>sp_email = sg_email d, sp_password = sg_password d, sp_name = sg_name d, sp_company_name = Some (sg_company_name d),
       sp_role_type = Some (sg_role_type d), sp_otp = otp\<rparr>"
  "Option.bind (rq_body (signin_request url e pw)) signin_payload_of = Some (e, pw)"
  by (simp_all add: signup_request_def auth_request_def signin_request_def signup_payload_of_def signin_payload_of_def opt_field_def
      jstr_def jget_def as_str_def)

lemma unknown_email:
  assumes "find_email x ac = None"
  shows "\<exists>e. sign_in_handler env io now x pw ac = Inl e" and "snd (forgot_password_handler env io now x ac) = ac"
  using assms by (auto simp: sign_in_handler_def sign_in_service_def forgot_password_handler_def forgot_password_service_def)

text \<open>
  (C38) Signing up lowers the address, signing in does not: who types an address with a capital letter into the
  page for new accounts, and gets the account, cannot sign in with what was typed, whatever the password, and a request
  for a new password, which the service accepts, mails nothing.
\<close>

theorem capital_address_locked_out:
  assumes "values ''email'' = Some x" and "to_lower (trim x) \<noteq> x" and "find_email x ac = None"
    and "Option.bind (rq_body (signup_request url (signup_fields values) otp)) signup_payload_of = Some p"
    and "sign_up_handler env io now i salt p ac = (Inr r, ac')"
    and "Option.bind (rq_body (signin_request url x pw)) signin_payload_of = Some (email, password)"
  shows "(\<exists>e. sign_in_handler env io' now' email password ac' = Inl e) \<and> snd (forgot_password_handler env io' now' x ac') = ac'"
proof -
  from assms(5) obtain u where u: "us_email u = sp_email p" "ac_users ac' = ac_users ac @ [u]" by (rule sign_up_row)
  have "sp_email p = to_lower (trim x)"
    using assms(1,4) by (auto simp: page_payload signup_fields_def opt_str_or_def str_or_def)
  with u assms(2,3) have "find_email x ac' = None" by (auto simp: find_email_def find_None_iff)
  moreover have "email = x" using assms(6) by (simp add: page_payload)
  ultimately show ?thesis using unknown_email by simp
qed

definition ex_typed :: "string \<Rightarrow> string option" where
  "ex_typed = [''email'' \<mapsto> ''A@b.c'', ''password'' \<mapsto> ''secret'', ''name'' \<mapsto> ''Al'', ''role_type'' \<mapsto> ''CARRIER'']"

definition ex_typed_payload :: signup_payload where
  "ex_typed_payload = \<lparr>sp_email = ''a@b.c'', sp_password = ''secret'', sp_name = ''Al'', sp_company_name = Some [],
     sp_role_type = Some ''CARRIER'', sp_otp = ''123456''\<rparr>"

definition ex_coded_accounts :: accounts where
  "ex_coded_accounts = \<lparr>ac_users = [], ac_codes = [otp_key ''a@b.c'' \<mapsto> (''123456'', 300000)], ac_mails = []\<rparr>"

lemma ex_typed_body:
  "Option.bind (rq_body (signup_request None (signup_fields ex_typed) ''123456'')) signup_payload_of = Some ex_typed_payload"
  by code_simp

lemma ex_role_carrier: "role_of_type (Some ''CARRIER'') = CARRIER"
  by code_simp

lemma ex_typed_sign_up:
  "\<exists>r ac'. sign_up_handler ex_auth_env ex_account_io 0 7 [] ex_typed_payload ex_coded_accounts = (Inr r, ac')"
  by (simp add: sign_up_handler_def sign_up_service_def ex_account_io_def ex_typed_payload_def ex_auth_env_def ex_coded_accounts_def
      account_defs ex_role_carrier role_str_def del: One_nat_def)

theorem capital_address_locked_out_witness:
  "\<exists>r ac' e. sign_up_handler ex_auth_env ex_account_io 0 7 [] ex_typed_payload ex_coded_accounts = (Inr r, ac') \<and>
     sign_in_handler ex_auth_env ex_account_io 1000 ''A@b.c'' ''secret'' ac' = Inl e"
proof -
  obtain r ac' where up: "sign_up_handler ex_auth_env ex_account_io 0 7 [] ex_typed_payload ex_coded_accounts = (Inr r, ac')"
    using ex_typed_sign_up by blast
  have "ex_typed ''email'' = Some ''A@b.c''" "to_lower (trim ''A@b.c'') \<noteq> ''A@b.c''" by code_simp+
  moreover have "find_email ''A@b.c'' ex_coded_accounts = None" by (simp add: find_email_def ex_coded_accounts_def)
  ultimately show ?thesis
    using capital_address_locked_out [OF _ _ _ ex_typed_body up page_payload(2) [of None "''A@b.c''" "''secret''"], of ex_account_io 1000] up by blast
qed

section \<open>Links for a new password\<close>

text \<open>Passwords that are set with one token, each at its time.\<close>

definition reset_all :: "auth_env \<Rightarrow> account_io \<Rightarrow> string \<Rightarrow> (int \<times> string \<times> string) list \<Rightarrow> accounts \<Rightarrow> accounts" where
  "reset_all env io token = fold (\<lambda>(now, salt, pw) ac. snd (reset_password_handler env io now salt token pw ac))"

lemma reset_accepted:
  assumes "av_decode env (jwt_secret env) now token = Some c" and "cl_role c = ''RESET''" and "av_parse_uuid env (cl_sub c) = Some i"
    and "av_hash env salt pw = Some h" and "6 \<le> length pw" and "ai_pool io" and "ai_write io"
  shows "reset_password_handler env io now salt token pw ac = (Inr (), ac\<lparr>ac_users := map (set_password i h) (ac_users ac)\<rparr>)"
  using assms by (simp add: reset_password_handler_def reset_password_service_def)

lemma set_password_twice [simp]: "set_password i h \<circ> set_password i g = set_password i h"
  by (auto simp: set_password_def)

lemma reset_all_last:
  assumes "list_all (\<lambda>(now, salt, pw). av_decode env (jwt_secret env) now token = Some c \<and> av_hash env salt pw \<noteq> None \<and> 6 \<le> length pw) rs"
    and "cl_role c = ''RESET''" and "av_parse_uuid env (cl_sub c) = Some i" and "ai_pool io" and "ai_write io"
    and "rs \<noteq> []" and "last rs = (now, salt, pw)"
  shows "ac_users (reset_all env io token rs ac) = map (set_password i (the (av_hash env salt pw))) (ac_users ac)"
  using assms(1,6,7)
proof (induction rs arbitrary: ac)
  case (Cons e rs)
  obtain n s q where e: "e = (n, s, q)" by (cases e) auto
  with Cons.prems obtain h where h: "av_hash env s q = Some h" by auto
  then have step: "snd (reset_password_handler env io n s token q ac) = ac\<lparr>ac_users := map (set_password i h) (ac_users ac)\<rparr>"
    using Cons.prems e assms by (simp add: reset_accepted)
  show ?case
  proof (cases "rs = []")
    case True
    then show ?thesis using Cons.prems e h step by (simp add: reset_all_def)
  next
    case False
    then have "ac_users (reset_all env io token rs (ac\<lparr>ac_users := map (set_password i h) (ac_users ac)\<rparr>)) =
        map (set_password i (the (av_hash env salt pw))) (map (set_password i h) (ac_users ac))"
      using Cons by simp
    then show ?thesis using e step by (simp add: reset_all_def)
  qed
qed simp

text \<open>
  A link for a new password works more than once: the service keeps no record of the links it has mailed, so as long as the token
  library accepts the token, every request that carries it is accepted, and the last of them decides the password,
  also after the owner of the account has set one.
\<close>

lemma reset_link_again:
  assumes "find_email email ac = Some u" and "av_encode env (jwt_secret env) (reset_claims env now u) = Some token"
    and "av_parse_uuid env (av_show_uuid env (us_id u)) = Some (us_id u)"
    and "list_all (\<lambda>(t, salt, pw). av_decode env (jwt_secret env) t token = Some (reset_claims env now u) \<and>
      av_hash env salt pw \<noteq> None \<and> 6 \<le> length pw) rs"
    and "rs \<noteq> []" and "last rs = (t, salt, pw)" and "ai_pool io" and "ai_write io"
  shows "ac_users (reset_all env io token rs (snd (forgot_password_handler env io now email ac))) =
    map (set_password (us_id u) (the (av_hash env salt pw))) (ac_users ac)"
proof -
  have "ac_users (snd (forgot_password_handler env io now email ac)) = ac_users ac"
    by (simp add: forgot_password_handler_def forgot_password_service_def split: option.split)
  moreover have "cl_role (reset_claims env now u) = ''RESET''" "av_parse_uuid env (cl_sub (reset_claims env now u)) = Some (us_id u)"
    using assms(3) by (simp_all add: reset_claims_def)
  ultimately show ?thesis using reset_all_last [OF assms(4) _ _ assms(7,8,5,6)] by simp
qed

end
