(* ===== verification/Access_Control.thy ===== *)
theory Access_Control
  imports Account_Service Gateway
begin

text \<open>
  Who may call what: the check of tokens and the signed headers of the gateway (\<open>src/apps/gateway-keeper/src/auth.rs\<close>,
  \<open>internal_identity.rs\<close>, \<open>error.rs\<close>, \<open>proxy.rs\<close>) in front of the middleware and the routes of the HTTP service
  (\<open>src/apps/http-server/src/middleware.rs\<close>, \<open>routes/\<close>). Decoding a token and signing belong to libraries and are parameters.
  Headers are a list of names, in lower case, and values.
\<close>

section \<open>Headers\<close>

type_synonym headers = "(string \<times> string) list"

definition hdr_get :: "string \<Rightarrow> headers \<Rightarrow> string option" where
  "hdr_get k hs = map_of hs k"

definition hdr_remove :: "string \<Rightarrow> headers \<Rightarrow> headers" where
  "hdr_remove k hs = filter (\<lambda>h. fst h \<noteq> k) hs"

definition hdr_insert :: "string \<Rightarrow> string \<Rightarrow> headers \<Rightarrow> headers" where
  "hdr_insert k v hs = hdr_remove k hs @ [(k, v)]"

text \<open>\<open>to_str\<close> of a header value: visible ASCII, blanks and tabs.\<close>

definition hdr_text :: "string \<Rightarrow> string option" where
  "hdr_text v = (if list_all (\<lambda>c. let n = of_char c :: nat in n = 9 \<or> 32 \<le> n \<and> n < 127) v then Some v else None)"

definition strip_prefix :: "string \<Rightarrow> string \<Rightarrow> string option" where
  "strip_prefix p s = (if starts_with s p then Some (drop (length p) s) else None)"

section \<open>The gateway\<close>

record gw_error =
  ge_status :: int
  ge_code :: string
  ge_message :: string
  ge_retry_after :: "nat option"

definition gw_new :: "int \<Rightarrow> string \<Rightarrow> string \<Rightarrow> gw_error" where
  "gw_new st code m = \<lparr>ge_status = st, ge_code = code, ge_message = m, ge_retry_after = None\<rparr>"

definition gw_unauthorized :: "string \<Rightarrow> gw_error" where
  "gw_unauthorized m = gw_new 401 ''UNAUTHORIZED'' m"

definition gw_unavailable :: "string \<Rightarrow> gw_error" where
  "gw_unavailable service = (gw_new 503 ''CIRCUIT_OPEN'' (service @ '' is temporarily unavailable''))\<lparr>ge_retry_after := Some 5\<rparr>"

definition gw_rate_limited :: "nat \<Rightarrow> gw_error" where
  "gw_rate_limited window = (gw_new 429 ''RATE_LIMITED'' ''Too many requests'')\<lparr>ge_retry_after := Some (max window 1)\<rparr>"

definition gw_body :: "gw_error \<Rightarrow> json" where
  "gw_body e = JObj [(''code'', JStr (ge_code e)), (''message'', JStr (ge_message e))]"

record auth_config =
  gc_secret :: string
  gc_issuer :: "string option"
  gc_audience :: "string option"

text \<open>\<open>from_env\<close>: the secret must be there and have at least 32 bytes; an empty issuer or audience is none.\<close>

definition auth_config_from_env :: "string option \<Rightarrow> string option \<Rightarrow> string option \<Rightarrow> gw_error + auth_config" where
  "auth_config_from_env secret issuer audience = (case secret of
     None \<Rightarrow> Inl (gw_new 500 ''CONFIG_ERROR'' ''JWT_SECRET is required'')
   | Some s \<Rightarrow> if length s < 32 then Inl (gw_new 500 ''CONFIG_ERROR'' ''JWT_SECRET must contain at least 32 bytes'')
       else Inr \<lparr>gc_secret = s, gc_issuer = keep_if (\<lambda>v. v \<noteq> []) issuer, gc_audience = keep_if (\<lambda>v. v \<noteq> []) audience\<rparr>)"

record identity =
  id_user_id :: uuid
  id_role :: string

definition gw_bearer :: "headers \<Rightarrow> string option" where
  "gw_bearer hs = Option.bind (hdr_get ''authorization'' hs) (\<lambda>v. Option.bind (hdr_text v) (strip_prefix ''Bearer ''))"

fun split_semis :: "string \<Rightarrow> string list" where
  "split_semis [] = [[]]"
| "split_semis (c # s) = (if c = CHR '';'' then [] # split_semis s
     else (case split_semis s of [] \<Rightarrow> [[c]] | p # ps \<Rightarrow> (c # p) # ps))"

definition cookie_value :: "string \<Rightarrow> string option" where
  "cookie_value part = (let s = trim part in
     case dropWhile (\<lambda>c. c \<noteq> CHR ''='') s of
       [] \<Rightarrow> None
     | _ # v \<Rightarrow> if takeWhile (\<lambda>c. c \<noteq> CHR ''='') s \<in> {''auction_token'', ''access_token'', ''token''} then Some v else None)"

fun find_map :: "('a \<Rightarrow> 'b option) \<Rightarrow> 'a list \<Rightarrow> 'b option" where
  "find_map f [] = None"
| "find_map f (x # xs) = (case f x of Some y \<Rightarrow> Some y | None \<Rightarrow> find_map f xs)"

definition cookie_token :: "headers \<Rightarrow> string option" where
  "cookie_token hs = Option.bind (hdr_get ''cookie'' hs) (\<lambda>v. Option.bind (hdr_text v) (\<lambda>s. find_map cookie_value (split_semis s)))"

text \<open>The token library as the gateway calls it: secret, issuer, audience, time and token.\<close>

type_synonym gw_decoder = "string \<Rightarrow> string option \<Rightarrow> string option \<Rightarrow> int \<Rightarrow> string \<Rightarrow> claims option"

definition authenticate :: "gw_decoder \<Rightarrow> (string \<Rightarrow> uuid option) \<Rightarrow> auth_config \<Rightarrow> int \<Rightarrow> headers \<Rightarrow> gw_error + identity" where
  "authenticate decode parse_uuid gc now hs = (case or_else (gw_bearer hs) (cookie_token hs) of
     None \<Rightarrow> Inl (gw_unauthorized ''A bearer token or secure token cookie is required'')
   | Some token \<Rightarrow> (case decode (gc_secret gc) (gc_issuer gc) (gc_audience gc) now token of
       None \<Rightarrow> Inl (gw_unauthorized ''The access token is invalid or expired'')
     | Some c \<Rightarrow> (case parse_uuid (cl_sub c) of
         None \<Rightarrow> Inl (gw_unauthorized ''The access token subject is invalid'')
       | Some u \<Rightarrow>
           let role = ascii_upper (cl_role c) in
           if role \<notin> {''CUSTOMER'', ''CARRIER'', ''ADMIN''} then Inl (gw_unauthorized ''The access token role is invalid'')
           else Inr \<lparr>id_user_id = u, id_role = role\<rparr>)))"

definition INTERNAL_HEADERS :: "string list" where
  "INTERNAL_HEADERS = [''x-auction-user-id'', ''x-auction-user-role'', ''x-auction-auth-timestamp'', ''x-auction-auth-signature'', ''x-request-id'']"

definition strip_untrusted :: "headers \<Rightarrow> headers" where
  "strip_untrusted hs = fold hdr_remove INTERNAL_HEADERS hs"

text \<open>
  \<open>inject\<close>: \<open>sign\<close> is the signature of a text with the internal key; what it signs is printed from the identity, the time in seconds,
  a new id, the method and the path. These values have no character that a header refuses.
\<close>

definition inject ::
  "(string \<Rightarrow> string) \<Rightarrow> (uuid \<Rightarrow> string) \<Rightarrow> nat \<Rightarrow> uuid \<Rightarrow> identity \<Rightarrow> string \<Rightarrow> string \<Rightarrow> headers \<Rightarrow> headers" where
  "inject sign show_uuid secs fresh ident meth path hs =
     (let payload = show_uuid (id_user_id ident) @ ''|'' @ id_role ident @ ''|'' @ nat_str secs @ ''|'' @ show_uuid fresh @ ''|'' @ meth @ ''|'' @ path
      in hdr_insert ''x-request-id'' (show_uuid fresh)
          (hdr_insert ''x-auction-auth-signature'' (sign payload)
            (hdr_insert ''x-auction-auth-timestamp'' (nat_str secs)
              (hdr_insert ''x-auction-user-role'' (id_role ident)
                (hdr_insert ''x-auction-user-id'' (show_uuid (id_user_id ident)) hs)))))"

text \<open>What \<open>proxy_http\<close> copies of the headers.\<close>

definition forwarded :: "headers \<Rightarrow> headers" where
  "forwarded hs = filter (\<lambda>h. fst h \<notin> {''host'', ''connection'', ''transfer-encoding''}) hs"

record gw_env =
  gv_decode :: gw_decoder
  gv_sign :: "string \<Rightarrow> string"
  gv_show_uuid :: "uuid \<Rightarrow> string"
  gv_parse_uuid :: "string \<Rightarrow> uuid option"
  gv_config :: auth_config

text \<open>What happens to stand in the way: the two rate limits, the breaker, the clock and the id of the request.\<close>

record gw_io =
  gi_ip :: bool
  gi_user :: bool
  gi_breaker :: bool
  gi_secs :: nat
  gi_fresh :: uuid

definition is_public_auth :: "string \<Rightarrow> bool" where
  "is_public_auth path = (starts_with path ''/api/auth/'' \<and> path \<noteq> ''/api/auth/me'')"

definition http_proxy :: "gw_env \<Rightarrow> gw_io \<Rightarrow> int \<Rightarrow> string \<Rightarrow> string \<Rightarrow> headers \<Rightarrow> gw_error + headers" where
  "http_proxy gv io now meth path hs =
     (if \<not> gi_ip io then Inl (gw_rate_limited 60)
      else let hs = strip_untrusted hs;
               checked = (if is_public_auth path then Inr hs
                 else case authenticate (gv_decode gv) (gv_parse_uuid gv) (gv_config gv) now hs of
                   Inl e \<Rightarrow> Inl e
                 | Inr ident \<Rightarrow> if \<not> gi_user io then Inl (gw_rate_limited 60)
                     else Inr (inject (gv_sign gv) (gv_show_uuid gv) (gi_secs io) (gi_fresh io) ident meth path hs))
           in case checked of
                Inl e \<Rightarrow> Inl e
              | Inr hs \<Rightarrow> if \<not> gi_breaker io then Inl (gw_unavailable ''http-server'') else Inr (forwarded hs))"

text \<open>The search needs no token: it is limited by address and forwarded without an identity.\<close>

definition search_proxy :: "gw_io \<Rightarrow> headers \<Rightarrow> gw_error + headers" where
  "search_proxy io hs = (if \<not> gi_ip io then Inl (gw_rate_limited 60)
     else if \<not> gi_breaker io then Inl (gw_unavailable ''search-server'') else Inr (forwarded (strip_untrusted hs)))"

section \<open>The HTTP service\<close>

definition auth_middleware :: "auth_env \<Rightarrow> int \<Rightarrow> headers \<Rightarrow> app_error + claims" where
  "auth_middleware env now hs = (case hdr_get ''authorization'' hs of
     None \<Rightarrow> Inl (EUnauthorized ''Missing authorization header'')
   | Some v \<Rightarrow> (case hdr_text v of
       None \<Rightarrow> Inl (EUnauthorized ''Invalid authorization header'')
     | Some s \<Rightarrow>
         if \<not> starts_with s ''Bearer '' then Inl (EUnauthorized ''Invalid authorization format. Use Bearer <token>'')
         else (case av_decode env (jwt_secret env) now (drop 7 s) of
           None \<Rightarrow> Inl (EUnauthorized ''validation failed relogin'')
         | Some c \<Rightarrow> Inr c)))"

definition require_customer :: "claims \<Rightarrow> app_error option" where
  "require_customer c = (if cl_role c \<noteq> ''CUSTOMER'' \<and> cl_role c \<noteq> ''ADMIN'' then Some (EUnauthorized ''Access denied: Customers only'') else None)"

definition require_carrier :: "claims \<Rightarrow> app_error option" where
  "require_carrier c = (if cl_role c \<noteq> ''CARRIER'' \<and> cl_role c \<noteq> ''ADMIN'' then Some (EUnauthorized ''Access denied: Carriers only'') else None)"

definition require_admin :: "claims \<Rightarrow> app_error option" where
  "require_admin c = (if cl_role c \<noteq> ''ADMIN'' then Some (EForbidden ''Access denied: Administrators only'') else None)"

datatype route_guard = Public | AnySession | Customers | Admins

datatype seg = Lit string | Param

fun seg_match :: "seg list \<Rightarrow> string list \<Rightarrow> bool" where
  "seg_match [] [] = True"
| "seg_match (Lit a # ps) (s # ss) = (a = s \<and> seg_match ps ss)"
| "seg_match (Param # ps) (s # ss) = (s \<noteq> [] \<and> seg_match ps ss)"
| "seg_match _ _ = False"

fun path_segs :: "string \<Rightarrow> string list" where
  "path_segs [] = [[]]"
| "path_segs (c # s) = (if c = CHR ''/'' then [] # path_segs s
     else (case path_segs s of [] \<Rightarrow> [[c]] | p # ps \<Rightarrow> (c # p) # ps))"

text \<open>The routes with their methods; a fixed segment goes before a parameter, so it comes first.\<close>

definition auth_routes :: "(seg list \<times> (string \<times> route_guard) list) list" where
  "auth_routes = [([Lit ''send-otp''], [(''POST'', Public)]), ([Lit ''signup''], [(''POST'', Public)]), ([Lit ''signin''], [(''POST'', Public)]),
     ([Lit ''forgot-password''], [(''POST'', Public)]), ([Lit ''reset-password''], [(''POST'', Public)]), ([Lit ''me''], [(''GET'', AnySession)])]"

definition auction_routes :: "(seg list \<times> (string \<times> route_guard) list) list" where
  "auction_routes = [([], [(''GET'', AnySession)]), ([Lit ''history''], [(''GET'', AnySession)]), ([Lit ''create''], [(''POST'', Admins)]),
     ([Param, Lit ''join''], [(''POST'', AnySession)]), ([Param, Lit ''leave''], [(''POST'', AnySession)]), ([Param, Lit ''bids''], [(''GET'', AnySession)]),
     ([Param, Lit ''audit''], [(''GET'', AnySession)]), ([Param, Lit ''discussion''], [(''GET'', AnySession), (''POST'', AnySession)])]"

definition listing_routes :: "(seg list \<times> (string \<times> route_guard) list) list" where
  "listing_routes = [([], [(''POST'', Customers)]), ([Lit ''mine''], [(''GET'', Customers)]), ([Lit ''admin''], [(''GET'', Admins)]),
     ([Param], [(''PUT'', Customers)]), ([Param, Lit ''resubmit''], [(''POST'', Customers)]), ([Param, Lit ''history''], [(''GET'', AnySession)]),
     ([Param, Lit ''review''], [(''POST'', Admins)]), ([Param, Lit ''schedule''], [(''POST'', Admins)])]"

definition upload_routes :: "(seg list \<times> (string \<times> route_guard) list) list" where
  "upload_routes = [([], [(''POST'', AnySession)])]"

definition nested :: "string \<Rightarrow> (seg list \<times> 'a) list \<Rightarrow> (seg list \<times> 'a) list" where
  "nested p rs = map (\<lambda>(ss, x). ([Lit [], Lit ''api'', Lit p] @ ss, x)) rs"

definition app_router :: "(seg list \<times> (string \<times> route_guard) list) list" where
  "app_router = nested ''auth'' auth_routes @ nested ''auction'' auction_routes @ nested ''upload'' upload_routes @ nested ''listings'' listing_routes"

definition route_of :: "string \<Rightarrow> string \<Rightarrow> route_guard option" where
  "route_of meth path = (case find (\<lambda>r. seg_match (fst r) (path_segs path)) app_router of
     None \<Rightarrow> None
   | Some (_, ms) \<Rightarrow> map_of ms meth)"

datatype service_answer = NoRoute | Refused app_error | Reaches route_guard "claims option"

definition guard_check :: "route_guard \<Rightarrow> claims \<Rightarrow> app_error option" where
  "guard_check g c = (case g of Customers \<Rightarrow> require_customer c | Admins \<Rightarrow> require_admin c | _ \<Rightarrow> None)"

text \<open>A request at the service: the token is checked before the role.\<close>

definition http_service :: "auth_env \<Rightarrow> int \<Rightarrow> string \<Rightarrow> string \<Rightarrow> headers \<Rightarrow> service_answer" where
  "http_service env now meth path hs = (case route_of meth path of
     None \<Rightarrow> NoRoute
   | Some g \<Rightarrow>
       if g = Public then Reaches g None
       else (case auth_middleware env now hs of
         Inl e \<Rightarrow> Refused e
       | Inr c \<Rightarrow> (case guard_check g c of Some e \<Rightarrow> Refused e | None \<Rightarrow> Reaches g (Some c))))"

text \<open>The request through the gateway.\<close>

definition through_gateway :: "gw_env \<Rightarrow> auth_env \<Rightarrow> gw_io \<Rightarrow> int \<Rightarrow> string \<Rightarrow> string \<Rightarrow> headers \<Rightarrow> gw_error + service_answer" where
  "through_gateway gv env io now meth path hs = (case http_proxy gv io now meth path hs of
     Inl e \<Rightarrow> Inl e
   | Inr hs' \<Rightarrow> Inr (http_service env now meth path hs'))"

text \<open>\<open>me_handler\<close>.\<close>

definition me_handler :: "claims \<Rightarrow> json" where
  "me_handler c = JObj [(''userId'', JStr (cl_sub c)), (''role'', JStr (cl_role c))]"

text \<open>How a page reads an error: the status, and the field \<open>error\<close> of the body.\<close>

definition error_reply :: "int \<Rightarrow> json \<Rightarrow> 'a reply" where
  "error_reply st body = NotOk st (jstr ''error'' body)"

definition service_error_body :: "app_error \<Rightarrow> json" where
  "service_error_body e = JObj [(''error'', JStr (snd (into_response e)))]"

section \<open>Headers and paths\<close>

lemma hdr_get_remove [simp]: "hdr_get k (hdr_remove j hs) = (if k = j then None else hdr_get k hs)"
  by (induction hs) (auto simp: hdr_get_def hdr_remove_def)

lemma hdr_get_append: "hdr_get k (hs @ hs') = (case hdr_get k hs of None \<Rightarrow> hdr_get k hs' | Some v \<Rightarrow> Some v)"
  by (simp add: hdr_get_def map_add_def split: option.split)

lemma hdr_get_insert [simp]: "hdr_get k (hdr_insert j v hs) = (if k = j then Some v else hdr_get k hs)"
  by (auto simp: hdr_insert_def hdr_get_append split: option.split) (simp_all add: hdr_get_def)

lemma hdr_get_forwarded [simp]: "k \<notin> {''host'', ''connection'', ''transfer-encoding''} \<Longrightarrow> hdr_get k (forwarded hs) = hdr_get k hs"
  by (induction hs) (auto simp: hdr_get_def forwarded_def)

lemma hdr_get_strip [simp]: "k \<notin> set INTERNAL_HEADERS \<Longrightarrow> hdr_get k (strip_untrusted hs) = hdr_get k hs"
  by (simp add: strip_untrusted_def INTERNAL_HEADERS_def)

lemma search_anonymous: "search_proxy io hs = Inr hs' \<Longrightarrow> k \<in> set INTERNAL_HEADERS \<Longrightarrow> hdr_get k hs' = None"
  by (auto simp: search_proxy_def strip_untrusted_def INTERNAL_HEADERS_def split: if_splits)

lemma inject_authorization [simp]: "hdr_get ''authorization'' (inject sign sh secs fresh ident meth path hs) = hdr_get ''authorization'' hs"
  by (simp add: inject_def Let_def)

fun join_segs :: "string list \<Rightarrow> string" where
  "join_segs [] = []"
| "join_segs [s] = s"
| "join_segs (s # ss) = s @ CHR ''/'' # join_segs ss"

lemma path_segs_nonempty [simp]: "path_segs s \<noteq> []"
  by (induction s) (auto split: list.split)

lemma join_path_segs [simp]: "join_segs (path_segs s) = s"
proof (induction s)
  case (Cons c s)
  then show ?case by (cases "path_segs s" rule: join_segs.cases) auto
qed simp

lemma path_segs_append: "path_segs (a @ CHR ''/'' # b) = path_segs a @ path_segs b"
  by (induction a) (auto split: list.split)

text \<open>Among the paths under \<open>/api/auth/\<close>, which the gateway lets pass, the service guards only \<open>me\<close>.\<close>

lemma guarded_not_public:
  assumes "route_of meth path = Some g" and "g \<noteq> Public"
  shows "\<not> is_public_auth path"
proof
  assume pub: "is_public_auth path"
  then obtain r where path: "path = ''/api/auth'' @ CHR ''/'' # r" by (auto simp: is_public_auth_def starts_with_def prefix_def)
  have "path_segs ''/api/auth'' = [[], ''api'', ''auth'']" by code_simp
  then have segs: "path_segs path = [[], ''api'', ''auth''] @ path_segs r" by (simp only: path path_segs_append)
  obtain a ss where r: "path_segs r = a # ss" by (cases "path_segs r") auto
  have "a = ''me'' \<and> ss = []"
    using assms unfolding route_of_def segs r
    by (cases ss) (auto simp: app_router_def nested_def auth_routes_def auction_routes_def upload_routes_def listing_routes_def split: if_splits)
  then have "r = ''me''" using join_path_segs [of r] r by simp
  with path pub show False by (simp add: is_public_auth_def)
qed

section \<open>What passes the gateway and the service\<close>

lemma auth_middleware_bearer:
  "auth_middleware env now hs = Inr c \<longleftrightarrow> (\<exists>token. gw_bearer hs = Some token \<and> av_decode env (jwt_secret env) now token = Some c)"
  by (auto simp: auth_middleware_def gw_bearer_def strip_prefix_def eval_nat_numeral split: option.splits)

lemma service_reaches:
  assumes "route_of meth path = Some g" and "g \<noteq> Public"
  shows "http_service env now meth path hs = Reaches g (Some c) \<longleftrightarrow>
    (\<exists>token. gw_bearer hs = Some token \<and> av_decode env (jwt_secret env) now token = Some c) \<and> guard_check g c = None"
  using assms auth_middleware_bearer [of env now hs c]
  by (cases "auth_middleware env now hs") (auto simp: http_service_def split: option.splits)

lemma bearer_kept:
  "gw_bearer (forwarded (inject sign sh secs fresh ident meth path (strip_untrusted hs))) = gw_bearer hs"
  "gw_bearer (strip_untrusted hs) = gw_bearer hs"
  by (simp_all add: gw_bearer_def INTERNAL_HEADERS_def)

lemma authenticate_bearer:
  assumes "gw_bearer hs = Some token" and "decode (gc_secret gc) (gc_issuer gc) (gc_audience gc) now token = Some c"
  shows "(\<exists>ident. authenticate decode parse gc now hs = Inr ident) \<longleftrightarrow>
    (\<exists>u. parse (cl_sub c) = Some u) \<and> ascii_upper (cl_role c) \<in> {''CUSTOMER'', ''CARRIER'', ''ADMIN''}"
  using assms by (auto simp: authenticate_def or_else_def Let_def split: option.split)

lemma unauthenticated_stopped:
  assumes "route_of meth path = Some g" and "g \<noteq> Public"
    and "\<nexists>ident. authenticate (gv_decode gv) (gv_parse_uuid gv) (gv_config gv) now (strip_untrusted hs) = Inr ident"
  shows "through_gateway gv env io now meth path hs \<noteq> Inr x"
  using assms(3) guarded_not_public [OF assms(1,2)]
  by (cases "authenticate (gv_decode gv) (gv_parse_uuid gv) (gv_config gv) now (strip_untrusted hs)")
    (auto simp: through_gateway_def http_proxy_def Let_def)

lemma guard_admits:
  "guard_check g c = None \<longleftrightarrow> cl_role c \<in> (case g of Admins \<Rightarrow> {''ADMIN''} | Customers \<Rightarrow> {''CUSTOMER'', ''ADMIN''} | _ \<Rightarrow> UNIV)"
  by (cases g) (auto simp: guard_check_def require_customer_def require_admin_def)

text \<open>
  (C4) Who reaches a guarded handler: with one secret on both sides, a request through the gateway reaches a handler that is not public,
  for given claims, exactly when no limit and no open breaker stops it, its \<open>Authorization\<close> header carries a token for these
  claims, their subject is a user id, their role is one of the three, in any case, and is on a route of the administrators just
  \<open>ADMIN\<close> and on a route of the customers \<open>CUSTOMER\<close> or \<open>ADMIN\<close>. So a token of a link for a new
  password opens nothing there, a cookie alone opens nothing, and headers of the client cannot change the outcome.
\<close>

theorem gateway_access:
  assumes "route_of meth path = Some g" and "g \<noteq> Public"
    and "\<And>t. gv_decode gv (gc_secret (gv_config gv)) (gc_issuer (gv_config gv)) (gc_audience (gv_config gv)) now t = av_decode env (jwt_secret env) now t"
  shows "through_gateway gv env io now meth path hs = Inr (Reaches g (Some c)) \<longleftrightarrow>
    gi_ip io \<and> gi_user io \<and> gi_breaker io \<and>
    (\<exists>token u. gw_bearer hs = Some token \<and> av_decode env (jwt_secret env) now token = Some c \<and> gv_parse_uuid gv (cl_sub c) = Some u) \<and>
    ascii_upper (cl_role c) \<in> {''CUSTOMER'', ''CARRIER'', ''ADMIN''} \<and>
    cl_role c \<in> (case g of Admins \<Rightarrow> {''ADMIN''} | Customers \<Rightarrow> {''CUSTOMER'', ''ADMIN''} | _ \<Rightarrow> UNIV)"
proof (cases "authenticate (gv_decode gv) (gv_parse_uuid gv) (gv_config gv) now (strip_untrusted hs)")
  case (Inl e)
  then have no: "\<not> (gw_bearer hs = Some token \<and> av_decode env (jwt_secret env) now token = Some c \<and> gv_parse_uuid gv (cl_sub c) = Some u \<and>
      ascii_upper (cl_role c) \<in> {''CUSTOMER'', ''CARRIER'', ''ADMIN''})" for token u
    using authenticate_bearer [of "strip_untrusted hs" token "gv_decode gv" "gv_config gv" now c "gv_parse_uuid gv"] assms(3)
    by (auto simp: bearer_kept)
  have "through_gateway gv env io now meth path hs \<noteq> Inr (Reaches g (Some c))"
    by (rule unauthenticated_stopped [OF assms(1,2)]) (simp add: Inl)
  with no show ?thesis by blast
next
  case (Inr ident)
  have "through_gateway gv env io now meth path hs = Inr (Reaches g (Some c)) \<longleftrightarrow> gi_ip io \<and> gi_user io \<and> gi_breaker io \<and>
      (\<exists>token. gw_bearer hs = Some token \<and> av_decode env (jwt_secret env) now token = Some c) \<and> guard_check g c = None"
    using Inr guarded_not_public [OF assms(1,2)] service_reaches [OF assms(1,2)]
    by (auto simp: through_gateway_def http_proxy_def Let_def bearer_kept)
  moreover have "(\<exists>u. gv_parse_uuid gv (cl_sub c) = Some u) \<and> ascii_upper (cl_role c) \<in> {''CUSTOMER'', ''CARRIER'', ''ADMIN''}"
    if "gw_bearer hs = Some token" "av_decode env (jwt_secret env) now token = Some c" for token
    using authenticate_bearer [of "strip_untrusted hs" token "gv_decode gv" "gv_config gv" now c "gv_parse_uuid gv"] Inr assms(3) that
    by (auto simp: bearer_kept)
  ultimately show ?thesis unfolding guard_admits by blast
qed

definition ex_gw_env :: gw_env where
  "ex_gw_env = \<lparr>gv_decode = (\<lambda>k i a now t. if t = ''t'' then Some \<lparr>cl_sub = [], cl_role = ''ADMIN'', cl_exp = 9\<rparr> else None),
     gv_sign = id, gv_show_uuid = (\<lambda>u. []), gv_parse_uuid = (\<lambda>s. Some 7),
     gv_config = \<lparr>gc_secret = [], gc_issuer = None, gc_audience = None\<rparr>\<rparr>"

definition ex_gw_io :: gw_io where
  "ex_gw_io = \<lparr>gi_ip = True, gi_user = True, gi_breaker = True, gi_secs = 0, gi_fresh = 0\<rparr>"

definition ex_admin_env :: auth_env where
  "ex_admin_env = ex_auth_env\<lparr>av_decode := (\<lambda>k now t. if t = ''t'' then Some \<lparr>cl_sub = [], cl_role = ''ADMIN'', cl_exp = 9\<rparr> else None)\<rparr>"

lemma ex_create_route: "route_of ''POST'' ''/api/auction/create'' = Some Admins"
  by code_simp

theorem gateway_access_witness:
  "through_gateway ex_gw_env ex_admin_env ex_gw_io 0 ''POST'' ''/api/auction/create'' [(''authorization'', ''Bearer t'')] =
     Inr (Reaches Admins (Some \<lparr>cl_sub = [], cl_role = ''ADMIN'', cl_exp = 9\<rparr>))"
proof -
  have "gw_bearer [(''authorization'', ''Bearer t'')] = Some ''t''" "ascii_upper ''ADMIN'' = ''ADMIN''" by code_simp+
  then show ?thesis
    by (subst gateway_access [OF ex_create_route])
      (simp_all add: ex_gw_env_def ex_admin_env_def ex_gw_io_def guard_check_def require_admin_def)
qed

text \<open>The identity that the gateway passes on is that of the token, never one that the client wrote.\<close>

lemma identity_headers:
  assumes "http_proxy gv io now meth path hs = Inr hs'"
  shows "is_public_auth path \<Longrightarrow> hdr_get ''x-auction-user-id'' hs' = None"
    and "\<not> is_public_auth path \<Longrightarrow> \<exists>ident. authenticate (gv_decode gv) (gv_parse_uuid gv) (gv_config gv) now (strip_untrusted hs) = Inr ident \<and>
      hdr_get ''x-auction-user-id'' hs' = Some (gv_show_uuid gv (id_user_id ident)) \<and> hdr_get ''x-auction-user-role'' hs' = Some (id_role ident)"
  using assms by (auto simp: http_proxy_def Let_def strip_untrusted_def INTERNAL_HEADERS_def inject_def split: if_splits sum.splits)

section \<open>Tokens of links\<close>

text \<open>
  A link for a new password is a session: the token in it is accepted by the service itself on every route that asks for a
  session only, such as joining an auction, for the user whose password was forgotten; only the gateway, in front of it, refuses it
  for its role, and no route that asks for a role takes it.
\<close>

lemma reset_token_opens_session:
  assumes "route_of meth path = Some g" and "g \<noteq> Public" and "hdr_text (''Bearer '' @ token) = Some (''Bearer '' @ token)"
    and "av_decode env (jwt_secret env) now token = Some (reset_claims env t u)"
    and "\<And>t. gv_decode gv (gc_secret (gv_config gv)) (gc_issuer (gv_config gv)) (gc_audience (gv_config gv)) now t = av_decode env (jwt_secret env) now t"
  shows "http_service env now meth path [(''authorization'', ''Bearer '' @ token)] = Reaches g (Some (reset_claims env t u)) \<longleftrightarrow> g = AnySession"
    and "through_gateway gv env io now meth path [(''authorization'', ''Bearer '' @ token)] \<noteq> Inr (Reaches g (Some (reset_claims env t u)))"
proof -
  have bearer: "gw_bearer [(''authorization'', ''Bearer '' @ token)] = Some token"
    unfolding gw_bearer_def hdr_get_def using assms(3) by (simp add: strip_prefix_def starts_with_def)
  have "guard_check g (reset_claims env t u) = None \<longleftrightarrow> g = AnySession"
    using assms(2) by (cases g) (simp_all add: guard_check_def require_customer_def require_admin_def reset_claims_def)
  then show "http_service env now meth path [(''authorization'', ''Bearer '' @ token)] = Reaches g (Some (reset_claims env t u)) \<longleftrightarrow> g = AnySession"
    using service_reaches [OF assms(1,2)] bearer assms(4) by simp
  have "ascii_upper ''RESET'' = ''RESET''" by code_simp
  then show "through_gateway gv env io now meth path [(''authorization'', ''Bearer '' @ token)] \<noteq> Inr (Reaches g (Some (reset_claims env t u)))"
    using authenticate_bearer [of "strip_untrusted [(''authorization'', ''Bearer '' @ token)]" token "gv_decode gv" "gv_config gv" now "reset_claims env t u"]
      assms(4,5) bearer by (intro unauthenticated_stopped [OF assms(1,2)]) (simp add: bearer_kept reset_claims_def)
qed

section \<open>Refusals that end a session\<close>

definition gw_reply :: "gw_error \<Rightarrow> 'a reply" where
  "gw_reply e = error_reply (ge_status e) (gw_body e)"

lemma gw_reply_no_error: "gw_reply e = NotOk (ge_status e) None"
  by (simp add: gw_reply_def error_reply_def gw_body_def jstr_def jget_def)

text \<open>
  A busy gateway signs the user out: when the limits or the breaker of the gateway refuse the question who is signed in, although
  the token is good, the page takes the refusal for the end of the session and forgets the token; and when they refuse a
  sign-in, the page blames the password, because it looks for the reason under a name that the gateway does not use.
\<close>

lemma refusal_ends_session:
  assumes "http_proxy gv io now meth path hs = Inl e" and "\<not> (gi_ip io \<and> gi_user io \<and> gi_breaker io)"
    and "is_public_auth path \<or> authenticate (gv_decode gv) (gv_parse_uuid gv) (gv_config gv) now (strip_untrusted hs) = Inr ident"
    and "str_truthy (st ''token'')"
  shows "ge_status e \<in> {429, 503}"
    and "refresh (gw_reply e) (a, st) = (\<lparr>au_session = None, au_isLoading = False\<rparr>, st(''token'' := None, ''userRole'' := None))"
    and "login (gw_reply e) st = login_failed ''Invalid credentials'' st"
proof -
  show "ge_status e \<in> {429, 503}"
    using assms(1-3) by (auto simp: http_proxy_def gw_rate_limited_def gw_unavailable_def gw_new_def Let_def split: if_splits)
  show "refresh (gw_reply e) (a, st) = (\<lparr>au_session = None, au_isLoading = False\<rparr>, st(''token'' := None, ''userRole'' := None))"
    using assms(4) by (simp add: refresh_def gw_reply_no_error)
  show "login (gw_reply e) st = login_failed ''Invalid credentials'' st"
    by (simp add: login_def gw_reply_no_error opt_str_or_def)
qed

end
