(* ===== verification/Actor_Registry.thy ===== *)
theory Actor_Registry
  imports Participants
begin

text \<open>
  The actors of the engine's process: the registry (\<open>src/apps/auction-engine/src/registry.rs\<close>) that hands out the channel of the
  actor of an auction and starts one where there is none, and the supervisor (\<open>actor/supervisor.rs\<close>) that restarts its actor after a panic
  and takes it out of the registry when it has ended. Workers and supervisors run on several threads; each access to the maps is one
  step here, and the steps interleave in any order. What an actor does with a bid is in \<open>Bid_Engine\<close>.
\<close>

section \<open>State\<close>

text \<open>
  A supervisor runs its actor, has seen it end, has taken the handle out of the map of actors, or has also cleared the state;
  then it ends, which drops the receiver and closes the channel.
\<close>

datatype sup_stage = SupRunning | SupEnded | SupRemoved | SupCleared

record supervisor =
  su_auction :: uuid
  su_stage :: sup_stage
  su_restarts :: "32 word"

text \<open>
  The handle of an actor is its generation: a channel is closed when there is no supervisor of that generation. \<open>ar_handed\<close> records
  which handle each call has returned.
\<close>

record actor_registry =
  ar_actors :: "uuid \<rightharpoonup> 64 word"
  ar_states :: "uuid \<rightharpoonup> 64 word"
  ar_generation :: "64 word"
  ar_supervisors :: "64 word \<rightharpoonup> supervisor"
  ar_handed :: "(uuid \<times> 64 word) list"

definition registry_new :: actor_registry where
  "registry_new = \<lparr>ar_actors = Map.empty, ar_states = Map.empty, ar_generation = 1, ar_supervisors = Map.empty, ar_handed = []\<rparr>"

definition is_closed :: "64 word \<Rightarrow> actor_registry \<Rightarrow> bool" where
  "is_closed g R = (ar_supervisors R g = None)"

section \<open>Operations\<close>

definition start_supervisor :: "uuid \<Rightarrow> 64 word \<Rightarrow> actor_registry \<Rightarrow> actor_registry" where
  "start_supervisor a g R = R\<lparr>ar_supervisors := (ar_supervisors R)(g \<mapsto> \<lparr>su_auction = a, su_stage = SupRunning, su_restarts = 0\<rparr>)\<rparr>"

text \<open>
  One pass of the loop of \<open>get_or_create\<close>, under the lock of the entry: a handle, or none after a dead entry was taken out. The
  state belongs to the generation that created it and is kept when it is there already.
\<close>

definition get_or_create_pass :: "uuid \<Rightarrow> actor_registry \<Rightarrow> 64 word option \<times> actor_registry" where
  "get_or_create_pass a R = (case ar_actors R a of
     Some g \<Rightarrow> if \<not> is_closed g R then (Some g, R) else (None, R\<lparr>ar_actors := (ar_actors R)(a := None)\<rparr>)
   | None \<Rightarrow>
       let g = ar_generation R;
           R = R\<lparr>ar_generation := g + 1\<rparr>;
           R = (case ar_states R a of None \<Rightarrow> R\<lparr>ar_states := (ar_states R)(a \<mapsto> g)\<rparr> | Some _ \<Rightarrow> R);
           R = R\<lparr>ar_actors := (ar_actors R)(a \<mapsto> g)\<rparr>
       in (Some g, start_supervisor a g R))"

text \<open>The loop, when no other thread comes in between.\<close>

function get_or_create :: "uuid \<Rightarrow> actor_registry \<Rightarrow> 64 word \<times> actor_registry" where
  "get_or_create a R = (case get_or_create_pass a R of (Some g, R') \<Rightarrow> (g, R') | (None, R') \<Rightarrow> get_or_create a R')"
  by pat_completeness auto

termination
  by (relation "measure (\<lambda>(a, R). if ar_actors R a = None then 0 else 1)")
    (auto simp: get_or_create_pass_def Let_def split: option.splits if_splits)

declare get_or_create.simps [simp del]

definition remove_actor_if :: "uuid \<Rightarrow> 64 word \<Rightarrow> actor_registry \<Rightarrow> bool \<times> actor_registry" where
  "remove_actor_if a g R = (if ar_actors R a = Some g then (True, R\<lparr>ar_actors := (ar_actors R)(a := None)\<rparr>) else (False, R))"

definition restart_delay :: "32 word \<Rightarrow> 64 word" where
  "restart_delay restarts = min (push_bit (unat (min restarts 5)) 100) 3000"

definition saturating_add_one :: "32 word \<Rightarrow> 32 word" where
  "saturating_add_one n = (if n = - 1 then n else n + 1)"

definition set_stage :: "64 word \<Rightarrow> supervisor \<Rightarrow> sup_stage \<Rightarrow> actor_registry \<Rightarrow> actor_registry" where
  "set_stage g su st R = R\<lparr>ar_supervisors := (ar_supervisors R)(g \<mapsto> su\<lparr>su_stage := st\<rparr>)\<rparr>"

text \<open>
  The steps: a worker asks for an actor; an actor panics and is started again by its supervisor; it returns, or the publisher beside
  it does; the supervisor takes out the handle, clears the state if it did, and ends.
\<close>

datatype registry_event = RsGet uuid | RsPanic "64 word" | RsEnd "64 word" | RsRemove "64 word" | RsClear "64 word" | RsDrop "64 word"

fun actor_registry_step :: "registry_event \<Rightarrow> actor_registry \<Rightarrow> actor_registry" where
  "actor_registry_step (RsGet a) R = (case get_or_create_pass a R of
     (Some g, R') \<Rightarrow> R'\<lparr>ar_handed := ar_handed R' @ [(a, g)]\<rparr>
   | (None, R') \<Rightarrow> R')"
| "actor_registry_step (RsPanic g) R = (case ar_supervisors R g of
     Some su \<Rightarrow> if su_stage su = SupRunning
       then R\<lparr>ar_supervisors := (ar_supervisors R)(g \<mapsto> su\<lparr>su_restarts := saturating_add_one (su_restarts su)\<rparr>)\<rparr> else R
   | None \<Rightarrow> R)"
| "actor_registry_step (RsEnd g) R = (case ar_supervisors R g of
     Some su \<Rightarrow> if su_stage su = SupRunning then set_stage g su SupEnded R else R
   | None \<Rightarrow> R)"
| "actor_registry_step (RsRemove g) R = (case ar_supervisors R g of
     Some su \<Rightarrow> if su_stage su = SupEnded
       then (case remove_actor_if (su_auction su) g R of (removed, R') \<Rightarrow> set_stage g su (if removed then SupRemoved else SupCleared) R') else R
   | None \<Rightarrow> R)"
| "actor_registry_step (RsClear g) R = (case ar_supervisors R g of
     Some su \<Rightarrow> if su_stage su = SupRemoved
       then set_stage g su SupCleared (R\<lparr>ar_states := (ar_states R)(su_auction su := None)\<rparr>) else R
   | None \<Rightarrow> R)"
| "actor_registry_step (RsDrop g) R = (case ar_supervisors R g of
     Some su \<Rightarrow> if su_stage su = SupCleared then R\<lparr>ar_supervisors := (ar_supervisors R)(g := None)\<rparr> else R
   | None \<Rightarrow> R)"

section \<open>One actor at a time\<close>

text \<open>
  \<open>live\<close>: the supervisor has not taken its handle out. The counter of generations does not wrap while fewer than
  \<open>2^64 - 1\<close> actors are started.
\<close>

definition live :: "uuid \<Rightarrow> 64 word \<Rightarrow> actor_registry \<Rightarrow> bool" where
  "live a g R = (\<exists>su. ar_supervisors R g = Some su \<and> su_auction su = a \<and> su_stage su \<in> {SupRunning, SupEnded})"

definition registry_inv :: "actor_registry \<Rightarrow> bool" where
  "registry_inv R = ((\<forall>a g. live a g R \<longleftrightarrow> ar_actors R a = Some g) \<and> (\<forall>g. ar_supervisors R g \<noteq> None \<longrightarrow> g < ar_generation R))"

lemma live_set_stage:
  "ar_supervisors R g = Some su \<Longrightarrow> live a h (set_stage g su st R) \<longleftrightarrow>
     (if h = g then su_auction su = a \<and> st \<in> {SupRunning, SupEnded} else live a h R)"
  by (auto simp: live_def set_stage_def)

lemma set_stage_fields [simp]:
  "ar_actors (set_stage g su st R) = ar_actors R" "ar_generation (set_stage g su st R) = ar_generation R"
  "ar_states (set_stage g su st R) = ar_states R" "ar_handed (set_stage g su st R) = ar_handed R"
  by (simp_all add: set_stage_def)

lemma dom_set_stage: "ar_supervisors R g = Some su \<Longrightarrow> ar_supervisors (set_stage g su st R) h \<noteq> None \<longleftrightarrow> ar_supervisors R h \<noteq> None"
  by (simp add: set_stage_def)

lemma open_entry: "registry_inv R \<Longrightarrow> ar_actors R a = Some g \<Longrightarrow> \<not> is_closed g R"
  unfolding registry_inv_def live_def is_closed_def by (metis option.distinct(1))

text \<open>What one pass does to a registry in order: it returns the entry, or the new one.\<close>

lemma pass_cases:
  assumes "registry_inv R"
  shows "get_or_create_pass a R = (case ar_actors R a of Some g \<Rightarrow> (Some g, R)
    | None \<Rightarrow> (Some (ar_generation R), R\<lparr>ar_generation := ar_generation R + 1,
        ar_states := (if ar_states R a = None then (ar_states R)(a \<mapsto> ar_generation R) else ar_states R),
        ar_actors := (ar_actors R)(a \<mapsto> ar_generation R),
        ar_supervisors := (ar_supervisors R)(ar_generation R \<mapsto> \<lparr>su_auction = a, su_stage = SupRunning, su_restarts = 0\<rparr>)\<rparr>))"
  using open_entry [OF assms] by (auto simp: get_or_create_pass_def start_supervisor_def Let_def split: option.split)

lemma generation_succ: "Suc (unat (n :: 64 word)) < 2 ^ 64 \<Longrightarrow> unat (n + 1) = Suc (unat n)"
  by (simp add: unat_plus_if')

lemma create_inv:
  assumes "registry_inv R" and "ar_actors R a = None" and "Suc (unat (ar_generation R)) < 2 ^ 64"
    and "R' = R\<lparr>ar_generation := ar_generation R + 1, ar_states := st, ar_actors := (ar_actors R)(a \<mapsto> ar_generation R),
      ar_supervisors := (ar_supervisors R)(ar_generation R \<mapsto> \<lparr>su_auction = a, su_stage = SupRunning, su_restarts = 0\<rparr>)\<rparr>"
  shows "registry_inv R'"
proof -
  have new: "ar_supervisors R (ar_generation R) = None" using assms(1) by (auto simp: registry_inv_def)
  have "live b h R' \<longleftrightarrow> (if h = ar_generation R then b = a else live b h R)" for b h
    by (auto simp: assms(4) live_def)
  moreover have "ar_actors R b \<noteq> Some (ar_generation R)" for b
    using assms(1) new by (auto simp: registry_inv_def live_def)
  moreover have "g < ar_generation R + 1" if "g < ar_generation R \<or> g = ar_generation R" for g
    using that generation_succ [OF assms(3)] by (auto simp: word_less_nat_alt)
  ultimately show ?thesis using assms(1,2) unfolding registry_inv_def assms(4) by (auto split: if_splits)
qed

lemma registry_inv_same:
  assumes "registry_inv R" and "\<And>a h. live a h R' \<longleftrightarrow> live a h R" and "ar_actors R' = ar_actors R" and "ar_generation R' = ar_generation R"
    and "\<And>h. ar_supervisors R' h \<noteq> None \<Longrightarrow> ar_supervisors R h \<noteq> None"
  shows "registry_inv R'"
  using assms unfolding registry_inv_def by auto

lemma remove_inv:
  assumes "registry_inv R" and "ar_supervisors R g = Some su" and "su_stage su = SupEnded"
  shows "registry_inv (set_stage g su SupRemoved (R\<lparr>ar_actors := (ar_actors R)(su_auction su := None)\<rparr>))"
    and "ar_actors R (su_auction su) = Some g"
proof -
  let ?R = "set_stage g su SupRemoved (R\<lparr>ar_actors := (ar_actors R)(su_auction su := None)\<rparr>)"
  have reg: "live a h R \<longleftrightarrow> ar_actors R a = Some h" for a h using assms(1) by (simp add: registry_inv_def)
  show at: "ar_actors R (su_auction su) = Some g" using assms(2,3) reg by (auto simp: live_def)
  have gone: "live a h ?R \<longleftrightarrow> h \<noteq> g \<and> live a h R" for a h using assms(2) by (auto simp: live_def set_stage_def)
  have only: "ar_actors R a = Some g \<Longrightarrow> a = su_auction su" for a
    using reg [of a g] assms(2) by (auto simp: live_def)
  have "live a h ?R \<longleftrightarrow> ar_actors ?R a = Some h" for a h
    using at only [of a] by (cases "a = su_auction su") (auto simp: gone reg)
  moreover have "h < ar_generation ?R" if "ar_supervisors ?R h \<noteq> None" for h
    using assms(1,2) that by (cases "h = g") (auto simp: registry_inv_def set_stage_def)
  ultimately show "registry_inv ?R" unfolding registry_inv_def by blast
qed

lemma registry_inv_step:
  assumes "registry_inv R" and "Suc (unat (ar_generation R)) < 2 ^ 64"
  shows "registry_inv (actor_registry_step e R) \<and> unat (ar_generation (actor_registry_step e R)) \<le> Suc (unat (ar_generation R))"
proof (cases e)
  case (RsGet a)
  have keep: "registry_inv (R\<lparr>ar_handed := hs\<rparr>) \<longleftrightarrow> registry_inv R" for R hs by (simp add: registry_inv_def live_def)
  show ?thesis
    using RsGet assms generation_succ [OF assms(2)] create_inv [OF assms(1) _ assms(2) refl, of a "ar_states R"]
    by (auto simp: pass_cases [OF assms(1)] keep intro: create_inv split: option.split)
next
  case (RsPanic g)
  have "registry_inv (actor_registry_step e R)"
    by (rule registry_inv_same [OF assms(1)]) (auto simp: RsPanic live_def split: option.splits if_splits)
  then show ?thesis using RsPanic by (simp split: option.split)
next
  case (RsEnd g)
  have "registry_inv (actor_registry_step e R)"
    by (rule registry_inv_same [OF assms(1)]) (auto simp: RsEnd live_def set_stage_def split: option.splits if_splits)
  then show ?thesis using RsEnd by (simp split: option.split)
next
  case (RsRemove g)
  with assms show ?thesis
    using remove_inv [OF assms(1)] by (auto simp: remove_actor_if_def split: option.split)
next
  case (RsClear g)
  have "registry_inv (actor_registry_step e R)"
    by (rule registry_inv_same [OF assms(1)]) (auto simp: RsClear live_def set_stage_def split: option.splits if_splits)
  then show ?thesis using RsClear by (simp split: option.split)
next
  case (RsDrop g)
  have "registry_inv (actor_registry_step e R)"
    by (rule registry_inv_same [OF assms(1)]) (auto simp: RsDrop live_def split: option.splits if_splits)
  then show ?thesis using RsDrop by (simp split: option.split)
qed

lemma registry_run:
  assumes "length es < 2 ^ 64 - 1"
  shows "registry_inv (fold actor_registry_step es registry_new) \<and> unat (ar_generation (fold actor_registry_step es registry_new)) \<le> Suc (length es)"
  using assms
proof (induction es rule: rev_induct)
  case Nil
  then show ?case by (simp add: registry_inv_def live_def registry_new_def)
next
  case (snoc e es)
  then have "registry_inv (fold actor_registry_step es registry_new)" "Suc (unat (ar_generation (fold actor_registry_step es registry_new))) < 2 ^ 64"
    and "unat (ar_generation (fold actor_registry_step es registry_new)) \<le> Suc (length es)" by auto
  then show ?case using registry_inv_step [of "fold actor_registry_step es registry_new" e] by simp
qed

lemma in_order:
  assumes "length es < 2 ^ 64 - 1"
  shows "registry_inv (fold actor_registry_step es registry_new)"
  using registry_run [OF assms] ..

text \<open>
  (C22) One actor per auction: in every interleaving of workers and supervisors, two supervisors of one auction that have not taken out their
  handle are the same, its handle is the one in the registry, and so a worker that asks gets a channel that is open and
  belongs to the one actor that is running, which is the one it got before unless that has ended; an old supervisor never
  takes out a newer actor. The counter of generations has 64 bits, which is what bounds the number of steps.
\<close>

theorem one_actor_per_auction:
  assumes "length es < 2 ^ 64 - 1" and "R = fold actor_registry_step es registry_new"
    and "ar_supervisors R g = Some su" and "su_stage su \<in> {SupRunning, SupEnded}"
  shows "ar_actors R (su_auction su) = Some g \<and> get_or_create (su_auction su) R = (g, R) \<and> \<not> is_closed g R \<and>
    (\<forall>h su'. ar_supervisors R h = Some su' \<and> su_auction su' = su_auction su \<and> h \<noteq> g \<longrightarrow>
      su_stage su' \<in> {SupRemoved, SupCleared} \<and> ar_actors (actor_registry_step (RsRemove h) R) (su_auction su) = Some g)"
proof -
  have inv: "registry_inv R" using in_order [OF assms(1)] assms(2) by simp
  have at: "ar_actors R (su_auction su) = Some g" using inv assms(3,4) by (auto simp: registry_inv_def live_def)
  have get: "get_or_create (su_auction su) R = (g, R)"
    by (simp add: get_or_create.simps pass_cases [OF inv] at)
  have "su_stage su' \<in> {SupRemoved, SupCleared} \<and> ar_actors (actor_registry_step (RsRemove h) R) (su_auction su) = Some g"
    if other: "ar_supervisors R h = Some su'" "su_auction su' = su_auction su" "h \<noteq> g" for h su'
  proof -
    have "su_stage su' \<in> {SupRunning, SupEnded} \<Longrightarrow> ar_actors R (su_auction su) = Some h"
      using inv other(1,2) by (auto simp: registry_inv_def live_def)
    then have "su_stage su' \<notin> {SupRunning, SupEnded}" using at other(3) by auto
    then show ?thesis using at other by (cases "su_stage su'") auto
  qed
  with at get open_entry [OF inv at] show ?thesis by blast
qed

text \<open>Every call gets a handle, after at most two passes, and from then on the auction has that actor.\<close>

lemma get_or_create_serves:
  "ar_actors (snd (get_or_create a R)) a = Some (fst (get_or_create a R)) \<and> \<not> is_closed (fst (get_or_create a R)) (snd (get_or_create a R))"
proof (cases "ar_actors R a")
  case None
  then show ?thesis
    by (simp add: get_or_create.simps get_or_create_pass_def start_supervisor_def is_closed_def Let_def split: option.split)
next
  case (Some g)
  show ?thesis
  proof (cases "is_closed g R")
    case True
    have "get_or_create a R = get_or_create a (R\<lparr>ar_actors := (ar_actors R)(a := None)\<rparr>)"
      using Some True by (subst get_or_create.simps) (simp add: get_or_create_pass_def)
    then show ?thesis
      by (simp add: get_or_create.simps [of a "R\<lparr>ar_actors := (ar_actors R)(a := None)\<rparr>"] get_or_create_pass_def start_supervisor_def
          is_closed_def Let_def split: option.split)
  qed (simp add: Some get_or_create.simps [of a R] get_or_create_pass_def)
qed

text \<open>The pause before a restart doubles from a tenth of a second and stays at three seconds; the shift does not overflow.\<close>

lemma restart_delay_value: "unat (restart_delay r) = min (100 * 2 ^ min (unat r) 5) 3000"
proof -
  have "unat (min r 5) = min (unat r) 5" by (simp add: min_def word_le_nat_alt)
  moreover have "unat (push_bit n (100 :: 64 word)) = 100 * 2 ^ n" if "n \<le> 5" for n
  proof -
    from that have "n \<in> {0, 1, 2, 3, 4, 5}" by auto
    then show ?thesis by (auto simp: push_bit_eq_mult)
  qed
  ultimately show ?thesis by (simp add: restart_delay_def min_def word_le_nat_alt)
qed

text \<open>
  Between the two halves of a removal another thread may start the next actor, which takes over the old state; the second half then
  takes the state out of the map, so that an actor that runs has none there.
\<close>

definition ex_registry_events :: "registry_event list" where
  "ex_registry_events = [RsGet 7, RsEnd 1, RsRemove 1, RsGet 7, RsClear 1, RsDrop 1]"

lemma running_without_state:
  "let R = fold actor_registry_step ex_registry_events registry_new
   in ar_actors R 7 = Some 2 \<and> ar_states R 7 = None \<and> map_option su_stage (ar_supervisors R 2) = Some SupRunning"
  by code_simp

theorem one_actor_per_auction_witness:
  "get_or_create 7 (fold actor_registry_step ex_registry_events registry_new) = (2, fold actor_registry_step ex_registry_events registry_new)"
proof -
  have "ar_supervisors (fold actor_registry_step ex_registry_events registry_new) 2 = Some \<lparr>su_auction = 7, su_stage = SupRunning, su_restarts = 0\<rparr>"
    by code_simp
  from one_actor_per_auction [OF _ refl this] show ?thesis by (simp add: ex_registry_events_def)
qed

end
