(* ===== verification/Finalisation.thy ===== *)
theory Finalisation
  imports Bid_Engine Participants
begin

text \<open>
  The end of an auction in the database: \<open>run_sync_worker\<close> and \<open>run_sweep_worker\<close> of \<open>src/apps/notification-worker/src/main.rs\<close>. The
  engine queues a message when it closes an auction; the worker reads the accepted bids from the sorted set, writes the winner
  and the bids, and deletes what Redis held. The sweeper queues a message for auctions that ended and are not marked as completed.
  Times are milliseconds; which of them the time library can represent, and how it reads an id, are parameters (\<open>sync_env\<close>).
\<close>

section \<open>State\<close>

record final_row =
  fr_completed :: bool
  fr_winner_id :: "uuid option"
  fr_end_time :: "int option"

record new_bid_row =
  nb_id :: uuid
  nb_amount :: rat
  nb_created_at :: int
  nb_carrier_id :: uuid

text \<open>
  One auction: its keys in Redis, its row and configuration, the users and bids of the database, and the two topics that the
  workers write: messages that wait for the sync worker, and dead letters.
\<close>

record final_world =
  fw_ledger :: ledger
  fw_hash :: "json option"
  fw_row :: final_row
  fw_config :: "(auction_type \<times> rat option) option"
  fw_users :: "uuid set"
  fw_bids :: "new_bid_row list"
  fw_queued :: nat
  fw_dead :: "string list"

record sync_env =
  se_parse_uuid :: "string \<Rightarrow> uuid option"
  se_time_ok :: "int \<Rightarrow> bool"

text \<open>What an attempt meets: the pools of Redis and of the database, the configuration, the sorted set, the two writes, and the deletion.\<close>

record sync_io =
  sy_redis :: bool
  sy_pool :: bool
  sy_config :: bool
  sy_zset :: bool
  sy_update :: bool
  sy_insert :: bool
  sy_cleanup :: bool

section \<open>The sync worker\<close>

text \<open>The record that names the auction.\<close>

definition sync_read :: "sync_env \<Rightarrow> json option \<Rightarrow> string + uuid" where
  "sync_read env payload = (case payload of None \<Rightarrow> Inl ''MALFORMED_SYNC''
   | Some v \<Rightarrow> (case jstr ''auction_id'' v of None \<Rightarrow> Inl ''SYNC_MISSING_AUCTION_ID''
     | Some s \<Rightarrow> (case se_parse_uuid env s of None \<Rightarrow> Inl ''SYNC_INVALID_AUCTION_ID'' | Some a \<Rightarrow> Inr a)))"

text \<open>
  One member of the sorted set: a bid that was not accepted, or whose bidder or time cannot be read, is passed over; a bid that is better
  than the best so far leads; and it is stored unless its request id cannot be read.
\<close>

definition sync_leads :: "auction_type \<Rightarrow> rat \<Rightarrow> (uuid \<times> rat) option \<Rightarrow> bool" where
  "sync_leads t x best = (case best of None \<Rightarrow> True | Some (_, y) \<Rightarrow> (case t of REVERSE \<Rightarrow> x < y | FORWARD \<Rightarrow> y < x))"

definition sync_bid :: "sync_env \<Rightarrow> auction_type \<Rightarrow> decision \<Rightarrow> (uuid \<times> rat) option \<times> new_bid_row list \<Rightarrow> (uuid \<times> rat) option \<times> new_bid_row list" where
  "sync_bid env t d acc = (case acc of (best, rows) \<Rightarrow>
     if \<not> dc_is_executed d then acc
     else case se_parse_uuid env (br_bidder_id (dc_bid d)) of
       None \<Rightarrow> acc
     | Some u \<Rightarrow>
         if \<not> se_time_ok env (br_timestamp (dc_bid d)) then acc
         else let best = (if sync_leads t (bid_amount d) best then Some (u, bid_amount d) else best)
              in case se_parse_uuid env (dc_request_id d) of
                   None \<Rightarrow> (best, rows)
                 | Some r \<Rightarrow> (best, rows @ [\<lparr>nb_id = r, nb_amount = bid_amount d, nb_created_at = br_timestamp (dc_bid d), nb_carrier_id = u\<rparr>]))"

definition sync_scan :: "sync_env \<Rightarrow> auction_type \<Rightarrow> zset \<Rightarrow> (uuid \<times> rat) option \<times> new_bid_row list" where
  "sync_scan env t z = fold (sync_bid env t) (map snd z) (None, [])"

definition sync_winner :: "auction_type \<Rightarrow> rat option \<Rightarrow> (uuid \<times> rat) option \<Rightarrow> uuid option" where
  "sync_winner t reserve best = (case best of None \<Rightarrow> None
   | Some (u, x) \<Rightarrow> if t = REVERSE \<or> (case reserve of None \<Rightarrow> True | Some r \<Rightarrow> r \<le> x) then Some u else None)"

definition complete_row :: "uuid option \<Rightarrow> final_row \<Rightarrow> final_row" where
  "complete_row w row = (case w of None \<Rightarrow> row\<lparr>fr_completed := True\<rparr> | Some u \<Rightarrow> row\<lparr>fr_completed := True, fr_winner_id := Some u\<rparr>)"

text \<open>The insertion is one statement: it fails for all bids when one of them names no user, and skips those that are there already.\<close>

definition insert_bids :: "uuid set \<Rightarrow> new_bid_row list \<Rightarrow> new_bid_row list \<Rightarrow> new_bid_row list option" where
  "insert_bids users new old =
     (if list_all (\<lambda>b. nb_carrier_id b \<in> users) new
      then Some (fold (\<lambda>b bs. if nb_id b \<in> nb_id ` set bs then bs else bs @ [b]) new old) else None)"

definition cleanup :: "final_world \<Rightarrow> final_world" where
  "cleanup w = w\<lparr>fw_ledger := (fw_ledger w)\<lparr>lg_zset := [], lg_live := [], lg_sync := []\<rparr>, fw_hash := None\<rparr>"

text \<open>One attempt. A configuration that cannot be read counts as a reverse auction without reserve.\<close>

definition sync_attempt :: "sync_env \<Rightarrow> sync_io \<Rightarrow> final_world \<Rightarrow> bool \<times> final_world" where
  "sync_attempt env io w =
     (if \<not> sy_redis io \<or> \<not> sy_pool io then (False, w)
      else let (t, reserve) = (if sy_config io then unwrap_or (fw_config w) (REVERSE, None) else (REVERSE, None))
           in if \<not> sy_zset io then (False, w)
              else let (best, new) = sync_scan env t (lg_zset (fw_ledger w))
                   in if \<not> sy_update io then (False, w)
                      else let w = w\<lparr>fw_row := complete_row (sync_winner t reserve best) (fw_row w)\<rparr>
                           in case (if new = [] then Some (fw_bids w) else if \<not> sy_insert io then None else insert_bids (fw_users w) new (fw_bids w)) of
                                None \<Rightarrow> (False, w)
                              | Some bs \<Rightarrow> let w = w\<lparr>fw_bids := bs\<rparr> in (True, if sy_cleanup io then cleanup w else w))"

text \<open>At most three attempts; \<open>ios k\<close> is what attempt \<open>k\<close> meets.\<close>

primrec sync_tries :: "sync_env \<Rightarrow> (nat \<Rightarrow> sync_io) \<Rightarrow> nat \<Rightarrow> final_world \<Rightarrow> bool \<times> final_world" where
  "sync_tries env ios 0 w = (False, w)"
| "sync_tries env ios (Suc k) w = (case sync_attempt env (ios (3 - Suc k)) w of
     (True, w') \<Rightarrow> (True, w')
   | (False, w') \<Rightarrow> sync_tries env ios k w')"

text \<open>A message; \<open>dlq\<close> says whether the queue of dead letters takes it. \<open>a\<close> is the auction of this world.\<close>

definition sync_message :: "sync_env \<Rightarrow> uuid \<Rightarrow> json option \<Rightarrow> (nat \<Rightarrow> sync_io) \<Rightarrow> bool \<Rightarrow> final_world \<Rightarrow> final_world" where
  "sync_message env a payload ios dlq w = (case sync_read env payload of
     Inl reason \<Rightarrow> if dlq then w\<lparr>fw_dead := fw_dead w @ [reason]\<rparr> else w
   | Inr a' \<Rightarrow>
       if a' \<noteq> a then w
       else (case sync_tries env ios 3 w of
         (True, w') \<Rightarrow> w'
       | (False, w') \<Rightarrow> if dlq then w'\<lparr>fw_dead := fw_dead w' @ [''SYNC_RETRIES_EXHAUSTED'']\<rparr> else w'))"

section \<open>The sweeper\<close>

record sweep_io =
  sw_pool :: bool
  sw_query :: bool
  sw_publish :: bool
  sw_update :: bool

definition sweep :: "int \<Rightarrow> sweep_io \<Rightarrow> final_world \<Rightarrow> final_world" where
  "sweep now io w =
     (if \<not> sw_pool io \<or> \<not> sw_query io then w
      else case fr_end_time (fw_row w) of
        None \<Rightarrow> w
      | Some stop \<Rightarrow>
          if \<not> (stop < now - 5000 \<and> \<not> fr_completed (fw_row w)) then w
          else if \<not> sw_publish io then w
          else w\<lparr>fw_queued := fw_queued w + 1,
                 fw_row := (if sw_update io then (fw_row w)\<lparr>fr_completed := True\<rparr> else fw_row w)\<rparr>)"

datatype final_event = FeSync "json option" "nat \<Rightarrow> sync_io" bool | FeSweep int sweep_io

fun final_step :: "sync_env \<Rightarrow> uuid \<Rightarrow> final_event \<Rightarrow> final_world \<Rightarrow> final_world" where
  "final_step env a (FeSync payload ios dlq) w = sync_message env a payload ios dlq w"
| "final_step env a (FeSweep now io) w = sweep now io w"

section \<open>What a scan finds\<close>

definition readable :: "sync_env \<Rightarrow> uuid set \<Rightarrow> decision \<Rightarrow> bool" where
  "readable env users d = (dc_is_executed d \<and> se_time_ok env (br_timestamp (dc_bid d)) \<and> se_parse_uuid env (dc_request_id d) \<noteq> None \<and>
     (\<exists>u \<in> users. se_parse_uuid env (br_bidder_id (dc_bid d)) = Some u))"

abbreviation bidder_uuid :: "sync_env \<Rightarrow> decision \<Rightarrow> uuid" where
  "bidder_uuid env d \<equiv> the (se_parse_uuid env (br_bidder_id (dc_bid d)))"

definition row_of :: "sync_env \<Rightarrow> decision \<Rightarrow> new_bid_row" where
  "row_of env d = \<lparr>nb_id = the (se_parse_uuid env (dc_request_id d)), nb_amount = bid_amount d, nb_created_at = br_timestamp (dc_bid d),
     nb_carrier_id = bidder_uuid env d\<rparr>"

lemma sync_bid_readable:
  "readable env users d \<Longrightarrow> sync_bid env t d (best, rows) =
     (if sync_leads t (bid_amount d) best then Some (bidder_uuid env d, bid_amount d) else best, rows @ [row_of env d])"
  by (auto simp: sync_bid_def readable_def row_of_def Let_def)

lemma scan_rows: "list_all (readable env users) ds \<Longrightarrow> snd (fold (sync_bid env t) ds (best, rows)) = rows @ map (row_of env) ds"
  by (induction ds arbitrary: best rows) (auto simp: sync_bid_readable)

lemma scan_keeps_low:
  "list_all (readable env users) ds \<Longrightarrow> \<forall>d \<in> set ds. x \<le> bid_amount d \<Longrightarrow> fst (fold (sync_bid env REVERSE) ds (Some (u, x), rows)) = Some (u, x)"
  by (induction ds arbitrary: rows) (auto simp: sync_bid_readable sync_leads_def)

lemma scan_takes_high:
  "list_all (readable env users) ds \<Longrightarrow> sorted_wrt (<) (x # map bid_amount ds) \<Longrightarrow>
     fst (fold (sync_bid env FORWARD) ds (Some (u, x), rows)) =
       (if ds = [] then Some (u, x) else Some (bidder_uuid env (last ds), bid_amount (last ds)))"
  by (induction ds arbitrary: u x rows) (auto simp: sync_bid_readable sync_leads_def)

lemma scan_best:
  assumes "map fst z = map (bid_amount \<circ> snd) z" and "sorted (map fst z)" and "t = FORWARD \<Longrightarrow> distinct (map fst z)"
    and "list_all (readable env users) (map snd z)"
  shows "fst (sync_scan env t z) = map_option (\<lambda>d. (bidder_uuid env d, bid_amount d)) (best_bid t True z)"
proof (cases z)
  case (Cons x xs)
  have amounts: "map fst xs = map bid_amount (map snd xs)" "fst x = bid_amount (snd x)" using assms(1) Cons by simp_all
  have ok: "readable env users (snd x)" "list_all (readable env users) (map snd xs)" using assms(4) Cons by simp_all
  have scan: "sync_scan env t z = fold (sync_bid env t) (map snd xs) (Some (bidder_uuid env (snd x), bid_amount (snd x)), [row_of env (snd x)])"
    using ok(1) by (simp add: sync_scan_def Cons sync_bid_readable sync_leads_def)
  show ?thesis
  proof (cases t)
    case REVERSE
    have "\<forall>d \<in> set (map snd xs). bid_amount (snd x) \<le> bid_amount d" using assms(1,2) by (auto simp: Cons)
    then show ?thesis using scan_keeps_low [OF ok(2)] scan REVERSE by (simp add: best_bid_def zrange_def Cons)
  next
    case FORWARD
    have "sorted_wrt (<) (bid_amount (snd x) # map bid_amount (map snd xs))"
      using assms(2) assms(3) [OF FORWARD] amounts by (auto simp: Cons strict_sorted_iff image_iff order_less_le)
    from scan_takes_high [OF ok(2) this] have "fst (sync_scan env t z) = Some (bidder_uuid env (snd (last z)), bid_amount (snd (last z)))"
      using scan FORWARD Cons by (simp add: last_map)
    moreover obtain ys y where "z = ys @ [y]" using Cons by (metis list.distinct(1) rev_exhaust)
    then have "best_bid FORWARD True z = Some (snd (last z))" by (simp add: best_bid_def zrange_def)
    ultimately show ?thesis using FORWARD by simp
  qed
qed (simp add: sync_scan_def best_bid_def zrange_def split: auction_type.split)

lemma winner_agrees:
  "sync_winner t reserve (map_option (\<lambda>d. (bidder_uuid env d, bid_amount d)) (best_bid t True z)) =
     map_option (bidder_uuid env) (closing_winner t reserve True z)"
  by (auto simp: sync_winner_def closing_winner_def Let_def split: option.split auction_type.split)

text \<open>The insertion keeps what is there and adds the ids that are new.\<close>

lemma fold_insert_rows:
  "set rows \<subseteq> set (fold (\<lambda>b bs. if nb_id b \<in> nb_id ` set bs then bs else bs @ [b]) new rows) \<and>
   nb_id ` set (fold (\<lambda>b bs. if nb_id b \<in> nb_id ` set bs then bs else bs @ [b]) new rows) = nb_id ` set rows \<union> nb_id ` set new"
proof (induction new arbitrary: rows)
  case (Cons b new)
  show ?case using Cons [of "if nb_id b \<in> nb_id ` set rows then rows else rows @ [b]"] by auto
qed simp

lemma insert_readable:
  assumes "list_all (readable env users) ds"
  obtains rows where "insert_bids users (map (row_of env) ds) old = Some rows"
    and "nb_id ` set rows = nb_id ` set old \<union> nb_id ` row_of env ` set ds"
proof -
  have "list_all (\<lambda>b. nb_carrier_id b \<in> users) (map (row_of env) ds)"
    using assms by (auto simp: list_all_iff readable_def row_of_def)
  then show ?thesis using that fold_insert_rows [of old "map (row_of env) ds"] by (simp add: insert_bids_def)
qed

section \<open>The database names the winner that was announced\<close>

definition sync_done :: "sync_io" where
  "sync_done = \<lparr>sy_redis = True, sy_pool = True, sy_config = True, sy_zset = True, sy_update = True, sy_insert = True, sy_cleanup = True\<rparr>"

lemma attempt_done:
  assumes "io = sync_done\<lparr>sy_config := c\<rparr>" and "(if c then unwrap_or (fw_config w) (REVERSE, None) else (REVERSE, None)) = (t, reserve)" and "z = lg_zset (fw_ledger w)" and "map fst z = map (bid_amount \<circ> snd) z" and "sorted (map fst z)"
    and "t = FORWARD \<Longrightarrow> distinct (map fst z)" and "list_all (readable env (fw_users w)) (map snd z)"
  shows "\<exists>w'. sync_attempt env io w = (True, w') \<and>
    fw_row w' = complete_row (map_option (bidder_uuid env) (closing_winner t reserve True z)) (fw_row w) \<and>
    nb_id ` set (fw_bids w') = nb_id ` set (fw_bids w) \<union> nb_id ` row_of env ` set (map snd z) \<and> lg_zset (fw_ledger w') = []"
proof -
  obtain rows where rows: "insert_bids (fw_users w) (map (row_of env) (map snd z)) (fw_bids w) = Some rows"
      "nb_id ` set rows = nb_id ` set (fw_bids w) \<union> nb_id ` row_of env ` set (map snd z)"
    by (rule insert_readable [OF assms(7)])
  have scan: "sync_scan env t z = (map_option (\<lambda>d. (bidder_uuid env d, bid_amount d)) (best_bid t True z), map (row_of env) (map snd z))"
    using scan_best [OF assms(4-7)] scan_rows [OF assms(7), of t None "[]"] by (simp add: sync_scan_def prod_eq_iff)
  have "z = [] \<Longrightarrow> rows = fw_bids w" using rows(1) by (simp add: insert_bids_def)
  then show ?thesis
    using rows assms(1,2) scan
    by (cases "z = []") (simp_all add: sync_attempt_def sync_done_def unwrap_or_def winner_agrees cleanup_def Let_def flip: assms(3))
qed

text \<open>Once the sorted set is gone, further messages and sweeps change neither the winner nor the bids, and the auction stays completed.\<close>

definition final_settled :: "uuid option \<Rightarrow> new_bid_row list \<Rightarrow> final_world \<Rightarrow> bool" where
  "final_settled u rows w = (lg_zset (fw_ledger w) = [] \<and> fr_completed (fw_row w) \<and> fr_winner_id (fw_row w) = u \<and> fw_bids w = rows)"

lemma final_settled_attempt: "final_settled u rows w \<Longrightarrow> final_settled u rows (snd (sync_attempt env io w))"
  by (auto simp: sync_attempt_def sync_scan_def final_settled_def sync_winner_def complete_row_def cleanup_def Let_def split: prod.split)

lemma settled_tries: "final_settled u rows w \<Longrightarrow> final_settled u rows (snd (sync_tries env ios k w))"
proof (induction k arbitrary: w)
  case (Suc k)
  then show ?case using final_settled_attempt [OF Suc.prems, of env "ios (3 - Suc k)"] by (auto split: prod.split bool.split)
qed simp

lemma settled_step: "final_settled u rows w \<Longrightarrow> final_settled u rows (final_step env a e w)"
proof (cases e)
  case (FeSync payload ios dlq)
  assume "final_settled u rows w"
  with settled_tries [OF this, of env ios 3] FeSync show ?thesis
    by (auto simp: sync_message_def final_settled_def split: sum.split prod.split bool.split)
next
  case (FeSweep now io)
  assume "final_settled u rows w"
  then show ?thesis using FeSweep by (auto simp: sweep_def final_settled_def split: option.split)
qed

lemma settled_run: "final_settled u rows w \<Longrightarrow> final_settled u rows (fold (final_step env a) es w)"
  by (induction es arbitrary: w) (auto intro: settled_step)

lemma book_members:
  assumes "book_ok t s p L"
  shows "map fst (lg_zset L) = map (bid_amount \<circ> snd) (lg_zset L)" and "sorted (map fst (lg_zset L))"
    and "snd ` set (lg_zset L) = set (lg_live L)"
    and "distinct (map bid_amount (lg_live L)) \<Longrightarrow> distinct (map fst (lg_zset L))"
proof -
  show "map fst (lg_zset L) = map (bid_amount \<circ> snd) (lg_zset L)" "snd ` set (lg_zset L) = set (lg_live L)"
    using book_zset [OF assms] by (auto simp: image_image)
  show "sorted (map fst (lg_zset L))" using assms by (simp add: book_ok_def)
  have "image_mset fst (mset (lg_zset L)) = image_mset fst (mset (map (\<lambda>d. (bid_amount d, d)) (lg_live L)))"
    using assms by (simp add: book_ok_def)
  then have "mset (map fst (lg_zset L)) = mset (map bid_amount (lg_live L))"
    by (simp add: image_mset.compositionality comp_def flip: mset_map)
  then show "distinct (map fst (lg_zset L))" if "distinct (map bid_amount (lg_live L))"
    using that mset_eq_imp_distinct_iff by blast
qed


section \<open>Where the database goes wrong\<close>

lemma chain_from: "chain t s p ds \<Longrightarrow> is_double p \<Longrightarrow> d \<in> set ds \<Longrightarrow> \<not> beats t p (bid_amount d)"
proof (induction ds arbitrary: p)
  case (Cons e ds)
  then have "\<not> beats t p (bid_amount e)" by (intro better_not_worse) auto
  moreover have "d \<noteq> e \<Longrightarrow> \<not> beats t (bid_amount e) (bid_amount d)" using Cons by auto
  ultimately show ?case by (cases "d = e") (auto simp: beats_def split: auction_type.splits)
qed simp

text \<open>
  An error of the database gives a forward auction to its first bidder: when the worker cannot read the configuration of the
  auction, it takes it for a reverse auction without reserve and goes on; it stores the first accepted bid, the lowest, as the winner,
  whatever was bid after it, and, as the sorted set is deleted with that, no later message corrects it.
\<close>

lemma config_error_wrong_winner:
  assumes "names_request print" and "is_double p" and "\<forall>e \<in> set es. engine_ok parse FORWARD s p e"
    and "en = fold (engine_step print enc parse a) es (engine_for FORWARD s p reserve stop st)"
    and "fw_ledger w = en_ledger en" and "lg_live (en_ledger en) = d # ds"
    and "\<forall>d \<in> set (lg_live (en_ledger en)). readable env (fw_users w) d" and "distinct (map bid_amount (lg_live (en_ledger en)))"
    and "sync_read env payload = Inr i"
    and "w' = fold (final_step env i) later (sync_message env i payload (\<lambda>_. sync_done\<lparr>sy_config := False\<rparr>) dlq w)"
  shows "fr_completed (fw_row w') \<and> fr_winner_id (fw_row w') = Some (bidder_uuid env d)"
proof -
  let ?z = "lg_zset (en_ledger en)"
  have "engine_inv FORWARD s p en" using actor.run_inv [OF assms(3)] assms(1,2,4) by blast
  then have book: "book_ok FORWARD s p (en_ledger en)" by (simp add: engine_inv_def)
  note members = book_members [OF book]
  have ok: "list_all (readable env (fw_users w)) (map snd ?z)" using assms(7) members(3) by (auto simp: list_all_iff)
  obtain w1 where w1: "sync_attempt env (sync_done\<lparr>sy_config := False\<rparr>) w = (True, w1)"
      "fw_row w1 = complete_row (map_option (bidder_uuid env) (closing_winner REVERSE None True ?z)) (fw_row w)" "lg_zset (fw_ledger w1) = []"
    using attempt_done [of "sync_done\<lparr>sy_config := False\<rparr>" False w REVERSE None ?z env, OF _ _ arg_cong [OF assms(5) [symmetric]] members(1,2) members(4) [OF assms(8)] ok]
    by auto
  have "?z \<noteq> []" using members(3) assms(6) by auto
  then obtain x where x: "x \<in> set ?z" "zrange REVERSE 0 ?z = [snd x]" "\<And>y. y \<in> set ?z \<Longrightarrow> \<not> beats REVERSE (fst y) (fst x)"
    using zrange_best [of ?z REVERSE] members(2) by metis
  have chain: "chain FORWARD s p (d # ds)" using book assms(6) by (simp add: book_ok_def)
  have "(bid_amount d, d) \<in> set ?z" using book_zset [OF book] assms(6) by simp
  then have "bid_amount (snd x) \<le> bid_amount d" using x(1,3) members(1) by (fastforce simp: beats_def)
  moreover have "snd x \<in> set (lg_live (en_ledger en))" using x(1) members(3) by blast
  then have "snd x \<in> set (d # ds)" by (simp only: assms(6))
  moreover have "bid_amount d < bid_amount e" if "e \<in> set ds" for e
  proof -
    have "\<not> beats FORWARD (bid_amount d) (bid_amount e)" using chain chain_from [of FORWARD s "bid_amount d" ds e] that by simp
    moreover have "bid_amount d \<notin> bid_amount ` set ds" using assms(8) by (simp add: assms(6))
    with that have "bid_amount d \<noteq> bid_amount e" by blast
    ultimately show ?thesis by (simp add: beats_def)
  qed
  ultimately have "snd x = d" by force
  then have "closing_winner REVERSE None True ?z = Some d" using x(2) by (simp add: closing_winner_def best_bid_def)
  then have "final_settled (Some (bidder_uuid env d)) (fw_bids w1) w1" using w1 by (simp add: final_settled_def complete_row_def)
  moreover have "sync_message env i payload (\<lambda>_. sync_done\<lparr>sy_config := False\<rparr>) dlq w = w1"
    using w1(1) assms(9) by (simp add: sync_message_def eval_nat_numeral)
  ultimately show ?thesis using settled_run assms(10) by (metis final_settled_def)
qed

text \<open>A bid that would be stored, of a bidder that the database may not know.\<close>

definition storable :: "sync_env \<Rightarrow> decision \<Rightarrow> bool" where
  "storable env d = (dc_is_executed d \<and> se_time_ok env (br_timestamp (dc_bid d)) \<and> se_parse_uuid env (dc_request_id d) \<noteq> None \<and>
     se_parse_uuid env (br_bidder_id (dc_bid d)) \<noteq> None)"

lemma scan_grows: "set rows \<subseteq> set (snd (fold (sync_bid env t) ds (best, rows)))"
proof (induction ds arbitrary: best rows)
  case (Cons d ds)
  have "set rows \<subseteq> set (snd (sync_bid env t d (best, rows)))" by (auto simp: sync_bid_def Let_def split: option.split)
  then show ?case using Cons [of "snd (sync_bid env t d (best, rows))" "fst (sync_bid env t d (best, rows))"] by simp
qed simp

lemma scan_stores:
  assumes "d \<in> set ds" and "storable env d"
  shows "row_of env d \<in> set (snd (fold (sync_bid env t) ds acc))"
  using assms(1)
proof (induction ds arbitrary: acc)
  case (Cons e ds)
  show ?case
  proof (cases "d = e")
    case True
    obtain best rows where acc: "acc = (best, rows)" by (cases acc)
    have "row_of env d \<in> set (snd (sync_bid env t e acc))"
      using assms(2) True by (auto simp: acc storable_def sync_bid_def row_of_def Let_def)
    then show ?thesis using scan_grows [of "snd (sync_bid env t e acc)" env t ds "fst (sync_bid env t e acc)"] by auto
  qed (use Cons in simp)
qed simp

definition blocked :: "sync_env \<Rightarrow> zset \<Rightarrow> uuid set \<Rightarrow> new_bid_row list \<Rightarrow> final_world \<Rightarrow> bool" where
  "blocked env z users rows w = (lg_zset (fw_ledger w) = z \<and> fw_users w = users \<and> fw_bids w = rows)"

lemma blocked_attempt:
  assumes "blocked env z users rows w" and "d \<in> snd ` set z" and "storable env d" and "bidder_uuid env d \<notin> users"
  shows "blocked env z users rows (snd (sync_attempt env io w)) \<and> \<not> fst (sync_attempt env io w)"
proof -
  have "insert_bids users (snd (sync_scan env t z)) rows = None" "snd (sync_scan env t z) \<noteq> []" for t
  proof -
    have "row_of env d \<in> set (snd (sync_scan env t z))" using scan_stores [of d "map snd z"] assms(2,3) by (simp add: sync_scan_def)
    moreover have "nb_carrier_id (row_of env d) \<notin> users" using assms(4) by (simp add: row_of_def)
    ultimately show "insert_bids users (snd (sync_scan env t z)) rows = None" "snd (sync_scan env t z) \<noteq> []"
      by (auto simp: insert_bids_def list_all_iff)
  qed
  then show ?thesis
    using assms(1) by (auto simp: sync_attempt_def blocked_def Let_def case_prod_beta)
qed

lemma blocked_step:
  assumes "blocked env z users rows w" and "d \<in> snd ` set z" and "storable env d" and "bidder_uuid env d \<notin> users"
  shows "blocked env z users rows (final_step env a e w)"
proof (cases e)
  case (FeSync payload ios dlq)
  have "blocked env z users rows (snd (sync_tries env ios k w)) \<and> \<not> fst (sync_tries env ios k w)" for k
    using assms(1)
  proof (induction k arbitrary: w)
    case (Suc k)
    from blocked_attempt [OF Suc.prems assms(2-4), of "ios (3 - Suc k)"] show ?case
      using Suc.IH by (auto split: prod.split bool.split)
  qed simp
  moreover obtain b w' where tries: "sync_tries env ios 3 w = (b, w')" by (cases "sync_tries env ios 3 w")
  ultimately have "blocked env z users rows w'" "\<not> b" by (metis snd_conv, metis fst_conv)
  then show ?thesis using assms(1) FeSync by (simp add: sync_message_def tries blocked_def split: sum.split)
next
  case (FeSweep now io)
  then show ?thesis using assms(1) by (auto simp: sweep_def blocked_def split: option.split)
qed

text \<open>
  One bid of an unknown user keeps all bids of the auction out of the database: the accepted bids are stored with one statement,
  which fails when one of them names a bidder without an account; and no sequence of further messages and sweeps ever
  stores a bid of this auction, since the third failure ends in the queue of dead letters.
\<close>

lemma unknown_bidder_blocks_archive:
  assumes "d \<in> snd ` set (lg_zset (fw_ledger w))" and "storable env d" and "bidder_uuid env d \<notin> fw_users w"
  shows "fw_bids (fold (final_step env a) es w) = fw_bids w"
proof -
  have "blocked env (lg_zset (fw_ledger w)) (fw_users w) (fw_bids w) v \<Longrightarrow>
      blocked env (lg_zset (fw_ledger w)) (fw_users w) (fw_bids w) (fold (final_step env a) es v)" for v
    by (induction es arbitrary: v) (auto intro: blocked_step [OF _ assms])
  from this [of w] show ?thesis by (simp add: blocked_def)
qed

text \<open>An auction that is marked as completed is not queued again: after the sweeper has marked it, a message that fails is the last one.\<close>

lemma sweep_completed: "fr_completed (fw_row w) \<Longrightarrow> sweep now io w = w"
  by (simp add: sweep_def split: option.split)

section \<open>Examples\<close>

definition ex_forward_history :: "engine_event list" where
  "ex_forward_history = [EvTask (ex_task ''1'' (ex_bid ''u1'' 110 1)) 1 (ex_io RedisOk), EvTask (ex_task ''2'' (ex_bid ''u2'' 120 2)) 2 (ex_io RedisOk)]"

definition ex_forward :: engine where
  "ex_forward = fold (engine_step dc_request_id (\<lambda>_. JNull) (\<lambda>_. None) ''a'') ex_forward_history (engine_for FORWARD 5 100 None 1000 None)"

definition ex_sync_env :: sync_env where
  "ex_sync_env = \<lparr>se_parse_uuid = [''a'' \<mapsto> 7, ''u1'' \<mapsto> 1, ''u2'' \<mapsto> 2, ''1'' \<mapsto> 11, ''2'' \<mapsto> 12], se_time_ok = (\<lambda>_. True)\<rparr>"

definition ex_final :: "uuid set \<Rightarrow> final_world" where
  "ex_final users = \<lparr>fw_ledger = en_ledger ex_forward, fw_hash = None,
     fw_row = \<lparr>fr_completed = False, fr_winner_id = None, fr_end_time = Some 1000\<rparr>,
     fw_config = Some (FORWARD, None), fw_users = users, fw_bids = [], fw_queued = 0, fw_dead = []\<rparr>"

definition ex_sync_payload :: json where
  "ex_sync_payload = JObj [(''auction_id'', JStr ''a'')]"

lemma ex_forward_ok: "\<forall>e \<in> set ex_forward_history. engine_ok parse FORWARD 5 100 e"
  using small_double [of 110] small_double [of 120]
  by (simp add: ex_forward_history_def engine_ok_def ex_io_def ex_task_def ex_bid_def)

lemma better_forward:
  "is_better_bid FORWARD (Fin 100) (Fin x) (Fin 5) \<longleftrightarrow> 105 \<le> x" "is_better_bid FORWARD (Fin 110) (Fin x) (Fin 5) \<longleftrightarrow> 115 \<le> x"
  using better_int(2) [of 100 5 x] better_int(2) [of 110 5 x] by auto

lemma ex_forward_live:
  "lg_live (en_ledger ex_forward) = [decision_of (ex_task ''1'' (ex_bid ''u1'' 110 1)) FORWARD True 100 1,
     decision_of (ex_task ''2'' (ex_bid ''u2'' 120 2)) FORWARD True 110 2]"
  by (simp add: ex_forward_def ex_forward_history_def actor_task_def ex_start_fields write_bid_def accept_script_def ledger_empty_def better_forward
      ex_task_def ex_bid_def ex_io_def Let_def) (simp add: engine_for_def engine_start_def)

lemma ex_forward_reserve: "rt_reserve_price (en_runtime ex_forward) = None"
  by (simp add: ex_forward_def ex_forward_history_def actor_task_def ex_start_fields write_bid_def accept_script_def ledger_empty_def better_forward
      ex_task_def ex_bid_def ex_io_def Let_def)

lemma ex_readable: "\<forall>d \<in> set (lg_live (en_ledger ex_forward)). readable ex_sync_env {1, 2} d"
  by (simp add: ex_forward_live readable_def ex_task_def ex_bid_def ex_sync_env_def)

lemma ex_amounts: "distinct (map bid_amount (lg_live (en_ledger ex_forward)))"
  by (simp add: ex_forward_live ex_task_def ex_bid_def)

lemma ex_sync_read: "sync_read ex_sync_env (Some ex_sync_payload) = Inr 7"
  by (simp add: sync_read_def ex_sync_payload_def ex_sync_env_def jstr_def jget_def as_str_def)


end
