(* ===== verification/Bid_Audit.thy ===== *)
theory Bid_Audit
  imports Bid_Pipeline Bid_Publisher Participants
begin

text \<open>
  The two archives of bids: \<open>run_bid_audit_worker\<close> of \<open>src/apps/notification-worker/src/main.rs\<close> stores the decisions of the engine, and
  \<open>request_audit.rs\<close> the requests themselves. Both read a Kafka partition in order, store a record until the database has taken
  it, or send it to the dead letters until that has worked, and then commit its offset (\<open>kafka.rs\<close>); the commit is not waited for, and
  after a crash they start at the offset that was stored last. The loop is stated once, for a function that converts a record and
  the keys of the table.
\<close>

section \<open>The loop\<close>

record ('m, 'r) archive =
  ak_log :: "'m list"
  ak_pos :: nat
  ak_requested :: "nat list"
  ak_committed :: nat
  ak_rows :: "'r list"
  ak_dead :: "(nat \<times> string) list"

definition archive_init :: "('m, 'r) archive" where
  "archive_init = \<lparr>ak_log = [], ak_pos = 0, ak_requested = [], ak_committed = 0, ak_rows = [], ak_dead = []\<rparr>"

text \<open>An insertion that does nothing when the key is there.\<close>

definition insert_row :: "('r \<Rightarrow> 'k) \<Rightarrow> 'r \<Rightarrow> 'r list \<Rightarrow> 'r list" where
  "insert_row key r rs = (if key r \<in> key ` set rs then rs else rs @ [r])"

definition archive_commit :: "('m, 'r) archive \<Rightarrow> ('m, 'r) archive" where
  "archive_commit ar = ar\<lparr>ak_requested := Suc (ak_pos ar) # ak_requested ar, ak_pos := Suc (ak_pos ar)\<rparr>"

text \<open>
  One attempt at the record under the position; the database or the queue of dead letters works, fails, or works and its answer
  is lost, and then the same record is tried again.
\<close>

definition archive_attempt :: "(nat \<Rightarrow> 'm \<Rightarrow> string + 'r) \<Rightarrow> ('r \<Rightarrow> 'k) \<Rightarrow> redis_io \<Rightarrow> ('m, 'r) archive \<Rightarrow> ('m, 'r) archive" where
  "archive_attempt conv key io ar =
     (if length (ak_log ar) \<le> ak_pos ar \<or> io = RedisFails then ar
      else let ar = (case conv (ak_pos ar) (ak_log ar ! ak_pos ar) of
               Inr r \<Rightarrow> ar\<lparr>ak_rows := insert_row key r (ak_rows ar)\<rparr>
             | Inl reason \<Rightarrow> ar\<lparr>ak_dead := ak_dead ar @ [(ak_pos ar, reason)]\<rparr>)
           in if io = RedisOk then archive_commit ar else ar)"

datatype 'm archive_event = ArSend 'm | ArAttempt redis_io | ArStored nat | ArCrash

fun archive_step :: "(nat \<Rightarrow> 'm \<Rightarrow> string + 'r) \<Rightarrow> ('r \<Rightarrow> 'k) \<Rightarrow> 'm archive_event \<Rightarrow> ('m, 'r) archive \<Rightarrow> ('m, 'r) archive" where
  "archive_step conv key (ArSend m) ar = ar\<lparr>ak_log := ak_log ar @ [m]\<rparr>"
| "archive_step conv key (ArAttempt io) ar = archive_attempt conv key io ar"
| "archive_step conv key (ArStored k) ar = (if k \<in> set (ak_requested ar) then ar\<lparr>ak_committed := k\<rparr> else ar)"
| "archive_step conv key ArCrash ar = ar\<lparr>ak_pos := ak_committed ar, ak_requested := []\<rparr>"

section \<open>The decisions\<close>

record decision_audit =
  au_request_id :: uuid
  au_auction_id :: string
  au_bidder_id :: uuid
  au_username :: "string option"
  au_amount :: rat
  au_auction_type :: auction_type
  au_accepted :: bool
  au_rejection_reason :: "string option"
  au_previous_price :: rat
  au_resulting_price :: rat
  au_submitted_at :: int
  au_processed_at :: int
  au_source_topic :: string
  au_source_partition :: int
  au_source_offset :: int

text \<open>The library that reads ids and the times that it can represent; amounts and prices of a record that parses are finite.\<close>

record audit_env =
  ad_parse_uuid :: "string \<Rightarrow> uuid option"
  ad_time_ok :: "int \<Rightarrow> bool"

definition to_new_bid_audit_event :: "audit_env \<Rightarrow> decision \<Rightarrow> string + decision_audit" where
  "to_new_bid_audit_event env d = (let b = dc_bid d in
     case ad_parse_uuid env (dc_request_id d) of None \<Rightarrow> Inl ''invalid request_id'' | Some r \<Rightarrow>
     (case ad_parse_uuid env (br_bidder_id b) of None \<Rightarrow> Inl ''invalid bidder_id'' | Some u \<Rightarrow>
      if br_amount b \<le> 0 then Inl ''amount must be finite and greater than zero''
      else if dc_source_topic d \<noteq> ''auction-bids'' \<or> dc_source_partition d < 0 \<or> dc_source_offset d < 0 then Inl ''invalid source Kafka position''
      else if \<not> dc_is_executed d \<and> dc_rejection_reason d = None then Inl ''rejected decision is missing rejection_reason''
      else if \<not> ad_time_ok env (br_timestamp b) then Inl ''invalid bid timestamp''
      else if \<not> ad_time_ok env (dc_processed_at d) then Inl ''invalid processed_at timestamp''
      else Inr \<lparr>au_request_id = r, au_auction_id = br_auction_id b, au_bidder_id = u, au_username = br_username b, au_amount = br_amount b,
        au_auction_type = dc_auction_type d, au_accepted = dc_is_executed d, au_rejection_reason = dc_rejection_reason d,
        au_previous_price = dc_previous_price d, au_resulting_price = dc_resulting_price d, au_submitted_at = br_timestamp b,
        au_processed_at = dc_processed_at d, au_source_topic = dc_source_topic d, au_source_partition = dc_source_partition d,
        au_source_offset = dc_source_offset d\<rparr>))"

text \<open>A record of the topic: a decision, or bytes that are none.\<close>

definition decision_row :: "audit_env \<Rightarrow> nat \<Rightarrow> decision option \<Rightarrow> string + decision_audit" where
  "decision_row env k m = (case m of
     None \<Rightarrow> Inl ''MALFORMED_BID_DECISION:invalid decision JSON''
   | Some d \<Rightarrow> (case to_new_bid_audit_event env d of Inl e \<Rightarrow> Inl (''MALFORMED_BID_DECISION:'' @ e) | Inr r \<Rightarrow> Inr r))"

section \<open>The requests\<close>

record request_row =
  rr_source_partition :: int
  rr_source_offset :: nat
  rr_request_id :: uuid
  rr_auction_id :: uuid
  rr_bidder_id :: uuid
  rr_username :: "string option"
  rr_amount :: rat
  rr_submitted_at :: int

text \<open>\<open>request_audit\<close> of a record of partition 0; the kept copy of the bytes is left out.\<close>

definition request_audit :: "audit_env \<Rightarrow> nat \<Rightarrow> bid_message \<Rightarrow> string + request_row" where
  "request_audit env k m = (case m of
     Malformed \<Rightarrow> Inl ''MALFORMED_BID_REQUEST''
   | BidMessage r b \<Rightarrow> (case (ad_parse_uuid env r, ad_parse_uuid env (br_auction_id b), ad_parse_uuid env (br_bidder_id b)) of
       (Some r', Some a, Some u) \<Rightarrow>
         if br_amount b \<le> 0 then Inl ''MALFORMED_BID_REQUEST:amount must be finite and greater than zero''
         else if \<not> ad_time_ok env (br_timestamp b) then Inl ''MALFORMED_BID_REQUEST:invalid bid timestamp''
         else Inr \<lparr>rr_source_partition = 0, rr_source_offset = k, rr_request_id = r', rr_auction_id = a, rr_bidder_id = u,
           rr_username = br_username b, rr_amount = br_amount b, rr_submitted_at = br_timestamp b\<rparr>
     | _ \<Rightarrow> Inl ''MALFORMED_BID_REQUEST''))"

section \<open>Nothing is lost and nothing is stored twice\<close>

text \<open>
  What the table should hold after the first \<open>n\<close> records: of the records that convert, the first one for each key.
\<close>

definition rows_upto :: "(nat \<Rightarrow> 'm \<Rightarrow> string + 'r) \<Rightarrow> ('r \<Rightarrow> 'k) \<Rightarrow> nat \<Rightarrow> 'm list \<Rightarrow> 'r list" where
  "rows_upto conv key n ms = fold (\<lambda>k rs. case conv k (ms ! k) of Inr r \<Rightarrow> insert_row key r rs | Inl _ \<Rightarrow> rs) [0..<n] []"

lemma rows_upto_0 [simp]: "rows_upto conv key 0 ms = []"
  by (simp add: rows_upto_def)

lemma rows_upto_Suc:
  "rows_upto conv key (Suc n) ms = (case conv n (ms ! n) of Inr r \<Rightarrow> insert_row key r (rows_upto conv key n ms) | Inl _ \<Rightarrow> rows_upto conv key n ms)"
  by (simp add: rows_upto_def split: sum.split)

lemma rows_upto_append: "n \<le> length ms \<Longrightarrow> rows_upto conv key n (ms @ ms') = rows_upto conv key n ms"
  by (induction n) (simp_all add: rows_upto_Suc nth_append split: sum.split)

lemma insert_row_keys [simp]: "key ` set (insert_row key r rs) = insert (key r) (key ` set rs)"
  by (auto simp: insert_row_def)

lemma insert_row_distinct: "distinct (map key rs) \<Longrightarrow> distinct (map key (insert_row key r rs))"
  by (auto simp: insert_row_def)

lemma rows_upto_distinct: "distinct (map key (rows_upto conv key n ms))"
  by (induction n) (auto simp: rows_upto_Suc insert_row_distinct split: sum.split)

lemma rows_upto_has: "k < n \<Longrightarrow> conv k (ms ! k) = Inr r \<Longrightarrow> key r \<in> key ` set (rows_upto conv key n ms)"
proof (induction n)
  case (Suc n)
  then show ?case by (cases "k = n") (auto simp: rows_upto_Suc split: sum.split)
qed simp

lemma rows_upto_from: "r \<in> set (rows_upto conv key n ms) \<Longrightarrow> \<exists>k < n. conv k (ms ! k) = Inr r"
  by (induction n) (auto simp: rows_upto_Suc insert_row_def less_Suc_eq split: sum.splits if_splits)

text \<open>\<open>h\<close> records have left their trace; the position, what was asked to commit and what was stored lie below.\<close>

definition archive_inv :: "(nat \<Rightarrow> 'm \<Rightarrow> string + 'r) \<Rightarrow> ('r \<Rightarrow> 'k) \<Rightarrow> ('m, 'r) archive \<Rightarrow> bool" where
  "archive_inv conv key ar = (\<exists>h \<le> length (ak_log ar). ak_pos ar \<le> h \<and> (\<forall>k \<in> set (ak_requested ar). k \<le> h) \<and> ak_committed ar \<le> h \<and>
     ak_rows ar = rows_upto conv key h (ak_log ar) \<and>
     set (ak_dead ar) = {(k, e). k < h \<and> conv k (ak_log ar ! k) = Inl e})"

lemma insert_row_known: "key r \<in> key ` set rs \<Longrightarrow> insert_row key r rs = rs"
  by (simp add: insert_row_def)

lemma archive_attempt_inv:
  assumes "archive_inv conv key ar"
  shows "archive_inv conv key (archive_attempt conv key io ar)"
proof (cases "length (ak_log ar) \<le> ak_pos ar \<or> io = RedisFails")
  case True
  with assms show ?thesis by (auto simp: archive_attempt_def)
next
  case False
  let ?k = "ak_pos ar" and ?ms = "ak_log ar"
  from assms obtain h where h: "h \<le> length ?ms" "?k \<le> h" "\<forall>k \<in> set (ak_requested ar). k \<le> h" "ak_committed ar \<le> h"
    and rows: "ak_rows ar = rows_upto conv key h ?ms" and dead: "set (ak_dead ar) = {(k, e). k < h \<and> conv k (?ms ! k) = Inl e}"
    unfolding archive_inv_def by blast
  define h' where "h' = max h (Suc ?k)"
  have bounds: "h' \<le> length ?ms" "?k < h'" "h \<le> h'" using False h(1) by (auto simp: h'_def)
  have stored: "rows_upto conv key h' ?ms = (case conv ?k (?ms ! ?k) of Inr r \<Rightarrow> insert_row key r (ak_rows ar) | Inl _ \<Rightarrow> ak_rows ar)"
  proof (cases "?k = h")
    case True
    then show ?thesis by (simp add: h'_def rows rows_upto_Suc split: sum.split)
  next
    case False
    then have "?k < h" "h' = h" using h(2) by (auto simp: h'_def)
    then show ?thesis by (auto simp: rows insert_row_known [OF rows_upto_has] split: sum.split)
  qed
  have "{(k, e). k < h' \<and> conv k (?ms ! k) = Inl e} =
      {(k, e). k < h \<and> conv k (?ms ! k) = Inl e} \<union> {(k, e). k = ?k \<and> conv k (?ms ! k) = Inl e}"
    using h(2) by (auto simp: h'_def less_max_iff_disj less_Suc_eq)
  then show ?thesis
    using False bounds h stored dead unfolding archive_inv_def
    by (intro exI [of _ h']) (auto simp: archive_attempt_def archive_commit_def Let_def split: sum.splits)
qed

lemma archive_step_inv: "archive_inv conv key ar \<Longrightarrow> archive_inv conv key (archive_step conv key e ar)"
proof (cases e)
  case (ArSend m)
  assume "archive_inv conv key ar"
  then obtain h where "h \<le> length (ak_log ar)" "ak_pos ar \<le> h" "\<forall>k \<in> set (ak_requested ar). k \<le> h" "ak_committed ar \<le> h"
    "ak_rows ar = rows_upto conv key h (ak_log ar)" "set (ak_dead ar) = {(k, e). k < h \<and> conv k (ak_log ar ! k) = Inl e}"
    unfolding archive_inv_def by blast
  then show ?thesis using ArSend unfolding archive_inv_def by (intro exI [of _ h]) (auto simp: rows_upto_append nth_append)
next
  case (ArAttempt io)
  assume "archive_inv conv key ar"
  then show ?thesis using ArAttempt archive_attempt_inv by simp
qed (auto simp: archive_inv_def)

interpretation archive_run: machine archive_init "archive_step conv key" "archive_inv conv key" "\<lambda>_. True"
  for conv :: "nat \<Rightarrow> 'm \<Rightarrow> string + 'r" and key :: "'r \<Rightarrow> 'k"
proof
  show "archive_inv conv key archive_init" by (simp add: archive_inv_def archive_init_def)
qed (rule archive_step_inv)


text \<open>The archive of requests has the position of a record as its key, so that it keeps every request that converts.\<close>

lemma audit_event_offset: "request_audit env k m = Inr r \<Longrightarrow> rr_source_offset r = k"
  by (auto simp: request_audit_def split: bid_message.splits option.splits if_splits)

lemma requests_archived:
  assumes "ar = fold (archive_step (request_audit env) (\<lambda>r. (rr_source_partition r, rr_source_offset r))) es archive_init"
    and "k < ak_committed ar" and "request_audit env k (ak_log ar ! k) = Inr r"
  shows "r \<in> set (ak_rows ar)"
proof -
  let ?key = "\<lambda>r. (rr_source_partition r, rr_source_offset r)"
  have "archive_inv (request_audit env) ?key ar" using archive_run.run_inv [of es] assms(1) by simp
  then obtain h where h: "ak_committed ar \<le> h" "ak_rows ar = rows_upto (request_audit env) ?key h (ak_log ar)" unfolding archive_inv_def by blast
  then obtain r' where r': "r' \<in> set (ak_rows ar)" "?key r' = ?key r"
    using rows_upto_has [of k h "request_audit env" "ak_log ar" r ?key] assms(2,3) by auto
  obtain k' where k': "request_audit env k' (ak_log ar ! k') = Inr r'"
    using rows_upto_from [OF r'(1) [unfolded h(2)]] by blast
  have "k' = k" using r'(2) audit_event_offset [OF k'] audit_event_offset [OF assms(3)] by simp
  with k' assms(3) r'(1) show ?thesis by simp
qed

section \<open>From the engine to the archive\<close>

text \<open>What the engine decides about a bid of the queue converts, whatever the decision: it is never a dead letter.\<close>

lemma decision_converts:
  assumes "ad_parse_uuid env r = Some i" and "ad_parse_uuid env (br_bidder_id b) = Some u" and "0 < br_amount b"
    and "ad_time_ok env (br_timestamp b)" and "ad_time_ok env now" and "tk = task_for k r b"
  shows "\<exists>row. decision_row env n (Some (decision_of tk t executed prev now)) = Inr row \<and> au_request_id row = i \<and> au_bidder_id row = u \<and>
    au_amount row = br_amount b \<and> au_accepted row = executed \<and> au_source_offset row = int k"
  using assms by (auto simp: decision_row_def to_new_bid_audit_event_def decision_of_def task_for_def Let_def)

text \<open>
  A request id that is used again hides an accepted bid from the archive: when a bid was rejected and the client repeats its request
  with a better amount, the engine accepts it and it becomes the price; but the archive keeps the first decision of a request
  and holds only the rejection. The engine remembers accepted requests only.
\<close>

lemma reused_request_unaudited:
  assumes "ad_parse_uuid env r = Some i" and "ad_parse_uuid env (br_bidder_id b) = Some u" and "ad_parse_uuid env (br_bidder_id b') = Some u'"
    and "0 < br_amount b" and "ad_time_ok env (br_timestamp b)" and "ad_time_ok env (br_timestamp b')" and "ad_time_ok env now" and "ad_time_ok env now'"
    and "br_auction_id b = a" and "br_auction_id b' = a" and "lg_processed (en_ledger en) r = None" and "lg_pending (en_ledger en) = []"
    and "wi_lookup io" and "wi_write io = RedisOk"
    and "\<not> is_better_bid (rt_auction_type (en_runtime en)) (Fin (rt_current_price (en_runtime en))) (Fin (br_amount b)) (Fin (rt_minimum_bid_step (en_runtime en)))"
    and "is_better_bid (rt_auction_type (en_runtime en)) (Fin (rt_current_price (en_runtime en))) (Fin (br_amount b')) (Fin (rt_minimum_bid_step (en_runtime en)))"
    and "actor_task print a (task_for k r b) now io en = (res, en1)" and "actor_task print a (task_for k' r b') now' io en1 = (res', en2)"
    and "ar = fold (archive_step (decision_row env) au_request_id) (map (ArSend \<circ> Some) (lg_pending (en_ledger en2)) @ [ArAttempt RedisOk, ArAttempt RedisOk]) archive_init"
  shows "rt_current_price (en_runtime en2) = br_amount b' \<and> dc_bid (last (lg_live (en_ledger en2))) = b' \<and> ak_pos ar = 2 \<and>
    length (ak_rows ar) = 1 \<and> \<not> au_accepted (hd (ak_rows ar)) \<and> au_amount (hd (ak_rows ar)) = br_amount b"
proof -
  let ?t = "rt_auction_type (en_runtime en)" and ?p = "rt_current_price (en_runtime en)"
  let ?d = "decision_of (task_for k r b) ?t False ?p now" and ?d' = "decision_of (task_for k' r b') ?t True ?p now'"
  have en1: "en_runtime en1 = en_runtime en" "en_ledger en1 = xadd_pending ?d (en_ledger en)"
    using assms(9,11,13-15,17) by (auto simp: actor_task_def write_bid_def task_for_def Let_def)
  have en2: "rt_current_price (en_runtime en2) = br_amount b'" "lg_live (en_ledger en2) = lg_live (en_ledger en) @ [?d']"
      "lg_pending (en_ledger en2) = [?d, ?d']"
    using assms(10-12,14,16,18) by (auto simp: actor_task_def write_bid_def accept_script_def en1 xadd_pending_def task_for_def decision_of_def Let_def)
  have pos: "0 < br_amount b'" using assms(16) by (auto simp: is_better_bid_def split: if_splits)
  obtain x where x: "decision_row env 0 (Some ?d) = Inr x" "au_request_id x = i" "\<not> au_accepted x" "au_amount x = br_amount b"
    using decision_converts [OF assms(1,2,4,5,7) refl, of 0 k ?t False ?p] by auto
  obtain y where y: "decision_row env 1 (Some ?d') = Inr y" "au_request_id y = i"
    using decision_converts [OF assms(1,3) pos assms(6,8) refl, of 1 k' ?t True ?p] by auto
  have "ar = \<lparr>ak_log = [Some ?d, Some ?d'], ak_pos = 2, ak_requested = [2, 1], ak_committed = 0, ak_rows = [x], ak_dead = []\<rparr>"
    using x y by (simp add: assms(19) en2 archive_init_def archive_attempt_def archive_commit_def insert_row_def Let_def)
  then show ?thesis using en2 x by (simp add: task_for_def)
qed

section \<open>Witnesses\<close>

definition ex_audit_env :: audit_env where
  "ex_audit_env = \<lparr>ad_parse_uuid = (\<lambda>s. Some 7), ad_time_ok = (\<lambda>_. True)\<rparr>"

definition ex_decision :: "rat \<Rightarrow> decision" where
  "ex_decision x = decision_of (task_for 0 ''r1'' (ex_bid ''u1'' x 1)) REVERSE True 100 2"

definition ex_archive :: "(decision option, decision_audit) archive" where
  "ex_archive = fold (archive_step (decision_row ex_audit_env) au_request_id)
     [ArSend (Some (ex_decision 90)), ArSend None, ArAttempt ReplyLost, ArAttempt RedisOk, ArAttempt RedisOk, ArStored 2, ArCrash] archive_init"

lemmas ex_audit_defs = ex_archive_def ex_decision_def ex_audit_env_def ex_bid_def task_for_def decision_of_def decision_row_def
  to_new_bid_audit_event_def archive_init_def archive_attempt_def archive_commit_def insert_row_def

lemma ex_archive_facts:
  "ak_committed ex_archive = 2" "ak_log ex_archive = [Some (ex_decision 90), None]"
  "\<exists>r. decision_row ex_audit_env 0 (Some (ex_decision 90)) = Inr r \<and> au_request_id r = 7"
  "decision_row ex_audit_env 1 None = Inl ''MALFORMED_BID_DECISION:invalid decision JSON''"
  by (simp_all add: ex_audit_defs Let_def)


end
