(* ===== verification/Live_Broadcast.thy ===== *)
theory Live_Broadcast
  imports Bid_Path
begin

text \<open>
  The way of a decision to the pages: the engine publishes it on a channel of Redis (\<open>publish_live_update\<close> of
  \<open>src/apps/auction-engine/src/ledger.rs\<close>), every instance of the socket server that listens forwards it to the room of the
  auction (the task of \<open>run\<close> in \<open>src/apps/ws-server/src/main.rs\<close>), and a page in the room hands it to its store. The rooms are kept by
  the library of the server: \<open>reach i j\<close> says that what instance \<open>i\<close> emits to a room reaches the sockets of instance \<open>j\<close>.
\<close>

section \<open>The message of the engine\<close>

definition bid_json :: "bid_request \<Rightarrow> json" where
  "bid_json b = JObj [(''auction_id'', JStr (br_auction_id b)), (''bidder_id'', JStr (br_bidder_id b)),
     (''username'', case br_username b of None \<Rightarrow> JNull | Some u \<Rightarrow> JStr u), (''amount'', JNum (Fin (br_amount b))),
     (''timestamp'', JNum (Fin (of_int (br_timestamp b))))]"

definition decision_json :: "decision \<Rightarrow> json" where
  "decision_json d = JObj [(''schema_version'', JNum (Fin 1)), (''event_type'', JStr ''bid_decision''), (''request_id'', JStr (dc_request_id d)),
     (''bid'', bid_json (dc_bid d)), (''auction_type'', JStr (wire_name (dc_auction_type d))), (''is_executed'', JBool (dc_is_executed d)),
     (''rejection_reason'', case dc_rejection_reason d of None \<Rightarrow> JNull | Some e \<Rightarrow> JStr e), (''previous_price'', JNum (Fin (dc_previous_price d))),
     (''resulting_price'', JNum (Fin (dc_resulting_price d))), (''processed_at'', JNum (Fin (of_int (dc_processed_at d)))),
     (''source_topic'', JStr (dc_source_topic d)), (''source_partition'', JNum (Fin (of_int (dc_source_partition d)))),
     (''source_offset'', JNum (Fin (of_int (dc_source_offset d))))]"

definition live_update :: "decision \<Rightarrow> json" where
  "live_update d = JObj [(''auction_id'', JStr (br_auction_id (dc_bid d))), (''payload'', decision_json d)]"

section \<open>The instances of the socket server\<close>

record ws_node =
  wn_subscribed :: bool
  wn_sockets :: "live_socket list"

text \<open>An instance whose subscription fails leaves the task and never forwards anything.\<close>

definition ws_node_start :: "bool \<Rightarrow> ws_node" where
  "ws_node_start subscribed = \<lparr>wn_subscribed = subscribed, wn_sockets = []\<rparr>"

text \<open>A text that is not JSON, or lacks one of the two fields, is passed over.\<close>

definition forward_update :: "json option \<Rightarrow> (string \<times> json) option" where
  "forward_update m = Option.bind m (\<lambda>v. case (jstr ''auction_id'' v, jget ''payload'' v) of
     (Some a, Some p) \<Rightarrow> Some (a, p) | _ \<Rightarrow> None)"

definition room_emit :: "string \<Rightarrow> json \<Rightarrow> live_socket \<Rightarrow> live_socket" where
  "room_emit a p s = (if ls_open s \<and> a \<in> set (ls_rooms s) then send_msg (MsgUpdate p) s else s)"

definition node_message :: "(nat \<Rightarrow> nat \<Rightarrow> bool) \<Rightarrow> nat \<times> json option \<Rightarrow> ws_node list \<Rightarrow> ws_node list" where
  "node_message reach e ns = (case e of (i, m) \<Rightarrow>
     if length ns \<le> i \<or> \<not> wn_subscribed (ns ! i) then ns
     else case forward_update m of None \<Rightarrow> ns
        | Some (a, p) \<Rightarrow> map (\<lambda>j. if reach i j then (ns ! j)\<lparr>wn_sockets := map (room_emit a p) (wn_sockets (ns ! j))\<rparr> else ns ! j) [0..<length ns])"

section \<open>What the page reads\<close>

definition json_bid :: "json \<Rightarrow> bid_request option" where
  "json_bid v = (case (jstr ''auction_id'' v, jstr ''bidder_id'' v, jf64 ''amount'' v, jf64 ''timestamp'' v) of
     (Some a, Some u, Some x, Some t) \<Rightarrow> Some \<lparr>br_auction_id = a, br_bidder_id = u, br_username = jstr ''username'' v, br_amount = x, br_timestamp = floor t\<rparr>
   | _ \<Rightarrow> None)"

definition json_event :: "json \<Rightarrow> bid_event" where
  "json_event v = \<lparr>be_bid = Option.bind (jget ''bid'' v) json_bid, be_is_executed = (jget ''is_executed'' v = Some (JBool True))\<rparr>"

text \<open>The events that a socket hands to the page, of the messages from the \<open>n\<close>-th on.\<close>

definition msg_event :: "live_msg \<Rightarrow> server_event option" where
  "msg_event m = (case m of MsgInit q \<Rightarrow> Some (AuctionInit q) | MsgUpdate p \<Rightarrow> Some (BidUpdate (json_event p)) | _ \<Rightarrow> None)"

definition page_events :: "nat \<Rightarrow> live_socket \<Rightarrow> server_event list" where
  "page_events n s = List.map_filter msg_event (drop n (ls_sent s))"

lemma json_bid_of [simp]: "json_bid (bid_json b) = Some b"
  by (simp add: json_bid_def bid_json_def jstr_def jf64_def jget_def as_str_def as_f64_def split: option.split)

lemma json_event_of [simp]: "json_event (decision_json d) = event_of d"
  by (simp add: json_event_def decision_json_def jget_def event_of_def)

lemma forward_live_update [simp]: "forward_update (Some (live_update d)) = Some (br_auction_id (dc_bid d), decision_json d)"
  by (simp add: forward_update_def live_update_def jstr_def jget_def as_str_def)

section \<open>One copy per instance\<close>

text \<open>What a socket in the room of the auction receives does not depend on the others.\<close>

definition in_room :: "string \<Rightarrow> live_socket \<Rightarrow> bool" where
  "in_room a s \<longleftrightarrow> ls_open s \<and> a \<in> set (ls_rooms s)"

lemma in_room_send [simp]: "in_room a (send_msg m s) = in_room a s"
  by (simp add: in_room_def send_msg_def)

lemma node_message_socket:
  assumes "j < length ns" and "k < length (wn_sockets (ns ! j))" and "in_room a (wn_sockets (ns ! j) ! k)"
    and "\<And>i. i < length ns \<Longrightarrow> reach i j" and "br_auction_id (dc_bid d) = a" and "i < length ns"
  shows "wn_sockets (node_message reach (i, Some (live_update d)) ns ! j) ! k =
    (if wn_subscribed (ns ! i) then send_msg (MsgUpdate (decision_json d)) (wn_sockets (ns ! j) ! k) else wn_sockets (ns ! j) ! k)"
  using assms by (simp add: node_message_def room_emit_def in_room_def)

lemma node_message_shape [simp]:
  "length (node_message reach e ns) = length ns"
  "j < length ns \<Longrightarrow> length (wn_sockets (node_message reach e ns ! j)) = length (wn_sockets (ns ! j))"
  "j < length ns \<Longrightarrow> wn_subscribed (node_message reach e ns ! j) = wn_subscribed (ns ! j)"
  by (auto simp: node_message_def split: prod.split option.split)

lemma cluster_socket:
  assumes "j < length ns" and "k < length (wn_sockets (ns ! j))" and "in_room a (wn_sockets (ns ! j) ! k)"
    and "\<And>i. i < length ns \<Longrightarrow> reach i j" and "\<forall>(i, d) \<in> set es. i < length ns \<and> br_auction_id (dc_bid d) = a"
  shows "wn_sockets (fold (node_message reach) (map (\<lambda>(i, d). (i, Some (live_update d))) es) ns ! j) ! k =
    fold send_msg (map (\<lambda>(i, d). MsgUpdate (decision_json d)) (filter (\<lambda>(i, d). wn_subscribed (ns ! i)) es)) (wn_sockets (ns ! j) ! k)"
  using assms
proof (induction es arbitrary: ns)
  case (Cons e es)
  obtain i d where e: "e = (i, d)" by force
  let ?ns = "node_message reach (i, Some (live_update d)) ns"
  have sock: "wn_sockets (?ns ! j) ! k =
      (if wn_subscribed (ns ! i) then send_msg (MsgUpdate (decision_json d)) (wn_sockets (ns ! j) ! k) else wn_sockets (ns ! j) ! k)"
    using node_message_socket [of j ns k a reach d i] Cons.prems e by simp
  have "filter (\<lambda>(i, d). wn_subscribed (?ns ! i)) es = filter (\<lambda>(i, d). wn_subscribed (ns ! i)) es"
    using Cons.prems(5) by (intro filter_cong) auto
  with Cons.IH [of ?ns] Cons.prems sock show ?case by (simp add: e)
qed simp

lemma fold_send_msg: "ls_sent (fold send_msg ms s) = ls_sent s @ ms"
  by (induction ms arbitrary: s) (simp_all add: send_msg_def)

lemma mset_by_class:
  "finite S \<Longrightarrow> mset (map snd (filter (\<lambda>e. fst e \<in> S) es)) = (\<Sum>i\<in>S. mset (map snd (filter (\<lambda>e. fst e = i) es)))"
proof (induction es)
  case (Cons e es)
  have "(\<Sum>i\<in>S. mset (map snd (filter (\<lambda>e. fst e = i) (e # es)))) =
      (\<Sum>i\<in>S. (if i = fst e then {#snd e#} else {#}) + mset (map snd (filter (\<lambda>e. fst e = i) es)))"
    by (intro sum.cong) auto
  also have "\<dots> = (if fst e \<in> S then {#snd e#} else {#}) + (\<Sum>i\<in>S. mset (map snd (filter (\<lambda>e. fst e = i) es)))"
    using Cons.prems by (simp add: sum.distrib)
  finally show ?case using Cons by simp
qed simp

lemma sum_const_mset: "finite S \<Longrightarrow> (\<Sum>i\<in>S. M) = repeat_mset (card S) (M :: 'a multiset)"
  by (induction S rule: finite_induct) simp_all

lemma repeat_image: "image_mset f (repeat_mset n M) = repeat_mset n (image_mset f M)"
  by (induction n) simp_all

lemma repeat_members: "0 < n \<Longrightarrow> set_mset (repeat_mset n M) = set_mset M"
  by (simp add: set_eq_iff flip: count_greater_zero_iff)

section \<open>Copies and their order do not matter to the page\<close>

text \<open>The pages of two sequences of updates with the same members.\<close>

lemma pages_agree:
  assumes "page = fold (deliver clock r) (AuctionInit (reload_msg a v part True L) # map (BidUpdate \<circ> event_of) ups) page0"
    and "page' = fold (deliver clock r) (AuctionInit (reload_msg a v part True L) # map (BidUpdate \<circ> event_of) ups') page0"
    and "set ups' = set ups" and "vr_auction_type v = wire_name t" and "0 < vr_minimum_bid_step v" and "consistent (payload_of ` set (shown t L ups))"
  shows "set (bids page') = set (bids page) \<and> currentPrice page' = currentPrice page"
proof -
  have same: "set (shown t L ups') = set (shown t L ups)" using assms(3) by (simp add: shown_def)
  note page = page_rows [OF assms(1,4,5,6)] and page' = page_rows [OF assms(2,4,5) assms(6) [folded same]]
  have "set (bids page') = set (bids page)" using page(1) page'(1) same by (simp add: rows_of_def)
  moreover from this have "set (live_bids page') = set (live_bids page)" by (simp add: live_bids_def)
  moreover from this have "live_bids page' = [] \<longleftrightarrow> live_bids page = []" by (metis set_empty)
  ultimately show ?thesis using page page' by (simp add: rows_of_def)
qed


section \<open>Two instances\<close>

definition ex_update :: decision where
  "ex_update = decision_of (ex_task ''r1'' (ex_bid ''u1'' 90 1)) REVERSE True 100 1"

definition ex_nodes :: "ws_node list" where
  "ex_nodes = [(ws_node_start True)\<lparr>wn_sockets := [new_socket\<lparr>ls_rooms := [''a'']\<rparr>]\<rparr>, ws_node_start True]"

definition ex_listener :: live_socket where
  "ex_listener = wn_sockets (fold (node_message (\<lambda>_ _. True)) (map (\<lambda>(i, d). (i, Some (live_update d))) [(1, ex_update), (0, ex_update)]) ex_nodes ! 0) ! 0"

definition ex_copied_page :: auction_state where
  "ex_copied_page = fold (deliver 5 ''r'') (AuctionInit (reload_msg ''a'' ex_validation_result True True ledger_empty) # page_events 0 ex_listener) initialState"

lemma ex_nodes_listening: "{i. i < 2 \<and> wn_subscribed (ex_nodes ! i)} = {0, 1}"
  by (auto simp: ex_nodes_def ws_node_start_def less_Suc_eq)

lemma ex_update_consistent: "consistent (payload_of ` set (shown REVERSE ledger_empty [ex_update]))"
  by (simp add: consistent_def shown_def ledger_empty_def recent_events_def zrange_def payload_of_def reconcile_of_def id_keyed_def event_id_def
      ex_update_def decision_of_def ex_task_def ex_bid_def)

lemma ex_nodes_facts:
  "length ex_nodes = 2" "wn_sockets (ex_nodes ! 0) = [new_socket\<lparr>ls_rooms := [''a'']\<rparr>]" "br_auction_id (dc_bid ex_update) = ''a''"
  by (simp_all add: ex_nodes_def ws_node_start_def ex_update_def decision_of_def ex_task_def ex_bid_def)


end
