(* ===== verification/Change_Capture.thy ===== *)
theory Change_Capture
  imports Bid_Engine
begin

text \<open>
  The feed of the search: \<open>src/apps/cdc-worker/src/decoder.rs\<close> reads the messages of the database's replication stream byte by byte, and
  \<open>processor.rs\<close> puts the changes of two tables on the queue. Bytes are characters; \<open>lossy\<close> is \<open>String::from_utf8_lossy\<close>, an argument.
  The first part is the decoder, with its round trip for the format that the database documents; the second the way from the
  stream to the queue.
\<close>

section \<open>The parser\<close>

type_synonym bytes = string

text \<open>A parser that fails leaves the bytes where they are; each returns what is left.\<close>

definition p_u8 :: "bytes \<Rightarrow> char option \<times> bytes" where
  "p_u8 b = (case b of [] \<Rightarrow> (None, []) | c # r \<Rightarrow> (Some c, r))"

definition from_be_bytes :: "bytes \<Rightarrow> nat" where
  "from_be_bytes b = fold (\<lambda>c n. n * 256 + of_char c) b 0"

definition p_be :: "nat \<Rightarrow> bytes \<Rightarrow> nat option \<times> bytes" where
  "p_be n b = (if length b < n then (None, b) else (Some (from_be_bytes (take n b)), drop n b))"

definition p_u16_be :: "bytes \<Rightarrow> nat option \<times> bytes" where
  "p_u16_be = p_be 2"

definition p_u32_be :: "bytes \<Rightarrow> nat option \<times> bytes" where
  "p_u32_be = p_be 4"

definition p_i32_be :: "bytes \<Rightarrow> int option \<times> bytes" where
  "p_i32_be b = map_prod (map_option (\<lambda>n. if n < 2 ^ 31 then int n else int n - 2 ^ 32)) id (p_be 4 b)"

definition p_cstr :: "(bytes \<Rightarrow> string) \<Rightarrow> bytes \<Rightarrow> string option \<times> bytes" where
  "p_cstr lossy b = (if CHR 0x00 \<in> set b
     then (Some (lossy (takeWhile (\<lambda>c. c \<noteq> CHR 0x00) b)), tl (dropWhile (\<lambda>c. c \<noteq> CHR 0x00) b)) else (None, b))"

definition p_bytes :: "nat \<Rightarrow> bytes \<Rightarrow> bytes option \<times> bytes" where
  "p_bytes n b = (if length b < n then (None, b) else (Some (take n b), drop n b))"

section \<open>Messages\<close>

type_synonym row_fields = "string \<rightharpoonup> string option"

datatype wal_event = WalInsert string row_fields | WalUpdate string row_fields | WalDelete string row_fields | WalSkip

record relation_info =
  ri_name :: string
  ri_columns :: "string list"

type_synonym relation_registry = "nat \<rightharpoonup> relation_info"

fun parse_cells :: "(bytes \<Rightarrow> string) \<Rightarrow> string list \<Rightarrow> nat \<Rightarrow> nat \<Rightarrow> bytes \<Rightarrow> row_fields \<Rightarrow> row_fields option \<times> bytes" where
  "parse_cells lossy cols i 0 b f = (Some f, b)"
| "parse_cells lossy cols i (Suc n) b f = (case p_u8 b of (None, b) \<Rightarrow> (None, b)
   | (Some t, b) \<Rightarrow>
      (let c = (if i < length cols then cols ! i else ''_unknown'')
       in if t = CHR ''n'' then parse_cells lossy cols (Suc i) n b (f(c \<mapsto> None))
          else if t = CHR ''t'' then
            (case p_u32_be b of (None, b) \<Rightarrow> (None, b)
             | (Some len, b) \<Rightarrow> (case p_bytes len b of (None, b) \<Rightarrow> (None, b)
                | (Some v, b) \<Rightarrow> parse_cells lossy cols (Suc i) n b (f(c \<mapsto> Some (lossy v)))))
          else parse_cells lossy cols (Suc i) n b f))"

definition parse_tuple :: "(bytes \<Rightarrow> string) \<Rightarrow> string list \<Rightarrow> bytes \<Rightarrow> row_fields option \<times> bytes" where
  "parse_tuple lossy cols b = (case p_u16_be b of (None, b) \<Rightarrow> (None, b) | (Some n, b) \<Rightarrow> parse_cells lossy cols 0 n b Map.empty)"

fun relation_columns :: "(bytes \<Rightarrow> string) \<Rightarrow> nat \<Rightarrow> bytes \<Rightarrow> string list" where
  "relation_columns lossy 0 b = []"
| "relation_columns lossy (Suc n) b =
     (let b = snd (p_u8 b); (c, b) = p_cstr lossy b; b = snd (p_u32_be b); b = snd (p_i32_be b)
      in (case c of None \<Rightarrow> [] | Some c \<Rightarrow> c) # relation_columns lossy n b)"

definition handle_relation :: "(bytes \<Rightarrow> string) \<Rightarrow> bytes \<Rightarrow> relation_registry \<Rightarrow> relation_registry" where
  "handle_relation lossy b reg = (case p_u32_be b of (None, _) \<Rightarrow> reg
   | (Some oid, b) \<Rightarrow>
      (let b = snd (p_cstr lossy b); (nm, b) = p_cstr lossy b; b = snd (p_u8 b)
       in case p_u16_be b of (None, _) \<Rightarrow> reg
          | (Some n, b) \<Rightarrow> reg(oid \<mapsto> \<lparr>ri_name = (case nm of None \<Rightarrow> [] | Some s \<Rightarrow> s), ri_columns = relation_columns lossy n b\<rparr>)))"

text \<open>The relation that a message names, and the bytes after its number.\<close>

definition with_relation :: "relation_registry \<Rightarrow> bytes \<Rightarrow> (relation_info \<Rightarrow> bytes \<Rightarrow> wal_event) \<Rightarrow> wal_event" where
  "with_relation reg b k = (case p_u32_be b of (None, _) \<Rightarrow> WalSkip
   | (Some oid, b) \<Rightarrow> (case reg oid of None \<Rightarrow> WalSkip | Some rel \<Rightarrow> k rel b))"

definition handle_insert :: "(bytes \<Rightarrow> string) \<Rightarrow> relation_registry \<Rightarrow> bytes \<Rightarrow> wal_event" where
  "handle_insert lossy reg b = with_relation reg b (\<lambda>rel b. case p_u8 b of (m, b) \<Rightarrow>
     if m \<noteq> Some (CHR ''N'') then WalSkip
     else case fst (parse_tuple lossy (ri_columns rel) b) of None \<Rightarrow> WalSkip | Some f \<Rightarrow> WalInsert (ri_name rel) f)"

definition handle_update :: "(bytes \<Rightarrow> string) \<Rightarrow> relation_registry \<Rightarrow> bytes \<Rightarrow> wal_event" where
  "handle_update lossy reg b = with_relation reg b (\<lambda>rel b. case p_u8 b of (m, b) \<Rightarrow>
     let result = (\<lambda>f. case f of None \<Rightarrow> WalSkip | Some f \<Rightarrow> WalUpdate (ri_name rel) f)
     in if m = Some (CHR ''O'') \<or> m = Some (CHR ''K'') then
          (case p_u8 (snd (parse_tuple lossy (ri_columns rel) b)) of (m, b) \<Rightarrow>
            if m \<noteq> Some (CHR ''N'') then WalSkip else result (fst (parse_tuple lossy (ri_columns rel) b)))
        else if m = Some (CHR ''N'') then result (fst (parse_tuple lossy (ri_columns rel) b))
        else WalSkip)"

definition handle_delete :: "(bytes \<Rightarrow> string) \<Rightarrow> relation_registry \<Rightarrow> bytes \<Rightarrow> wal_event" where
  "handle_delete lossy reg b = with_relation reg b (\<lambda>rel b. case p_u8 b of (m, b) \<Rightarrow>
     if m \<noteq> Some (CHR ''O'') \<and> m \<noteq> Some (CHR ''K'') then WalSkip
     else case fst (parse_tuple lossy (ri_columns rel) b) of None \<Rightarrow> WalSkip | Some f \<Rightarrow> WalDelete (ri_name rel) f)"

definition process_message :: "(bytes \<Rightarrow> string) \<Rightarrow> bytes \<Rightarrow> relation_registry \<Rightarrow> wal_event \<times> relation_registry" where
  "process_message lossy d reg = (case d of [] \<Rightarrow> (WalSkip, reg) | tag # body \<Rightarrow>
     if tag = CHR ''R'' then (WalSkip, handle_relation lossy body reg)
     else if tag = CHR ''I'' then (handle_insert lossy reg body, reg)
     else if tag = CHR ''U'' then (handle_update lossy reg body, reg)
     else if tag = CHR ''D'' then (handle_delete lossy reg body, reg)
     else (WalSkip, reg))"

section \<open>The format of the database\<close>

text \<open>The messages as the database documents them: a column is null, unchanged and not sent, or a text.\<close>

fun be_bytes :: "nat \<Rightarrow> nat \<Rightarrow> bytes" where
  "be_bytes 0 v = []"
| "be_bytes (Suc n) v = be_bytes n (v div 256) @ [char_of (v mod 256)]"

datatype cell = CellNull | CellUnchanged | CellText string

fun enc_cell :: "cell \<Rightarrow> bytes" where
  "enc_cell CellNull = ''n''"
| "enc_cell CellUnchanged = ''u''"
| "enc_cell (CellText v) = CHR ''t'' # be_bytes 4 (length v) @ v"

definition enc_tuple :: "cell list \<Rightarrow> bytes" where
  "enc_tuple cs = be_bytes 2 (length cs) @ concat (map enc_cell cs)"

text \<open>A table: its number, its schema and its name, and for each column its flag, name, type and modifier.\<close>

record pg_relation =
  pg_oid :: nat
  pg_schema :: string
  pg_name :: string
  pg_identity :: char
  pg_columns :: "(char \<times> string \<times> nat \<times> nat) list"

definition column_names :: "pg_relation \<Rightarrow> string list" where
  "column_names r = map (\<lambda>(_, c, _, _). c) (pg_columns r)"

definition enc_relation :: "pg_relation \<Rightarrow> bytes" where
  "enc_relation r = CHR ''R'' # be_bytes 4 (pg_oid r) @ pg_schema r @ [CHR 0x00] @ pg_name r @ [CHR 0x00, pg_identity r] @
     be_bytes 2 (length (pg_columns r)) @
     concat (map (\<lambda>(f, c, ty, md). f # c @ [CHR 0x00] @ be_bytes 4 ty @ be_bytes 4 md) (pg_columns r))"

datatype row_change = RowInsert "cell list" | RowUpdate "(bool \<times> cell list) option" "cell list" | RowDelete bool "cell list"

definition old_mark :: "bool \<Rightarrow> char" where
  "old_mark full = (if full then CHR ''O'' else CHR ''K'')"

fun enc_change :: "nat \<Rightarrow> row_change \<Rightarrow> bytes" where
  "enc_change oid (RowInsert cs) = CHR ''I'' # be_bytes 4 oid @ CHR ''N'' # enc_tuple cs"
| "enc_change oid (RowUpdate None cs) = CHR ''U'' # be_bytes 4 oid @ CHR ''N'' # enc_tuple cs"
| "enc_change oid (RowUpdate (Some (full, old)) cs) = CHR ''U'' # be_bytes 4 oid @ old_mark full # enc_tuple old @ CHR ''N'' # enc_tuple cs"
| "enc_change oid (RowDelete full old) = CHR ''D'' # be_bytes 4 oid @ old_mark full # enc_tuple old"

text \<open>What such a message says.\<close>

fun cell_field :: "string \<times> cell \<Rightarrow> row_fields \<Rightarrow> row_fields" where
  "cell_field (c, CellNull) f = f(c \<mapsto> None)"
| "cell_field (c, CellUnchanged) f = f"
| "cell_field (c, CellText v) f = f(c \<mapsto> Some v)"

definition fields_of :: "string list \<Rightarrow> cell list \<Rightarrow> row_fields" where
  "fields_of cols cs = fold cell_field (zip cols cs) Map.empty"

fun change_event :: "pg_relation \<Rightarrow> row_change \<Rightarrow> wal_event" where
  "change_event r (RowInsert cs) = WalInsert (pg_name r) (fields_of (column_names r) cs)"
| "change_event r (RowUpdate _ cs) = WalUpdate (pg_name r) (fields_of (column_names r) cs)"
| "change_event r (RowDelete _ old) = WalDelete (pg_name r) (fields_of (column_names r) old)"

section \<open>The decoder reads the format\<close>

lemma be_bytes_length [simp]: "length (be_bytes n v) = n"
  by (induction n arbitrary: v) simp_all

lemma from_be_snoc: "from_be_bytes (b @ [c]) = from_be_bytes b * 256 + of_char c"
  by (simp add: from_be_bytes_def)

lemma from_be_be [simp]: "v < 256 ^ n \<Longrightarrow> from_be_bytes (be_bytes n v) = v"
proof (induction n arbitrary: v)
  case 0
  then show ?case by (simp add: from_be_bytes_def)
next
  case (Suc n)
  then have "v div 256 < 256 ^ n" by (simp add: less_mult_imp_div_less mult.commute)
  then show ?case using Suc.IH by (simp add: from_be_snoc)
qed

lemma p_be_enc: "v < 256 ^ n \<Longrightarrow> p_be n (be_bytes n v @ b) = (Some v, b)"
  by (simp add: p_be_def)

lemma p_u16_enc: "v < 2 ^ 16 \<Longrightarrow> p_u16_be (be_bytes 2 v @ b) = (Some v, b)"
  by (simp add: p_u16_be_def p_be_enc)

lemma p_u32_enc: "v < 2 ^ 32 \<Longrightarrow> p_u32_be (be_bytes 4 v @ b) = (Some v, b)"
  by (simp add: p_u32_be_def p_be_enc)

lemma p_i32_skip: "snd (p_i32_be (be_bytes 4 v @ b)) = b" "snd (p_u32_be (be_bytes 4 v @ b)) = b"
  by (simp_all add: p_i32_be_def p_u32_be_def p_be_def)

lemma p_u8_Cons [simp]: "p_u8 (c # b) = (Some c, b)"
  by (simp add: p_u8_def)

lemma p_cstr_enc: "CHR 0x00 \<notin> set s \<Longrightarrow> p_cstr lossy (s @ CHR 0x00 # b) = (Some (lossy s), b)"
  by (auto simp: p_cstr_def takeWhile_append dropWhile_append)

lemma p_bytes_enc [simp]: "p_bytes (length v) (v @ b) = (Some v, b)"
  by (simp add: p_bytes_def)

text \<open>The texts are short enough for their length to be written, and are what the decoder takes for themselves.\<close>

definition good_cells :: "(bytes \<Rightarrow> string) \<Rightarrow> string list \<Rightarrow> cell list \<Rightarrow> bool" where
  "good_cells lossy cols cs \<longleftrightarrow> length cs = length cols \<and> length cs < 2 ^ 16 \<and> (\<forall>v. CellText v \<in> set cs \<longrightarrow> length v < 2 ^ 32 \<and> lossy v = v)"

definition good_relation :: "(bytes \<Rightarrow> string) \<Rightarrow> pg_relation \<Rightarrow> bool" where
  "good_relation lossy r \<longleftrightarrow> pg_oid r < 2 ^ 32 \<and> length (pg_columns r) < 2 ^ 16 \<and>
     (\<forall>s \<in> {pg_schema r, pg_name r} \<union> set (column_names r). CHR 0x00 \<notin> set s \<and> lossy s = s)"

fun good_change :: "(bytes \<Rightarrow> string) \<Rightarrow> pg_relation \<Rightarrow> row_change \<Rightarrow> bool" where
  "good_change lossy r (RowInsert cs) = good_cells lossy (column_names r) cs"
| "good_change lossy r (RowUpdate old cs) = (good_cells lossy (column_names r) cs \<and> (\<forall>f o'. old = Some (f, o') \<longrightarrow> good_cells lossy (column_names r) o'))"
| "good_change lossy r (RowDelete _ old) = good_cells lossy (column_names r) old"

lemma parse_cells_enc:
  "\<lbrakk>i + length cs \<le> length cols; \<forall>v. CellText v \<in> set cs \<longrightarrow> length v < 2 ^ 32 \<and> lossy v = v\<rbrakk> \<Longrightarrow>
   parse_cells lossy cols i (length cs) (concat (map enc_cell cs) @ b) f = (Some (fold cell_field (zip (drop i cols) cs) f), b)"
proof (induction cs arbitrary: i f)
  case (Cons c cs)
  then have "drop i cols = cols ! i # drop (Suc i) cols" by (simp add: Cons_nth_drop_Suc)
  with Cons show ?case by (cases c) (simp_all add: p_u32_enc)
qed simp

lemma parse_tuple_enc: "good_cells lossy cols cs \<Longrightarrow> parse_tuple lossy cols (enc_tuple cs @ b) = (Some (fields_of cols cs), b)"
  using parse_cells_enc [of 0 cs cols lossy b Map.empty]
  by (simp add: good_cells_def parse_tuple_def enc_tuple_def p_u16_enc fields_of_def)

lemma relation_columns_enc:
  "\<forall>s \<in> set (map (\<lambda>(_, c, _, _). c) cs). CHR 0x00 \<notin> set s \<and> lossy s = s \<Longrightarrow>
   relation_columns lossy (length cs) (concat (map (\<lambda>(f, c, ty, md). f # c @ [CHR 0x00] @ be_bytes 4 ty @ be_bytes 4 md) cs) @ b) =
     map (\<lambda>(_, c, _, _). c) cs"
  by (induction cs) (auto simp: p_cstr_enc p_i32_skip)

definition known_as :: "pg_relation \<Rightarrow> relation_info" where
  "known_as r = \<lparr>ri_name = pg_name r, ri_columns = column_names r\<rparr>"

lemma relation_known: "good_relation lossy r \<Longrightarrow> process_message lossy (enc_relation r) reg = (WalSkip, reg(pg_oid r \<mapsto> known_as r))"
  using relation_columns_enc [of "pg_columns r" lossy "[]"]
  by (simp add: good_relation_def process_message_def enc_relation_def handle_relation_def p_u32_enc p_cstr_enc p_u16_enc known_as_def column_names_def)

lemma old_mark_cases: "old_mark f = CHR ''O'' \<or> old_mark f = CHR ''K''" "old_mark f \<noteq> CHR ''N''"
  by (simp_all add: old_mark_def)

lemmas change_simps = process_message_def handle_insert_def handle_update_def handle_delete_def with_relation_def p_u32_enc parse_tuple_enc
  parse_tuple_enc [where b = "[]", simplified] known_as_def Let_def

lemma change_decoded:
  assumes "reg (pg_oid r) = Some (known_as r)" and "pg_oid r < 2 ^ 32" and "good_change lossy r ch"
  shows "process_message lossy (enc_change (pg_oid r) ch) reg = (change_event r ch, reg)"
proof (cases ch)
  case (RowUpdate old cs)
  then show ?thesis using assms old_mark_cases by (cases old) (auto simp: change_simps)
next
  case (RowDelete full old)
  then show ?thesis using assms old_mark_cases(1) [of full] by (auto simp: change_simps)
qed (use assms in \<open>simp add: change_simps\<close>)

text \<open>
  A session of the database: it sends the description of a table before the first change of it, and again when it has changed.
\<close>

fun session_stream :: "(nat \<rightharpoonup> pg_relation) \<Rightarrow> (pg_relation \<times> row_change) list \<Rightarrow> bytes list" where
  "session_stream known [] = []"
| "session_stream known ((r, ch) # cs) = (if known (pg_oid r) = Some r then [] else [enc_relation r]) @
     enc_change (pg_oid r) ch # session_stream (known(pg_oid r \<mapsto> r)) cs"

fun decode_stream :: "(bytes \<Rightarrow> string) \<Rightarrow> bytes list \<Rightarrow> relation_registry \<Rightarrow> wal_event list" where
  "decode_stream lossy [] reg = []"
| "decode_stream lossy (m # ms) reg = (case process_message lossy m reg of (e, reg') \<Rightarrow>
     (if e = WalSkip then [] else [e]) @ decode_stream lossy ms reg')"

lemma change_event_not_skip [simp]: "change_event r ch \<noteq> WalSkip"
  by (cases ch) simp_all

lemma session_decoded:
  "\<lbrakk>\<forall>(r, ch) \<in> set cs. good_relation lossy r \<and> good_change lossy r ch; \<forall>i r. known i = Some r \<longrightarrow> reg i = Some (known_as r)\<rbrakk> \<Longrightarrow>
   decode_stream lossy (session_stream known cs) reg = map (\<lambda>(r, ch). change_event r ch) cs"
proof (induction cs arbitrary: known reg)
  case (Cons c cs)
  obtain r ch where c: "c = (r, ch)" by force
  have good: "good_relation lossy r" "good_change lossy r ch" "pg_oid r < 2 ^ 32" using Cons.prems(1) c by (auto simp: good_relation_def)
  let ?reg = "reg(pg_oid r \<mapsto> known_as r)"
  have "\<forall>i r'. (known(pg_oid r \<mapsto> r)) i = Some r' \<longrightarrow> ?reg i = Some (known_as r')" using Cons.prems(2) by auto
  moreover have "\<forall>(r, ch) \<in> set cs. good_relation lossy r \<and> good_change lossy r ch" using Cons.prems(1) by simp
  ultimately have "decode_stream lossy (session_stream (known(pg_oid r \<mapsto> r)) cs) ?reg = map (\<lambda>(r, ch). change_event r ch) cs"
    by (intro Cons.IH)
  then have "decode_stream lossy (enc_change (pg_oid r) ch # session_stream (known(pg_oid r \<mapsto> r)) cs) ?reg = map (\<lambda>(r, ch). change_event r ch) (c # cs)"
    using change_decoded [of ?reg r lossy ch] good by (simp add: c)
  moreover have "known (pg_oid r) = Some r \<Longrightarrow> ?reg = reg" using Cons.prems(2) by (auto simp: fun_upd_idem_iff)
  ultimately show ?case using relation_known [OF good(1)] by (auto simp: c)
qed simp

text \<open>
  (C23) The decoder reads back what the database writes: whatever rows of whatever tables a session sends, with nulls, with columns that
  were not sent and with old rows before the new ones, and whatever the worker remembers of earlier sessions, it
  gives the changes in their order, each with the name of its table and the columns that were sent.
\<close>

theorem replication_decoded:
  assumes "\<forall>(r, ch) \<in> set cs. good_relation lossy r \<and> good_change lossy r ch"
  shows "decode_stream lossy (session_stream Map.empty cs) reg = map (\<lambda>(r, ch). change_event r ch) cs"
  by (rule session_decoded [OF assms]) simp

section \<open>From the stream to the queue\<close>

datatype cdc_payload = CdcRow row_fields | CdcDeleted string

definition CDC_AUCTIONS_TOPIC :: string where "CDC_AUCTIONS_TOPIC = ''cdc-auctions''"
definition CDC_AUCTION_LISTINGS_TOPIC :: string where "CDC_AUCTION_LISTINGS_TOPIC = ''cdc-auction-listings''"

definition cdc_topic :: "string \<Rightarrow> string option" where
  "cdc_topic table = (if table = ''auctions'' then Some CDC_AUCTIONS_TOPIC
     else if table = ''auction_listings'' then Some CDC_AUCTION_LISTINGS_TOPIC else None)"

type_synonym cdc_record = "string \<times> string \<times> cdc_payload"

definition into_kafka_event :: "wal_event \<Rightarrow> cdc_record option" where
  "into_kafka_event e = (let row = (\<lambda>table f. case (cdc_topic table, f ''id'') of
       (Some t, Some (Some key)) \<Rightarrow> Some (t, key, CdcRow f) | _ \<Rightarrow> None)
     in case e of WalInsert table f \<Rightarrow> row table f | WalUpdate table f \<Rightarrow> row table f
        | WalDelete table f \<Rightarrow> (case (cdc_topic table, f ''id'') of (Some t, Some (Some key)) \<Rightarrow> Some (t, key, CdcDeleted key) | _ \<Rightarrow> None)
        | WalSkip \<Rightarrow> None)"

text \<open>The loop of ten attempts; a record may be queued although the answer is an error.\<close>

fun publish_tries :: "nat \<Rightarrow> (nat \<Rightarrow> redis_io) \<Rightarrow> 'm \<Rightarrow> 'm list \<Rightarrow> bool \<times> 'm list" where
  "publish_tries 0 out m t = (False, t)"
| "publish_tries (Suc n) out m t = (case out n of RedisOk \<Rightarrow> (True, t @ [m]) | RedisFails \<Rightarrow> publish_tries n out m t
   | ReplyLost \<Rightarrow> publish_tries n out m (t @ [m]))"

text \<open>
  The state: the changes of the database and the position that its slot has confirmed; of the session, the position it has sent and the tables
  it has described; of the worker, its registry, the channel to the publisher, the positions that the publisher has
  acknowledged and the one told to the client; the queue, and the positions given up after ten attempts.
\<close>

record cdc_worker =
  cd_wal :: "(pg_relation \<times> row_change) list"
  cd_slot :: nat
  cd_sent :: nat
  cd_known :: "nat \<rightharpoonup> pg_relation"
  cd_registry :: relation_registry
  cd_channel :: "(nat \<times> cdc_record) list"
  cd_acks :: "nat list"
  cd_applied :: nat
  cd_topic :: "cdc_record list"
  cd_given_up :: "nat list"

definition cdc_start :: cdc_worker where
  "cdc_start = \<lparr>cd_wal = [], cd_slot = 0, cd_sent = 0, cd_known = Map.empty, cd_registry = Map.empty, cd_channel = [], cd_acks = [], cd_applied = 0,
     cd_topic = [], cd_given_up = []\<rparr>"

text \<open>\<open>wal_reader_loop\<close> with the messages for the next change; the channel holds 4096 records.\<close>

definition wal_receive :: "(bytes \<Rightarrow> string) \<Rightarrow> cdc_worker \<Rightarrow> cdc_worker" where
  "wal_receive lossy w = (if length (cd_wal w) \<le> cd_sent w \<or> 4096 \<le> length (cd_channel w) then w
     else case cd_wal w ! cd_sent w of (r, ch) \<Rightarrow>
       let reg = (if cd_known w (pg_oid r) = Some r then cd_registry w else snd (process_message lossy (enc_relation r) (cd_registry w)))
       in case process_message lossy (enc_change (pg_oid r) ch) reg of (e, reg) \<Rightarrow>
         w\<lparr>cd_sent := Suc (cd_sent w), cd_known := (cd_known w)(pg_oid r \<mapsto> r), cd_registry := reg,
           cd_channel := cd_channel w @ (case into_kafka_event e of None \<Rightarrow> [] | Some m \<Rightarrow> [(Suc (cd_sent w), m)])\<rparr>)"

definition publisher_task :: "(nat \<Rightarrow> redis_io) \<Rightarrow> cdc_worker \<Rightarrow> cdc_worker" where
  "publisher_task out w = (case cd_channel w of [] \<Rightarrow> w
   | (lsn, m) # ch \<Rightarrow> (case publish_tries 10 out m (cd_topic w) of (done, t) \<Rightarrow>
       w\<lparr>cd_channel := ch, cd_topic := t, cd_acks := cd_acks w @ [lsn],
         cd_given_up := (if done then cd_given_up w else cd_given_up w @ [lsn - 1])\<rparr>))"

definition drain_acks :: "cdc_worker \<Rightarrow> cdc_worker" where
  "drain_acks w = w\<lparr>cd_applied := fold (\<lambda>lsn _. lsn) (cd_acks w) (cd_applied w), cd_acks := []\<rparr>"

text \<open>
  The events: a change of the database; the reader, the publisher and the acknowledgements; the database stores what the
  client has told it, whether or not it goes back; the stream breaks and a new session begins, at the confirmed position or before
  it (at the beginning of its transaction); the process dies and starts again.
\<close>

datatype cdc_event = CdChange pg_relation row_change | CdReceive | CdPublish "nat \<Rightarrow> redis_io" | CdDrain | CdStatus bool | CdReconnect nat | CdRestart nat

definition new_session :: "nat \<Rightarrow> cdc_worker \<Rightarrow> cdc_worker" where
  "new_session k w = w\<lparr>cd_sent := min k (cd_slot w), cd_known := Map.empty, cd_applied := cd_slot w\<rparr>"

fun cdc_step :: "(bytes \<Rightarrow> string) \<Rightarrow> cdc_event \<Rightarrow> cdc_worker \<Rightarrow> cdc_worker" where
  "cdc_step lossy (CdChange r ch) w = w\<lparr>cd_wal := cd_wal w @ [(r, ch)]\<rparr>"
| "cdc_step lossy CdReceive w = wal_receive lossy w"
| "cdc_step lossy (CdPublish out) w = publisher_task out w"
| "cdc_step lossy CdDrain w = drain_acks w"
| "cdc_step lossy (CdStatus back) w = (if cd_applied w < cd_slot w \<and> \<not> back then w else w\<lparr>cd_slot := cd_applied w\<rparr>)"
| "cdc_step lossy (CdReconnect k) w = new_session k w"
| "cdc_step lossy (CdRestart k) w = (new_session k w)\<lparr>cd_registry := Map.empty, cd_channel := [], cd_acks := []\<rparr>"

section \<open>No change is passed over\<close>

definition change_record :: "cdc_worker \<Rightarrow> nat \<Rightarrow> cdc_record option" where
  "change_record w q = (case cd_wal w ! q of (r, ch) \<Rightarrow> into_kafka_event (change_event r ch))"

text \<open>The positions that are done with: those of other tables, those on the queue and those given up.\<close>

definition cdc_settled :: "cdc_worker \<Rightarrow> nat set" where
  "cdc_settled w = {q. q < length (cd_wal w) \<and> (change_record w q = None \<or> (\<exists>m \<in> set (cd_topic w). change_record w q = Some m) \<or> q \<in> set (cd_given_up w))}"

text \<open>The records of the channel: before each of them, everything is settled or stands further ahead.\<close>

fun lined_up :: "nat set \<Rightarrow> nat list \<Rightarrow> bool" where
  "lined_up S [] = True"
| "lined_up S (n # ns) = (0 < n \<and> {..<n - 1} \<subseteq> S \<and> lined_up (insert (n - 1) S) ns)"

lemma lined_up_mono: "lined_up S ns \<Longrightarrow> S \<subseteq> T \<Longrightarrow> lined_up T ns"
proof (induction ns arbitrary: S T)
  case (Cons n ns)
  have "insert (n - 1) S \<subseteq> insert (n - 1) T" using Cons.prems(2) by blast
  with Cons show ?case by auto
qed simp

lemma lined_up_snoc: "lined_up S ns \<Longrightarrow> {..<p} \<subseteq> S \<union> (\<lambda>n. n - 1) ` set ns \<Longrightarrow> lined_up S (ns @ [Suc p])"
  by (induction ns arbitrary: S) auto

definition cdc_inv :: "(bytes \<Rightarrow> string) \<Rightarrow> cdc_worker \<Rightarrow> bool" where
  "cdc_inv lossy w \<longleftrightarrow> (\<forall>(r, ch) \<in> set (cd_wal w). good_relation lossy r \<and> good_change lossy r ch) \<and>
     (\<forall>i r. cd_known w i = Some r \<longrightarrow> cd_registry w i = Some (known_as r)) \<and>
     (\<forall>(n, m) \<in> set (cd_channel w). 0 < n \<and> n \<le> length (cd_wal w) \<and> change_record w (n - 1) = Some m) \<and>
     lined_up (cdc_settled w) (map fst (cd_channel w)) \<and> cd_sent w \<le> length (cd_wal w) \<and>
     {..<cd_sent w} \<subseteq> cdc_settled w \<union> (\<lambda>n. n - 1) ` fst ` set (cd_channel w) \<and>
     (\<forall>a \<in> set (cd_acks w) \<union> {cd_applied w, cd_slot w}. a \<le> length (cd_wal w) \<and> {..<a} \<subseteq> cdc_settled w) \<and>
     (\<forall>m \<in> set (cd_topic w). \<exists>q < length (cd_wal w). change_record w q = Some m)"

lemma change_record_append: "q < length (cd_wal w) \<Longrightarrow> change_record (w\<lparr>cd_wal := cd_wal w @ xs\<rparr>) q = change_record w q"
  by (simp add: change_record_def nth_append)

lemma settled_append: "cdc_settled w \<subseteq> cdc_settled (w\<lparr>cd_wal := cd_wal w @ xs\<rparr>)"
  by (auto simp: cdc_settled_def change_record_append)

lemma cdc_change_inv:
  assumes "cdc_inv lossy w" and "good_relation lossy r" and "good_change lossy r ch"
  shows "cdc_inv lossy (w\<lparr>cd_wal := cd_wal w @ [(r, ch)]\<rparr>)"
  using assms settled_append [of w "[(r, ch)]"] lined_up_mono [OF _ settled_append]
  unfolding cdc_inv_def
  by (auto 0 4 simp: change_record_append less_Suc_eq dest: subsetD)

lemma receive_decodes:
  assumes "cdc_inv lossy w" and "cd_sent w < length (cd_wal w)" and "cd_wal w ! cd_sent w = (r, ch)" and "length (cd_channel w) < 4096"
  shows "wal_receive lossy w = w\<lparr>cd_sent := Suc (cd_sent w), cd_known := (cd_known w)(pg_oid r \<mapsto> r),
      cd_registry := (cd_registry w)(pg_oid r \<mapsto> known_as r),
      cd_channel := cd_channel w @ (case change_record w (cd_sent w) of None \<Rightarrow> [] | Some m \<Rightarrow> [(Suc (cd_sent w), m)])\<rparr>"
proof -
  have good: "good_relation lossy r" "good_change lossy r ch" "pg_oid r < 2 ^ 32"
    using assms(1-3) nth_mem [OF assms(2)] by (auto simp: cdc_inv_def good_relation_def)
  let ?reg = "(cd_registry w)(pg_oid r \<mapsto> known_as r)"
  have "(if cd_known w (pg_oid r) = Some r then cd_registry w else snd (process_message lossy (enc_relation r) (cd_registry w))) = ?reg"
    using assms(1) relation_known [OF good(1)] by (auto simp: cdc_inv_def fun_upd_idem_iff)
  then show ?thesis using assms(2-4) change_decoded [of ?reg r lossy ch] good
    by (simp add: wal_receive_def change_record_def Let_def)
qed

lemma settled_cong: "cd_wal w' = cd_wal w \<Longrightarrow> cd_topic w' = cd_topic w \<Longrightarrow> cd_given_up w' = cd_given_up w \<Longrightarrow> cdc_settled w' = cdc_settled w"
  by (simp add: cdc_settled_def change_record_def)

lemma cdc_receive_inv:
  assumes "cdc_inv lossy w"
  shows "cdc_inv lossy (wal_receive lossy w)"
proof (cases "length (cd_wal w) \<le> cd_sent w \<or> 4096 \<le> length (cd_channel w)")
  case True
  then show ?thesis using assms by (simp add: wal_receive_def)
next
  case False
  obtain r ch where rc: "cd_wal w ! cd_sent w = (r, ch)" by force
  let ?q = "cd_sent w" and ?w = "wal_receive lossy w"
  note recv = receive_decodes [OF assms _ rc]
  have w: "?w = w\<lparr>cd_sent := Suc ?q, cd_known := (cd_known w)(pg_oid r \<mapsto> r), cd_registry := (cd_registry w)(pg_oid r \<mapsto> known_as r),
      cd_channel := cd_channel w @ (case change_record w ?q of None \<Rightarrow> [] | Some m \<Rightarrow> [(Suc ?q, m)])\<rparr>"
    using recv False by simp
  have same: "cdc_settled ?w = cdc_settled w" "change_record ?w = change_record w" by (auto simp: w cdc_settled_def change_record_def fun_eq_iff)
  have line: "lined_up (cdc_settled w) (map fst (cd_channel ?w))"
    using assms lined_up_snoc [of "cdc_settled w" "map fst (cd_channel w)" ?q] by (auto simp: w cdc_inv_def split: option.split)
  have "?q \<in> cdc_settled w" if "change_record w ?q = None" using that False by (simp add: cdc_settled_def)
  then have sent: "{..<Suc ?q} \<subseteq> cdc_settled w \<union> (\<lambda>n. n - 1) ` fst ` set (cd_channel ?w)"
    using assms by (cases "change_record w ?q") (auto simp: w cdc_inv_def lessThan_Suc image_Un)
  show ?thesis
    using assms False line sent unfolding cdc_inv_def same
    by (auto simp: w split: option.split)
qed

lemma publish_tries_topic:
  "publish_tries n out m t = (done, t') \<Longrightarrow> set t \<subseteq> set t' \<and> set t' \<subseteq> insert m (set t) \<and> (done \<longrightarrow> m \<in> set t')"
proof (induction n arbitrary: t)
  case (Suc n)
  show ?case
  proof (cases "out n")
    case ReplyLost
    then show ?thesis using Suc.IH [of "t @ [m]"] Suc.prems by auto
  qed (use Suc in auto)
qed auto

lemma cdc_publish_inv:
  assumes "cdc_inv lossy w"
  shows "cdc_inv lossy (publisher_task out w)"
proof (cases "cd_channel w")
  case Nil
  then show ?thesis using assms by (simp add: publisher_task_def)
next
  case (Cons e rest)
  obtain n m where e: "e = (n, m)" by (cases e)
  obtain ok t where t: "publish_tries 10 out m (cd_topic w) = (ok, t)" by force
  let ?w = "publisher_task out w"
  have w: "?w = w\<lparr>cd_channel := rest, cd_topic := t, cd_acks := cd_acks w @ [n],
      cd_given_up := (if ok then cd_given_up w else cd_given_up w @ [n - 1])\<rparr>"
    by (simp add: publisher_task_def Cons e t)
  have n: "0 < n" "n \<le> length (cd_wal w)" "change_record w (n - 1) = Some m" "{..<n - 1} \<subseteq> cdc_settled w"
      "lined_up (insert (n - 1) (cdc_settled w)) (map fst rest)"
    using assms by (auto simp: cdc_inv_def Cons e)
  have rec: "change_record ?w = change_record w" "cd_wal ?w = cd_wal w" by (auto simp: w change_record_def fun_eq_iff)
  have grow: "insert (n - 1) (cdc_settled w) \<subseteq> cdc_settled ?w"
    using publish_tries_topic [OF t] n(1-3) unfolding cdc_settled_def rec by (auto simp: w)
  have "{..<n} = insert (n - 1) {..<n - 1}" using n(1) by auto
  then have "{..<n} \<subseteq> cdc_settled ?w" using grow n(4) by auto
  moreover have "lined_up (cdc_settled ?w) (map fst rest)" by (rule lined_up_mono [OF n(5) grow])
  moreover have "{..<cd_sent w} \<subseteq> cdc_settled ?w \<union> (\<lambda>n. n - 1) ` fst ` set rest" using assms grow by (auto simp: cdc_inv_def Cons e)
  moreover have "\<forall>a \<in> set (cd_acks w) \<union> {cd_applied w, cd_slot w}. a \<le> length (cd_wal w) \<and> {..<a} \<subseteq> cdc_settled ?w"
    using assms grow unfolding cdc_inv_def by (meson insert_subset subset_trans)
  moreover have "\<forall>x \<in> set t. \<exists>q < length (cd_wal w). change_record w q = Some x"
  proof
    fix x assume "x \<in> set t"
    then have "x = m \<or> x \<in> set (cd_topic w)" using publish_tries_topic [OF t] by auto
    moreover have "n - 1 < length (cd_wal w)" using n(1,2) by simp
    ultimately show "\<exists>q < length (cd_wal w). change_record w q = Some x" using n(3) assms by (auto simp: cdc_inv_def)
  qed
  ultimately show ?thesis
    using assms n(2) unfolding cdc_inv_def rec by (auto simp: w Cons)
qed

lemma fold_last_in: "fold (\<lambda>x _. x) xs y \<in> set xs \<union> {y}"
  by (induction xs arbitrary: y) (simp, force)

lemma cdc_drain_inv: "cdc_inv lossy w \<Longrightarrow> cdc_inv lossy (drain_acks w)"
  using fold_last_in [of "cd_acks w" "cd_applied w"] settled_cong [of "drain_acks w" w]
  by (auto simp: cdc_inv_def drain_acks_def change_record_def)

lemma cdc_status_inv: "cdc_inv lossy w \<Longrightarrow> cdc_inv lossy (w\<lparr>cd_slot := cd_applied w\<rparr>)"
  using settled_cong [of "w\<lparr>cd_slot := cd_applied w\<rparr>" w] by (auto simp: cdc_inv_def change_record_def)

lemma cdc_session_inv:
  assumes "cdc_inv lossy w"
  shows "cdc_inv lossy (new_session k w)" and "cdc_inv lossy ((new_session k w)\<lparr>cd_registry := Map.empty, cd_channel := [], cd_acks := []\<rparr>)"
proof -
  have "{..<min k (cd_slot w)} \<subseteq> cdc_settled w" "min k (cd_slot w) \<le> length (cd_wal w)" using assms by (auto simp: cdc_inv_def)
  then show "cdc_inv lossy (new_session k w)" "cdc_inv lossy ((new_session k w)\<lparr>cd_registry := Map.empty, cd_channel := [], cd_acks := []\<rparr>)"
    using assms settled_cong [of "new_session k w" w] settled_cong [of "(new_session k w)\<lparr>cd_registry := Map.empty, cd_channel := [], cd_acks := []\<rparr>" w]
    by (auto simp: cdc_inv_def new_session_def change_record_def)
qed

fun cdc_ok :: "(bytes \<Rightarrow> string) \<Rightarrow> cdc_event \<Rightarrow> bool" where
  "cdc_ok lossy (CdChange r ch) = (good_relation lossy r \<and> good_change lossy r ch)"
| "cdc_ok lossy _ = True"

interpretation cdc: machine cdc_start "cdc_step lossy" "cdc_inv lossy" "cdc_ok lossy" for lossy
proof
  show "cdc_inv lossy cdc_start" by (simp add: cdc_inv_def cdc_start_def)
  show "cdc_inv lossy (cdc_step lossy e w)" if "cdc_ok lossy e" "cdc_inv lossy w" for e w
    using that cdc_change_inv cdc_receive_inv cdc_publish_inv cdc_drain_inv cdc_status_inv cdc_session_inv by (cases e) auto
qed

text \<open>
  (C24) The feed of the search has no gap and nothing of its own: whenever the worker is killed, loses its stream or cannot reach the queue, every
  change of an auction or a listing that the database need not send again is on the queue, or its ten attempts have failed;
  and every record on the queue is a change that was made.
\<close>

theorem feed_without_gaps:
  assumes "\<forall>e \<in> set es. cdc_ok lossy e" and "w = fold (cdc_step lossy) es cdc_start"
  shows "(\<forall>q < cd_slot w. \<forall>r ch m. cd_wal w ! q = (r, ch) \<longrightarrow> into_kafka_event (change_event r ch) = Some m \<longrightarrow>
      m \<in> set (cd_topic w) \<or> q \<in> set (cd_given_up w)) \<and>
    (\<forall>m \<in> set (cd_topic w). \<exists>(r, ch) \<in> set (cd_wal w). into_kafka_event (change_event r ch) = Some m)"
proof -
  have inv: "cdc_inv lossy w" using cdc.run_inv [OF assms(1)] assms(2) by simp
  then have "{..<cd_slot w} \<subseteq> cdc_settled w" "\<forall>m \<in> set (cd_topic w). \<exists>q < length (cd_wal w). change_record w q = Some m"
    by (simp_all add: cdc_inv_def)
  then show ?thesis by (fastforce simp: cdc_settled_def change_record_def subset_iff split: prod.splits dest: nth_mem)
qed

end
