(* ===== verification/Search_Index.thy ===== *)
theory Search_Index
  imports Change_Capture Dashboards
begin

text \<open>
  The search server, \<open>src/apps/search-server/src/\<close>: its consumer keeps the index from the records of the change feed (\<open>consumer.rs\<close>), and its handler
  answers a query from the index (\<open>es.rs\<close>, \<open>main.rs\<close>). The service that computes embeddings, the index and the
  test for a blank text are libraries: what they answer is an argument.
\<close>

section \<open>The consumer\<close>

record search_doc =
  sd_fields :: row_fields
  sd_embedding :: "rat list option"

type_synonym search_idx = "string \<rightharpoonup> search_doc"

datatype es_io = EsDone | EsRefused | EsUnreachable

text \<open>How the world answers to one record: the embedding of a text, and the request to the index.\<close>

record consume_io =
  sx_embed :: "string \<Rightarrow> rat list option"
  sx_es :: es_io

definition doc_str :: "string \<Rightarrow> row_fields \<Rightarrow> string option" where
  "doc_str k f = (case f k of Some v \<Rightarrow> v | None \<Rightarrow> None)"

definition text_to_embed :: "row_fields \<Rightarrow> string" where
  "text_to_embed f = unwrap_or (doc_str ''title'' f) [] @ '' '' @ unwrap_or (doc_str ''description'' f) []"

definition consume :: "(string \<Rightarrow> bool) \<Rightarrow> consume_io \<Rightarrow> cdc_record \<Rightarrow> search_idx \<Rightarrow> search_idx" where
  "consume blank io m idx = (case snd (snd m) of
     CdcDeleted i \<Rightarrow> if sx_es io = EsDone then idx(i := None) else idx
   | CdcRow f \<Rightarrow> (case doc_str ''id'' f of None \<Rightarrow> idx
      | Some i \<Rightarrow> if sx_es io = EsDone
          then idx(i \<mapsto> \<lparr>sd_fields = f, sd_embedding = (if blank (text_to_embed f) then None else sx_embed io (text_to_embed f))\<rparr>)
          else idx))"

text \<open>No offset is ever committed, so that a restart begins with the oldest record again.\<close>

record search_server =
  ss_feed :: "cdc_record list"
  ss_pos :: nat
  ss_index :: search_idx

datatype search_event = SxRecord cdc_record | SxConsume consume_io | SxRestart

definition search_start :: search_server where
  "search_start = \<lparr>ss_feed = [], ss_pos = 0, ss_index = Map.empty\<rparr>"

fun run_consumer :: "(string \<Rightarrow> bool) \<Rightarrow> search_event \<Rightarrow> search_server \<Rightarrow> search_server" where
  "run_consumer blank (SxRecord m) s = s\<lparr>ss_feed := ss_feed s @ [m]\<rparr>"
| "run_consumer blank (SxConsume io) s = (if length (ss_feed s) \<le> ss_pos s then s
     else s\<lparr>ss_index := consume blank io (ss_feed s ! ss_pos s) (ss_index s), ss_pos := Suc (ss_pos s)\<rparr>)"
| "run_consumer blank SxRestart s = s\<lparr>ss_pos := 0\<rparr>"

section \<open>The query\<close>

record search_query =
  sq_q :: "string option"
  sq_category :: "string option"

definition text_clause :: "string \<Rightarrow> json" where
  "text_clause q = JObj [(''bool'', JObj [(''should'', JArr [
     JObj [(''multi_match'', JObj [(''query'', JStr q), (''fields'', JArr [JStr ''title^3'', JStr ''description'']), (''fuzziness'', JStr ''AUTO'')])],
     JObj [(''match'', JObj [(''title.phonetic'', JObj [(''query'', JStr q), (''boost'', JNum (Fin 2))])])]])])]"

definition must_clauses :: "search_query \<Rightarrow> json list" where
  "must_clauses sq =
     (case sq_category sq of None \<Rightarrow> [] | Some c \<Rightarrow> if c = [] then [] else [JObj [(''term'', JObj [(''item_category'', JStr c)])]]) @
     (case sq_q sq of None \<Rightarrow> [] | Some q \<Rightarrow> if q = [] then [] else [text_clause q])"

definition knn_clause :: "(string \<Rightarrow> rat list option) \<Rightarrow> search_query \<Rightarrow> json option" where
  "knn_clause emb sq = (case sq_q sq of None \<Rightarrow> None | Some q \<Rightarrow> if q = [] then None
     else map_option (\<lambda>v. JObj [(''field'', JStr ''embedding''), (''query_vector'', JArr (map (\<lambda>x. JNum (Fin x)) v)), (''k'', JNum (Fin 10)),
       (''num_candidates'', JNum (Fin 100)), (''boost'', JNum (Fin (1 / 2)))]) (emb q))"

definition search_body :: "(string \<Rightarrow> rat list option) \<Rightarrow> search_query \<Rightarrow> json" where
  "search_body emb sq =
     (let must = must_clauses sq; knn = knn_clause emb sq;
          must = (if must = [] \<and> knn = None then [JObj [(''match_all'', JObj [])]] else must)
      in JObj ([(''query'', JObj [(''bool'', JObj [(''must'', JArr must)])]), (''_source'', JObj [(''excludes'', JArr [JStr ''embedding''])])] @
           (case knn of None \<Rightarrow> [] | Some k \<Rightarrow> [(''knn'', k)])))"

text \<open>\<open>search\<close>: the answer of the index, an error where it cannot be reached or its answer is not JSON.\<close>

definition jindex :: "string \<Rightarrow> json \<Rightarrow> json" where
  "jindex k v = unwrap_or (jget k v) JNull"

definition es_search :: "(json \<Rightarrow> string + json) \<Rightarrow> (string \<Rightarrow> rat list option) \<Rightarrow> search_query \<Rightarrow> string + json" where
  "es_search es emb sq = (case es (search_body emb sq) of Inl e \<Rightarrow> Inl e
   | Inr v \<Rightarrow> Inr (JObj [(''results'', JArr (case jindex ''hits'' (jindex ''hits'' v) of JArr hs \<Rightarrow> map (jindex ''_source'') hs | _ \<Rightarrow> []))]))"

text \<open>\<open>search_handler\<close> answers with the status 200 in both cases.\<close>

definition search_handler :: "(json \<Rightarrow> string + json) \<Rightarrow> (string \<Rightarrow> rat list option) \<Rightarrow> search_query \<Rightarrow> json" where
  "search_handler es emb sq = (case es_search es emb sq of Inl e \<Rightarrow> JObj [(''error'', JStr e)] | Inr v \<Rightarrow> v)"

text \<open>The answer as the page sees it, with the reading of an auction as an argument: \<open>data.results\<close>.\<close>

definition results_reply :: "(json \<Rightarrow> auction_item) \<Rightarrow> json \<Rightarrow> auction_item list option reply" where
  "results_reply dec v = Ok (case jget ''results'' v of Some (JArr xs) \<Rightarrow> Some (map dec xs) | _ \<Rightarrow> None)"

section \<open>The index follows the feed\<close>

definition record_id :: "cdc_record \<Rightarrow> string option" where
  "record_id m = (case snd (snd m) of CdcDeleted i \<Rightarrow> Some i | CdcRow f \<Rightarrow> doc_str ''id'' f)"

definition record_doc :: "cdc_record \<Rightarrow> row_fields option" where
  "record_doc m = (case snd (snd m) of CdcDeleted _ \<Rightarrow> None | CdcRow f \<Rightarrow> Some f)"

text \<open>What the index should say of an id: the last record about it.\<close>

definition latest_row :: "cdc_record list \<Rightarrow> string \<Rightarrow> row_fields option" where
  "latest_row ms i = (case filter (\<lambda>m. record_id m = Some i) (rev ms) of [] \<Rightarrow> None | m # _ \<Rightarrow> record_doc m)"

definition index_fields :: "search_idx \<Rightarrow> string \<Rightarrow> row_fields option" where
  "index_fields idx i = map_option sd_fields (idx i)"

lemma consume_done:
  "sx_es io = EsDone \<Longrightarrow> index_fields (consume blank io m idx) i = (if record_id m = Some i then record_doc m else index_fields idx i)"
  by (auto simp: consume_def index_fields_def record_id_def record_doc_def split: cdc_payload.split option.split)

lemma consume_other: "record_id m \<noteq> Some i \<Longrightarrow> consume blank io m idx i = idx i"
  by (auto simp: consume_def record_id_def split: cdc_payload.splits option.splits)

lemma consume_dom: "consume blank io m idx i \<noteq> None \<Longrightarrow> idx i \<noteq> None \<or> record_id m = Some i"
  using consume_other [of m i blank io idx] by metis

definition search_inv :: "search_server \<Rightarrow> bool" where
  "search_inv s \<longleftrightarrow> ss_pos s \<le> length (ss_feed s) \<and> (\<forall>i. ss_index s i \<noteq> None \<longrightarrow> (\<exists>m \<in> set (ss_feed s). record_id m = Some i))"

lemma run_consumer_inv: "search_inv s \<Longrightarrow> search_inv (run_consumer blank e s)"
proof (cases e)
  case (SxConsume io)
  assume "search_inv s"
  then show ?thesis using SxConsume consume_dom [of blank io "ss_feed s ! ss_pos s" "ss_index s"] by (force simp: search_inv_def)
qed (auto simp: search_inv_def)

interpretation searching: machine search_start "run_consumer blank" search_inv "\<lambda>_. True" for blank
proof
  show "search_inv search_start" by (simp add: search_inv_def search_start_def)
qed (rule run_consumer_inv)

lemma latest_row_snoc: "latest_row (ms @ [m]) i = (if record_id m = Some i then record_doc m else latest_row ms i)"
  by (simp add: latest_row_def)

text \<open>Reading some more records without a failure.\<close>

lemma read_on:
  assumes "\<forall>io \<in> set ios. sx_es io = EsDone" and "ss_pos s + length ios \<le> length (ss_feed s)"
  shows "ss_pos (fold (run_consumer blank) (map SxConsume ios) s) = ss_pos s + length ios \<and> ss_feed (fold (run_consumer blank) (map SxConsume ios) s) = ss_feed s \<and>
    (\<forall>i. index_fields (ss_index (fold (run_consumer blank) (map SxConsume ios) s)) i =
      (if \<exists>m \<in> set (take (length ios) (drop (ss_pos s) (ss_feed s))). record_id m = Some i
       then latest_row (take (length ios) (drop (ss_pos s) (ss_feed s))) i else index_fields (ss_index s) i))"
  using assms
proof (induction ios rule: rev_induct)
  case (snoc io ios)
  let ?s = "fold (run_consumer blank) (map SxConsume ios) s" and ?ms = "take (length ios) (drop (ss_pos s) (ss_feed s))"
  have "take (Suc (length ios)) (drop (ss_pos s) (ss_feed s)) = ?ms @ [ss_feed s ! (ss_pos s + length ios)]"
    using snoc.prems(2) by (simp add: take_Suc_conv_app_nth)
  with snoc show ?case by (auto simp: consume_done latest_row_snoc)
qed (simp add: latest_row_def)

text \<open>
  (C25) The search index follows the tables: whatever failed before, when the server has started again and read the feed to its end with
  the index in reach, the index has for each id exactly the row that the last record about it carries, and nothing for
  an id whose last record is a deletion or which has no record. Later failures cost only the records they hit.
\<close>

theorem index_follows_feed:
  assumes "s = fold (run_consumer blank) es search_start" and "\<forall>io \<in> set ios. sx_es io = EsDone" and "length ios = length (ss_feed s)"
    and "s' = fold (run_consumer blank) (SxRestart # map SxConsume ios) s"
  shows "ss_feed s' = ss_feed s \<and> index_fields (ss_index s') = latest_row (ss_feed s)"
proof -
  have inv: "search_inv s" using searching.run_inv [of es] assms(1) by simp
  let ?r = "run_consumer blank SxRestart s"
  have r: "ss_pos ?r = 0" "ss_feed ?r = ss_feed s" "ss_index ?r = ss_index s" by simp_all
  note read = read_on [OF assms(2), of ?r blank, unfolded r, simplified]
  have "index_fields (ss_index s') i = latest_row (ss_feed s) i" for i
  proof (cases "\<exists>m \<in> set (ss_feed s). record_id m = Some i")
    case True
    then show ?thesis using read assms(3,4) by simp
  next
    case False
    then have "ss_index s i = None" using inv by (auto simp: search_inv_def)
    moreover have "latest_row (ss_feed s) i = None" using False by (auto simp: latest_row_def filter_empty_conv split: list.split)
    ultimately show ?thesis using False read assms(3,4) by (simp add: index_fields_def)
  qed
  then show ?thesis using read assms(3,4) by auto
qed

section \<open>What the search gets wrong\<close>

definition cell_value :: "cell \<Rightarrow> string option option" where
  "cell_value c = (case c of CellNull \<Rightarrow> Some None | CellUnchanged \<Rightarrow> None | CellText v \<Rightarrow> Some (Some v))"

lemma cell_field_other: "c \<notin> fst ` set zs \<Longrightarrow> fold cell_field zs f c = f c"
proof (induction zs arbitrary: f)
  case (Cons z zs)
  then show ?case by (cases "(z, f)" rule: cell_field.cases) auto
qed simp

lemma fields_of_nth:
  assumes "distinct cols" and "length cs = length cols" and "k < length cols"
  shows "fields_of cols cs (cols ! k) = cell_value (cs ! k)"
proof -
  have "fold cell_field (zip cols cs) f (cols ! k) = (case cell_value (cs ! k) of None \<Rightarrow> f (cols ! k) | Some v \<Rightarrow> Some v)" for f
    using assms
  proof (induction cols arbitrary: cs k f)
    case (Cons c cols)
    then obtain x cs' where cs: "cs = x # cs'" by (cases cs) auto
    show ?case
    proof (cases k)
      case 0
      have "c \<notin> fst ` set (zip cols cs')" using Cons.prems(1) by (auto dest: set_zip_leftD)
      then show ?thesis using 0 cell_field_other [of c "zip cols cs'"] by (cases x) (simp_all add: cs cell_value_def)
    next
      case (Suc k')
      then have "cols ! k' \<noteq> c" using Cons.prems by auto
      then show ?thesis using Suc Cons.IH [of cs' k'] Cons.prems by (cases x) (simp_all add: cs split: option.split)
    qed
  qed simp
  from this [of Map.empty] show ?thesis by (simp add: fields_of_def split: option.split)
qed

text \<open>A change of one of the two tables that has the id is a record that carries its fields.\<close>

definition indexed_table :: "pg_relation \<Rightarrow> bool" where
  "indexed_table r \<longleftrightarrow> pg_name r \<in> {''auctions'', ''auction_listings''}"

lemma row_record:
  assumes "indexed_table r" and "fields_of (column_names r) cs ''id'' = Some (Some i)" and "ch = RowInsert cs \<or> ch = RowUpdate old cs"
  shows "\<exists>m. into_kafka_event (change_event r ch) = Some m \<and> record_id m = Some i \<and> record_doc m = Some (fields_of (column_names r) cs)"
  using assms by (auto simp: indexed_table_def into_kafka_event_def cdc_topic_def record_id_def record_doc_def doc_str_def Let_def)

text \<open>
  (C39) An update drops the columns that the database does not send again: a long text that an update leaves alone is not in the stream,
  and the search server puts the document of the update in the place of the old one. After a row has been indexed with its text and then
  updated in another column, the index has no such text for it any more, although the row still has it.
\<close>

theorem unsent_column_lost:
  assumes "indexed_table r" and "distinct (column_names r)" and "length cs = length (column_names r)" and "length cs' = length (column_names r)"
    and "j < length (column_names r)" and "column_names r ! j = ''id''" and "cs ! j = CellText i" and "cs' ! j = CellText i"
    and "k < length (column_names r)" and "cs ! k = CellText v" and "cs' ! k = CellUnchanged"
    and "into_kafka_event (change_event r (RowInsert cs)) = Some m" and "into_kafka_event (change_event r (RowUpdate old cs')) = Some m'"
    and "sx_es io = EsDone" and "sx_es io' = EsDone" and "idx = consume blank io m idx0" and "idx' = consume blank io' m' idx"
  shows "(\<exists>f. index_fields idx i = Some f \<and> f (column_names r ! k) = Some (Some v)) \<and>
    (\<exists>f. index_fields idx' i = Some f \<and> f (column_names r ! k) = None)"
proof -
  let ?f = "fields_of (column_names r)"
  have ids: "?f cs ''id'' = Some (Some i)" "?f cs' ''id'' = Some (Some i)"
    using fields_of_nth [OF assms(2,3,5)] fields_of_nth [OF assms(2,4,5)] assms(6-8) by (simp_all add: cell_value_def)
  have cols: "?f cs (column_names r ! k) = Some (Some v)" "?f cs' (column_names r ! k) = None"
    using fields_of_nth [OF assms(2,3,9)] fields_of_nth [OF assms(2,4,9)] assms(10,11) by (simp_all add: cell_value_def)
  have "record_id m = Some i \<and> record_doc m = Some (?f cs)" "record_id m' = Some i \<and> record_doc m' = Some (?f cs')"
    using row_record [OF assms(1) ids(1), of "RowInsert cs"] row_record [OF assms(1) ids(2), of "RowUpdate old cs'" old] assms(12,13) by auto
  then show ?thesis using cols by (simp add: assms(16,17) consume_done [OF assms(14)] consume_done [OF assms(15)])
qed

text \<open>A listing is in the index as soon as it is in its table, whatever its status: the search shows those that no administrator has approved.\<close>

lemma listing_indexed_unreviewed:
  assumes "pg_name r = ''auction_listings''" and "fields_of (column_names r) cs ''id'' = Some (Some i)" and "sx_es io = EsDone"
    and "fields_of (column_names r) cs ''status'' = Some (Some st)"
  shows "\<exists>m f. into_kafka_event (change_event r (RowInsert cs)) = Some m \<and> index_fields (consume blank io m idx) i = Some f \<and> f ''status'' = Some (Some st)"
  using row_record [of r cs i "RowInsert cs"] assms consume_done [OF assms(3)] by (fastforce simp: indexed_table_def)

text \<open>A query never asks for nothing: without words and without a category it asks for all documents.\<close>

lemma search_asks: "must_clauses sq = [] \<Longrightarrow> knn_clause emb sq = None \<Longrightarrow>
    jindex ''must'' (jindex ''bool'' (jindex ''query'' (search_body emb sq))) = JArr [JObj [(''match_all'', JObj [])]]"
  by (simp add: search_body_def jindex_def jget_def unwrap_or_def)

text \<open>
  An outage of the search looks like an empty result: where the index cannot be reached, the server answers with the status of a success
  and an object without results, and the page tells the visitor that nothing was found and to try other terms; no error is
  shown. An answer of the index that is itself an error has no hits and ends the same way.
\<close>

lemma search_outage_looks_empty:
  assumes "es (search_body emb sq) = Inl e \<or> (\<exists>v. es (search_body emb sq) = Inr v \<and> jget ''hits'' v = None)"
    and "s = fetchResults (results_reply dec (search_handler es emb sq)) search_init"
  shows "sr_error s = [] \<and> texts (SearchResults s) = [''No results found'', ''Try adjusting your search terms'']"
  using assms
  by (auto simp: search_handler_def es_search_def results_reply_def fetchResults_def SearchResults_def search_init_def jindex_def jget_def unwrap_or_def)

section \<open>Examples\<close>

definition ex_table :: pg_relation where
  "ex_table = \<lparr>pg_oid = 5, pg_schema = ''public'', pg_name = ''auctions'', pg_identity = CHR ''d'',
     pg_columns = [(CHR 0x01, ''id'', 25, 0), (CHR 0x00, ''title'', 25, 0), (CHR 0x00, ''description'', 25, 0)]\<rparr>"

definition ex_cells :: "cell list" where
  "ex_cells = [CellText ''i'', CellText ''t'', CellText ''long'']"

definition ex_cells' :: "cell list" where
  "ex_cells' = [CellText ''i'', CellNull, CellUnchanged]"

definition ex_rows :: "(pg_relation \<times> row_change) list" where
  "ex_rows = [(ex_table, RowInsert ex_cells), (ex_table, RowUpdate None ex_cells')]"

lemma ex_good: "good_relation id ex_table" "good_cells id (column_names ex_table) ex_cells" "good_cells id (column_names ex_table) ex_cells'" "pg_oid ex_table < 2 ^ 32"
  by (auto simp: ex_table_def ex_cells_def ex_cells'_def good_relation_def good_cells_def column_names_def)

lemma ex_rows_good: "\<forall>(r, ch) \<in> set ex_rows. good_relation id r \<and> good_change id r ch"
  by (simp add: ex_rows_def ex_good)

theorem replication_decoded_witness:
  "decode_stream id (session_stream Map.empty ex_rows) Map.empty = map (\<lambda>(r, ch). change_event r ch) ex_rows"
  by (rule replication_decoded [OF ex_rows_good])

definition ex_record :: cdc_record where
  "ex_record = (CDC_AUCTIONS_TOPIC, ''i'', CdcRow (fields_of (column_names ex_table) ex_cells))"

definition ex_record' :: cdc_record where
  "ex_record' = (CDC_AUCTIONS_TOPIC, ''i'', CdcRow (fields_of (column_names ex_table) ex_cells'))"

lemma ex_records:
  "into_kafka_event (change_event ex_table (RowInsert ex_cells)) = Some ex_record" "into_kafka_event (change_event ex_table (RowUpdate None ex_cells')) = Some ex_record'"
  by (simp_all add: into_kafka_event_def cdc_topic_def ex_record_def ex_record'_def ex_table_def column_names_def fields_of_def ex_cells_def ex_cells'_def)

definition ex_feed_events :: "cdc_event list" where
  "ex_feed_events = [CdChange ex_table (RowInsert ex_cells), CdChange ex_table (RowUpdate None ex_cells'), CdReceive, CdPublish (\<lambda>_. RedisOk), CdDrain, CdStatus False,
     CdRestart 1, CdReceive, CdPublish (\<lambda>_. RedisFails)]"

definition ex_feed :: cdc_worker where
  "ex_feed = fold (cdc_step id) ex_feed_events cdc_start"

lemma ex_tries: "publish_tries 10 (\<lambda>_. RedisOk) m t = (True, t @ [m])" "publish_tries 10 (\<lambda>_. RedisFails) m t = (False, t)"
  by (simp_all add: numeral_eq_Suc)

lemma ex_decoded:
  "process_message id (enc_relation ex_table) reg = (WalSkip, reg(5 \<mapsto> known_as ex_table))"
  "reg 5 = Some (known_as ex_table) \<Longrightarrow> process_message id (enc_change 5 (RowInsert ex_cells)) reg = (change_event ex_table (RowInsert ex_cells), reg)"
  "reg 5 = Some (known_as ex_table) \<Longrightarrow> process_message id (enc_change 5 (RowUpdate None ex_cells')) reg = (change_event ex_table (RowUpdate None ex_cells'), reg)"
  using relation_known [OF ex_good(1), of reg] change_decoded [of reg ex_table id "RowInsert ex_cells"] change_decoded [of reg ex_table id "RowUpdate None ex_cells'"] ex_good
  by (simp_all add: ex_table_def del: change_event.simps enc_change.simps)

lemma ex_oid: "pg_oid ex_table = 5"
  by (simp add: ex_table_def)

lemma ex_receive:
  "cd_wal w = ex_rows \<Longrightarrow> cd_channel w = [] \<Longrightarrow> cd_known w 5 = None \<Longrightarrow> cd_sent w = 0 \<Longrightarrow> wal_receive id w =
     w\<lparr>cd_sent := 1, cd_known := (cd_known w)(5 \<mapsto> ex_table), cd_registry := (cd_registry w)(5 \<mapsto> known_as ex_table), cd_channel := [(1, ex_record)]\<rparr>"
  "cd_wal w = ex_rows \<Longrightarrow> cd_channel w = [] \<Longrightarrow> cd_known w 5 = None \<Longrightarrow> cd_sent w = 1 \<Longrightarrow> wal_receive id w =
     w\<lparr>cd_sent := 2, cd_known := (cd_known w)(5 \<mapsto> ex_table), cd_registry := (cd_registry w)(5 \<mapsto> known_as ex_table), cd_channel := [(2, ex_record')]\<rparr>"
  by (simp_all add: wal_receive_def ex_rows_def ex_oid ex_decoded ex_records del: change_event.simps enc_change.simps)

lemma ex_feed_facts: "cd_slot ex_feed = 1" "cd_wal ex_feed = ex_rows" "cd_given_up ex_feed = [1]"
  by (simp_all add: ex_feed_def ex_feed_events_def cdc_start_def ex_rows_def [symmetric] ex_receive ex_tries publisher_task_def drain_acks_def new_session_def)

theorem feed_without_gaps_witness: "cd_slot ex_feed = 1 \<and> cd_given_up ex_feed = [1] \<and> ex_record \<in> set (cd_topic ex_feed)"
proof -
  have "\<forall>e \<in> set ex_feed_events. cdc_ok id e" by (simp add: ex_feed_events_def ex_good)
  from conjunct1 [OF feed_without_gaps [OF this ex_feed_def]]
  have "ex_record \<in> set (cd_topic ex_feed) \<or> 0 \<in> set (cd_given_up ex_feed)"
    using ex_records(1) ex_feed_facts prod_cases3 [of ex_record] by (auto simp: ex_rows_def simp del: change_event.simps)
  then show ?thesis by (simp add: ex_feed_facts)
qed

definition ex_consume :: consume_io where
  "ex_consume = \<lparr>sx_embed = (\<lambda>_. None), sx_es = EsDone\<rparr>"

definition ex_searcher :: "nat \<Rightarrow> search_server" where
  "ex_searcher n = fold (run_consumer (\<lambda>s. s = '' ''))
     ([SxRecord ex_record, SxConsume \<lparr>sx_embed = (\<lambda>_. None), sx_es = EsRefused\<rparr>] @ take n [SxRestart, SxConsume ex_consume]) search_start"

theorem index_follows_feed_witness:
  "ss_feed (ex_searcher 2) = [ex_record] \<and> index_fields (ss_index (ex_searcher 2)) = latest_row [ex_record]"
  using index_follows_feed [of "ex_searcher 0" "\<lambda>s. s = '' ''" "[SxRecord ex_record, SxConsume \<lparr>sx_embed = (\<lambda>_. None), sx_es = EsRefused\<rparr>]" "[ex_consume]" "ex_searcher 2"]
  by (simp add: ex_searcher_def search_start_def ex_consume_def)

theorem unsent_column_lost_witness:
  "(\<exists>f. index_fields (consume (\<lambda>s. s = '' '') ex_consume ex_record Map.empty) ''i'' = Some f \<and> f ''description'' = Some (Some ''long'')) \<and>
   (\<exists>f. index_fields (consume (\<lambda>s. s = '' '') ex_consume ex_record' (consume (\<lambda>s. s = '' '') ex_consume ex_record Map.empty)) ''i'' = Some f \<and>
     f ''description'' = None)"
  using unsent_column_lost [of ex_table ex_cells ex_cells' 0 "''i''" 2 "''long''" ex_record None ex_record' ex_consume ex_consume
    "consume (\<lambda>s. s = '' '') ex_consume ex_record Map.empty" "\<lambda>s. s = '' ''" Map.empty
    "consume (\<lambda>s. s = '' '') ex_consume ex_record' (consume (\<lambda>s. s = '' '') ex_consume ex_record Map.empty)", OF _ _ _ _ _ _ _ _ _ _ _ ex_records]
  by (simp add: indexed_table_def ex_table_def column_names_def ex_cells_def ex_cells'_def ex_consume_def)

end
