(* ===== verification/Notifications.thy ===== *)
theory Notifications
  imports Bid_Publisher Jsx Participants
begin

text \<open>
  The worker for notifications: \<open>run_notification_worker\<close> of \<open>src/apps/notification-worker/src/main.rs\<close> with \<open>email.rs\<close>. It takes the notices that
  the engine sends about bids, looks up the auction and the participants, and sends an e-mail to each of them; where one of
  them fails, the notice goes back to the queue, three times at most. The mail transport, the database and the queue are
  arguments. A body of HTML is a tree, without its styles.
\<close>

datatype mail_body = PlainBody string | HtmlBody "unit jsx"

record notification_payload =
  np_event_type :: "string option"
  np_auction_id :: "string option"
  np_email :: "string option"
  np_message :: mail_body
  np_retry_count :: int

text \<open>The configuration of the mail transport, the addresses that it can parse, and the mails that it takes.\<close>

record smtp =
  sm_user :: string
  sm_pass :: string
  sm_address :: "string \<Rightarrow> bool"
  sm_takes :: "string \<Rightarrow> bool"

record sent_mail =
  ml_to :: string
  ml_subject :: string
  ml_body :: mail_body

definition mail_subject :: "notification_payload \<Rightarrow> string" where
  "mail_subject p = (if np_event_type p = Some ''user_signup'' then ''Welcome to Auquid Auction!'' else ''Auction Notification'')"

text \<open>\<open>send\<close>: whether it counts as sent, and the mail that went out. Without credentials nothing goes out, and it counts.\<close>

definition email_send :: "smtp \<Rightarrow> string \<Rightarrow> notification_payload \<Rightarrow> bool \<times> sent_mail list" where
  "email_send sm a p = (if sm_user sm = [] \<or> sm_pass sm = [] then (True, [])
     else if \<not> sm_address sm (''Auction Platform <'' @ sm_user sm @ ''>'') \<or> \<not> sm_address sm a then (False, [])
     else if sm_takes sm a then (True, [\<lparr>ml_to = a, ml_subject = mail_subject p, ml_body = np_message p\<rparr>]) else (False, []))"

text \<open>The rows that the worker reads.\<close>

record auction_info =
  an_id :: uuid
  an_title :: string
  an_origin :: "string option"
  an_dest :: "string option"

definition started_body :: "(uuid \<Rightarrow> string) \<Rightarrow> auction_info \<Rightarrow> string \<Rightarrow> mail_body" where
  "started_body show_uuid s start =
     HtmlBody (El ''html'' [] [El ''body'' [] [El ''div'' [] [
       El ''h2'' [] [Txt ''Auction Started: '', Txt (an_title s)],
       El ''p'' [] [Txt ''The auction for '', El ''strong'' [] [Txt (an_title s)], Txt '' is now officially active.''],
       El ''div'' [] [
         El ''p'' [] [El ''strong'' [] [Txt ''Origin:''], Txt '' '', Txt (unwrap_or (an_origin s) ''Not specified'')],
         El ''p'' [] [El ''strong'' [] [Txt ''Destination:''], Txt '' '', Txt (unwrap_or (an_dest s) ''Not specified'')],
         El ''p'' [] [El ''strong'' [] [Txt ''Scheduled Start:''], Txt '' '', Txt start]],
       El ''a'' [Attr ''href'' (''http://localhost:3000/auction/'' @ show_uuid (an_id s))] [Txt ''View Bidding Console'']]]])"

record notify_db =
  nd_auction :: "uuid \<rightharpoonup> auction_info"
  nd_start :: "uuid \<rightharpoonup> string"
  nd_emails :: "uuid \<Rightarrow> string list"

text \<open>
  How the world answers to one notice: whether there is a connection to the database and the read of the participants succeeds,
  and whether the queue takes what is published.
\<close>

record notify_io =
  ni_pool :: bool
  ni_read :: bool
  ni_publish :: bool

record notifier =
  nw_topic :: "notification_payload option list"
  nw_pos :: nat
  nw_commits :: "nat list"
  nw_dead :: "notification_payload option list"
  nw_mails :: "sent_mail list"

definition notify_commit :: "notifier \<Rightarrow> notifier" where
  "notify_commit w = w\<lparr>nw_commits := nw_commits w @ [nw_pos w]\<rparr>"

definition send_all :: "smtp \<Rightarrow> string list \<Rightarrow> notification_payload \<Rightarrow> bool \<times> sent_mail list" where
  "send_all sm as p = (list_all (\<lambda>a. fst (email_send sm a p)) as, concat (map (\<lambda>a. snd (email_send sm a p)) as))"

text \<open>The addresses of a notice and its text; \<open>None\<close> without a connection to the database.\<close>

definition notice_mails ::
  "(string \<Rightarrow> uuid option) \<Rightarrow> (uuid \<Rightarrow> string) \<Rightarrow> notify_db \<Rightarrow> notify_io \<Rightarrow> notification_payload \<Rightarrow> (string list \<times> notification_payload) option" where
  "notice_mails parse_uuid show_uuid db io p =
     (if np_event_type p = Some ''user_signup'' then Some (case np_email p of None \<Rightarrow> [] | Some a \<Rightarrow> [a], p)
      else if \<not> ni_pool io then None
      else let a = unwrap_or (parse_uuid (unwrap_or (np_auction_id p) [])) 0;
               p = (case (nd_auction db a, nd_start db a) of (Some s, Some t) \<Rightarrow> p\<lparr>np_message := started_body show_uuid s t\<rparr> | _ \<Rightarrow> p)
           in Some (if ni_read io then nd_emails db a else [], p))"

text \<open>
  One message of the topic. The worker goes on to the next one in any case; where nothing is committed, a later commit of the partition
  passes over it.
\<close>

definition notify_message ::
  "(string \<Rightarrow> uuid option) \<Rightarrow> (uuid \<Rightarrow> string) \<Rightarrow> smtp \<Rightarrow> notify_db \<Rightarrow> notify_io \<Rightarrow> notifier \<Rightarrow> notifier" where
  "notify_message parse_uuid show_uuid sm db io w = (if length (nw_topic w) \<le> nw_pos w then w
     else let w' = (case nw_topic w ! nw_pos w of
         None \<Rightarrow> if ni_publish io then notify_commit (w\<lparr>nw_dead := nw_dead w @ [None]\<rparr>) else w
       | Some p \<Rightarrow> (case notice_mails parse_uuid show_uuid db io p of None \<Rightarrow> w
          | Some (as, p) \<Rightarrow> (case send_all sm as p of (all_sent, ms) \<Rightarrow>
              let w = w\<lparr>nw_mails := nw_mails w @ ms\<rparr>
              in if all_sent then notify_commit w
                 else if 3 \<le> np_retry_count p then (if ni_publish io then notify_commit (w\<lparr>nw_dead := nw_dead w @ [Some p]\<rparr>) else w)
                 else if ni_publish io
                   then notify_commit (w\<lparr>nw_topic := nw_topic w @ [Some (p\<lparr>np_retry_count := np_retry_count p + 1\<rparr>)]\<rparr>)
                 else w)))
       in w'\<lparr>nw_pos := Suc (nw_pos w)\<rparr>)"

section \<open>The notices of the engine\<close>

text \<open>A notice of the engine as the worker reads it; the fields that it does not know are passed over.\<close>

definition notice_payload :: "string \<Rightarrow> bid_notice \<Rightarrow> notification_payload" where
  "notice_payload a n = \<lparr>np_event_type = Some ''bid_placed'', np_auction_id = Some a, np_email = None, np_message = PlainBody (nt_message n),
     np_retry_count = 0\<rparr>"

definition notify_start :: "notification_payload option list \<Rightarrow> notifier" where
  "notify_start ms = \<lparr>nw_topic = ms, nw_pos = 0, nw_commits = [], nw_dead = [], nw_mails = []\<rparr>"

text \<open>Every address can be parsed and every mail is taken.\<close>

definition smtp_works :: "smtp \<Rightarrow> bool" where
  "smtp_works sm \<longleftrightarrow> sm_user sm \<noteq> [] \<and> sm_pass sm \<noteq> [] \<and> (\<forall>a. sm_address sm a \<and> sm_takes sm a)"

lemma send_all_works: "smtp_works sm \<Longrightarrow> send_all sm as p = (True, map (\<lambda>a. \<lparr>ml_to = a, ml_subject = mail_subject p, ml_body = np_message p\<rparr>) as)"
  by (simp add: send_all_def smtp_works_def email_send_def list_all_def)

lemma notice_mails_bid:
  assumes "parse_uuid a = Some u" and "nd_auction db u = Some s" and "nd_start db u = Some t" and "ni_pool io" and "ni_read io"
    and "np_event_type p = Some ''bid_placed''" and "np_auction_id p = Some a"
  shows "notice_mails parse_uuid show_uuid db io p = Some (nd_emails db u, p\<lparr>np_message := started_body show_uuid s t\<rparr>)"
  using assms by (simp add: notice_mails_def unwrap_or_def Let_def)

text \<open>
  (C40) Every bid is announced as the start of the auction: the engine sends one notice for each decision, accepted or not, and
  the worker puts the same text in the place of whatever the notice says. So each participant receives, for every single bid, a mail
  that the auction has started, and none that says what happened to a bid.
\<close>

theorem every_bid_announces_start:
  assumes "parse_uuid a = Some u" and "nd_auction db u = Some s" and "nd_start db u = Some t" and "smtp_works sm"
    and "\<forall>io \<in> set ios. ni_pool io \<and> ni_read io" and "length ios = length ds"
    and "w = fold (notify_message parse_uuid show_uuid sm db) ios (notify_start (map (Some \<circ> notice_payload a \<circ> notice_of) ds))"
  shows "nw_mails w = concat (replicate (length ds)
      (map (\<lambda>x. \<lparr>ml_to = x, ml_subject = ''Auction Notification'', ml_body = started_body show_uuid s t\<rparr>) (nd_emails db u))) \<and>
    nw_commits w = [0..<length ds]"
proof -
  let ?ms = "map (Some \<circ> notice_payload a \<circ> notice_of) ds"
    and ?mails = "map (\<lambda>x. \<lparr>ml_to = x, ml_subject = ''Auction Notification'', ml_body = started_body show_uuid s t\<rparr>) (nd_emails db u)"
  have "n \<le> length ds \<Longrightarrow> fold (notify_message parse_uuid show_uuid sm db) (take n ios) (notify_start ?ms) =
      \<lparr>nw_topic = ?ms, nw_pos = n, nw_commits = [0..<n], nw_dead = [], nw_mails = concat (replicate n ?mails)\<rparr>" for n
  proof (induction n)
    case (Suc n)
    then have io: "ni_pool (ios ! n)" "ni_read (ios ! n)" and n: "n < length ios" "n < length ds" using assms(5,6) by auto
    have "notice_mails parse_uuid show_uuid db (ios ! n) (notice_payload a (notice_of (ds ! n))) =
        Some (nd_emails db u, (notice_payload a (notice_of (ds ! n)))\<lparr>np_message := started_body show_uuid s t\<rparr>)"
      by (rule notice_mails_bid [of parse_uuid a u db s t, OF assms(1-3) io]) (simp_all add: notice_payload_def)
    moreover have "concat (replicate n ?mails) @ ?mails = concat (replicate (Suc n) ?mails)"
      by (simp flip: replicate_append_same)
    ultimately show ?case using Suc n
      by (simp add: take_Suc_conv_app_nth notify_message_def send_all_works [OF assms(4)] notify_commit_def mail_subject_def notice_payload_def)
  qed (simp add: notify_start_def)
  from this [of "length ds"] show ?thesis using assms(6,7) by simp
qed

section \<open>One address that fails\<close>

lemma once: "distinct xs \<Longrightarrow> x \<in> set xs \<Longrightarrow> count_list xs x = 1"
  by (induction xs) (auto simp: count_list_0_iff)

lemma send_all_but:
  assumes "sm_user sm \<noteq> []" and "sm_pass sm \<noteq> []" and "\<forall>x. sm_address sm x" and "\<forall>x. sm_takes sm x \<longleftrightarrow> x \<noteq> bad"
  shows "snd (send_all sm as p) = map (\<lambda>y. \<lparr>ml_to = y, ml_subject = mail_subject p, ml_body = np_message p\<rparr>) (filter (\<lambda>y. y \<noteq> bad) as)"
  using assms by (induction as) (simp_all add: send_all_def email_send_def)

text \<open>
  A failure is answered with the whole notice again: where one participant's mail cannot be sent, every other participant
  receives four copies before the notice is given up.
\<close>

lemma failing_address_repeats:
  assumes "parse_uuid a = Some u" and "nd_auction db u = Some s" and "nd_start db u = Some t" and "sm_user sm \<noteq> []" and "sm_pass sm \<noteq> []"
    and "\<forall>x. sm_address sm x" and "\<forall>x. sm_takes sm x \<longleftrightarrow> x \<noteq> bad" and "bad \<in> set (nd_emails db u)" and "distinct (nd_emails db u)"
    and "x \<in> set (nd_emails db u)" and "x \<noteq> bad" and "io = \<lparr>ni_pool = True, ni_read = True, ni_publish = True\<rparr>"
    and "w = (notify_message parse_uuid show_uuid sm db io ^^ 4) (notify_start [Some (notice_payload a n)])"
  shows "length (filter (\<lambda>m. ml_to m = x) (nw_mails w)) = 4 \<and> length (nw_dead w) = 1 \<and> nw_pos w = length (nw_topic w)"
proof -
  define p where "p k = (notice_payload a n)\<lparr>np_message := started_body show_uuid s t, np_retry_count := k\<rparr>" for k
  define ms where "ms = snd (send_all sm (nd_emails db u) (p 0))"
  have "mail_subject (p k) = mail_subject (p 0)" "np_message (p k) = np_message (p 0)" for k by (simp_all add: p_def mail_subject_def)
  then have same: "email_send sm x (p k) = email_send sm x (p 0)" for x k by (simp add: email_send_def)
  have "\<not> fst (email_send sm bad (p 0))" using assms(7) by (simp add: email_send_def assms(4,5))
  then have all: "send_all sm (nd_emails db u) (p k) = (False, ms)" for k
    using assms(8) by (auto simp: send_all_def ms_def list_all_iff same [of _ k])
  have nm: "notice_mails parse_uuid show_uuid db io (p k) = Some (nd_emails db u, p k)" for k
    using notice_mails_bid [of parse_uuid a u db s t, OF assms(1-3), of io "p k"] by (simp add: assms(12) p_def notice_payload_def)
  have nm0: "notice_mails parse_uuid show_uuid db io (notice_payload a n) = Some (nd_emails db u, p 0)"
    using notice_mails_bid [of parse_uuid a u db s t, OF assms(1-3), of io "notice_payload a n"] by (simp add: assms(12) p_def notice_payload_def)
  have up: "p k\<lparr>np_retry_count := j\<rparr> = p j" "np_retry_count (p k) = k" for j k by (simp_all add: p_def)
  have "w = \<lparr>nw_topic = [Some (notice_payload a n), Some (p 1), Some (p 2), Some (p 3)], nw_pos = 4, nw_commits = [0, 1, 2, 3], nw_dead = [Some (p 3)],
      nw_mails = ms @ ms @ ms @ ms\<rparr>"
    using up by (simp add: assms(12,13) notify_start_def notify_message_def nm [unfolded assms(12)] nm0 [unfolded assms(12)] all notify_commit_def numeral_eq_Suc)
  moreover have "length (filter (\<lambda>m. ml_to m = x) ms) = 1"
  proof -
    have "ms = map (\<lambda>y. \<lparr>ml_to = y, ml_subject = mail_subject (p 0), ml_body = np_message (p 0)\<rparr>) (filter (\<lambda>y. y \<noteq> bad) (nd_emails db u))"
      unfolding ms_def by (rule send_all_but [OF assms(4-7)])
    moreover have eq: "(=) x = (\<lambda>y. y = x)" by auto
    ultimately have "length (filter (\<lambda>m. ml_to m = x) ms) = count_list (nd_emails db u) x"
      using assms(11) by (simp add: filter_map comp_def length_filter_map count_list_eq_length_filter conj_commute eq cong: conj_cong)
    then show ?thesis using once [OF assms(9,10)] by simp
  qed
  ultimately show ?thesis by simp
qed

section \<open>An example\<close>

definition ex_info :: auction_info where
  "ex_info = \<lparr>an_id = 7, an_title = ''Steel'', an_origin = None, an_dest = None\<rparr>"

definition ex_notify_db :: notify_db where
  "ex_notify_db = \<lparr>nd_auction = [7 \<mapsto> ex_info], nd_start = [7 \<mapsto> ''noon''], nd_emails = (\<lambda>_. [''x@y''])\<rparr>"

definition ex_smtp :: smtp where
  "ex_smtp = \<lparr>sm_user = ''u'', sm_pass = ''p'', sm_address = (\<lambda>_. True), sm_takes = (\<lambda>_. True)\<rparr>"

definition ex_decided :: "bool \<Rightarrow> decision" where
  "ex_decided ok = decision_of (ex_task ''r1'' (ex_bid ''u1'' 90 1)) REVERSE ok 100 1"

definition ex_notifier :: notifier where
  "ex_notifier = fold (notify_message (\<lambda>_. Some 7) (\<lambda>_. ''7'') ex_smtp ex_notify_db) (replicate 2 \<lparr>ni_pool = True, ni_read = True, ni_publish = True\<rparr>)
     (notify_start (map (Some \<circ> notice_payload ''a'' \<circ> notice_of) [ex_decided True, ex_decided False]))"

theorem every_bid_announces_start_witness:
  "nw_mails ex_notifier = concat (replicate 2 [\<lparr>ml_to = ''x@y'', ml_subject = ''Auction Notification'', ml_body = started_body (\<lambda>_. ''7'') ex_info ''noon''\<rparr>]) \<and>
   nw_commits ex_notifier = [0, 1]"
  using every_bid_announces_start [of "\<lambda>_. Some 7" "''a''" 7 ex_notify_db ex_info "''noon''" ex_smtp "replicate 2 \<lparr>ni_pool = True, ni_read = True, ni_publish = True\<rparr>"
    "[ex_decided True, ex_decided False]" ex_notifier "\<lambda>_. ''7''"]
  by (simp add: ex_notify_db_def ex_smtp_def smtp_works_def ex_notifier_def numeral_2_eq_2 upt_rec)

end
