(* ===== verification/Shared_Ui.thy ===== *)
theory Shared_Ui
  imports Jsx
begin

text \<open>
  The components of \<open>src/packages/ui/src/\<close>: a button that greets, a card that links to a page, and a piece of code. The children are
  the views that the caller passes. Here the class is an attribute that the caller chooses, and is kept.
\<close>

datatype ui_effect = Alert string

definition class_attr :: "string option \<Rightarrow> 'a attr list" where
  "class_attr c = (case c of None \<Rightarrow> [] | Some s \<Rightarrow> [Attr ''className'' s])"

definition Button :: "ui_effect jsx list \<Rightarrow> string option \<Rightarrow> string \<Rightarrow> ui_effect jsx" where
  "Button children className appName =
     El ''button'' (class_attr className @ [onClick (Alert (''Hello from your '' @ appName @ '' app!''))]) children"

definition card_href :: "string \<Rightarrow> string" where
  "card_href href = href @ ''?utm_source=create-turbo&utm_medium=basic&utm_campaign=create-turbo'' @ [CHR 0x22]"

definition Card :: "string option \<Rightarrow> string \<Rightarrow> 'a jsx list \<Rightarrow> string \<Rightarrow> 'a jsx" where
  "Card className title children href =
     El ''a'' (class_attr className @ [Attr ''href'' (card_href href), Attr ''rel'' ''noopener noreferrer'', Attr ''target'' ''_blank''])
       [El ''h2'' [] [Txt title, Txt '' '', El ''span'' [] [Txt ''->'']], El ''p'' [] children]"

definition Code :: "'a jsx list \<Rightarrow> string option \<Rightarrow> 'a jsx" where
  "Code children className = El ''code'' (class_attr className) children"

text \<open>The button itself has one effect, whatever its children do.\<close>

lemma button_greets:
  "\<exists>h. triggers ''onClick'' (Button children c app) = h # concat (map (triggers ''onClick'') children) \<and>
     h v = Alert (''Hello from your '' @ app @ '' app!'')"
  by (auto simp: Button_def class_attr_def view_simps split: option.split)

text \<open>The three show their children and nothing else but the title of the card.\<close>

lemma shared_texts:
  "texts (Button children c app) = concat (map texts children)" "texts (Code children c) = concat (map texts children)"
  "texts (Card c title children href) = [title, '' '', ''->''] @ concat (map texts children)"
  by (simp_all add: Button_def Code_def Card_def)

text \<open>The link of a card ends in a quotation mark, and has two question marks where the caller's address has a query.\<close>

lemma card_link_quoted: "List.last (card_href href) = CHR 0x22" "CHR ''?'' \<in> set href \<Longrightarrow> 2 \<le> count_list (card_href href) (CHR ''?'')"
  by (auto simp: card_href_def count_list_append Suc_le_eq count_list_0_iff neq0_conv [symmetric])

end
